(* ===== verification/Edd_Prelude.thy ===== *)
theory Edd_Prelude
  imports Main "HOL-Library.AList"
begin

text \<open>
  Shared vocabulary of the development: the \<open>Result\<close> type and the domain errors
  (\<^verbatim>\<open>packages/core/src/result.ts\<close>, \<^verbatim>\<open>domain/errors.ts\<close>), ISO timestamps with
  the NaN that \<^verbatim>\<open>Date.parse\<close> yields on a malformed one, JavaScript errors with the two
  classifiers the control plane applies to them (version conflict, resource gone), decimal
  printing of numbers, and the association-list lemmas every theory uses.

  Texts. Strings are char lists; a character outside ASCII in a message of the source
  (an em dash) is written \<open>--\<close>.
\<close>

named_theorems core_defs \<open>definitions of the functional core, for unfolding\<close>
named_theorems svc_defs \<open>definitions of the service operations, for unfolding\<close>
named_theorems time_simps \<open>evaluation of comparisons between timestamps\<close>

section \<open>Numbers and timestamps\<close>

text \<open>
  A JavaScript number that is the result of \<^verbatim>\<open>Date.parse\<close> arithmetic: \<^term>\<open>None\<close> is
  NaN, with which every comparison is false.
\<close>

type_synonym js_number = "int option"

fun js_minus :: "js_number \<Rightarrow> js_number \<Rightarrow> js_number" where
  "js_minus (Some a) (Some b) = Some (a - b)"
| "js_minus _ _ = None"

fun js_less :: "js_number \<Rightarrow> js_number \<Rightarrow> bool" where
  "js_less (Some a) (Some b) = (a < b)"
| "js_less _ _ = False"

fun js_le :: "js_number \<Rightarrow> js_number \<Rightarrow> bool" where
  "js_le (Some a) (Some b) = (a \<le> b)"
| "js_le _ _ = False"

text \<open>
  \<^verbatim>\<open>IsoTimestamp\<close>: a string that \<^verbatim>\<open>Date.parse\<close> reads as an instant in milliseconds,
  or one that it does not read.
\<close>

datatype iso_timestamp = Iso int | Malformed

fun date_parse :: "iso_timestamp \<Rightarrow> js_number" where
  "date_parse (Iso n) = Some n"
| "date_parse Malformed = None"

abbreviation elapsed :: "iso_timestamp \<Rightarrow> iso_timestamp \<Rightarrow> js_number" where
  "elapsed now since \<equiv> js_minus (date_parse now) (date_parse since)"

lemma js_le_iff: "js_le a b \<longleftrightarrow> (\<exists>x y. a = Some x \<and> b = Some y \<and> x \<le> y)"
  by (cases a; cases b) auto

lemma js_less_iff: "js_less a b \<longleftrightarrow> (\<exists>x y. a = Some x \<and> b = Some y \<and> x < y)"
  by (cases a; cases b) auto

lemma js_minus_Some: "js_minus a b = Some z \<longleftrightarrow> (\<exists>x y. a = Some x \<and> b = Some y \<and> z = x - y)"
  by (cases a; cases b) auto

lemma date_parse_Some [simp]: "date_parse t = Some n \<longleftrightarrow> t = Iso n"
  by (cases t) auto

text \<open>A duration has passed exactly when both timestamps parse and the instants say so.\<close>

lemma elapsed_ge_iff [time_simps]:
  "js_le (Some ms) (elapsed now since) \<longleftrightarrow>
    (\<exists>n t. now = Iso n \<and> since = Iso t \<and> ms \<le> n - t)"
  by (cases now; cases since) auto

lemma elapsed_less_iff [time_simps]:
  "js_less (elapsed now since) (Some ms) \<longleftrightarrow>
    (\<exists>n t. now = Iso n \<and> since = Iso t \<and> n - t < ms)"
  by (cases now; cases since) auto

lemma date_le_iff [time_simps]:
  "js_le (date_parse a) (date_parse b) \<longleftrightarrow> (\<exists>x y. a = Iso x \<and> b = Iso y \<and> x \<le> y)"
  by (cases a; cases b) auto

lemma date_less_iff [time_simps]:
  "js_less (date_parse a) (date_parse b) \<longleftrightarrow> (\<exists>x y. a = Iso x \<and> b = Iso y \<and> x < y)"
  by (cases a; cases b) auto

section \<open>Results and domain errors\<close>

datatype ('a, 'e) result = Ok (ok_value: 'a) | Err (err_value: 'e)

fun result_map :: "('a \<Rightarrow> 'b) \<Rightarrow> ('a, 'e) result \<Rightarrow> ('b, 'e) result" where
  "result_map f (Ok v) = Ok (f v)"
| "result_map f (Err e) = Err e"

fun result_mapErr :: "('e \<Rightarrow> 'f) \<Rightarrow> ('a, 'e) result \<Rightarrow> ('a, 'f) result" where
  "result_mapErr f (Ok v) = Ok v"
| "result_mapErr f (Err e) = Err (f e)"

fun result_andThen :: "('a, 'e) result \<Rightarrow> ('a \<Rightarrow> ('b, 'e) result) \<Rightarrow> ('b, 'e) result" where
  "result_andThen (Ok v) f = f v"
| "result_andThen (Err e) f = Err e"

fun is_ok :: "('a, 'e) result \<Rightarrow> bool" where
  "is_ok (Ok _) = True"
| "is_ok (Err _) = False"

lemma result_map_Ok_iff: "result_map f r = Ok b \<longleftrightarrow> (\<exists>a. r = Ok a \<and> b = f a)"
  by (cases r) auto

lemma result_map_Err_iff: "result_map f r = Err e \<longleftrightarrow> r = Err e"
  by (cases r) auto

lemma is_ok_iff: "is_ok r \<longleftrightarrow> (\<exists>v. r = Ok v)"
  by (cases r) auto

datatype domain_error =
    NotFound string string
  | Conflict string
  | Invalid string
  | Unavailable string

fun domainErrorMessage :: "domain_error \<Rightarrow> string" where
  "domainErrorMessage (NotFound resource i) = resource @ '' not found: '' @ i"
| "domainErrorMessage (Conflict reason) = reason"
| "domainErrorMessage (Invalid reason) = reason"
| "domainErrorMessage (Unavailable reason) = reason"

section \<open>Texts\<close>

fun nat_text :: "nat \<Rightarrow> string" where
  "nat_text n =
     (if n < 10 then [char_of (48 + n)] else nat_text (n div 10) @ [char_of (48 + n mod 10)])"

declare nat_text.simps [simp del]

definition int_text :: "int \<Rightarrow> string" where
  "int_text i = (if i < 0 then CHR ''-'' # nat_text (nat (- i)) else nat_text (nat i))"

definition quoted :: "string \<Rightarrow> string" where
  "quoted s = [CHR 0x27] @ s @ [CHR 0x27]"

fun join_with :: "string \<Rightarrow> string list \<Rightarrow> string" where
  "join_with sep [] = []"
| "join_with sep [x] = x"
| "join_with sep (x # y # ys) = x @ sep @ join_with sep (y # ys)"

definition lower :: "char \<Rightarrow> char" where
  "lower c =
     (let n = (of_char c :: nat) in if 65 \<le> n \<and> n \<le> 90 then char_of (n + 32) else c)"

text \<open>Whether a text contains a fragment, ignoring the case of ASCII letters; the fragment
  is given in lower case.\<close>

fun starts_ci :: "string \<Rightarrow> string \<Rightarrow> bool" where
  "starts_ci [] _ = True"
| "starts_ci (_ # _) [] = False"
| "starts_ci (p # ps) (c # cs) = (p = lower c \<and> starts_ci ps cs)"

fun contains_ci :: "string \<Rightarrow> string \<Rightarrow> bool" where
  "contains_ci p [] = starts_ci p []"
| "contains_ci p (c # cs) = (starts_ci p (c # cs) \<or> contains_ci p cs)"

text \<open>The fragment \<^verbatim>\<open>not.?found\<close>: at most one character, not a line terminator, between
  the two words.\<close>

fun starts_not_found :: "string \<Rightarrow> bool" where
  "starts_not_found s =
     (starts_ci ''not'' s \<and>
      (let rest = drop 3 s in
         starts_ci ''found'' rest \<or>
         (rest \<noteq> [] \<and> hd rest \<notin> {CHR 0x0A, CHR 0x0D} \<and> starts_ci ''found'' (tl rest))))"

fun contains_not_found :: "string \<Rightarrow> bool" where
  "contains_not_found [] = starts_not_found []"
| "contains_not_found (c # cs) = (starts_not_found (c # cs) \<or> contains_not_found cs)"

section \<open>JavaScript errors\<close>

text \<open>
  An \<^verbatim>\<open>Error\<close> object: its name, the \<^verbatim>\<open>code\<close> and \<^verbatim>\<open>Code\<close> properties the classifiers
  read, its message, the \<^verbatim>\<open>reason\<close> a \<^verbatim>\<open>PlacementRefusedError\<close> carries, and its cause.
  A cause that is not an \<^verbatim>\<open>Error\<close> ends the chain, as absence does.
\<close>

datatype js_error =
  JsError (err_name: string) (err_code: "string option") (err_Code: "string option")
    (err_message: string) (err_reason: "string option") (err_cause: "js_error option")

definition plain_error :: "string \<Rightarrow> string \<Rightarrow> js_error" where
  "plain_error name message = JsError name None None message None None"

definition or_empty :: "string option \<Rightarrow> string" where
  "or_empty c = (case c of None \<Rightarrow> [] | Some s \<Rightarrow> s)"

fun isVersionConflict :: "js_error \<Rightarrow> bool" where
  "isVersionConflict (JsError name code Code message reason cause) =
     (name = ''ConditionalCheckFailedException'' \<or>
      contains_ci ''conditional request failed'' message \<or>
      (case cause of None \<Rightarrow> False | Some e \<Rightarrow> isVersionConflict e))"

fun isResourceGoneError :: "js_error \<Rightarrow> bool" where
  "isResourceGoneError (JsError name code Code message reason cause) =
     (code = Some ''ENOENT'' \<or> Code = Some ''ENOENT'' \<or>
      (let haystack =
         name @ '' '' @ or_empty code @ '' '' @ or_empty Code @ '' '' @ message
       in contains_not_found haystack \<or> contains_ci ''does not exist'' haystack \<or>
          contains_ci ''no such file'' haystack) \<or>
      (case cause of None \<Rightarrow> False | Some e \<Rightarrow> isResourceGoneError e))"

definition isPlacementRefused :: "js_error \<Rightarrow> bool" where
  "isPlacementRefused e \<longleftrightarrow> err_name e = ''PlacementRefusedError''"

definition PlacementRefusedError :: "string \<Rightarrow> string option \<Rightarrow> js_error" where
  "PlacementRefusedError reason detail =
     JsError ''PlacementRefusedError'' None None
       (''ECS RunTask failed to place task: '' @ reason @
        (case detail of None \<Rightarrow> [] | Some d \<Rightarrow> '' ('' @ d @ '')''))
       (Some reason) None"

lemma isPlacementRefused_PlacementRefusedError [simp]:
  "isPlacementRefused (PlacementRefusedError reason detail)"
  by (simp add: isPlacementRefused_def PlacementRefusedError_def)

section \<open>Lists and association lists\<close>

lemma unique_names:
  "\<lbrakk>distinct (map f xs); x \<in> set xs; y \<in> set xs; f x = f y\<rbrakk> \<Longrightarrow> x = y"
  by (auto simp: distinct_map dest: inj_onD)

lemma name_of_filtered:
  "\<lbrakk>distinct (map f xs); x \<in> set xs\<rbrakk> \<Longrightarrow> f x \<in> f ` set (filter P xs) \<longleftrightarrow> P x"
  by (auto dest: unique_names)

lemma no_members: "(\<And>x. x \<notin> set xs) \<Longrightarrow> xs = []"
  by (cases xs) auto

lemma in_domD: "\<lbrakk>dom m \<subseteq> A; m x = Some y\<rbrakk> \<Longrightarrow> x \<in> A"
  by auto

lemma map_of_update: "map_of (AList.update k v xs) = (map_of xs)(k \<mapsto> v)"
  by (rule update_conv')

lemma map_of_delete: "map_of (AList.delete k xs) = (map_of xs)(k := None)"
  by (rule delete_conv')

lemmas alist_simps [simp] = map_of_update map_of_delete

end
