(* ===== verification/Lifecycle.thy ===== *)
theory Lifecycle
  imports Edd_Prelude
begin

text \<open>
  The workspace lifecycle (\<^verbatim>\<open>packages/core/src/lifecycle\<close>): the states and events, the
  transition table, the user actions a state offers and the connect-time decision. The
  table is also read as a step relation, \<open>lifecycle_edge\<close>, on which reachability and the
  liveness facts are stated; \<open>transition_system\<close> is the interface under which runs of
  events are followed.
\<close>

section \<open>States and events\<close>

datatype workspace_state =
    Provisioning | Running | Idle | Stopped | Stopping | Deleting | Terminated | ErrorState

definition WORKSPACE_STATES :: "workspace_state list" where
  "WORKSPACE_STATES =
     [Provisioning, Running, Idle, Stopped, Stopping, Deleting, Terminated, ErrorState]"

datatype workspace_event =
    Provisioned | Activity | IdleTimeout | Stop | RequestStop | CancelStop | Wake | Terminate
  | RequestDelete | Recover | Undelete | Retry | Fail

fun state_name :: "workspace_state \<Rightarrow> string" where
  "state_name Provisioning = ''provisioning''"
| "state_name Running = ''running''"
| "state_name Idle = ''idle''"
| "state_name Stopped = ''stopped''"
| "state_name Stopping = ''stopping''"
| "state_name Deleting = ''deleting''"
| "state_name Terminated = ''terminated''"
| "state_name ErrorState = ''error''"

fun event_name :: "workspace_event \<Rightarrow> string" where
  "event_name Provisioned = ''provisioned''"
| "event_name Activity = ''activity''"
| "event_name IdleTimeout = ''idleTimeout''"
| "event_name Stop = ''stop''"
| "event_name RequestStop = ''requestStop''"
| "event_name CancelStop = ''cancelStop''"
| "event_name Wake = ''wake''"
| "event_name Terminate = ''terminate''"
| "event_name RequestDelete = ''requestDelete''"
| "event_name Recover = ''recover''"
| "event_name Undelete = ''undelete''"
| "event_name Retry = ''retry''"
| "event_name Fail = ''fail''"

section \<open>The transition table\<close>

fun TRANSITIONS :: "workspace_state \<Rightarrow> workspace_event \<Rightarrow> workspace_state option" where
  "TRANSITIONS Provisioning e =
     (case e of Provisioned \<Rightarrow> Some Running | Stop \<Rightarrow> Some Stopped | Fail \<Rightarrow> Some ErrorState
      | Terminate \<Rightarrow> Some Terminated | RequestDelete \<Rightarrow> Some Deleting | _ \<Rightarrow> None)"
| "TRANSITIONS Running e =
     (case e of IdleTimeout \<Rightarrow> Some Idle | Stop \<Rightarrow> Some Stopped | RequestStop \<Rightarrow> Some Stopping
      | Fail \<Rightarrow> Some ErrorState | Terminate \<Rightarrow> Some Terminated | RequestDelete \<Rightarrow> Some Deleting
      | _ \<Rightarrow> None)"
| "TRANSITIONS Idle e =
     (case e of Activity \<Rightarrow> Some Running | Stop \<Rightarrow> Some Stopped | RequestStop \<Rightarrow> Some Stopping
      | Fail \<Rightarrow> Some ErrorState | Terminate \<Rightarrow> Some Terminated | RequestDelete \<Rightarrow> Some Deleting
      | _ \<Rightarrow> None)"
| "TRANSITIONS Stopping e =
     (case e of Stop \<Rightarrow> Some Stopped | CancelStop \<Rightarrow> Some Running | Fail \<Rightarrow> Some ErrorState
      | Terminate \<Rightarrow> Some Terminated | RequestDelete \<Rightarrow> Some Deleting | _ \<Rightarrow> None)"
| "TRANSITIONS Stopped e =
     (case e of Wake \<Rightarrow> Some Provisioning | Terminate \<Rightarrow> Some Terminated | Fail \<Rightarrow> Some ErrorState
      | RequestDelete \<Rightarrow> Some Deleting | _ \<Rightarrow> None)"
| "TRANSITIONS Deleting e = (case e of Terminate \<Rightarrow> Some Terminated | _ \<Rightarrow> None)"
| "TRANSITIONS Terminated e = (case e of Undelete \<Rightarrow> Some Stopped | _ \<Rightarrow> None)"
| "TRANSITIONS ErrorState e =
     (case e of Recover \<Rightarrow> Some Stopped | Retry \<Rightarrow> Some Provisioning
      | Terminate \<Rightarrow> Some Terminated | RequestDelete \<Rightarrow> Some Deleting | _ \<Rightarrow> None)"

definition transition ::
  "workspace_state \<Rightarrow> workspace_event \<Rightarrow> (workspace_state, domain_error) result" where
  "transition s e =
     (case TRANSITIONS s e of
        None \<Rightarrow> Err (Conflict (''invalid transition: cannot '' @ quoted (event_name e) @
                  '' while '' @ quoted (state_name s)))
      | Some next \<Rightarrow> Ok next)"

definition can :: "workspace_state \<Rightarrow> workspace_event \<Rightarrow> bool" where
  "can s e \<longleftrightarrow> TRANSITIONS s e \<noteq> None"

lemma transition_Ok_iff [simp]: "transition s e = Ok t \<longleftrightarrow> TRANSITIONS s e = Some t"
  by (simp add: transition_def split: option.split)

lemma transition_Err_iff: "(\<exists>d. transition s e = Err d) \<longleftrightarrow> TRANSITIONS s e = None"
  by (simp add: transition_def split: option.split)

lemma transition_Some [simp]: "TRANSITIONS s e = Some t \<Longrightarrow> transition s e = Ok t"
  by simp

text \<open>Which states accept an event: the table read by column.\<close>

lemma TRANSITIONS_event_simps:
  "TRANSITIONS s Provisioned = (if s = Provisioning then Some Running else None)"
  "TRANSITIONS s Activity = (if s = Idle then Some Running else None)"
  "TRANSITIONS s IdleTimeout = (if s = Running then Some Idle else None)"
  "TRANSITIONS s Stop =
     (if s \<in> {Provisioning, Running, Idle, Stopping} then Some Stopped else None)"
  "TRANSITIONS s RequestStop = (if s \<in> {Running, Idle} then Some Stopping else None)"
  "TRANSITIONS s CancelStop = (if s = Stopping then Some Running else None)"
  "TRANSITIONS s Wake = (if s = Stopped then Some Provisioning else None)"
  "TRANSITIONS s Terminate = (if s = Terminated then None else Some Terminated)"
  "TRANSITIONS s RequestDelete = (if s \<in> {Deleting, Terminated} then None else Some Deleting)"
  "TRANSITIONS s Recover = (if s = ErrorState then Some Stopped else None)"
  "TRANSITIONS s Undelete = (if s = Terminated then Some Stopped else None)"
  "TRANSITIONS s Retry = (if s = ErrorState then Some Provisioning else None)"
  "TRANSITIONS s Fail =
     (if s \<in> {Provisioning, Running, Idle, Stopping, Stopped} then Some ErrorState else None)"
  by (cases s; simp)+

section \<open>The table as a step relation\<close>

inductive lifecycle_edge :: "workspace_state \<Rightarrow> workspace_state \<Rightarrow> bool" where
  edge: "TRANSITIONS s e = Some t \<Longrightarrow> lifecycle_edge s t"

inductive_cases from_deleting [elim!]: "lifecycle_edge Deleting t"
inductive_cases from_terminated [elim!]: "lifecycle_edge Terminated t"

lemma edgeI: "TRANSITIONS s e = Some t \<Longrightarrow> lifecycle_edge s t"
  by (rule lifecycle_edge.edge)

text \<open>The states one step away, in the order of the table.\<close>

fun successors :: "workspace_state \<Rightarrow> workspace_state list" where
  "successors Provisioning = [Running, Stopped, ErrorState, Terminated, Deleting]"
| "successors Running = [Idle, Stopped, Stopping, ErrorState, Terminated, Deleting]"
| "successors Idle = [Running, Stopped, Stopping, ErrorState, Terminated, Deleting]"
| "successors Stopping = [Stopped, Running, ErrorState, Terminated, Deleting]"
| "successors Stopped = [Provisioning, Terminated, ErrorState, Deleting]"
| "successors Deleting = [Terminated]"
| "successors Terminated = [Stopped]"
| "successors ErrorState = [Stopped, Provisioning, Terminated, Deleting]"

lemma TRANSITIONS_successor: "TRANSITIONS s e = Some t \<Longrightarrow> t \<in> set (successors s)"
  by (cases s; cases e) auto

text \<open>The event that takes one state to another, where some event does.\<close>

fun edge_event :: "workspace_state \<Rightarrow> workspace_state \<Rightarrow> workspace_event" where
  "edge_event s Running =
     (case s of Idle \<Rightarrow> Activity | Stopping \<Rightarrow> CancelStop | _ \<Rightarrow> Provisioned)"
| "edge_event s Stopped =
     (case s of Terminated \<Rightarrow> Undelete | ErrorState \<Rightarrow> Recover | _ \<Rightarrow> Stop)"
| "edge_event s Provisioning = (case s of Stopped \<Rightarrow> Wake | _ \<Rightarrow> Retry)"
| "edge_event s Idle = IdleTimeout"
| "edge_event s Stopping = RequestStop"
| "edge_event s Deleting = RequestDelete"
| "edge_event s Terminated = Terminate"
| "edge_event s ErrorState = Fail"

lemma successor_TRANSITIONS:
  "t \<in> set (successors s) \<Longrightarrow> TRANSITIONS s (edge_event s t) = Some t"
  by (cases s) auto

lemma lifecycle_edge_iff: "lifecycle_edge s t \<longleftrightarrow> t \<in> set (successors s)"
  by (auto simp: lifecycle_edge.simps intro: TRANSITIONS_successor successor_TRANSITIONS)

lemma edge_to_simps [simp]:
  "lifecycle_edge s Terminated \<longleftrightarrow> s \<noteq> Terminated"
  "lifecycle_edge s Deleting \<longleftrightarrow> s \<noteq> Deleting \<and> s \<noteq> Terminated"
  "lifecycle_edge s ErrorState \<longleftrightarrow> s \<in> {Provisioning, Running, Idle, Stopping, Stopped}"
  "lifecycle_edge s Stopped \<longleftrightarrow>
     s \<in> {Provisioning, Running, Idle, Stopping, Terminated, ErrorState}"
  "lifecycle_edge s Running \<longleftrightarrow> s \<in> {Provisioning, Idle, Stopping}"
  "lifecycle_edge s Idle \<longleftrightarrow> s = Running"
  "lifecycle_edge s Stopping \<longleftrightarrow> s \<in> {Running, Idle}"
  "lifecycle_edge s Provisioning \<longleftrightarrow> s \<in> {Stopped, ErrorState}"
  by (cases s; simp add: lifecycle_edge_iff)+

section \<open>Runs of events\<close>

text \<open>
  A machine given by a partial step function: a run follows its events in order and stops
  at the first the current state does not accept, as a caller that returns the error does.
\<close>

fun run_events :: "('s \<Rightarrow> 'e \<Rightarrow> 's option) \<Rightarrow> 's \<Rightarrow> 'e list \<Rightarrow> 's option" where
  "run_events step s [] = Some s"
| "run_events step s (e # es) =
     (case step s e of None \<Rightarrow> None | Some s' \<Rightarrow> run_events step s' es)"

locale transition_system =
  fixes step :: "'s \<Rightarrow> 'e \<Rightarrow> 's option"
    and I :: "'s \<Rightarrow> bool"
  assumes step_inv: "\<lbrakk>I s; step s e = Some t\<rbrakk> \<Longrightarrow> I t"
begin

lemma run_append:
  "run_events step s (es @ fs) = Option.bind (run_events step s es) (\<lambda>t. run_events step t fs)"
  by (induction es arbitrary: s) (auto split: option.split)

lemma run_inv: "\<lbrakk>I s; run_events step s es = Some t\<rbrakk> \<Longrightarrow> I t"
proof (induction es arbitrary: s)
  case (Cons e es)
  then show ?case by (auto split: option.splits dest: step_inv)
qed simp

lemma run_prefix_inv: "\<lbrakk>I s; run_events step s (es @ fs) = Some t\<rbrakk> \<Longrightarrow> \<exists>u. run_events step s es = Some u \<and> I u"
  by (auto simp: run_append dest: run_inv split: option.splits Option.bind_splits)

end

text \<open>
  Two readings of the table: \<open>lifecycle\<close> with no constraint, and \<open>tombstone\<close> for the runs
  that never undelete, in which a deleted workspace stays deleted.
\<close>

interpretation lifecycle: transition_system TRANSITIONS "\<lambda>_. True"
  by unfold_locales simp

definition forward_step :: "workspace_state \<Rightarrow> workspace_event \<Rightarrow> workspace_state option" where
  "forward_step s e = (if e = Undelete then None else TRANSITIONS s e)"

interpretation tombstone: transition_system forward_step "\<lambda>s. s \<in> {Deleting, Terminated}"
proof unfold_locales
  fix s e t
  assume "s \<in> {Deleting, Terminated}" and "forward_step s e = Some t"
  then show "t \<in> {Deleting, Terminated}"
    by (cases e) (auto simp: forward_step_def TRANSITIONS_event_simps split: if_splits)
qed

lemma run_forward_step:
  "Undelete \<notin> set es \<Longrightarrow> run_events forward_step s es = run_events TRANSITIONS s es"
  by (induction es arbitrary: s) (auto simp: forward_step_def split: option.split)

section \<open>User actions and the connect decision\<close>

datatype workspace_action =
  StartAction | StopAction | CancelStopAction | SnapshotAction | DeleteAction | UndeleteAction
  | RetryAction

fun workspaceActions :: "workspace_state \<Rightarrow> workspace_action list" where
  "workspaceActions Running = [SnapshotAction, StopAction, DeleteAction]"
| "workspaceActions Idle = [SnapshotAction, StopAction, DeleteAction]"
| "workspaceActions Stopping = [CancelStopAction, DeleteAction]"
| "workspaceActions Stopped = [StartAction, DeleteAction]"
| "workspaceActions Provisioning = [DeleteAction]"
| "workspaceActions ErrorState = [RetryAction, DeleteAction]"
| "workspaceActions Deleting = []"
| "workspaceActions Terminated = [UndeleteAction]"

datatype connect_action = Ready | WakeIt | Pending | NotAvailable

fun planConnect :: "workspace_state \<Rightarrow> connect_action" where
  "planConnect Running = Ready"
| "planConnect Idle = Ready"
| "planConnect Stopping = Ready"
| "planConnect Stopped = WakeIt"
| "planConnect Provisioning = Pending"
| "planConnect Deleting = NotAvailable"
| "planConnect Terminated = NotAvailable"
| "planConnect ErrorState = NotAvailable"

text \<open>The event behind each action of the user interface; a snapshot is not a transition.\<close>

fun action_event :: "workspace_action \<Rightarrow> workspace_event option" where
  "action_event StartAction = Some Wake"
| "action_event StopAction = Some RequestStop"
| "action_event CancelStopAction = Some CancelStop"
| "action_event SnapshotAction = None"
| "action_event DeleteAction = Some RequestDelete"
| "action_event UndeleteAction = Some Undelete"
| "action_event RetryAction = Some Retry"

section \<open>Properties of the lifecycle\<close>

lemma WORKSPACE_STATES_complete: "set WORKSPACE_STATES = UNIV \<and> distinct WORKSPACE_STATES"
proof -
  have "s \<in> set WORKSPACE_STATES" for s
    by (cases s) (simp_all add: WORKSPACE_STATES_def)
  then show ?thesis by (auto simp: WORKSPACE_STATES_def)
qed

lemma reaches_terminated: "lifecycle_edge\<^sup>*\<^sup>* s Terminated"
  by (cases s) (auto intro: r_into_rtranclp)

lemma terminated_reaches: "lifecycle_edge\<^sup>*\<^sup>* Terminated t"
proof -
  have stop: "lifecycle_edge\<^sup>*\<^sup>* Terminated Stopped" by (rule r_into_rtranclp) simp
  then have prov: "lifecycle_edge\<^sup>*\<^sup>* Terminated Provisioning"
    by (rule rtranclp.rtrancl_into_rtrancl) simp
  then have run: "lifecycle_edge\<^sup>*\<^sup>* Terminated Running"
    by (rule rtranclp.rtrancl_into_rtrancl) simp
  have after_run: "lifecycle_edge Running u \<Longrightarrow> lifecycle_edge\<^sup>*\<^sup>* Terminated u" for u
    using run by (rule rtranclp.rtrancl_into_rtrancl)
  show ?thesis using stop prov run by (cases t) (auto intro: after_run)
qed

text \<open>
  No state is a dead end: from every state of the lifecycle every other is reachable by
  legal transitions. In particular every workspace can be deleted, and one that failed or
  was deleted can run again.
\<close>

theorem lifecycle_strongly_connected: "lifecycle_edge\<^sup>*\<^sup>* s t"
  by (rule rtranclp_trans [OF reaches_terminated terminated_reaches])

text \<open>
  A delete is final but for an undelete: whatever sequence of events a workspace takes
  once it is deleting or terminated, without an undelete among them it stays so, and the
  one event a terminated workspace takes leads to stopped.
\<close>

theorem tombstone_until_undelete:
  assumes "s \<in> {Deleting, Terminated}" and "run_events TRANSITIONS s es = Some t"
    and "Undelete \<notin> set es"
  shows "t \<in> {Deleting, Terminated}"
proof -
  have "run_events forward_step s es = Some t"
    using assms run_forward_step by metis
  then show ?thesis by (rule tombstone.run_inv [OF assms(1)])
qed

theorem tombstone_until_undelete_witness:
  "run_events TRANSITIONS Deleting [Terminate] = Some Terminated \<and>
   Terminated \<in> {Deleting, Terminated}"
proof
  show run: "run_events TRANSITIONS Deleting [Terminate] = Some Terminated" by simp
  show "Terminated \<in> {Deleting, Terminated}"
    by (rule tombstone_until_undelete [OF _ run]) simp_all
qed

text \<open>
  The user interface offers an action exactly in the states whose transition table
  accepts the event behind it: no offered action fails with an illegal transition, and no
  legal one is withheld.
\<close>

theorem offered_iff_legal:
  assumes "action_event a = Some e"
  shows "a \<in> set (workspaceActions s) \<longleftrightarrow> can s e"
  using assms by (cases a; cases s) (auto simp: can_def)

theorem offered_iff_legal_witness:
  "StartAction \<in> set (workspaceActions Stopped) \<and> StartAction \<notin> set (workspaceActions Running)"
  using offered_iff_legal [of StartAction Wake Stopped] offered_iff_legal [of StartAction Wake Running]
  by (simp add: can_def)

text \<open>
  The connect decision agrees with the table: it wakes exactly the states that accept a
  wake, waits exactly for those that accept the end of provisioning, is ready exactly where
  a task is up (a stop can be requested, or a requested one cancelled), and is unavailable
  in the remaining ones.
\<close>

theorem planConnect_agrees:
  "(planConnect s = WakeIt \<longleftrightarrow> can s Wake) \<and>
   (planConnect s = Pending \<longleftrightarrow> can s Provisioned) \<and>
   (planConnect s = Ready \<longleftrightarrow> can s RequestStop \<or> can s CancelStop) \<and>
   (planConnect s = NotAvailable \<longleftrightarrow>
      \<not> can s Wake \<and> \<not> can s Provisioned \<and> \<not> can s RequestStop \<and> \<not> can s CancelStop)"
  by (cases s) (simp_all add: can_def)

end
