(* ===== verification/Resources.thy ===== *)
theory Resources
  imports Edd_Prelude
begin

text \<open>
  Editors and task sizes (\<^verbatim>\<open>packages/core/src/domain/editor.ts\<close>,
  \<^verbatim>\<open>domain/workspace-resources.ts\<close>) and the quota gate (\<^verbatim>\<open>domain/quota.ts\<close>): which
  CPU, memory and volume sizes are accepted, and the size each editor starts with.
\<close>

datatype editor_kind = Openvscode | Monaco | Terminal | Opencode

definition EDITOR_KINDS :: "editor_kind list" where
  "EDITOR_KINDS = [Openvscode, Monaco, Terminal, Opencode]"

fun editor_name :: "editor_kind \<Rightarrow> string" where
  "editor_name Openvscode = ''openvscode''"
| "editor_name Monaco = ''monaco''"
| "editor_name Terminal = ''terminal''"
| "editor_name Opencode = ''opencode''"

definition DEFAULT_EDITOR :: editor_kind where
  "DEFAULT_EDITOR = Openvscode"

text \<open>\<^verbatim>\<open>asEditorKind\<close> on a persisted value: absent, or a string.\<close>

definition asEditorKind :: "string option \<Rightarrow> js_error + editor_kind" where
  "asEditorKind v =
     (case v of
        None \<Rightarrow> Inr DEFAULT_EDITOR
      | Some s \<Rightarrow>
          (case find (\<lambda>k. editor_name k = s) EDITOR_KINDS of
             None \<Rightarrow> Inl (plain_error ''Error'' (''unknown editor kind: '' @ s))
           | Some k \<Rightarrow> Inr k))"

record workspace_resources =
  cpuUnits :: int
  memoryMiB :: int
  volumeGiB :: int

definition WORKSPACE_CPU_UNITS :: "int list" where
  "WORKSPACE_CPU_UNITS = [512, 1024, 2048, 4096]"

definition WORKSPACE_MEMORY_MIB :: "int list" where
  "WORKSPACE_MEMORY_MIB = [2048, 4096, 8192, 16384]"

definition WORKSPACE_VOLUME_GIB :: "int list" where
  "WORKSPACE_VOLUME_GIB = [8, 16, 32, 64]"

definition DEFAULT_WORKSPACE_VOLUME_GIB :: int where
  "DEFAULT_WORKSPACE_VOLUME_GIB = 8"

fun defaultResourcesForEditor :: "editor_kind \<Rightarrow> workspace_resources" where
  "defaultResourcesForEditor Terminal =
     \<lparr>cpuUnits = 512, memoryMiB = 2048, volumeGiB = DEFAULT_WORKSPACE_VOLUME_GIB\<rparr>"
| "defaultResourcesForEditor Monaco =
     \<lparr>cpuUnits = 512, memoryMiB = 2048, volumeGiB = DEFAULT_WORKSPACE_VOLUME_GIB\<rparr>"
| "defaultResourcesForEditor Openvscode =
     \<lparr>cpuUnits = 1024, memoryMiB = 4096, volumeGiB = DEFAULT_WORKSPACE_VOLUME_GIB\<rparr>"
| "defaultResourcesForEditor Opencode =
     \<lparr>cpuUnits = 1024, memoryMiB = 4096, volumeGiB = DEFAULT_WORKSPACE_VOLUME_GIB\<rparr>"

definition isValidWorkspaceResourcePair :: "workspace_resources \<Rightarrow> bool" where
  "isValidWorkspaceResourcePair r \<longleftrightarrow>
     cpuUnits r \<in> set WORKSPACE_CPU_UNITS \<and>
     memoryMiB r \<in> set WORKSPACE_MEMORY_MIB \<and>
     volumeGiB r \<in> set WORKSPACE_VOLUME_GIB \<and>
     (if cpuUnits r = 512 then memoryMiB r = 2048 \<or> memoryMiB r = 4096
      else if cpuUnits r = 1024 then
        memoryMiB r = 2048 \<or> memoryMiB r = 4096 \<or> memoryMiB r = 8192
      else if cpuUnits r = 2048 then
        memoryMiB r = 4096 \<or> memoryMiB r = 8192 \<or> memoryMiB r = 16384
      else memoryMiB r = 8192 \<or> memoryMiB r = 16384)"

definition assertValidWorkspaceResources ::
  "workspace_resources \<Rightarrow> js_error + workspace_resources" where
  "assertValidWorkspaceResources r =
     (if \<not> isValidWorkspaceResourcePair r then
        Inl (plain_error ''Error''
          (''invalid workspace resources: '' @ int_text (cpuUnits r) @ '' CPU units with '' @
           int_text (memoryMiB r) @ '' MiB memory and '' @ int_text (volumeGiB r) @
           '' GiB volume''))
      else Inr r)"

definition withinWorkspaceQuota :: "int \<Rightarrow> int option \<Rightarrow> bool" where
  "withinWorkspaceQuota count limit = (case limit of None \<Rightarrow> True | Some l \<Rightarrow> count < l)"

section \<open>Facts\<close>

lemma default_resources_valid [simp]: "isValidWorkspaceResourcePair (defaultResourcesForEditor e)"
  by (cases e)
    (simp_all add: isValidWorkspaceResourcePair_def WORKSPACE_CPU_UNITS_def
      WORKSPACE_MEMORY_MIB_def WORKSPACE_VOLUME_GIB_def DEFAULT_WORKSPACE_VOLUME_GIB_def)

lemma assertValid_Inr_iff [simp]:
  "assertValidWorkspaceResources r = Inr r' \<longleftrightarrow> r' = r \<and> isValidWorkspaceResourcePair r"
  by (auto simp: assertValidWorkspaceResources_def)

lemma assertValid_valid [simp]:
  "isValidWorkspaceResourcePair r \<Longrightarrow> assertValidWorkspaceResources r = Inr r"
  by simp

lemma editor_name_inject [simp]: "editor_name a = editor_name b \<longleftrightarrow> a = b"
  by (cases a; cases b) simp_all

text \<open>Every kind is found again from its stored name.\<close>

lemma asEditorKind_name [simp]: "asEditorKind (Some (editor_name k)) = Inr k"
  by (cases k) (simp_all add: asEditorKind_def EDITOR_KINDS_def)

text \<open>
  A valid size is one Fargate sells: memory between twice and eight times the CPU share,
  at least 2 GiB, so the accepted pairs are ten of the sixteen.
\<close>

lemma valid_resources_ratio:
  "isValidWorkspaceResourcePair r \<Longrightarrow> 2 * cpuUnits r \<le> memoryMiB r \<and> memoryMiB r \<le> 8 * cpuUnits r"
  by (auto simp: isValidWorkspaceResourcePair_def WORKSPACE_CPU_UNITS_def split: if_splits)

end
