(* ===== verification/Workspace.thy ===== *)
theory Workspace
  imports Lifecycle Resources
begin

text \<open>
  The workspace domain object and the pure operations on it
  (\<^verbatim>\<open>packages/core/src/domain/workspace.ts\<close>, with the constants of
  \<^verbatim>\<open>domain/constants.ts\<close>): one definition per exported function, each returning the next
  workspace or the domain error, and the invariants that the record keeps across any
  sequence of them.
\<close>

section \<open>Constants\<close>

definition DEFAULT_IDLE_THRESHOLD_MS :: int where
  "DEFAULT_IDLE_THRESHOLD_MS = 5 * 60 * 1000"
definition DEFAULT_CONTROL_PLANE_IDLE_MS :: int where
  "DEFAULT_CONTROL_PLANE_IDLE_MS = 15 * 60 * 1000"
definition DEFAULT_STOP_GRACE_MS :: int where
  "DEFAULT_STOP_GRACE_MS = 6 * 1000"
definition DEFAULT_UNDELETE_RETENTION_MS :: int where
  "DEFAULT_UNDELETE_RETENTION_MS = 7 * 24 * 60 * 60 * 1000"
definition DEFAULT_SNAPSHOT_INTERVAL_MS :: int where
  "DEFAULT_SNAPSHOT_INTERVAL_MS = 5 * 60 * 1000"
definition DEFAULT_EARLY_SNAPSHOT_INTERVAL_MS :: int where
  "DEFAULT_EARLY_SNAPSHOT_INTERVAL_MS = 5 * 60 * 1000"
definition DEFAULT_EARLY_SESSION_MS :: int where
  "DEFAULT_EARLY_SESSION_MS = 60 * 60 * 1000"
definition DEFAULT_TASKDEF_KEEP_REVISIONS :: int where
  "DEFAULT_TASKDEF_KEEP_REVISIONS = 20"
definition DEFAULT_CONVERGE_BUDGET :: int where
  "DEFAULT_CONVERGE_BUDGET = 50"
definition DEFAULT_PROVISIONING_TIMEOUT_MS :: int where
  "DEFAULT_PROVISIONING_TIMEOUT_MS = 10 * 60 * 1000"
definition PLACEMENT_RETRY_BASE_MS :: int where
  "PLACEMENT_RETRY_BASE_MS = 15 * 1000"
definition PLACEMENT_RETRY_MAX_MS :: int where
  "PLACEMENT_RETRY_MAX_MS = 2 * 60 * 1000"
definition MAX_PLACEMENT_ATTEMPTS :: int where
  "MAX_PLACEMENT_ATTEMPTS = 8"
definition DEFAULT_GC_GRACE_MS :: int where
  "DEFAULT_GC_GRACE_MS = 60 * 60 * 1000"

section \<open>The record\<close>

datatype desired_state = Present | Deleted

datatype owner_role = Viewer | Developer | Admin

datatype functional_status = Healthy | Degraded

datatype session_status = SessRunning | SessStopped | SessRestored

text \<open>
  An agent session. In memory \<^verbatim>\<open>resumeCommand\<close> is a string or null (\<^term>\<open>None\<close>); the
  stored form, whose attribute may also be absent, is a second instance of the record.
\<close>

record 'resume session =
  sess_name :: string
  sess_cwd :: string
  sess_command :: string
  resumeCommand :: 'resume
  sess_createdAt :: string
  sess_lastSeenAt :: string
  sess_status :: session_status
  sess_live :: bool

type_synonym agent_session = "string option session"

text \<open>
  The fields of a workspace. The task size and the sessions have another type in the
  stored record, so both are parameters. An optional field is an option, \<^term>\<open>None\<close> for
  \<^verbatim>\<open>undefined\<close>.
\<close>

record ('res, 'sess) ws_fields =
  wsId :: string
  ownerId :: string
  ownerEmail :: "string option"
  ownerRole :: "owner_role option"
  repoUrl :: "string option"
  baseImage :: string
  editor :: "editor_kind option"
  resources :: 'res
  state :: workspace_state
  desiredState :: "desired_state option"
  deleteRequestedAt :: "iso_timestamp option"
  createdAt :: iso_timestamp
  lastActivity :: iso_timestamp
  volumeId :: "string option"
  taskId :: "string option"
  latestSnapshotId :: "string option"
  latestSnapshotAt :: "iso_timestamp option"
  snapshotIntervalMs :: "int option"
  idleStopMs :: "int option"
  alwaysOn :: "bool option"
  sshHost :: "string option"
  functional :: "functional_status option"
  functionalDetail :: "string option"
  functionalAt :: "iso_timestamp option"
  diskUsedBytes :: "int option"
  diskTotalBytes :: "int option"
  sessions :: "'sess list option"
  sessionsAt :: "iso_timestamp option"
  stopRequestedAt :: "iso_timestamp option"
  stopRequestedBy :: "string option"
  terminatedAt :: "iso_timestamp option"
  shareEnabled :: "bool option"
  shareEnabledAt :: "iso_timestamp option"
  placementReason :: "string option"
  placementAttempts :: "int option"
  placementRetryAt :: "iso_timestamp option"

type_synonym workspace = "(workspace_resources, agent_session) ws_fields"

type_synonym ws_result = "(workspace, domain_error) result"

record provision_params =
  pp_id :: string
  pp_ownerId :: string
  pp_ownerEmail :: "string option"
  pp_ownerRole :: "owner_role option"
  pp_repoUrl :: "string option"
  pp_baseImage :: string
  pp_editor :: "editor_kind option"
  pp_resources :: "workspace_resources option"
  pp_snapshotIntervalMs :: "int option"
  pp_idleStopMs :: "int option"
  pp_alwaysOn :: "bool option"
  pp_at :: iso_timestamp

section \<open>Creation\<close>

definition orElse :: "'a option \<Rightarrow> 'a \<Rightarrow> 'a" where
  "orElse v d = (case v of None \<Rightarrow> d | Some x \<Rightarrow> x)"

definition orElseOpt :: "'a option \<Rightarrow> 'a option \<Rightarrow> 'a option" where
  "orElseOpt v d = (case v of None \<Rightarrow> d | Some x \<Rightarrow> Some x)"

definition reserve :: "provision_params \<Rightarrow> js_error + workspace" where
  "reserve p =
     (case assertValidWorkspaceResources
             (orElse (pp_resources p)
                (defaultResourcesForEditor (orElse (pp_editor p) DEFAULT_EDITOR))) of
        Inl e \<Rightarrow> Inl e
      | Inr res \<Rightarrow> Inr
          \<lparr>wsId = pp_id p,
           ownerId = pp_ownerId p,
           ownerEmail = pp_ownerEmail p,
           ownerRole = pp_ownerRole p,
           repoUrl = pp_repoUrl p,
           baseImage = pp_baseImage p,
           editor = Some (orElse (pp_editor p) DEFAULT_EDITOR),
           resources = res,
           state = Provisioning,
           desiredState = Some Present,
           deleteRequestedAt = None,
           createdAt = pp_at p,
           lastActivity = pp_at p,
           volumeId = None,
           taskId = None,
           latestSnapshotId = None,
           latestSnapshotAt = None,
           snapshotIntervalMs = pp_snapshotIntervalMs p,
           idleStopMs = pp_idleStopMs p,
           alwaysOn = pp_alwaysOn p,
           sshHost = None,
           functional = None,
           functionalDetail = None,
           functionalAt = None,
           diskUsedBytes = None,
           diskTotalBytes = None,
           sessions = None,
           sessionsAt = None,
           stopRequestedAt = None,
           stopRequestedBy = None,
           terminatedAt = None,
           shareEnabled = None,
           shareEnabledAt = None,
           placementReason = None,
           placementAttempts = None,
           placementRetryAt = None\<rparr>)"

definition provision ::
  "provision_params \<Rightarrow> string \<Rightarrow> string \<Rightarrow> string option \<Rightarrow> js_error + workspace" where
  "provision p volume task host =
     map_sum id (\<lambda>ws. ws\<lparr>state := Running, volumeId := Some volume, taskId := Some task,
                        sshHost := host\<rparr>) (reserve p)"

section \<open>Stopping\<close>

definition noPlacementWait :: "workspace \<Rightarrow> workspace" where
  "noPlacementWait ws =
     ws\<lparr>placementReason := None, placementAttempts := None, placementRetryAt := None\<rparr>"

definition markStopping ::
  "workspace \<Rightarrow> iso_timestamp \<Rightarrow> string option \<Rightarrow> ws_result" where
  "markStopping ws at by' =
     result_map (\<lambda>st. ws\<lparr>state := st, stopRequestedAt := Some at, stopRequestedBy := by'\<rparr>)
       (transition (state ws) RequestStop)"

definition cancelStopping :: "workspace \<Rightarrow> iso_timestamp \<Rightarrow> ws_result" where
  "cancelStopping ws at =
     result_map (\<lambda>st. ws\<lparr>state := st, lastActivity := at, stopRequestedAt := None,
                        stopRequestedBy := None\<rparr>)
       (transition (state ws) CancelStop)"

definition markStopped ::
  "workspace \<Rightarrow> (string \<times> iso_timestamp) option \<Rightarrow> iso_timestamp \<Rightarrow> ws_result" where
  "markStopped ws fresh at =
     result_map (\<lambda>st. noPlacementWait
       (ws\<lparr>state := st, lastActivity := at,
           latestSnapshotId := orElseOpt (map_option fst fresh) (latestSnapshotId ws),
           latestSnapshotAt := orElseOpt (map_option snd fresh) (latestSnapshotAt ws),
           volumeId := None, taskId := None, sshHost := None,
           stopRequestedAt := None, stopRequestedBy := None,
           shareEnabled := None, shareEnabledAt := None,
           functional := None, functionalDetail := None, functionalAt := None\<rparr>))
       (transition (state ws) Stop)"

section \<open>Deletion and restoration\<close>

definition markTerminated :: "workspace \<Rightarrow> iso_timestamp \<Rightarrow> ws_result" where
  "markTerminated ws at =
     result_map (\<lambda>st. ws\<lparr>state := st, terminatedAt := Some at, volumeId := None, taskId := None,
                        sshHost := None, shareEnabled := None, shareEnabledAt := None\<rparr>)
       (transition (state ws) Terminate)"

definition undeleteWorkspace :: "workspace \<Rightarrow> iso_timestamp \<Rightarrow> ws_result" where
  "undeleteWorkspace ws at =
     (if latestSnapshotId ws = None then
        Err (Conflict (''cannot undelete '' @ wsId ws @ '': no retained snapshot to restore from''))
      else result_map (\<lambda>st. ws\<lparr>state := st, desiredState := Some Present,
                              deleteRequestedAt := None, terminatedAt := None,
                              lastActivity := at\<rparr>)
        (transition (state ws) Undelete))"

definition assertTerminable :: "workspace \<Rightarrow> (unit, domain_error) result" where
  "assertTerminable ws = result_map (\<lambda>_. ()) (transition (state ws) RequestDelete)"

definition markDeleting :: "workspace \<Rightarrow> iso_timestamp \<Rightarrow> ws_result" where
  "markDeleting ws at =
     (if state ws = Deleting then Ok ws
      else result_map (\<lambda>st. ws\<lparr>state := st, desiredState := Some Deleted,
                              deleteRequestedAt := Some at, shareEnabled := None,
                              shareEnabledAt := None\<rparr>)
        (transition (state ws) RequestDelete))"

section \<open>Sharing\<close>

definition SHAREABLE_STATES :: "workspace_state list" where
  "SHAREABLE_STATES = [Running, Idle, Provisioning]"

definition setShare :: "workspace \<Rightarrow> bool \<Rightarrow> iso_timestamp \<Rightarrow> ws_result" where
  "setShare ws enabled at =
     (if enabled \<and> state ws \<notin> set SHAREABLE_STATES then
        Err (Conflict (''cannot enable spectate while '' @ quoted (state_name (state ws)) @
          '': only a live session can be mirrored''))
      else Ok (ws\<lparr>shareEnabled := Some enabled,
                  shareEnabledAt := (if enabled then Some at else None)\<rparr>))"

section \<open>Waking and launching\<close>

definition markWaking :: "workspace \<Rightarrow> iso_timestamp \<Rightarrow> ws_result" where
  "markWaking ws at =
     result_map (\<lambda>st. ws\<lparr>state := st, lastActivity := at\<rparr>) (transition (state ws) Wake)"

definition markProvisioned ::
  "workspace \<Rightarrow> string \<Rightarrow> string \<Rightarrow> iso_timestamp \<Rightarrow> string option \<Rightarrow> ws_result" where
  "markProvisioned ws volume task at host =
     result_map (\<lambda>st. noPlacementWait
       (ws\<lparr>state := st, lastActivity := at, volumeId := Some volume, taskId := Some task,
           sshHost := host\<rparr>))
       (transition (state ws) Provisioned)"

definition placementRetryDelayMs :: "int \<Rightarrow> int" where
  "placementRetryDelayMs attempts =
     min (PLACEMENT_RETRY_BASE_MS * 2 ^ nat (max 0 (attempts - 1))) PLACEMENT_RETRY_MAX_MS"

text \<open>
  \<^verbatim>\<open>new Date(ms).toISOString()\<close> raises a \<^verbatim>\<open>RangeError\<close> on NaN.
\<close>

fun to_iso_string :: "js_number \<Rightarrow> js_error + iso_timestamp" where
  "to_iso_string (Some n) = Inr (Iso n)"
| "to_iso_string None = Inl (plain_error ''RangeError'' ''Invalid time value'')"

definition deferPlacement ::
  "workspace \<Rightarrow> string \<Rightarrow> iso_timestamp \<Rightarrow> js_error + ws_result" where
  "deferPlacement ws reason at =
     (if state ws \<noteq> Provisioning \<or> taskId ws \<noteq> None then
        Inr (Err (Conflict (''workspace '' @ wsId ws @ '' is not waiting to be placed ('' @
          state_name (state ws) @ '')'')))
      else
        let attempts = orElse (placementAttempts ws) 0 + 1 in
        if attempts > MAX_PLACEMENT_ATTEMPTS then
          Inr (Err (Conflict (''workspace '' @ wsId ws @ '' was refused placement '' @
            int_text attempts @ '' times; no capacity: '' @ reason)))
        else
          (case to_iso_string
                  (map_option (\<lambda>t. t + placementRetryDelayMs attempts) (date_parse at)) of
             Inl e \<Rightarrow> Inl e
           | Inr retryAt \<Rightarrow> Inr (Ok (ws\<lparr>lastActivity := at, placementReason := Some reason,
               placementAttempts := Some attempts, placementRetryAt := Some retryAt\<rparr>))))"

definition placementDue :: "workspace \<Rightarrow> iso_timestamp \<Rightarrow> bool" where
  "placementDue ws now \<longleftrightarrow>
     state ws = Provisioning \<and> taskId ws = None \<and>
     (case placementRetryAt ws of
        None \<Rightarrow> False
      | Some r \<Rightarrow> js_le (date_parse r) (date_parse now))"

definition markProvisioningFailed :: "workspace \<Rightarrow> string \<Rightarrow> iso_timestamp \<Rightarrow> ws_result" where
  "markProvisioningFailed ws reason at =
     result_map (\<lambda>st. noPlacementWait
       (ws\<lparr>state := st, lastActivity := at, functional := Some Degraded,
           functionalDetail := Some reason, functionalAt := Some at\<rparr>))
       (transition (state ws) Fail)"

definition retryProvisioning :: "workspace \<Rightarrow> iso_timestamp \<Rightarrow> ws_result" where
  "retryProvisioning ws at =
     result_map (\<lambda>st. ws\<lparr>state := st, lastActivity := at, functional := None,
                        functionalDetail := None, functionalAt := None\<rparr>)
       (transition (state ws) Retry)"

section \<open>Snapshots\<close>

definition recordSnapshot :: "workspace \<Rightarrow> string \<Rightarrow> iso_timestamp \<Rightarrow> workspace" where
  "recordSnapshot ws snapshot at =
     ws\<lparr>latestSnapshotId := Some snapshot, latestSnapshotAt := Some at, lastActivity := at\<rparr>"

definition restoreToSnapshot ::
  "workspace \<Rightarrow> string \<times> iso_timestamp \<Rightarrow> iso_timestamp \<Rightarrow> ws_result" where
  "restoreToSnapshot ws snapshot at =
     (if state ws \<noteq> Stopped then
        Err (Conflict (''cannot restore '' @ wsId ws @ '' while '' @
          quoted (state_name (state ws)) @ '': stop the workspace first''))
      else Ok (ws\<lparr>latestSnapshotId := Some (fst snapshot),
                  latestSnapshotAt := Some (snd snapshot), lastActivity := at\<rparr>))"

definition markSnapshotLost :: "workspace \<Rightarrow> iso_timestamp \<Rightarrow> ws_result" where
  "markSnapshotLost ws at =
     (if state ws \<noteq> Stopped \<and> state ws \<noteq> ErrorState then
        Err (Conflict (''cannot mark snapshot lost for '' @ wsId ws @ '': workspace is '' @
          state_name (state ws)))
      else if latestSnapshotId ws = None then
        Err (Conflict (''cannot mark snapshot lost for '' @ wsId ws @
          '': no snapshot referenced''))
      else Ok (ws\<lparr>state := ErrorState, lastActivity := at, latestSnapshotId := None,
                  latestSnapshotAt := None\<rparr>))"

section \<open>Drift, recovery and reports\<close>

definition markTaskLost :: "workspace \<Rightarrow> iso_timestamp \<Rightarrow> ws_result" where
  "markTaskLost ws at =
     (if state ws \<noteq> Provisioning \<and> state ws \<noteq> Running \<and> state ws \<noteq> Idle then
        Err (Conflict (''cannot reconcile task loss for '' @ wsId ws @ '': workspace is '' @
          state_name (state ws)))
      else if taskId ws = None then
        Err (Conflict (''cannot reconcile task loss for '' @ wsId ws @ '': no task bound''))
      else Ok (ws\<lparr>state := (if latestSnapshotId ws = None then ErrorState else Stopped),
                  lastActivity := at, volumeId := None, taskId := None, sshHost := None\<rparr>))"

definition markActivity :: "workspace \<Rightarrow> iso_timestamp \<Rightarrow> ws_result" where
  "markActivity ws at =
     (if state ws \<noteq> Running \<and> state ws \<noteq> Idle then
        Err (Conflict (''cannot record activity while '' @ quoted (state_name (state ws))))
      else if state ws = Idle then
        result_map (\<lambda>st. ws\<lparr>state := st, lastActivity := at\<rparr>) (transition (state ws) Activity)
      else Ok (ws\<lparr>state := state ws, lastActivity := at\<rparr>))"

record probes =
  probe_ide :: bool
  probe_workspace :: bool
  probe_disk :: "(int \<times> int) option"

definition recordFunctional :: "workspace \<Rightarrow> probes \<Rightarrow> iso_timestamp \<Rightarrow> workspace" where
  "recordFunctional ws p at =
     (let failures =
        (if \<not> probe_ide p
         then [''IDE unreachable (the desktop'' @ [CHR 0x27] @
               ''s HTTP surface did not answer the agent'' @ [CHR 0x27] @ ''s probe)'']
         else []) @
        (if \<not> probe_workspace p then [''workspace not writable''] else []);
        ws' = ws\<lparr>functional := Some (if failures = [] then Healthy else Degraded),
                 functionalDetail := Some (if failures = [] then ''IDE + workspace healthy''
                   else join_with ''; '' failures),
                 functionalAt := Some at\<rparr>
      in (case probe_disk p of
            None \<Rightarrow> ws'
          | Some (usedB, totalB) \<Rightarrow>
              ws'\<lparr>diskUsedBytes := Some usedB, diskTotalBytes := Some totalB\<rparr>))"

definition recordSessions ::
  "workspace \<Rightarrow> agent_session list \<Rightarrow> iso_timestamp \<Rightarrow> workspace" where
  "recordSessions ws ss at = ws\<lparr>sessions := Some ss, sessionsAt := Some at\<rparr>"

definition markRecovered :: "workspace \<Rightarrow> iso_timestamp \<Rightarrow> ws_result" where
  "markRecovered ws at =
     (if state ws \<noteq> ErrorState then
        Err (Conflict (''cannot recover '' @ wsId ws @ '': workspace is '' @
          state_name (state ws) @ '', not error''))
      else if latestSnapshotId ws = None then
        Err (Conflict (''cannot recover '' @ wsId ws @ '': no snapshot to restore from''))
      else result_map (\<lambda>st. ws\<lparr>state := st, lastActivity := at, volumeId := None,
                              taskId := None, sshHost := None\<rparr>)
        (transition (state ws) Recover))"

definition isUnrecoverable :: "workspace \<Rightarrow> bool" where
  "isUnrecoverable ws \<longleftrightarrow> state ws = ErrorState \<and> latestSnapshotId ws = None"

end
