(* ===== verification/Workspace_Props.thy ===== *)
theory Workspace_Props
  imports Workspace
begin

text \<open>
  What the pure operations keep. The operations that yield a next workspace are gathered
  in \<open>ws_op\<close>, so that a history is a list of them; \<open>ws_inv\<close> is the record invariant, an
  interpretation of the lifecycle's \<open>transition_system\<close> carries it over every history,
  and the placement-retry policy is shown to be bounded.
\<close>

section \<open>Histories of operations\<close>

datatype ws_op =
    OpStopping iso_timestamp "string option"
  | OpCancelStop iso_timestamp
  | OpStopped "(string \<times> iso_timestamp) option" iso_timestamp
  | OpTerminated iso_timestamp
  | OpUndelete iso_timestamp
  | OpDeleting iso_timestamp
  | OpShare bool iso_timestamp
  | OpWaking iso_timestamp
  | OpProvisioned string string iso_timestamp "string option"
  | OpDefer string iso_timestamp
  | OpFailed string iso_timestamp
  | OpRetry iso_timestamp
  | OpSnapshot string iso_timestamp
  | OpRestore "string \<times> iso_timestamp" iso_timestamp
  | OpSnapshotLost iso_timestamp
  | OpTaskLost iso_timestamp
  | OpActivity iso_timestamp
  | OpFunctional probes iso_timestamp
  | OpSessions "agent_session list" iso_timestamp
  | OpRecovered iso_timestamp

fun apply_op :: "ws_op \<Rightarrow> workspace \<Rightarrow> ws_result" where
  "apply_op (OpStopping at by') ws = markStopping ws at by'"
| "apply_op (OpCancelStop at) ws = cancelStopping ws at"
| "apply_op (OpStopped fresh at) ws = markStopped ws fresh at"
| "apply_op (OpTerminated at) ws = markTerminated ws at"
| "apply_op (OpUndelete at) ws = undeleteWorkspace ws at"
| "apply_op (OpDeleting at) ws = markDeleting ws at"
| "apply_op (OpShare b at) ws = setShare ws b at"
| "apply_op (OpWaking at) ws = markWaking ws at"
| "apply_op (OpProvisioned v t at h) ws = markProvisioned ws v t at h"
| "apply_op (OpDefer reason at) ws =
     (case deferPlacement ws reason at of Inl e \<Rightarrow> Err (Invalid (err_message e)) | Inr r \<Rightarrow> r)"
| "apply_op (OpFailed reason at) ws = markProvisioningFailed ws reason at"
| "apply_op (OpRetry at) ws = retryProvisioning ws at"
| "apply_op (OpSnapshot i at) ws = Ok (recordSnapshot ws i at)"
| "apply_op (OpRestore i at) ws = restoreToSnapshot ws i at"
| "apply_op (OpSnapshotLost at) ws = markSnapshotLost ws at"
| "apply_op (OpTaskLost at) ws = markTaskLost ws at"
| "apply_op (OpActivity at) ws = markActivity ws at"
| "apply_op (OpFunctional p at) ws = Ok (recordFunctional ws p at)"
| "apply_op (OpSessions ss at) ws = Ok (recordSessions ws ss at)"
| "apply_op (OpRecovered at) ws = markRecovered ws at"

definition op_step :: "workspace \<Rightarrow> ws_op \<Rightarrow> workspace option" where
  "op_step ws op = (case apply_op op ws of Ok ws' \<Rightarrow> Some ws' | Err _ \<Rightarrow> None)"

text \<open>
  The record invariant: a workspace that is scaled to zero or gone names no task, volume
  or host; a tombstone carries the time and the intent of its delete and is not shared;
  a manual stop in progress carries its request time.
\<close>

definition ws_inv :: "workspace \<Rightarrow> bool" where
  "ws_inv ws \<longleftrightarrow>
     (state ws \<in> {Stopped, Terminated} \<longrightarrow>
        volumeId ws = None \<and> taskId ws = None \<and> sshHost ws = None) \<and>
     (state ws = Deleting \<longrightarrow> deleteRequestedAt ws \<noteq> None \<and> desiredState ws = Some Deleted) \<and>
     (state ws = Terminated \<longrightarrow> terminatedAt ws \<noteq> None) \<and>
     (state ws = Stopping \<longrightarrow> stopRequestedAt ws \<noteq> None) \<and>
     (state ws \<in> {Deleting, Terminated} \<longrightarrow> shareEnabled ws \<noteq> Some True)"

section \<open>Unfolding rules\<close>

lemmas ws_op_defs [core_defs] =
  markStopping_def cancelStopping_def markStopped_def markTerminated_def undeleteWorkspace_def
  markDeleting_def setShare_def markWaking_def markProvisioned_def deferPlacement_def
  markProvisioningFailed_def retryProvisioning_def recordSnapshot_def restoreToSnapshot_def
  markSnapshotLost_def markTaskLost_def markActivity_def recordFunctional_def recordSessions_def
  markRecovered_def noPlacementWait_def

fun_cases apply_opE: "apply_op op ws = r"

lemmas op_simps = core_defs result_map_Ok_iff Let_def TRANSITIONS_event_simps SHAREABLE_STATES_def

lemma op_step_Some: "op_step ws op = Some ws' \<longleftrightarrow> apply_op op ws = Ok ws'"
  by (simp add: op_step_def split: result.split)

lemma state_noPlacementWait [simp]: "state (noPlacementWait ws) = state ws"
  by (simp add: noPlacementWait_def)

lemma state_recordFunctional [simp]: "state (recordFunctional ws p at) = state ws"
  by (simp add: recordFunctional_def Let_def split: option.split)

lemma state_recordSessions [simp]: "state (recordSessions ws ss at) = state ws"
  by (simp add: recordSessions_def)

lemma state_recordSnapshot [simp]: "state (recordSnapshot ws i at) = state ws"
  by (simp add: recordSnapshot_def)

section \<open>One operation\<close>

text \<open>An operation leaves the state alone or follows an edge of the lifecycle.\<close>

lemma op_edge:
  "apply_op op ws = Ok ws' \<Longrightarrow> state ws' = state ws \<or> lifecycle_edge (state ws) (state ws')"
  by (cases op) (auto simp: op_simps split: if_splits sum.splits option.splits)

definition same_identity :: "workspace \<Rightarrow> workspace \<Rightarrow> bool" where
  "same_identity ws ws' \<longleftrightarrow>
     wsId ws' = wsId ws \<and> ownerId ws' = ownerId ws \<and> ownerEmail ws' = ownerEmail ws \<and>
     baseImage ws' = baseImage ws \<and> resources ws' = resources ws \<and>
     createdAt ws' = createdAt ws \<and> editor ws' = editor ws"

lemma op_identity: "apply_op op ws = Ok ws' \<Longrightarrow> same_identity ws ws'"
  by (cases op)
    (auto simp: op_simps same_identity_def split: if_splits sum.splits option.splits)

lemma same_identity_trans:
  "\<lbrakk>same_identity a b; same_identity b c\<rbrakk> \<Longrightarrow> same_identity a c"
  by (simp add: same_identity_def)

lemma same_identity_refl [simp]: "same_identity a a"
  by (simp add: same_identity_def)

lemma ws_inv_frame [simp]:
  "ws_inv (recordSnapshot ws i at) = ws_inv ws"
  "ws_inv (recordFunctional ws p at) = ws_inv ws"
  "ws_inv (recordSessions ws ss at) = ws_inv ws"
  by (simp_all add: ws_inv_def recordSnapshot_def recordFunctional_def recordSessions_def Let_def
      split: option.split)

lemma guarded_ws_inv:
  assumes "ws_inv ws"
  shows "setShare ws b at = Ok ws' \<Longrightarrow> ws_inv ws'"
    and "markSnapshotLost ws at = Ok ws' \<Longrightarrow> ws_inv ws'"
    and "markTaskLost ws at = Ok ws' \<Longrightarrow> ws_inv ws'"
    and "restoreToSnapshot ws i at = Ok ws' \<Longrightarrow> ws_inv ws'"
    and "markActivity ws at = Ok ws' \<Longrightarrow> ws_inv ws'"
  using assms
  by (cases "state ws"; cases b;
      clarsimp simp: ws_inv_def setShare_def SHAREABLE_STATES_def markSnapshotLost_def
        markTaskLost_def restoreToSnapshot_def markActivity_def TRANSITIONS_event_simps
        result_map_Ok_iff split: if_splits)+

lemma op_ws_inv:
  assumes inv: "ws_inv ws" and ok: "apply_op op ws = Ok ws'"
  shows "ws_inv ws'"
proof (cases op)
  case (OpShare b at)
  with ok show ?thesis by (auto elim: guarded_ws_inv [OF inv])
next
  case (OpSnapshotLost at)
  with ok show ?thesis by (auto elim: guarded_ws_inv [OF inv])
next
  case (OpTaskLost at)
  with ok show ?thesis by (auto elim: guarded_ws_inv [OF inv])
next
  case (OpRestore i at)
  with ok show ?thesis by (auto elim: guarded_ws_inv [OF inv])
next
  case (OpActivity at)
  with ok show ?thesis by (auto elim: guarded_ws_inv [OF inv])
next
  case (OpSnapshot i at)
  with ok inv show ?thesis by auto
next
  case (OpFunctional p at)
  with ok inv show ?thesis by auto
next
  case (OpSessions ss at)
  with ok inv show ?thesis by auto
qed (use ok inv in \<open>auto simp: ws_inv_def op_simps split: if_splits sum.splits\<close>)

section \<open>Any history\<close>

text \<open>
  Two invariants of the same machine, through the lifecycle's interface: the record
  invariant, and that the workspace a history starts from keeps its identity.
\<close>

interpretation history: transition_system op_step ws_inv
  by unfold_locales (auto simp: op_step_Some intro: op_ws_inv)

interpretation descent: transition_system op_step "same_identity ws0" for ws0
  by unfold_locales (auto simp: op_step_Some dest: op_identity intro: same_identity_trans)

lemma reserve_Inr:
  "reserve p = Inr ws \<Longrightarrow>
     state ws = Provisioning \<and> taskId ws = None \<and> volumeId ws = None \<and> sshHost ws = None \<and>
     ws_inv ws \<and> isValidWorkspaceResourcePair (resources ws) \<and> wsId ws = pp_id p \<and>
     ownerId ws = pp_ownerId p \<and> createdAt ws = pp_at p \<and> latestSnapshotId ws = None \<and>
     placementRetryAt ws = None"
  by (auto simp: reserve_def ws_inv_def split: sum.splits)

section \<open>A sample workspace\<close>

text \<open>A concrete reservation, on which the witnesses run.\<close>

definition sample_params :: provision_params where
  "sample_params = \<lparr>pp_id = ''ws-1'', pp_ownerId = ''o-1'', pp_ownerEmail = None,
     pp_ownerRole = Some Developer, pp_repoUrl = None, pp_baseImage = ''golden'',
     pp_editor = Some Monaco, pp_resources = None, pp_snapshotIntervalMs = None,
     pp_idleStopMs = None, pp_alwaysOn = None, pp_at = Iso 0\<rparr>"

definition sample_ws :: workspace where
  "sample_ws = projr (reserve sample_params)"

lemma reserve_sample [simp]: "reserve sample_params = Inr sample_ws"
  by (simp add: sample_ws_def reserve_def sample_params_def orElse_def del: defaultResourcesForEditor.simps)

lemma sample_ws_fields [simp]:
  "state sample_ws = Provisioning" "taskId sample_ws = None" "volumeId sample_ws = None" "placementAttempts sample_ws = None"
  "latestSnapshotId sample_ws = None" "latestSnapshotAt sample_ws = None" "wsId sample_ws = ''ws-1''"
  "ownerId sample_ws = ''o-1''" "createdAt sample_ws = Iso 0" "resources sample_ws = defaultResourcesForEditor Monaco"
  by (simp_all add: sample_ws_def reserve_def sample_params_def orElse_def
      del: defaultResourcesForEditor.simps)

section \<open>The invariant of a history\<close>

text \<open>
  C22. A workspace that was reserved keeps, through every history of pure operations, the
  record invariant, a valid task size and its identity; and the last operation of the
  history left the state alone or followed one edge of the lifecycle table.
\<close>

theorem history_invariant:
  assumes "reserve p = Inr ws0" and "run_events op_step ws0 (ops @ [op]) = Some ws"
  shows "ws_inv ws \<and> isValidWorkspaceResourcePair (resources ws) \<and>
         wsId ws = pp_id p \<and> ownerId ws = pp_ownerId p \<and> createdAt ws = pp_at p \<and>
         (\<exists>prev. run_events op_step ws0 ops = Some prev \<and>
            (state ws = state prev \<or> lifecycle_edge (state prev) (state ws)))"
proof -
  note start = reserve_Inr [OF assms(1)]
  have "ws_inv ws" using history.run_inv [OF _ assms(2)] start by simp
  moreover have "same_identity ws0 ws"
    using descent.run_inv [OF _ assms(2), of ws0] by simp
  moreover obtain prev where "run_events op_step ws0 ops = Some prev" "op_step prev op = Some ws"
    using assms(2) by (auto simp: history.run_append split: Option.bind_splits option.splits)
  ultimately show ?thesis using start op_edge by (auto simp: same_identity_def op_step_Some)
qed

theorem history_invariant_witness:
  "\<exists>ws. run_events op_step sample_ws
     ([OpProvisioned ''vol-1'' ''task-1'' (Iso 1) None, OpStopping (Iso 2) None,
       OpStopped (Some (''snap-1'', Iso 3)) (Iso 3), OpDeleting (Iso 4)] @ [OpTerminated (Iso 5)]) =
       Some ws \<and>
     state ws = Terminated \<and> ws_inv ws \<and> wsId ws = ''ws-1''"
proof -
  obtain ws where run: "run_events op_step sample_ws
     ([OpProvisioned ''vol-1'' ''task-1'' (Iso 1) None, OpStopping (Iso 2) None,
       OpStopped (Some (''snap-1'', Iso 3)) (Iso 3), OpDeleting (Iso 4)] @ [OpTerminated (Iso 5)]) =
     Some ws"
    and st: "state ws = Terminated"
    by (simp add: op_step_def op_simps)
  from history_invariant [OF reserve_sample run] run st show ?thesis
    by (auto simp: sample_params_def)
qed

section \<open>The placement-retry policy\<close>

lemma retry_delays:
  "placementRetryDelayMs 1 = 15000" "placementRetryDelayMs 2 = 30000"
  "placementRetryDelayMs 3 = 60000" "placementRetryDelayMs 4 = 120000"
  by (simp_all add: placementRetryDelayMs_def PLACEMENT_RETRY_BASE_MS_def PLACEMENT_RETRY_MAX_MS_def)

lemma retry_delay_max:
  assumes "4 \<le> n" shows "placementRetryDelayMs n = PLACEMENT_RETRY_MAX_MS"
proof -
  have "(2::int) ^ 3 \<le> 2 ^ nat (max 0 (n - 1))"
    by (rule power_increasing) (use assms in auto)
  then show ?thesis by (simp add: placementRetryDelayMs_def PLACEMENT_RETRY_BASE_MS_def PLACEMENT_RETRY_MAX_MS_def)
qed

lemma retry_delay_bounds:
  "PLACEMENT_RETRY_BASE_MS \<le> placementRetryDelayMs n \<and> placementRetryDelayMs n \<le> PLACEMENT_RETRY_MAX_MS"
  by (simp add: placementRetryDelayMs_def PLACEMENT_RETRY_BASE_MS_def PLACEMENT_RETRY_MAX_MS_def)

lemma retry_delay_mono: "m \<le> n \<Longrightarrow> placementRetryDelayMs m \<le> placementRetryDelayMs n"
proof -
  assume "m \<le> n"
  then have "(2::int) ^ nat (max 0 (m - 1)) \<le> 2 ^ nat (max 0 (n - 1))"
    by (intro power_increasing) auto
  then show ?thesis
    unfolding placementRetryDelayMs_def PLACEMENT_RETRY_BASE_MS_def
    by (intro min.mono mult_left_mono) auto
qed

text \<open>A workspace that waits for capacity, and what a refusal does to it.\<close>

definition waiting :: "workspace \<Rightarrow> bool" where
  "waiting ws \<longleftrightarrow> state ws = Provisioning \<and> taskId ws = None"

lemma deferPlacement_cases:
  "deferPlacement ws reason (Iso n) =
     (if \<not> waiting ws then Inr (Err (Conflict (''workspace '' @ wsId ws @ '' is not waiting to be placed ('' @
          state_name (state ws) @ '')'')))
      else if MAX_PLACEMENT_ATTEMPTS \<le> orElse (placementAttempts ws) 0 then
        Inr (Err (Conflict (''workspace '' @ wsId ws @ '' was refused placement '' @
            int_text (orElse (placementAttempts ws) 0 + 1) @ '' times; no capacity: '' @ reason)))
      else Inr (Ok (ws\<lparr>lastActivity := Iso n, placementReason := Some reason,
               placementAttempts := Some (orElse (placementAttempts ws) 0 + 1),
               placementRetryAt := Some (Iso (n + placementRetryDelayMs (orElse (placementAttempts ws) 0 + 1)))\<rparr>)))"
  by (auto simp: deferPlacement_def waiting_def Let_def)

text \<open>The sequence of refusals a launch may meet.\<close>

definition refusals :: "(string \<times> int) list \<Rightarrow> ws_op list" where
  "refusals rs = map (\<lambda>(reason, at). OpDefer reason (Iso at)) rs"

lemma refusals_run:
  assumes "waiting ws" "orElse (placementAttempts ws) 0 \<le> MAX_PLACEMENT_ATTEMPTS"
  shows "(case run_events op_step ws (refusals rs) of
     None \<Rightarrow> MAX_PLACEMENT_ATTEMPTS < orElse (placementAttempts ws) 0 + int (length rs)
   | Some ws' \<Rightarrow> waiting ws' \<and> orElse (placementAttempts ws') 0 = orElse (placementAttempts ws) 0 + int (length rs)
        \<and> orElse (placementAttempts ws') 0 \<le> MAX_PLACEMENT_ATTEMPTS)"
  using assms
proof (induction rs arbitrary: ws)
  case (Cons r rs)
  obtain reason n where [simp]: "r = (reason, n)" by (cases r)
  show ?case
  proof (cases "MAX_PLACEMENT_ATTEMPTS \<le> orElse (placementAttempts ws) 0")
    case True
    then show ?thesis using Cons.prems by (simp add: refusals_def op_step_def deferPlacement_cases)
  next
    case False
    define ws' where "ws' = ws\<lparr>lastActivity := Iso n, placementReason := Some reason,
               placementAttempts := Some (orElse (placementAttempts ws) 0 + 1),
               placementRetryAt := Some (Iso (n + placementRetryDelayMs (orElse (placementAttempts ws) 0 + 1)))\<rparr>"
    have step: "op_step ws (OpDefer reason (Iso n)) = Some ws'"
      using False Cons.prems by (simp add: op_step_def deferPlacement_cases ws'_def)
    have w: "waiting ws'" "orElse (placementAttempts ws') 0 = orElse (placementAttempts ws) 0 + 1"
      using Cons.prems by (simp_all add: ws'_def waiting_def orElse_def)
    then show ?thesis using Cons.IH [of ws'] step False by (auto simp: refusals_def split: option.splits)
  qed
qed (simp add: refusals_def)

text \<open>
  Waiting for capacity is bounded: from a launch that was not refused yet, any sequence
  of refusals is deferred if and only if it has at most eight members; the ninth is the
  error that ends the wait.
\<close>

theorem placement_budget:
  assumes "state ws = Provisioning" and "taskId ws = None" and "placementAttempts ws = None"
  shows "run_events op_step ws (refusals rs) \<noteq> None \<longleftrightarrow> length rs \<le> 8"
  using refusals_run [of ws rs] assms
  by (auto simp: waiting_def orElse_def MAX_PLACEMENT_ATTEMPTS_def split: option.splits)

theorem placement_budget_witness:
  "run_events op_step sample_ws (refusals [(''RESOURCE:ENI'', 0), (''RESOURCE:ENI'', 15000)]) \<noteq> None"
  using placement_budget [of sample_ws "[(''RESOURCE:ENI'', 0), (''RESOURCE:ENI'', 15000)]"]
  by simp

text \<open>
  A deferred launch comes due exactly its delay after the refusal, and the delay is
  between fifteen seconds and two minutes; at a time that does not parse it is never due.
\<close>

theorem placement_retry_schedule:
  assumes "deferPlacement ws reason at = Inr (Ok ws')"
  shows "\<exists>n d. at = Iso n \<and> d = placementRetryDelayMs (orElse (placementAttempts ws') 0) \<and>
           15000 \<le> d \<and> d \<le> 120000 \<and>
           (\<forall>now. placementDue ws' now \<longleftrightarrow> (\<exists>m. now = Iso m \<and> n + d \<le> m))"
  using assms retry_delay_bounds
  by (cases at)
    (auto simp: deferPlacement_def Let_def placementDue_def js_le_iff orElse_def
      PLACEMENT_RETRY_BASE_MS_def PLACEMENT_RETRY_MAX_MS_def split: if_splits)

theorem placement_retry_schedule_witness:
  "\<exists>ws'. deferPlacement sample_ws ''RESOURCE:ENI'' (Iso 7) = Inr (Ok ws') \<and>
         \<not> placementDue ws' (Iso 15006)"
proof -
  obtain ws' where d: "deferPlacement sample_ws ''RESOURCE:ENI'' (Iso 7) = Inr (Ok ws')"
    by (simp add: deferPlacement_cases waiting_def orElse_def MAX_PLACEMENT_ATTEMPTS_def)
  from placement_retry_schedule [OF d] d show ?thesis by auto
qed

section \<open>What outlives a session\<close>

text \<open>
  A spectate share survives the loss of its task: the record goes to stopped with
  sharing still enabled, and so it is again when the workspace wakes.
\<close>

theorem sharing_outlives_lost_task:
  "\<exists>ws. run_events op_step sample_ws
     [OpProvisioned ''vol-1'' ''task-1'' (Iso 1) None, OpShare True (Iso 2),
      OpSnapshot ''snap-1'' (Iso 3), OpTaskLost (Iso 4), OpWaking (Iso 5),
      OpProvisioned ''vol-2'' ''task-2'' (Iso 6) None] = Some ws \<and>
     state ws = Running \<and> shareEnabled ws = Some True"
  by (simp add: op_step_def op_simps)

text \<open>
  A delete does not end a wait for capacity: a workspace deleted while it waited, and
  undeleted and woken later, is due for a deferred launch at the instant of that wake.
\<close>

theorem stale_placement_wait:
  "\<exists>ws. run_events op_step sample_ws
     [OpProvisioned ''vol-1'' ''task-1'' (Iso 1) None,
      OpStopped (Some (''snap-1'', Iso 2)) (Iso 2), OpWaking (Iso 3),
      OpDefer ''RESOURCE:ENI'' (Iso 4), OpDeleting (Iso 5), OpTerminated (Iso 6),
      OpUndelete (Iso 100000), OpWaking (Iso 100001)] = Some ws \<and>
     state ws = Provisioning \<and> placementDue ws (Iso 100001)"
  by (simp add: op_step_def op_simps deferPlacement_cases waiting_def orElse_def orElseOpt_def
      MAX_PLACEMENT_ATTEMPTS_def retry_delays placementDue_def)

end
