(* ===== verification/Maintenance.thy ===== *)
theory Maintenance
  imports Workspace
begin

text \<open>
  The pure decisions of the background sweeps: the orphan selectors and the snapshot
  schedule (\<^verbatim>\<open>packages/core/src/maintenance/select.ts\<close>), the idle selector
  (\<^verbatim>\<open>services/reconciler/src/index.ts\<close>) and the control plane's own scale-to-zero and wake
  decisions (\<^verbatim>\<open>packages/core/src/system/control-plane-scale.ts\<close>). The four orphan
  selectors share one contract, \<open>reaper\<close>, under which their safety is shown once.
\<close>

section \<open>The references the selectors read\<close>

record volume_ref =
  vr_id :: string
  vr_createdAt :: iso_timestamp

record snapshot_ref =
  sr_id :: string
  sr_createdAt :: iso_timestamp
  sr_sourceVolumeId :: string
  sr_retained :: "bool option"
  sr_workspaceId :: "string option"
  sr_sizeGiB :: "int option"

record workspace_task_ref =
  tr_id :: string
  tr_workspaceId :: string
  tr_startedAt :: iso_timestamp

record workspace_agent_secret_ref =
  ar_name :: string
  ar_workspaceId :: string
  ar_createdAt :: iso_timestamp

record snapshot_candidate =
  sc_id :: string
  sc_latestSnapshotAt :: "iso_timestamp option"
  sc_createdAt :: "iso_timestamp option"
  sc_snapshotIntervalMs :: "int option"

record active_workspace =
  aw_id :: string
  aw_lastActivity :: iso_timestamp
  aw_idleStopMs :: "int option"
  aw_alwaysOn :: "bool option"

section \<open>Selectors\<close>

definition olderThan :: "iso_timestamp \<Rightarrow> iso_timestamp \<Rightarrow> int \<Rightarrow> bool" where
  "olderThan created now ms = js_le (Some ms) (elapsed now created)"

definition selectOrphanVolumes ::
  "volume_ref list \<Rightarrow> string set \<Rightarrow> iso_timestamp \<Rightarrow> int \<Rightarrow> string list" where
  "selectOrphanVolumes existing referenced now graceMs =
     map vr_id (filter (\<lambda>v. vr_id v \<notin> referenced \<and> olderThan (vr_createdAt v) now graceMs)
       existing)"

definition selectOrphanSnapshots ::
  "snapshot_ref list \<Rightarrow> string set \<Rightarrow> iso_timestamp \<Rightarrow> int \<Rightarrow> string list" where
  "selectOrphanSnapshots existing referenced now graceMs =
     map sr_id (filter (\<lambda>s. sr_retained s \<noteq> Some True \<and> sr_id s \<notin> referenced \<and>
       olderThan (sr_createdAt s) now graceMs) existing)"

definition selectOrphanTasks ::
  "workspace_task_ref list \<Rightarrow> string set \<Rightarrow> iso_timestamp \<Rightarrow> int \<Rightarrow> workspace_task_ref list" where
  "selectOrphanTasks existing referenced now graceMs =
     filter (\<lambda>t. tr_id t \<notin> referenced \<and> olderThan (tr_startedAt t) now graceMs) existing"

definition selectOrphanSecrets ::
  "workspace_agent_secret_ref list \<Rightarrow> string set \<Rightarrow> iso_timestamp \<Rightarrow> int \<Rightarrow>
   workspace_agent_secret_ref list" where
  "selectOrphanSecrets existing liveWorkspaceIds now graceMs =
     filter (\<lambda>s. ar_workspaceId s \<notin> liveWorkspaceIds \<and> olderThan (ar_createdAt s) now graceMs)
       existing"

text \<open>The optional early cadence is the pair of its interval and of the session's youth.\<close>

definition snapshot_interval ::
  "snapshot_candidate \<Rightarrow> iso_timestamp \<Rightarrow> int \<Rightarrow> (int \<times> int) option \<Rightarrow> int" where
  "snapshot_interval c now intervalMs early =
     (let isYoung =
        (case (early, sc_createdAt c) of
           (Some (_, sessionMs), Some created) \<Rightarrow> \<not> olderThan created now sessionMs
         | _ \<Rightarrow> False);
        earlyIntervalMs = map_option fst early
      in orElse (orElseOpt (sc_snapshotIntervalMs c) (if isYoung then earlyIntervalMs else None))
           intervalMs)"

definition selectDueForSnapshot ::
  "snapshot_candidate list \<Rightarrow> iso_timestamp \<Rightarrow> int \<Rightarrow> (int \<times> int) option \<Rightarrow> string list" where
  "selectDueForSnapshot candidates now intervalMs early =
     map sc_id (filter (\<lambda>c. case sc_latestSnapshotAt c of
         None \<Rightarrow> True
       | Some t \<Rightarrow> olderThan t now (snapshot_interval c now intervalMs early)) candidates)"

definition selectIdle :: "active_workspace list \<Rightarrow> iso_timestamp \<Rightarrow> int \<Rightarrow> string list" where
  "selectIdle active now idleThresholdMs =
     map aw_id (filter (\<lambda>w. js_le (Some (orElse (aw_idleStopMs w) idleThresholdMs))
         (elapsed now (aw_lastActivity w)))
       (filter (\<lambda>w. aw_alwaysOn w \<noteq> Some True) active))"

section \<open>Control-plane scale decisions\<close>

datatype control_plane_scale_decision =
    Hold string
  | ScaleToZero string
  | WakeTo int string

definition decideControlPlaneIdle ::
  "int \<Rightarrow> iso_timestamp option \<Rightarrow> iso_timestamp \<Rightarrow> int \<Rightarrow> control_plane_scale_decision" where
  "decideControlPlaneIdle currentDesired lastActivityAt now idleThresholdMs =
     (if currentDesired \<le> 0 then Hold ''already scaled to zero''
      else case lastActivityAt of
        None \<Rightarrow> Hold ''no activity recorded yet (startup grace)''
      | Some at \<Rightarrow>
          (case elapsed now at of
             None \<Rightarrow> Hold ''unparseable activity/now timestamp''
           | Some idleForMs \<Rightarrow>
               if idleThresholdMs \<le> idleForMs then
                 ScaleToZero (''idle for '' @ int_text idleForMs @ ''ms (>= '' @
                   int_text idleThresholdMs @ ''ms)'')
               else Hold (''last active '' @ int_text (max 0 idleForMs) @ ''ms ago'')))"

definition decideControlPlaneWake :: "int \<Rightarrow> int \<Rightarrow> control_plane_scale_decision" where
  "decideControlPlaneWake currentDesired activeDesired =
     (if activeDesired \<le> 0 then Hold ''active desired count is not positive''
      else if activeDesired \<le> currentDesired then
        Hold (''already at '' @ int_text currentDesired @ '' desired'')
      else WakeTo activeDesired
        (''waking '' @ int_text currentDesired @ '' -> '' @ int_text activeDesired))"

section \<open>The contract of an orphan selector\<close>

text \<open>
  A selector is given what exists, a keep-set, the time and a grace period. What it names
  is named because of a reference that exists, is not exempt, whose key is not kept, and
  whose age is at least the grace period.
\<close>

definition aged :: "iso_timestamp \<Rightarrow> iso_timestamp \<Rightarrow> int \<Rightarrow> bool" where
  "aged born now graceMs \<longleftrightarrow> (\<exists>n t. now = Iso n \<and> born = Iso t \<and> graceMs \<le> n - t)"

lemma olderThan_iff_aged [simp]: "olderThan born now ms \<longleftrightarrow> aged born now ms"
  by (simp add: olderThan_def aged_def time_simps)

lemma aged_Iso [simp]: "aged (Iso t) (Iso n) ms \<longleftrightarrow> ms \<le> n - t"
  by (simp add: aged_def)

lemma aged_Malformed [simp]: "\<not> aged Malformed now ms" "\<not> aged born Malformed ms"
  by (simp_all add: aged_def)

lemma aged_later: "\<lbrakk>aged born (Iso n) ms; n \<le> m\<rbrakk> \<Longrightarrow> aged born (Iso m) ms"
  by (auto simp: aged_def)

locale reaper =
  fixes sel :: "'r list \<Rightarrow> string set \<Rightarrow> iso_timestamp \<Rightarrow> int \<Rightarrow> 'o list"
    and named :: "'r \<Rightarrow> 'o"
    and key :: "'r \<Rightarrow> string"
    and born :: "'r \<Rightarrow> iso_timestamp"
    and exempt :: "'r \<Rightarrow> bool"
  assumes selected_iff:
    "x \<in> set (sel existing keep now graceMs) \<longleftrightarrow>
       (\<exists>r \<in> set existing. x = named r \<and> \<not> exempt r \<and> key r \<notin> keep \<and> aged (born r) now graceMs)"
begin

lemma unreadable_clock: "sel existing keep Malformed graceMs = []"
  by (rule no_members) (simp add: selected_iff)

lemma keep_antimono:
  "keep \<subseteq> keep' \<Longrightarrow>
    set (sel existing keep' now graceMs) \<subseteq> set (sel existing keep now graceMs)"
  by (fastforce simp: selected_iff)

lemma converges:
  assumes "\<And>r. r \<in> set left \<Longrightarrow> r \<in> set existing \<and> named r \<notin> set (sel existing keep now graceMs)"
  shows "sel left keep now graceMs = []"
  by (rule no_members) (use assms in \<open>fastforce simp: selected_iff\<close>)

lemma eventually:
  assumes "r \<in> set existing" "\<not> exempt r" "key r \<notin> keep" "born r = Iso t" "t + graceMs \<le> n"
  shows "named r \<in> set (sel existing keep (Iso n) graceMs)"
  using assms by (auto simp: selected_iff)

end

interpretation volumes: reaper selectOrphanVolumes vr_id vr_id vr_createdAt "\<lambda>_. False"
  by unfold_locales (auto simp: selectOrphanVolumes_def)

interpretation snapshots: reaper selectOrphanSnapshots sr_id sr_id sr_createdAt
  "\<lambda>s. sr_retained s = Some True"
  by unfold_locales (auto simp: selectOrphanSnapshots_def)

interpretation tasks: reaper selectOrphanTasks "\<lambda>t. t" tr_id tr_startedAt "\<lambda>_. False"
  by unfold_locales (auto simp: selectOrphanTasks_def)

interpretation secrets: reaper selectOrphanSecrets "\<lambda>s. s" ar_workspaceId ar_createdAt "\<lambda>_. False"
  by unfold_locales (auto simp: selectOrphanSecrets_def)

section \<open>Properties\<close>

text \<open>
  Snapshot collection is safe and complete. Where the ids of the existing snapshots
  are distinct, a snapshot is selected exactly when it is not retained, no workspace
  refers to it, and it is at least the grace period old; nothing is selected when the
  clock or the creation time cannot be read.
\<close>

theorem selectOrphanSnapshots_exact:
  assumes "distinct (map sr_id existing)" and "s \<in> set existing"
  shows "sr_id s \<in> set (selectOrphanSnapshots existing referenced now graceMs) \<longleftrightarrow>
     sr_retained s \<noteq> Some True \<and> sr_id s \<notin> referenced \<and>
     (\<exists>n t. now = Iso n \<and> sr_createdAt s = Iso t \<and> graceMs \<le> n - t)"
  using assms by (auto simp: snapshots.selected_iff aged_def dest: unique_names)

definition sample_snapshots :: "snapshot_ref list" where
  "sample_snapshots =
     [\<lparr>sr_id = ''a'', sr_createdAt = Iso 0, sr_sourceVolumeId = ''v'', sr_retained = None,
       sr_workspaceId = None, sr_sizeGiB = None\<rparr>,
      \<lparr>sr_id = ''b'', sr_createdAt = Iso 0, sr_sourceVolumeId = ''v'', sr_retained = Some True,
       sr_workspaceId = None, sr_sizeGiB = None\<rparr>,
      \<lparr>sr_id = ''c'', sr_createdAt = Malformed, sr_sourceVolumeId = ''v'', sr_retained = None,
       sr_workspaceId = None, sr_sizeGiB = None\<rparr>]"

theorem selectOrphanSnapshots_exact_witness:
  "''a'' \<in> set (selectOrphanSnapshots sample_snapshots {} (Iso 10) 10) \<and>
   ''b'' \<notin> set (selectOrphanSnapshots sample_snapshots {} (Iso 10) 10)"
  using selectOrphanSnapshots_exact [of sample_snapshots "sample_snapshots ! 0" "{}" "Iso 10" 10]
    selectOrphanSnapshots_exact [of sample_snapshots "sample_snapshots ! 1" "{}" "Iso 10" 10]
  by (simp add: sample_snapshots_def)

text \<open>
  No reaper touches what a workspace record names or what is younger than the grace
  period: a selected volume, task or secret is unreferenced and has aged, whatever the
  list of existing ones is, and with an unreadable clock the four selectors select nothing.
\<close>

theorem reapers_safe:
  "(\<forall>v \<in> set (selectOrphanVolumes vs keep now g).
      v \<notin> keep \<and> (\<exists>r \<in> set vs. vr_id r = v \<and> aged (vr_createdAt r) now g)) \<and>
   (\<forall>t \<in> set (selectOrphanTasks ts keep now g).
      tr_id t \<notin> keep \<and> t \<in> set ts \<and> aged (tr_startedAt t) now g) \<and>
   (\<forall>s \<in> set (selectOrphanSecrets ss keep now g).
      ar_workspaceId s \<notin> keep \<and> s \<in> set ss \<and> aged (ar_createdAt s) now g) \<and>
   selectOrphanVolumes vs keep Malformed g = [] \<and> selectOrphanTasks ts keep Malformed g = [] \<and>
   selectOrphanSecrets ss keep Malformed g = [] \<and> selectOrphanSnapshots sn keep Malformed g = []"
  by (auto simp: volumes.selected_iff tasks.selected_iff secrets.selected_iff
      volumes.unreadable_clock tasks.unreadable_clock secrets.unreadable_clock
      snapshots.unreadable_clock)

theorem reapers_safe_witness:
  "\<exists>v \<in> set (selectOrphanVolumes [\<lparr>vr_id = ''v'', vr_createdAt = Iso 0\<rparr>] {''w''} (Iso 9) 9).
     v \<notin> {''w''}"
  using reapers_safe [of "[\<lparr>vr_id = ''v'', vr_createdAt = Iso 0\<rparr>]" "{''w''}" "Iso 9" 9 "[]" "[]" "[]"]
  by (simp add: volumes.selected_iff)

text \<open>
  The snapshot schedule. A workspace with no snapshot is always due; one with a
  snapshot is due exactly when that snapshot is as old as the interval that applies: its
  own, else the early one while the workspace is young, else the steady one.
\<close>

theorem selectDueForSnapshot_exact:
  assumes "distinct (map sc_id cs)" and "c \<in> set cs" and "sc_createdAt c = Some (Iso born)"
  shows "sc_id c \<in> set (selectDueForSnapshot cs (Iso n) steady (Some (early, session))) \<longleftrightarrow>
    (case sc_latestSnapshotAt c of
       None \<Rightarrow> True
     | Some taken \<Rightarrow> aged taken (Iso n)
         (case sc_snapshotIntervalMs c of
            Some own \<Rightarrow> own
          | None \<Rightarrow> if n - born < session then early else steady))"
  unfolding selectDueForSnapshot_def set_map name_of_filtered [OF assms(1,2)]
  using assms(3)
  by (auto simp: snapshot_interval_def orElse_def orElseOpt_def not_le split: option.split)

theorem selectDueForSnapshot_exact_witness:
  "''w'' \<in> set (selectDueForSnapshot
     [\<lparr>sc_id = ''w'', sc_latestSnapshotAt = Some (Iso 0), sc_createdAt = Some (Iso 0),
       sc_snapshotIntervalMs = None\<rparr>] (Iso 5) 60 (Some (5, 10)))"
  using selectDueForSnapshot_exact
    [of "[\<lparr>sc_id = ''w'', sc_latestSnapshotAt = Some (Iso 0), sc_createdAt = Some (Iso 0),
           sc_snapshotIntervalMs = None\<rparr>]"
        "\<lparr>sc_id = ''w'', sc_latestSnapshotAt = Some (Iso 0), sc_createdAt = Some (Iso 0),
          sc_snapshotIntervalMs = None\<rparr>" 0 5 60 5 10]
  by simp

text \<open>
  The idle selector names a workspace exactly when it is not always-on and its last
  activity is as old as its own window, or as the deployment's where it has none.
\<close>

theorem selectIdle_exact:
  assumes "distinct (map aw_id ws)" and "w \<in> set ws"
  shows "aw_id w \<in> set (selectIdle ws now ms) \<longleftrightarrow>
    aw_alwaysOn w \<noteq> Some True \<and>
    aged (aw_lastActivity w) now (case aw_idleStopMs w of None \<Rightarrow> ms | Some own \<Rightarrow> own)"
  using assms
  by (auto simp: selectIdle_def orElse_def elapsed_ge_iff aged_def dest: unique_names)

theorem selectIdle_exact_witness:
  "''w'' \<in> set (selectIdle [\<lparr>aw_id = ''w'', aw_lastActivity = Iso 0, aw_idleStopMs = Some 3,
     aw_alwaysOn = None\<rparr>] (Iso 3) 100)"
  using selectIdle_exact [of "[\<lparr>aw_id = ''w'', aw_lastActivity = Iso 0, aw_idleStopMs = Some 3,
      aw_alwaysOn = None\<rparr>]" "\<lparr>aw_id = ''w'', aw_lastActivity = Iso 0, aw_idleStopMs = Some 3,
      aw_alwaysOn = None\<rparr>" "Iso 3" 100]
  by simp

text \<open>
  The control plane scales itself to zero exactly when it runs and a recorded activity
  is at least the threshold old (absent, unreadable or future activity holds), and a wake
  scales up exactly when it is below a positive target, to that target; a second wake after
  the first holds.
\<close>

theorem control_plane_scale_decisions:
  "((\<exists>why. decideControlPlaneIdle desired seen now ms = ScaleToZero why) \<longleftrightarrow>
      0 < desired \<and> (\<exists>at. seen = Some at \<and> aged at now ms)) \<and>
   ((\<exists>why. decideControlPlaneWake desired active = WakeTo target why) \<longleftrightarrow>
      0 < active \<and> desired < active \<and> target = active) \<and>
   (\<exists>why. decideControlPlaneWake active active = Hold why)"
  by (auto simp: decideControlPlaneIdle_def decideControlPlaneWake_def aged_def js_minus_Some
      split: option.splits if_splits)

end
