(* ===== verification/Providers.thy ===== *)
theory Providers
  imports Maintenance
begin

text \<open>
  The storage and compute ports (\<^verbatim>\<open>packages/core/src/storage/storage-provider.ts\<close>,
  \<^verbatim>\<open>compute/compute-provider.ts\<close>) and the two providers of the repository that implement
  them without a cloud, \<^verbatim>\<open>FakeStorageProvider\<close> and \<^verbatim>\<open>FakeComputeProvider\<close>. What the shared
  contract suites (\<^verbatim>\<open>storage-provider-contract.ts\<close>, \<^verbatim>\<open>compute-provider-contract.ts\<close>) test on
  one input each is stated as the laws of two locales and proved for every state of the
  fakes; the clients of the contracts are proved once, inside the locales.
\<close>

section \<open>Port types\<close>

record volume =
  vol_id :: string
  vol_hydratedFrom :: "string option"

record snapshot =
  snap_id :: string
  snap_sourceVolumeId :: string

record compute_task =
  task_id :: string
  task_volumeId :: string
  task_sshHost :: "string option"

record run_task_input =
  rt_workspaceId :: string
  rt_baseImage :: string
  rt_editor :: "editor_kind option"
  rt_fromSnapshot :: "string option"
  rt_repoUrl :: "string option"
  rt_repoRef :: "string option"
  rt_resources :: workspace_resources

datatype task_liveness = TaskRunning | TaskStopped

section \<open>The filesystem-backed storage fake\<close>

text \<open>
  A directory is a map from paths to file contents, given as an association list. The
  directories and the metadata maps are separate, as they are in the source: a write to a
  volume that was never created makes its directory but no metadata. The counter numbers
  the UUIDs drawn so far; \<open>uuid\<close> is what the n-th draw returned.
\<close>

type_synonym files = "(string \<times> string) list"

record volume_meta =
  vm_createdAt :: iso_timestamp
  vm_sizeGiB :: int

record snapshot_meta =
  sm_createdAt :: iso_timestamp
  sm_source :: string
  sm_retained :: bool
  sm_sizeGiB :: int
  sm_workspaceId :: "string option"

record fake_storage =
  volumeDirs :: "(string \<times> files) list"
  volumeMetas :: "(string \<times> volume_meta) list"
  snapshotDirs :: "(string \<times> files) list"
  snapshotMetas :: "(string \<times> snapshot_meta) list"
  uuidsDrawn :: nat

definition FAKE_VOLUME_SIZE_GIB :: int where
  "FAKE_VOLUME_SIZE_GIB = 8"

definition enoent :: js_error where
  "enoent = JsError ''Error'' (Some ''ENOENT'') None ''ENOENT: no such file or directory'' None None"

definition newVolumeId :: "(nat \<Rightarrow> string) \<Rightarrow> nat \<Rightarrow> string" where
  "newVolumeId uuid n = ''vol-'' @ uuid n"

definition newSnapshotId :: "(nat \<Rightarrow> string) \<Rightarrow> nat \<Rightarrow> string" where
  "newSnapshotId uuid n = ''snap-'' @ uuid n"

definition newTaskId :: "(nat \<Rightarrow> string) \<Rightarrow> nat \<Rightarrow> string" where
  "newTaskId uuid n = ''task-'' @ uuid n"

definition newWorkspaceId :: "(nat \<Rightarrow> string) \<Rightarrow> nat \<Rightarrow> string" where
  "newWorkspaceId uuid n = ''ws-'' @ uuid n"

definition sizeOf :: "('a \<Rightarrow> int) \<Rightarrow> 'a option \<Rightarrow> int" where
  "sizeOf f m = (case m of None \<Rightarrow> FAKE_VOLUME_SIZE_GIB | Some x \<Rightarrow> f x)"

text \<open>\<^verbatim>\<open>createVolume\<close>: the directory is made before the copy, so a missing snapshot raises
  with the empty directory left behind and no metadata.\<close>

definition fake_createVolume ::
  "(nat \<Rightarrow> string) \<Rightarrow> iso_timestamp \<Rightarrow> string option \<Rightarrow> fake_storage \<Rightarrow>
   (js_error + volume) \<times> fake_storage" where
  "fake_createVolume uuid now from st =
     (let i = newVolumeId uuid (uuidsDrawn st);
          st1 = st\<lparr>uuidsDrawn := uuidsDrawn st + 1, volumeDirs := AList.update i [] (volumeDirs st)\<rparr>
      in case from of
           None \<Rightarrow>
             (Inr \<lparr>vol_id = i, vol_hydratedFrom = None\<rparr>,
              st1\<lparr>volumeMetas := AList.update i
                    \<lparr>vm_createdAt = now, vm_sizeGiB = FAKE_VOLUME_SIZE_GIB\<rparr> (volumeMetas st1)\<rparr>)
         | Some sn \<Rightarrow>
             (case map_of (snapshotDirs st1) sn of
                None \<Rightarrow> (Inl enoent, st1)
              | Some fs \<Rightarrow>
                  (Inr \<lparr>vol_id = i, vol_hydratedFrom = Some sn\<rparr>,
                   st1\<lparr>volumeDirs := AList.update i fs (volumeDirs st1),
                       volumeMetas := AList.update i
                         \<lparr>vm_createdAt = now,
                          vm_sizeGiB = sizeOf sm_sizeGiB (map_of (snapshotMetas st1) sn)\<rparr>
                         (volumeMetas st1)\<rparr>)))"

definition fake_readFile :: "string \<Rightarrow> string \<Rightarrow> fake_storage \<Rightarrow> string option" where
  "fake_readFile v path st =
     (case map_of (volumeDirs st) v of None \<Rightarrow> None | Some fs \<Rightarrow> map_of fs path)"

definition fake_writeFile ::
  "string \<Rightarrow> string \<Rightarrow> string \<Rightarrow> fake_storage \<Rightarrow> fake_storage" where
  "fake_writeFile v path data st =
     st\<lparr>volumeDirs := AList.update v
          (AList.update path data (case map_of (volumeDirs st) v of None \<Rightarrow> [] | Some fs \<Rightarrow> fs))
          (volumeDirs st)\<rparr>"

definition fake_createSnapshot ::
  "(nat \<Rightarrow> string) \<Rightarrow> iso_timestamp \<Rightarrow> string \<Rightarrow> bool \<Rightarrow> string option \<Rightarrow> fake_storage \<Rightarrow>
   (js_error + snapshot) \<times> fake_storage" where
  "fake_createSnapshot uuid now v retain owner st =
     (let i = newSnapshotId uuid (uuidsDrawn st);
          st1 = st\<lparr>uuidsDrawn := uuidsDrawn st + 1\<rparr>
      in case map_of (volumeDirs st1) v of
           None \<Rightarrow> (Inl enoent, st1)
         | Some fs \<Rightarrow>
             (Inr \<lparr>snap_id = i, snap_sourceVolumeId = v\<rparr>,
              st1\<lparr>snapshotDirs := AList.update i fs (snapshotDirs st1),
                  snapshotMetas := AList.update i
                    \<lparr>sm_createdAt = now, sm_source = v, sm_retained = retain,
                     sm_sizeGiB = sizeOf vm_sizeGiB (map_of (volumeMetas st1) v),
                     sm_workspaceId = owner\<rparr> (snapshotMetas st1)\<rparr>))"

definition fake_tagSnapshotRetained :: "string \<Rightarrow> fake_storage \<Rightarrow> fake_storage" where
  "fake_tagSnapshotRetained sn st =
     (case map_of (snapshotMetas st) sn of
        None \<Rightarrow> st
      | Some m \<Rightarrow>
          st\<lparr>snapshotMetas := AList.update sn (m\<lparr>sm_retained := True\<rparr>) (snapshotMetas st)\<rparr>)"

definition fake_deleteVolume :: "string \<Rightarrow> fake_storage \<Rightarrow> fake_storage" where
  "fake_deleteVolume v st =
     st\<lparr>volumeDirs := AList.delete v (volumeDirs st),
        volumeMetas := AList.delete v (volumeMetas st)\<rparr>"

definition fake_deleteSnapshot :: "string \<Rightarrow> fake_storage \<Rightarrow> fake_storage" where
  "fake_deleteSnapshot sn st =
     st\<lparr>snapshotDirs := AList.delete sn (snapshotDirs st),
        snapshotMetas := AList.delete sn (snapshotMetas st)\<rparr>"

definition fake_listVolumes :: "fake_storage \<Rightarrow> volume_ref list" where
  "fake_listVolumes st =
     map (\<lambda>(i, m). \<lparr>vr_id = i, vr_createdAt = vm_createdAt m\<rparr>) (volumeMetas st)"

definition fake_listSnapshots :: "fake_storage \<Rightarrow> snapshot_ref list" where
  "fake_listSnapshots st =
     map (\<lambda>(i, m). \<lparr>sr_id = i, sr_createdAt = sm_createdAt m, sr_sourceVolumeId = sm_source m,
        sr_retained = (if sm_retained m then Some True else None),
        sr_workspaceId = sm_workspaceId m, sr_sizeGiB = Some (sm_sizeGiB m)\<rparr>)
       (snapshotMetas st)"

section \<open>The compute fake\<close>

text \<open>
  \<^verbatim>\<open>FakeComputeProvider\<close> holds the volume of every running task and asks the storage it is
  given for volumes; both live in one state here, since the source shares one storage
  object between them.
\<close>

record fake_cloud =
  storage :: fake_storage
  taskVolumes :: "(string \<times> string) list"
  placementRefusals :: int
  fixedSshHost :: "string option"

definition CAPACITY_REASON :: string where
  "CAPACITY_REASON = ''Capacity is unavailable at this time. Please try again later or in a different availability zone''"

definition fake_runTask ::
  "(nat \<Rightarrow> string) \<Rightarrow> iso_timestamp \<Rightarrow> run_task_input \<Rightarrow> fake_cloud \<Rightarrow>
   (js_error + compute_task) \<times> fake_cloud" where
  "fake_runTask uuid now inp c =
     (if placementRefusals c > 0 then
        (Inl (PlacementRefusedError CAPACITY_REASON None),
         c\<lparr>placementRefusals := placementRefusals c - 1\<rparr>)
      else
        case fake_createVolume uuid now (rt_fromSnapshot inp) (storage c) of
          (Inl e, st1) \<Rightarrow> (Inl e, c\<lparr>storage := st1\<rparr>)
        | (Inr v, st1) \<Rightarrow>
            let i = newTaskId uuid (uuidsDrawn st1) in
            (Inr \<lparr>task_id = i, task_volumeId = vol_id v, task_sshHost = fixedSshHost c\<rparr>,
             c\<lparr>storage := st1\<lparr>uuidsDrawn := uuidsDrawn st1 + 1\<rparr>,
               taskVolumes := AList.update i (vol_id v) (taskVolumes c)\<rparr>))"

definition fake_stopTask :: "string \<Rightarrow> fake_cloud \<Rightarrow> fake_cloud" where
  "fake_stopTask t c =
     (case map_of (taskVolumes c) t of
        None \<Rightarrow> c
      | Some v \<Rightarrow> c\<lparr>storage := fake_deleteVolume v (storage c),
                    taskVolumes := AList.delete t (taskVolumes c)\<rparr>)"

definition fake_taskState :: "string \<Rightarrow> fake_cloud \<Rightarrow> task_liveness" where
  "fake_taskState t c =
     (case map_of (taskVolumes c) t of None \<Rightarrow> TaskStopped | Some _ \<Rightarrow> TaskRunning)"

section \<open>The storage contract\<close>

text \<open>
  The laws every storage provider obeys. \<open>image\<close> is what a snapshot holds, as a function
  from paths, and \<open>live\<close> tells the volumes that exist; \<open>sound\<close> is the provider's own
  invariant.
\<close>

locale storage_provider =
  fixes createVolume :: "iso_timestamp \<Rightarrow> string option \<Rightarrow> 's \<Rightarrow> (js_error + volume) \<times> 's"
    and readFile :: "string \<Rightarrow> string \<Rightarrow> 's \<Rightarrow> string option"
    and writeFile :: "string \<Rightarrow> string \<Rightarrow> string \<Rightarrow> 's \<Rightarrow> 's"
    and createSnapshot ::
      "iso_timestamp \<Rightarrow> string \<Rightarrow> bool \<Rightarrow> string option \<Rightarrow> 's \<Rightarrow> (js_error + snapshot) \<times> 's"
    and tagSnapshotRetained :: "string \<Rightarrow> 's \<Rightarrow> 's"
    and deleteVolume :: "string \<Rightarrow> 's \<Rightarrow> 's"
    and deleteSnapshot :: "string \<Rightarrow> 's \<Rightarrow> 's"
    and image :: "'s \<Rightarrow> string \<Rightarrow> (string \<Rightarrow> string option) option"
    and live :: "'s \<Rightarrow> string \<Rightarrow> bool"
    and sound :: "'s \<Rightarrow> bool"
  assumes snapshot_law:
    "\<lbrakk>sound s; createSnapshot now v retain owner s = (Inr sn, s')\<rbrakk> \<Longrightarrow>
       sound s' \<and> live s v \<and> snap_sourceVolumeId sn = v \<and> image s (snap_id sn) = None \<and>
       image s' = (image s)(snap_id sn \<mapsto> (\<lambda>p. readFile v p s)) \<and>
       (\<forall>x p. readFile x p s' = readFile x p s) \<and> live s' = live s"
    and snapshot_error: "createSnapshot now v retain owner s = (Inl e, s') \<Longrightarrow> sound s \<Longrightarrow>
       \<not> live s v \<and> sound s' \<and> image s' = image s \<and> live s' = live s"
    and write_law:
    "\<lbrakk>sound s; live s v\<rbrakk> \<Longrightarrow>
       sound (writeFile v path data s) \<and> image (writeFile v path data s) = image s \<and>
       live (writeFile v path data s) = live s \<and>
       readFile x p (writeFile v path data s) = (if x = v \<and> p = path then Some data else readFile x p s)"
    and hydrate_law:
    "\<lbrakk>sound s; image s i = Some f\<rbrakk> \<Longrightarrow>
       \<exists>v s'. createVolume now (Some i) s = (Inr v, s') \<and> sound s' \<and> \<not> live s (vol_id v) \<and>
         live s' = (live s)(vol_id v := True) \<and> vol_hydratedFrom v = Some i \<and>
         image s' = image s \<and>
         (\<forall>x p. readFile x p s' = (if x = vol_id v then f p else readFile x p s))"
    and create_keeps: "\<lbrakk>sound s; createVolume now from s = (r, s')\<rbrakk> \<Longrightarrow> sound s' \<and> image s' = image s"
    and tag_keeps: "sound s \<Longrightarrow> sound (tagSnapshotRetained i s) \<and> image (tagSnapshotRetained i s) = image s"
    and delete_volume_keeps: "sound s \<Longrightarrow> sound (deleteVolume v s) \<and> image (deleteVolume v s) = image s"
    and delete_snapshot_law: "sound s \<Longrightarrow> sound (deleteSnapshot i s) \<and> image (deleteSnapshot i s) = (image s)(i := None)"
begin

lemma snapshot_survives_release:
  assumes "sound s" "createSnapshot now v retain owner s = (Inr sn, s1)"
  shows "\<exists>v' s'. createVolume later (Some (snap_id sn)) (deleteVolume v s1) = (Inr v', s') \<and>
           (\<forall>p. readFile (vol_id v') p s' = readFile v p s)"
proof -
  note snap = snapshot_law [OF assms]
  have "sound (deleteVolume v s1)" "image (deleteVolume v s1) (snap_id sn) = Some (\<lambda>p. readFile v p s)"
    using delete_volume_keeps [of s1 v] snap by simp_all
  from hydrate_law [OF this, of later] show ?thesis by auto
qed

end

section \<open>The fake keeps the contract\<close>

definition fake_image :: "fake_storage \<Rightarrow> string \<Rightarrow> (string \<Rightarrow> string option) option" where
  "fake_image st sn = map_option map_of (map_of (snapshotDirs st) sn)"

definition fake_live :: "fake_storage \<Rightarrow> string \<Rightarrow> bool" where
  "fake_live st v \<longleftrightarrow> map_of (volumeDirs st) v \<noteq> None"

definition fake_sound :: "(nat \<Rightarrow> string) \<Rightarrow> fake_storage \<Rightarrow> bool" where
  "fake_sound uuid st \<longleftrightarrow>
     inj uuid \<and>
     dom (map_of (volumeDirs st)) \<subseteq> newVolumeId uuid ` {..<uuidsDrawn st} \<and>
     dom (map_of (snapshotDirs st)) \<subseteq> newSnapshotId uuid ` {..<uuidsDrawn st}"

lemma new_ids_inj [simp]:
  "inj uuid \<Longrightarrow> newVolumeId uuid m = newVolumeId uuid n \<longleftrightarrow> m = n"
  "inj uuid \<Longrightarrow> newSnapshotId uuid m = newSnapshotId uuid n \<longleftrightarrow> m = n"
  "inj uuid \<Longrightarrow> newTaskId uuid m = newTaskId uuid n \<longleftrightarrow> m = n"
  "inj uuid \<Longrightarrow> newWorkspaceId uuid m = newWorkspaceId uuid n \<longleftrightarrow> m = n"
  by (auto simp: newVolumeId_def newSnapshotId_def newTaskId_def newWorkspaceId_def dest: injD)

lemma fake_fresh:
  assumes "fake_sound uuid st"
  shows "map_of (volumeDirs st) (newVolumeId uuid (uuidsDrawn st)) = None"
    and "map_of (snapshotDirs st) (newSnapshotId uuid (uuidsDrawn st)) = None"
  using assms by (auto simp: fake_sound_def dom_def subset_iff)

lemmas fake_store_simps = fake_image_def fake_live_def fake_readFile_def Let_def fun_eq_iff

lemma fake_snapshot_law:
  assumes "fake_sound uuid s" and "fake_createSnapshot uuid now v retain owner s = (Inr sn, s')"
  shows "fake_sound uuid s' \<and> fake_live s v \<and> snap_sourceVolumeId sn = v \<and>
    fake_image s (snap_id sn) = None \<and>
    fake_image s' = (fake_image s)(snap_id sn \<mapsto> (\<lambda>p. fake_readFile v p s)) \<and>
    (\<forall>x p. fake_readFile x p s' = fake_readFile x p s) \<and> fake_live s' = fake_live s"
proof -
  from assms(2) obtain fs where v: "map_of (volumeDirs s) v = Some fs"
    and sn: "sn = \<lparr>snap_id = newSnapshotId uuid (uuidsDrawn s), snap_sourceVolumeId = v\<rparr>"
    and s': "volumeDirs s' = volumeDirs s"
      "snapshotDirs s' = AList.update (newSnapshotId uuid (uuidsDrawn s)) fs (snapshotDirs s)"
      "uuidsDrawn s' = Suc (uuidsDrawn s)"
    by (auto simp: fake_createSnapshot_def Let_def split: option.splits)
  have "fake_sound uuid s'"
    using assms(1) by (auto simp: fake_sound_def s' lessThan_Suc dest: in_domD split: if_splits)
  then show ?thesis
    using v sn s' fake_fresh(2) [OF assms(1)] by (auto simp: fake_store_simps)
qed

lemma fake_hydrate_law:
  assumes "fake_sound uuid s" and "fake_image s i = Some f"
  shows "\<exists>v s'. fake_createVolume uuid now (Some i) s = (Inr v, s') \<and> fake_sound uuid s' \<and>
    \<not> fake_live s (vol_id v) \<and> fake_live s' = (fake_live s)(vol_id v := True) \<and>
    vol_hydratedFrom v = Some i \<and> fake_image s' = fake_image s \<and>
    (\<forall>x p. fake_readFile x p s' = (if x = vol_id v then f p else fake_readFile x p s))"
  using assms fake_fresh(1) [OF assms(1)]
  by (auto simp: fake_createVolume_def fake_store_simps fake_sound_def lessThan_Suc dest: in_domD split: if_splits)

lemma fake_create_keeps:
  assumes "fake_sound uuid s" and "fake_createVolume uuid now from s = (r, s')"
  shows "fake_sound uuid s' \<and> fake_image s' = fake_image s"
  using assms
  by (auto simp: fake_createVolume_def fake_store_simps fake_sound_def lessThan_Suc
      dest: in_domD split: if_splits option.splits)

lemma fake_snapshot_error:
  assumes "fake_createSnapshot uuid now v retain owner s = (Inl e, s')" and "fake_sound uuid s"
  shows "\<not> fake_live s v \<and> fake_sound uuid s' \<and> fake_image s' = fake_image s \<and>
    fake_live s' = fake_live s"
  using assms
  by (auto simp: fake_createSnapshot_def fake_store_simps fake_sound_def lessThan_Suc
      dest: in_domD split: option.splits)

lemma fake_write_law:
  assumes "fake_sound uuid s" and "fake_live s v"
  shows "fake_sound uuid (fake_writeFile v path data s) \<and>
    fake_image (fake_writeFile v path data s) = fake_image s \<and>
    fake_live (fake_writeFile v path data s) = fake_live s \<and>
    fake_readFile x p (fake_writeFile v path data s) =
      (if x = v \<and> p = path then Some data else fake_readFile x p s)"
  using assms
  by (auto simp: fake_writeFile_def fake_store_simps fake_sound_def dest: in_domD)

lemma fake_release_laws:
  assumes "fake_sound uuid s"
  shows "fake_sound uuid (fake_tagSnapshotRetained i s) \<and>
      fake_image (fake_tagSnapshotRetained i s) = fake_image s"
    and "fake_sound uuid (fake_deleteVolume v s) \<and> fake_image (fake_deleteVolume v s) = fake_image s"
    and "fake_sound uuid (fake_deleteSnapshot i s) \<and>
      fake_image (fake_deleteSnapshot i s) = (fake_image s)(i := None)"
  using assms
  by (auto simp: fake_tagSnapshotRetained_def fake_deleteVolume_def fake_deleteSnapshot_def
      fake_store_simps fake_sound_def dest: in_domD split: option.splits)

interpretation fake: storage_provider "fake_createVolume uuid" fake_readFile fake_writeFile
  "fake_createSnapshot uuid" fake_tagSnapshotRetained fake_deleteVolume fake_deleteSnapshot
  fake_image fake_live "fake_sound uuid" for uuid
  by unfold_locales
    (erule (1) fake_snapshot_law fake_snapshot_error fake_write_law fake_hydrate_law
        fake_create_keeps | rule fake_release_laws, assumption)+

section \<open>The compute contract\<close>

locale compute_provider =
  fixes runTask :: "iso_timestamp \<Rightarrow> run_task_input \<Rightarrow> 'c \<Rightarrow> (js_error + compute_task) \<times> 'c"
    and stopTask :: "string \<Rightarrow> 'c \<Rightarrow> 'c"
    and taskState :: "string \<Rightarrow> 'c \<Rightarrow> task_liveness"
    and sound :: "'c \<Rightarrow> bool"
  assumes run_law:
    "\<lbrakk>sound c; runTask now inp c = (Inr t, c')\<rbrakk> \<Longrightarrow>
       sound c' \<and> taskState (task_id t) c = TaskStopped \<and>
       (\<lambda>i. taskState i c') = (\<lambda>i. taskState i c)(task_id t := TaskRunning)"
    and run_error:
    "\<lbrakk>sound c; runTask now inp c = (Inl e, c')\<rbrakk> \<Longrightarrow>
       sound c' \<and> (\<forall>i. taskState i c' = taskState i c)"
    and stop_law:
    "sound c \<Longrightarrow> sound (stopTask i c) \<and>
       (\<lambda>j. taskState j (stopTask i c)) = (\<lambda>j. taskState j c)(i := TaskStopped)"
begin

text \<open>A launch that is compensated leaves every task as it was.\<close>

lemma launch_then_stop:
  assumes "sound c" and "runTask now inp c = (Inr t, c')"
  shows "taskState j (stopTask (task_id t) c') = taskState j c"
proof -
  note run = run_law [OF assms]
  then have "(\<lambda>j. taskState j (stopTask (task_id t) c')) =
      ((\<lambda>i. taskState i c)(task_id t := TaskRunning))(task_id t := TaskStopped)"
    using stop_law [of c' "task_id t"] by simp
  then show ?thesis using run by (auto simp: fun_eq_iff split: if_splits)
qed

end

definition fake_cloud_sound :: "(nat \<Rightarrow> string) \<Rightarrow> fake_cloud \<Rightarrow> bool" where
  "fake_cloud_sound uuid c \<longleftrightarrow> fake_sound uuid (storage c) \<and>
     dom (map_of (taskVolumes c)) \<subseteq> newTaskId uuid ` {..<uuidsDrawn (storage c)}"

lemma fake_createVolume_drawn:
  "fake_createVolume uuid now from st = (r, st') \<Longrightarrow> uuidsDrawn st' = Suc (uuidsDrawn st)"
  by (auto simp: fake_createVolume_def Let_def split: option.splits)

lemma fake_sound_draw: "fake_sound uuid st \<Longrightarrow> fake_sound uuid (st\<lparr>uuidsDrawn := Suc (uuidsDrawn st)\<rparr>)"
  by (auto simp: fake_sound_def lessThan_Suc dest: in_domD)

lemma fake_task_fresh:
  "\<lbrakk>fake_cloud_sound uuid c; uuidsDrawn (storage c) \<le> n\<rbrakk> \<Longrightarrow> map_of (taskVolumes c) (newTaskId uuid n) = None"
  by (auto simp: fake_cloud_sound_def fake_sound_def dom_def subset_iff)

lemma fake_run_law:
  assumes "fake_cloud_sound uuid c" and "fake_runTask uuid now inp c = (Inr t, c')"
  shows "fake_cloud_sound uuid c' \<and> fake_taskState (task_id t) c = TaskStopped \<and>
    (\<lambda>i. fake_taskState i c') = (\<lambda>i. fake_taskState i c)(task_id t := TaskRunning)"
proof -
  from assms(2) obtain v st1 where
    v: "fake_createVolume uuid now (rt_fromSnapshot inp) (storage c) = (Inr v, st1)"
    and t: "task_id t = newTaskId uuid (uuidsDrawn st1)"
    and c': "storage c' = st1\<lparr>uuidsDrawn := Suc (uuidsDrawn st1)\<rparr>"
      "taskVolumes c' = AList.update (newTaskId uuid (uuidsDrawn st1)) (vol_id v) (taskVolumes c)"
    by (auto simp: fake_runTask_def Let_def split: if_splits prod.splits sum.splits)
  have drawn: "uuidsDrawn st1 = Suc (uuidsDrawn (storage c))" by (rule fake_createVolume_drawn [OF v])
  have "fake_sound uuid st1" using fake_create_keeps [OF _ v] assms(1) by (simp add: fake_cloud_sound_def)
  then have "fake_sound uuid (storage c')" by (simp add: c' fake_sound_draw)
  then have "fake_cloud_sound uuid c'"
    using assms(1) by (auto simp: fake_cloud_sound_def c' drawn lessThan_Suc dest: in_domD)
  moreover have "map_of (taskVolumes c) (task_id t) = None"
    using fake_task_fresh [OF assms(1)] by (simp add: t drawn)
  ultimately show ?thesis by (auto simp: fake_taskState_def c' t fun_eq_iff)
qed

lemma fake_run_error:
  assumes "fake_cloud_sound uuid c" and "fake_runTask uuid now inp c = (Inl e, c')"
  shows "fake_cloud_sound uuid c' \<and> (\<forall>i. fake_taskState i c' = fake_taskState i c)"
  using assms fake_create_keeps [of uuid "storage c"] fake_createVolume_drawn [of uuid now _ "storage c"]
  by (auto simp: fake_runTask_def fake_cloud_sound_def fake_taskState_def Let_def lessThan_Suc
      dest: in_domD split: if_splits prod.splits sum.splits)

lemma fake_stop_law:
  assumes "fake_cloud_sound uuid c"
  shows "fake_cloud_sound uuid (fake_stopTask i c) \<and>
    (\<lambda>j. fake_taskState j (fake_stopTask i c)) = (\<lambda>j. fake_taskState j c)(i := TaskStopped)"
  using assms fake_release_laws(2) [of uuid "storage c"]
  by (auto simp: fake_stopTask_def fake_cloud_sound_def fake_taskState_def fun_eq_iff fake_deleteVolume_def
      dest: in_domD split: option.splits)

interpretation fakeCompute: compute_provider "fake_runTask uuid" fake_stopTask fake_taskState
  "fake_cloud_sound uuid" for uuid
  by unfold_locales (erule (1) fake_run_law fake_run_error | erule fake_stop_law)+

section \<open>Properties\<close>

text \<open>What may happen to a store between a checkpoint and its restoration.\<close>

datatype storage_op =
    NewVolume iso_timestamp "string option"
  | WriteFile string string string
  | TakeSnapshot iso_timestamp string bool "string option"
  | TagRetained string
  | DeleteVolume string
  | DeleteSnapshot string

fun storage_step ::
  "(nat \<Rightarrow> string) \<Rightarrow> fake_storage \<Rightarrow> storage_op \<Rightarrow> fake_storage option" where
  "storage_step uuid st (NewVolume now from) = Some (snd (fake_createVolume uuid now from st))"
| "storage_step uuid st (WriteFile v path data) =
     (if fake_live st v then Some (fake_writeFile v path data st) else None)"
| "storage_step uuid st (TakeSnapshot now v retain owner) =
     Some (snd (fake_createSnapshot uuid now v retain owner st))"
| "storage_step uuid st (TagRetained i) = Some (fake_tagSnapshotRetained i st)"
| "storage_step uuid st (DeleteVolume v) = Some (fake_deleteVolume v st)"
| "storage_step uuid st (DeleteSnapshot i) = Some (fake_deleteSnapshot i st)"

lemma storage_step_keeps:
  assumes "fake_sound uuid st" and "fake_image st i = Some f" and "op \<noteq> DeleteSnapshot i"
    and "storage_step uuid st op = Some st'"
  shows "fake_sound uuid st' \<and> fake_image st' i = Some f"
proof (cases op)
  case (NewVolume now origin)
  then obtain r where "fake_createVolume uuid now origin st = (r, st')"
    using assms(4) by (cases "fake_createVolume uuid now origin st") simp
  with fake.create_keeps [of uuid st now origin r st'] assms show ?thesis by simp
next
  case (TakeSnapshot now v retain owner)
  then obtain r where r: "fake_createSnapshot uuid now v retain owner st = (r, st')"
    using assms(4) by (cases "fake_createSnapshot uuid now v retain owner st") simp
  show ?thesis
  proof (cases r)
    case (Inl e)
    with fake.snapshot_error [of uuid now v retain owner st e st'] r assms show ?thesis by simp
  next
    case (Inr sn)
    with fake.snapshot_law [of uuid st now v retain owner sn st'] r assms show ?thesis by auto
  qed
qed (use assms fake.write_law fake.tag_keeps fake.delete_volume_keeps fake.delete_snapshot_law
     in \<open>auto split: if_splits\<close>)

interpretation checkpoint: transition_system
  "\<lambda>st op. if op = DeleteSnapshot i then None else storage_step uuid st op"
  "\<lambda>st. fake_sound uuid st \<and> fake_image st i = Some f" for uuid i f
  by unfold_locales (auto dest: storage_step_keeps split: if_splits)

lemma run_without:
  "x \<notin> set es \<Longrightarrow>
    run_events (\<lambda>st op. if op = x then None else step st op) s es = run_events step s es"
  by (induction es arbitrary: s) (auto split: option.split)

text \<open>
  A checkpoint is what was on the volume. Take a snapshot, then let anything happen to
  the store but the deletion of that snapshot (writes, other snapshots, the release of
  the source volume): a volume hydrated from it still succeeds and holds, under every
  path, exactly what the source volume held when the snapshot was taken.
\<close>

theorem checkpoint_survives:
  assumes "fake_sound uuid s"
    and "fake_createSnapshot uuid now v retain owner s = (Inr sn, s1)"
    and "run_events (storage_step uuid) s1 ops = Some s2"
    and "DeleteSnapshot (snap_id sn) \<notin> set ops"
  shows "\<exists>w s3. fake_createVolume uuid later (Some (snap_id sn)) s2 = (Inr w, s3) \<and>
           (\<forall>p. fake_readFile (vol_id w) p s3 = fake_readFile v p s)"
proof -
  have "fake_sound uuid s1 \<and> fake_image s1 (snap_id sn) = Some (\<lambda>p. fake_readFile v p s)"
    using fake.snapshot_law [OF assms(1,2)] by simp
  then have "fake_sound uuid s2 \<and> fake_image s2 (snap_id sn) = Some (\<lambda>p. fake_readFile v p s)"
    using checkpoint.run_inv [where es = ops and uuid = uuid and i = "snap_id sn"]
      run_without [OF assms(4)] assms(3) by metis
  then show ?thesis using fake.hydrate_law by metis
qed

definition sample_uuid :: "nat \<Rightarrow> string" where
  "sample_uuid n = replicate n CHR ''x''"

lemma inj_sample_uuid [simp]: "inj sample_uuid"
  by (rule injI) (metis length_replicate sample_uuid_def)

definition empty_storage :: fake_storage where
  "empty_storage = \<lparr>volumeDirs = [], volumeMetas = [], snapshotDirs = [], snapshotMetas = [],
     uuidsDrawn = 0\<rparr>"

definition sample_storage :: fake_storage where
  "sample_storage = fake_writeFile ''vol-'' ''a.txt'' ''1''
     (snd (fake_createVolume sample_uuid (Iso 0) None empty_storage))"

lemma sound_sample_storage [simp]: "fake_sound sample_uuid sample_storage"
  by (auto simp: sample_storage_def fake_writeFile_def fake_createVolume_def empty_storage_def Let_def
      fake_sound_def newVolumeId_def sample_uuid_def)

theorem checkpoint_survives_witness:
  "\<exists>sn s1 w s3.
     fake_createSnapshot sample_uuid (Iso 1) ''vol-'' False None sample_storage = (Inr sn, s1) \<and>
     fake_createVolume sample_uuid (Iso 2) (Some (snap_id sn)) (fake_deleteVolume ''vol-'' s1) =
       (Inr w, s3) \<and> fake_readFile (vol_id w) ''a.txt'' s3 = Some ''1''"
proof -
  obtain sn s1 where sn: "fake_createSnapshot sample_uuid (Iso 1) ''vol-'' False None sample_storage = (Inr sn, s1)"
    "snap_id sn = ''snap-x''"
    by (auto simp: fake_createSnapshot_def sample_storage_def fake_writeFile_def fake_createVolume_def
        empty_storage_def Let_def newVolumeId_def newSnapshotId_def sample_uuid_def)
  have "run_events (storage_step sample_uuid) s1 [DeleteVolume ''vol-''] = Some (fake_deleteVolume ''vol-'' s1)"
    by simp
  from checkpoint_survives [OF sound_sample_storage sn(1) this, of "Iso 2"] sn
  show ?thesis
    by (fastforce simp: fake_readFile_def sample_storage_def fake_writeFile_def)
qed

text \<open>
  Scale to zero keeps the files. Snapshot the volume of a running task, stop the task
  (which releases the volume), and launch a task from the snapshot: the launch is placed,
  the new task runs on a volume with the same contents, and the old task is stopped.
\<close>

theorem scale_to_zero_keeps_files:
  assumes sound: "fake_cloud_sound uuid c" and placed: "placementRefusals c \<le> 0"
    and task: "map_of (taskVolumes c) t = Some v"
    and snap: "fake_createSnapshot uuid now v retain owner (storage c) = (Inr sn, st1)"
    and wake: "rt_fromSnapshot inp = Some (snap_id sn)"
  shows "\<exists>task c'. fake_runTask uuid later inp (fake_stopTask t (c\<lparr>storage := st1\<rparr>)) = (Inr task, c') \<and>
           fake_taskState (task_id task) c' = TaskRunning \<and>
           (\<forall>p. fake_readFile (task_volumeId task) p (storage c') = fake_readFile v p (storage c))"
proof -
  have stopped: "storage (fake_stopTask t (c\<lparr>storage := st1\<rparr>)) = fake_deleteVolume v st1"
    "placementRefusals (fake_stopTask t (c\<lparr>storage := st1\<rparr>)) = placementRefusals c"
    using task by (simp_all add: fake_stopTask_def)
  from fake.snapshot_survives_release [OF _ snap, of later] sound
  obtain w st2 where vol: "fake_createVolume uuid later (Some (snap_id sn)) (fake_deleteVolume v st1) = (Inr w, st2)"
    and same: "\<forall>p. fake_readFile (vol_id w) p st2 = fake_readFile v p (storage c)"
    by (auto simp: fake_cloud_sound_def)
  show ?thesis
    using placed wake vol same
    by (simp add: fake_runTask_def stopped Let_def fake_taskState_def fake_readFile_def)
qed

definition sample_cloud :: fake_cloud where
  "sample_cloud = \<lparr>storage = sample_storage\<lparr>uuidsDrawn := 2\<rparr>, taskVolumes = [(''task-x'', ''vol-'')],
     placementRefusals = 0, fixedSshHost = None\<rparr>"

lemma sound_sample_cloud [simp]: "fake_cloud_sound sample_uuid sample_cloud"
  by (auto simp: fake_cloud_sound_def sample_cloud_def fake_sound_def sample_storage_def fake_writeFile_def
      fake_createVolume_def empty_storage_def Let_def newVolumeId_def newTaskId_def sample_uuid_def
      lessThan_Suc numeral_2_eq_2)

theorem scale_to_zero_keeps_files_witness:
  "\<exists>sn st1 inp task c'.
     fake_createSnapshot sample_uuid (Iso 1) ''vol-'' False None (storage sample_cloud) = (Inr sn, st1) \<and>
     fake_runTask sample_uuid (Iso 2) inp (fake_stopTask ''task-x'' (sample_cloud\<lparr>storage := st1\<rparr>)) =
       (Inr task, c') \<and>
     fake_readFile (task_volumeId task) ''a.txt'' (storage c') = Some ''1''"
proof -
  obtain sn st1 where sn:
    "fake_createSnapshot sample_uuid (Iso 1) ''vol-'' False None (storage sample_cloud) = (Inr sn, st1)"
    by (simp add: fake_createSnapshot_def sample_cloud_def sample_storage_def fake_writeFile_def Let_def)
  define inp where "inp = \<lparr>rt_workspaceId = ''ws-'', rt_baseImage = ''golden'', rt_editor = None,
     rt_fromSnapshot = Some (snap_id sn), rt_repoUrl = None, rt_repoRef = None,
     rt_resources = defaultResourcesForEditor Monaco\<rparr>"
  have pre: "map_of (taskVolumes sample_cloud) ''task-x'' = Some ''vol-''"
    "placementRefusals sample_cloud \<le> 0" "rt_fromSnapshot inp = Some (snap_id sn)"
    by (simp_all add: sample_cloud_def inp_def)
  have "fake_readFile ''vol-'' ''a.txt'' (storage sample_cloud) = Some ''1''"
    by (simp add: fake_readFile_def sample_cloud_def sample_storage_def fake_writeFile_def)
  with scale_to_zero_keeps_files [OF sound_sample_cloud pre(2,1) sn pre(3), of "Iso 2"] sn
  show ?thesis by fastforce
qed
end
