(* ===== verification/Persistence.thy ===== *)
theory Persistence
  imports Workspace_Props Providers
begin

text \<open>
  The boundary between the domain object and the table
  (\<^verbatim>\<open>packages/control-plane/src/workspace-service.ts\<close>, \<^verbatim>\<open>dto.ts\<close>): the stored form of a
  workspace and its agent sessions, the projections \<open>toWorkspaceDto\<close> and
  \<open>toWorkspaceDetail\<close>, branding a record back (\<open>toWorkspace\<close>), and the patch a transition
  writes, in which an attribute that the write does not name keeps its stored value unless
  it is on the write's clear list.
\<close>

section \<open>Emails\<close>

text \<open>\<^verbatim>\<open>email\<close> of \<^verbatim>\<open>domain/ids.ts\<close>, on ASCII texts: trimmed, lower-cased, no control character,
  and of the shape \<^verbatim>\<open>local@domain.tld\<close>.\<close>

definition is_space :: "char \<Rightarrow> bool" where
  "is_space c \<longleftrightarrow> (let n = (of_char c :: nat) in n = 32 \<or> (9 \<le> n \<and> n \<le> 13))"

definition hasControlChar :: "string \<Rightarrow> bool" where
  "hasControlChar s \<longleftrightarrow> (\<exists>c \<in> set s. let n = (of_char c :: nat) in n \<le> 31 \<or> n = 127)"

definition trim :: "string \<Rightarrow> string" where
  "trim s = rev (dropWhile is_space (rev (dropWhile is_space s)))"

definition email_shape :: "string \<Rightarrow> bool" where
  "email_shape s \<longleftrightarrow>
     (\<forall>c \<in> set s. \<not> is_space c) \<and> length (filter (\<lambda>c. c = CHR ''@'') s) = 1 \<and>
     takeWhile (\<lambda>c. c \<noteq> CHR ''@'') s \<noteq> [] \<and>
     CHR ''.'' \<in> set (butlast (tl (tl (dropWhile (\<lambda>c. c \<noteq> CHR ''@'') s))))"

definition email :: "string \<Rightarrow> js_error + string" where
  "email v =
     (let normalized = map lower (trim v) in
      if hasControlChar normalized \<or> \<not> email_shape normalized
      then Inl (plain_error ''Error'' (''invalid email: '' @ v))
      else Inr normalized)"

definition normal_email :: "string option \<Rightarrow> bool" where
  "normal_email e \<longleftrightarrow> (case e of None \<Rightarrow> True | Some m \<Rightarrow> email m = Inr m)"

section \<open>The stored form\<close>

text \<open>
  A stored session attribute may be absent; writing a session as it is in memory would
  give it the value null.
\<close>

datatype stored_attr = Absent | NullAttr | Attr string

type_synonym stored_session = "stored_attr session"
type_synonym stored_fields = "(workspace_resources option, stored_session) ws_fields"

definition map_session :: "('a \<Rightarrow> 'b) \<Rightarrow> 'a session \<Rightarrow> 'b session" where
  "map_session f s =
     \<lparr>sess_name = sess_name s, sess_cwd = sess_cwd s, sess_command = sess_command s,
      resumeCommand = f (resumeCommand s), sess_createdAt = sess_createdAt s,
      sess_lastSeenAt = sess_lastSeenAt s, sess_status = sess_status s, sess_live = sess_live s\<rparr>"

definition toStoredSession :: "agent_session \<Rightarrow> stored_session" where
  "toStoredSession = map_session (\<lambda>r. case r of None \<Rightarrow> Absent | Some c \<Rightarrow> Attr c)"

definition spreadSession :: "agent_session \<Rightarrow> stored_session" where
  "spreadSession = map_session (\<lambda>r. case r of None \<Rightarrow> NullAttr | Some c \<Rightarrow> Attr c)"

definition fromStoredSession :: "stored_session \<Rightarrow> agent_session" where
  "fromStoredSession = map_session (\<lambda>r. case r of Attr c \<Rightarrow> Some c | _ \<Rightarrow> None)"

definition map_fields ::
  "('r \<Rightarrow> 'q) \<Rightarrow> ('s \<Rightarrow> 't) \<Rightarrow> ('r, 's) ws_fields \<Rightarrow> ('q, 't) ws_fields" where
  "map_fields f g r =
     \<lparr>wsId = wsId r, ownerId = ownerId r, ownerEmail = ownerEmail r, ownerRole = ownerRole r,
      repoUrl = repoUrl r, baseImage = baseImage r, editor = editor r, resources = f (resources r),
      state = state r, desiredState = desiredState r, deleteRequestedAt = deleteRequestedAt r,
      createdAt = createdAt r, lastActivity = lastActivity r, volumeId = volumeId r,
      taskId = taskId r, latestSnapshotId = latestSnapshotId r,
      latestSnapshotAt = latestSnapshotAt r, snapshotIntervalMs = snapshotIntervalMs r,
      idleStopMs = idleStopMs r, alwaysOn = alwaysOn r, sshHost = sshHost r,
      functional = functional r, functionalDetail = functionalDetail r,
      functionalAt = functionalAt r, diskUsedBytes = diskUsedBytes r,
      diskTotalBytes = diskTotalBytes r, sessions = map_option (map g) (sessions r),
      sessionsAt = sessionsAt r, stopRequestedAt = stopRequestedAt r,
      stopRequestedBy = stopRequestedBy r, terminatedAt = terminatedAt r,
      shareEnabled = shareEnabled r, shareEnabledAt = shareEnabledAt r,
      placementReason = placementReason r, placementAttempts = placementAttempts r,
      placementRetryAt = placementRetryAt r\<rparr>"

definition toWorkspace :: "stored_fields \<Rightarrow> js_error + workspace" where
  "toWorkspace r =
     (case resources r of
        None \<Rightarrow> Inl (plain_error ''Error''
          (''invalid persisted workspace '' @ wsId r @ '': missing resources''))
      | Some res \<Rightarrow>
          (case assertValidWorkspaceResources res of
             Inl e \<Rightarrow> Inl (JsError ''Error'' None None
               (''invalid persisted workspace '' @ wsId r @ '': '' @ err_message e) None (Some e))
           | Inr valid \<Rightarrow>
               (case ownerEmail r of
                  None \<Rightarrow> Inr (map_fields (\<lambda>_. valid) fromStoredSession r)
                | Some m \<Rightarrow>
                    (case email m of
                       Inl e \<Rightarrow> Inl e
                     | Inr m' \<Rightarrow> Inr ((map_fields (\<lambda>_. valid) fromStoredSession r)
                         \<lparr>ownerEmail := Some m'\<rparr>)))))"

section \<open>Projections\<close>

text \<open>
  A DTO is the workspace without the fields the projection leaves out, and the actions its
  state offers. \<^verbatim>\<open>toWorkspaceDetail\<close> adds the bindings and the intent back; the one field
  of a workspace in neither is \<^verbatim>\<open>shareEnabledAt\<close>.
\<close>

type_synonym workspace_dto = "workspace \<times> workspace_action list"

definition toWorkspaceDto :: "workspace \<Rightarrow> workspace_dto" where
  "toWorkspaceDto ws =
     (ws\<lparr>desiredState := None, deleteRequestedAt := None, volumeId := None, taskId := None,
         sshHost := None, functionalAt := None, stopRequestedBy := None, shareEnabledAt := None\<rparr>,
      workspaceActions (state ws))"

definition toWorkspaceDetail :: "workspace \<Rightarrow> workspace" where
  "toWorkspaceDetail ws =
     (fst (toWorkspaceDto ws))\<lparr>desiredState := desiredState ws,
       deleteRequestedAt := deleteRequestedAt ws, stopRequestedBy := stopRequestedBy ws,
       volumeId := volumeId ws, taskId := taskId ws, sshHost := sshHost ws,
       functionalAt := functionalAt ws\<rparr>"

section \<open>The patch of a transition\<close>

datatype field_name =
    F_volumeId | F_taskId | F_latestSnapshotId | F_latestSnapshotAt | F_sshHost | F_shareEnabled
  | F_stopRequestedAt | F_stopRequestedBy | F_functional | F_functionalDetail | F_functionalAt
  | F_placementReason | F_placementAttempts | F_placementRetryAt | F_idleStopMs | F_alwaysOn
  | F_deleteRequestedAt | F_terminatedAt

text \<open>The task size and the fields that are never optional are always written.
  An attribute after \<^verbatim>\<open>set\<close> and \<^verbatim>\<open>remove\<close>: the value written, else nothing if it is to be
  cleared, else what was stored.\<close>

definition set_attr :: "bool \<Rightarrow> 'a option \<Rightarrow> 'a option \<Rightarrow> 'a option" where
  "set_attr clear new old = (case new of Some x \<Rightarrow> Some x | None \<Rightarrow> if clear then None else old)"

definition patch_record ::
  "field_name list \<Rightarrow> ('r, 's) ws_fields \<Rightarrow> ('r, 's) ws_fields \<Rightarrow> ('r, 's) ws_fields" where
  "patch_record clearable d r =
     \<lparr>wsId = wsId r, ownerId = ownerId d,
      ownerEmail = set_attr False (ownerEmail d) (ownerEmail r),
      ownerRole = set_attr False (ownerRole d) (ownerRole r),
      repoUrl = set_attr False (repoUrl d) (repoUrl r), baseImage = baseImage d,
      editor = set_attr False (editor d) (editor r),
      resources = resources d, state = state d,
      desiredState = set_attr False (desiredState d) (desiredState r),
      deleteRequestedAt = set_attr (F_deleteRequestedAt \<in> set clearable)
        (deleteRequestedAt d) (deleteRequestedAt r),
      createdAt = createdAt d, lastActivity = lastActivity d,
      volumeId = set_attr (F_volumeId \<in> set clearable) (volumeId d) (volumeId r),
      taskId = set_attr (F_taskId \<in> set clearable) (taskId d) (taskId r),
      latestSnapshotId = set_attr (F_latestSnapshotId \<in> set clearable)
        (latestSnapshotId d) (latestSnapshotId r),
      latestSnapshotAt = set_attr (F_latestSnapshotAt \<in> set clearable)
        (latestSnapshotAt d) (latestSnapshotAt r),
      snapshotIntervalMs = set_attr False (snapshotIntervalMs d) (snapshotIntervalMs r),
      idleStopMs = set_attr (F_idleStopMs \<in> set clearable) (idleStopMs d) (idleStopMs r),
      alwaysOn = set_attr (F_alwaysOn \<in> set clearable) (alwaysOn d) (alwaysOn r),
      sshHost = set_attr (F_sshHost \<in> set clearable) (sshHost d) (sshHost r),
      functional = set_attr (F_functional \<in> set clearable) (functional d) (functional r),
      functionalDetail = set_attr (F_functionalDetail \<in> set clearable)
        (functionalDetail d) (functionalDetail r),
      functionalAt = set_attr (F_functionalAt \<in> set clearable) (functionalAt d) (functionalAt r),
      diskUsedBytes = set_attr False (diskUsedBytes d) (diskUsedBytes r),
      diskTotalBytes = set_attr False (diskTotalBytes d) (diskTotalBytes r),
      sessions = set_attr False (sessions d) (sessions r),
      sessionsAt = set_attr False (sessionsAt d) (sessionsAt r),
      stopRequestedAt = set_attr (F_stopRequestedAt \<in> set clearable)
        (stopRequestedAt d) (stopRequestedAt r),
      stopRequestedBy = set_attr (F_stopRequestedBy \<in> set clearable)
        (stopRequestedBy d) (stopRequestedBy r),
      terminatedAt = set_attr (F_terminatedAt \<in> set clearable) (terminatedAt d) (terminatedAt r),
      shareEnabled = set_attr (F_shareEnabled \<in> set clearable) (shareEnabled d) (shareEnabled r),
      shareEnabledAt = set_attr False (shareEnabledAt d) (shareEnabledAt r),
      placementReason = set_attr (F_placementReason \<in> set clearable)
        (placementReason d) (placementReason r),
      placementAttempts = set_attr (F_placementAttempts \<in> set clearable)
        (placementAttempts d) (placementAttempts r),
      placementRetryAt = set_attr (F_placementRetryAt \<in> set clearable)
        (placementRetryAt d) (placementRetryAt r)\<rparr>"

definition TRANSITION_CLEARABLE :: "field_name list" where
  "TRANSITION_CLEARABLE =
     [F_volumeId, F_taskId, F_latestSnapshotId, F_latestSnapshotAt, F_sshHost, F_shareEnabled,
      F_stopRequestedAt, F_stopRequestedBy, F_functional, F_functionalDetail, F_functionalAt,
      F_placementReason, F_placementAttempts, F_placementRetryAt, F_idleStopMs, F_alwaysOn]"

definition TEARDOWN_CLEARABLE :: "field_name list" where
  "TEARDOWN_CLEARABLE = [F_volumeId, F_taskId, F_sshHost]"

definition UNDELETE_CLEARABLE :: "field_name list" where
  "UNDELETE_CLEARABLE = [F_deleteRequestedAt, F_terminatedAt]"

text \<open>The attributes \<open>persistTransition\<close> sets, and the ones the two inlined writes set (the
  detail spread as it is).\<close>

definition transition_attrs :: "workspace \<Rightarrow> stored_fields" where
  "transition_attrs ws = map_fields Some toStoredSession (toWorkspaceDetail ws)"

definition spread_attrs :: "workspace \<Rightarrow> stored_fields" where
  "spread_attrs ws = map_fields Some spreadSession (toWorkspaceDetail ws)"

section \<open>Facts about the stored form\<close>

lemma map_session_comp [simp]: "map_session f (map_session g s) = map_session (f \<circ> g) s"
  by (simp add: map_session_def)
lemma map_session_id [simp]: "map_session (\<lambda>x. x) s = s" "map_session id s = s"
  by (simp_all add: map_session_def)

lemma fromStored_toStored [simp]:
  "fromStoredSession (toStoredSession s) = s" "fromStoredSession (spreadSession s) = s"
proof -
  have eq: "(\<lambda>r. case r of Attr c \<Rightarrow> Some c | _ \<Rightarrow> None) \<circ> (\<lambda>r. case r of None \<Rightarrow> k | Some c \<Rightarrow> Attr c) = id"
    if "k = Absent \<or> k = NullAttr" for k
    using that by (auto simp: fun_eq_iff split: option.splits)
  show "fromStoredSession (toStoredSession s) = s" "fromStoredSession (spreadSession s) = s"
    by (simp_all add: fromStoredSession_def toStoredSession_def spreadSession_def eq)
qed

lemma map_fields_comp [simp]: "map_fields f g (map_fields h k r) = map_fields (f \<circ> h) (g \<circ> k) r"
  by (simp add: map_fields_def option.map_comp map_map comp_def)

lemma map_fields_sel [simp]:
  "wsId (map_fields f g r) = wsId r" "ownerId (map_fields f g r) = ownerId r"
  "ownerEmail (map_fields f g r) = ownerEmail r" "ownerRole (map_fields f g r) = ownerRole r"
  "repoUrl (map_fields f g r) = repoUrl r" "baseImage (map_fields f g r) = baseImage r"
  "editor (map_fields f g r) = editor r" "resources (map_fields f g r) = f (resources r)"
  "state (map_fields f g r) = state r" "desiredState (map_fields f g r) = desiredState r"
  "deleteRequestedAt (map_fields f g r) = deleteRequestedAt r"
  "createdAt (map_fields f g r) = createdAt r" "lastActivity (map_fields f g r) = lastActivity r"
  "volumeId (map_fields f g r) = volumeId r" "taskId (map_fields f g r) = taskId r"
  "latestSnapshotId (map_fields f g r) = latestSnapshotId r"
  "latestSnapshotAt (map_fields f g r) = latestSnapshotAt r"
  "snapshotIntervalMs (map_fields f g r) = snapshotIntervalMs r"
  "idleStopMs (map_fields f g r) = idleStopMs r" "alwaysOn (map_fields f g r) = alwaysOn r"
  "sshHost (map_fields f g r) = sshHost r" "functional (map_fields f g r) = functional r"
  "functionalDetail (map_fields f g r) = functionalDetail r"
  "functionalAt (map_fields f g r) = functionalAt r"
  "diskUsedBytes (map_fields f g r) = diskUsedBytes r"
  "diskTotalBytes (map_fields f g r) = diskTotalBytes r"
  "sessions (map_fields f g r) = map_option (map g) (sessions r)"
  "sessionsAt (map_fields f g r) = sessionsAt r"
  "stopRequestedAt (map_fields f g r) = stopRequestedAt r"
  "stopRequestedBy (map_fields f g r) = stopRequestedBy r"
  "terminatedAt (map_fields f g r) = terminatedAt r"
  "shareEnabled (map_fields f g r) = shareEnabled r"
  "shareEnabledAt (map_fields f g r) = shareEnabledAt r"
  "placementReason (map_fields f g r) = placementReason r"
  "placementAttempts (map_fields f g r) = placementAttempts r"
  "placementRetryAt (map_fields f g r) = placementRetryAt r"
  by (simp_all add: map_fields_def)

definition storable :: "workspace \<Rightarrow> bool" where
  "storable ws \<longleftrightarrow> isValidWorkspaceResourcePair (resources ws) \<and> normal_email (ownerEmail ws)"

lemma toWorkspaceDetail_eq: "toWorkspaceDetail ws = ws\<lparr>shareEnabledAt := None\<rparr>"
  by (simp add: toWorkspaceDetail_def toWorkspaceDto_def)

lemma toWorkspace_valid:
  assumes "resources r = Some res" "isValidWorkspaceResourcePair res" "normal_email (ownerEmail r)"
  shows "toWorkspace r = Inr (map_fields (\<lambda>_. res) fromStoredSession r)"
  using assms by (auto simp: toWorkspace_def normal_email_def map_fields_def split: option.splits)

definition keeps_fields :: "workspace \<Rightarrow> workspace \<Rightarrow> bool" where
  "keeps_fields ws ws' \<longleftrightarrow>
     wsId ws' = wsId ws \<and>
     (ownerEmail ws' = None \<longrightarrow> ownerEmail ws = None) \<and> (ownerRole ws' = None \<longrightarrow> ownerRole ws = None) \<and>
     (repoUrl ws' = None \<longrightarrow> repoUrl ws = None) \<and> (editor ws' = None \<longrightarrow> editor ws = None) \<and>
     (desiredState ws' = None \<longrightarrow> desiredState ws = None) \<and>
     (deleteRequestedAt ws' = None \<longrightarrow> deleteRequestedAt ws = None) \<and>
     (snapshotIntervalMs ws' = None \<longrightarrow> snapshotIntervalMs ws = None) \<and>
     (diskUsedBytes ws' = None \<longrightarrow> diskUsedBytes ws = None) \<and>
     (diskTotalBytes ws' = None \<longrightarrow> diskTotalBytes ws = None) \<and>
     (sessions ws' = None \<longrightarrow> sessions ws = None) \<and> (sessionsAt ws' = None \<longrightarrow> sessionsAt ws = None) \<and>
     (terminatedAt ws' = None \<longrightarrow> terminatedAt ws = None)"

lemma set_attr_simps [simp]:
  "set_attr c (Some x) old = Some x" "set_attr True new old = new"
  "set_attr False None old = old"
  by (simp_all add: set_attr_def split: option.split)

lemma set_attr_keep: "(new = None \<longrightarrow> old = None) \<Longrightarrow> set_attr False new old = new"
  by (cases new) simp_all

lemma sessions_roundtrip: "map_option (map (fromStoredSession \<circ> toStoredSession)) ss = ss"
  by (cases ss) (simp_all add: comp_def)

lemma toWorkspace_InrE:
  assumes "toWorkspace r = Inr ws" and "normal_email (ownerEmail r)"
  obtains res where "resources r = Some res" "ws = map_fields (\<lambda>_. res) fromStoredSession r"
    "isValidWorkspaceResourcePair res"
  using assms
  by (auto simp: toWorkspace_def normal_email_def map_fields_def split: option.splits sum.splits)

lemma detail_sel [simp]:
  "wsId (toWorkspaceDetail ws) = wsId ws" "ownerEmail (toWorkspaceDetail ws) = ownerEmail ws"
  "resources (toWorkspaceDetail ws) = resources ws" "state (toWorkspaceDetail ws) = state ws"
  "shareEnabledAt (toWorkspaceDetail ws) = None"
  by (simp_all add: toWorkspaceDetail_eq)

lemma patch_transition:
  assumes r: "toWorkspace r = Inr ws" "normal_email (ownerEmail r)" "shareEnabledAt r = None"
    and ws': "keeps_fields ws ws'"
  shows "patch_record TRANSITION_CLEARABLE (transition_attrs ws') r = transition_attrs ws'"
proof -
  obtain res where ws: "ws = map_fields (\<lambda>_. res) fromStoredSession r"
    using toWorkspace_InrE [OF r(1,2)] by metis
  have keep: "wsId ws' = wsId r" "ownerEmail ws' = None \<longrightarrow> ownerEmail r = None"
    "ownerRole ws' = None \<longrightarrow> ownerRole r = None" "repoUrl ws' = None \<longrightarrow> repoUrl r = None"
    "editor ws' = None \<longrightarrow> editor r = None" "desiredState ws' = None \<longrightarrow> desiredState r = None"
    "deleteRequestedAt ws' = None \<longrightarrow> deleteRequestedAt r = None"
    "snapshotIntervalMs ws' = None \<longrightarrow> snapshotIntervalMs r = None"
    "diskUsedBytes ws' = None \<longrightarrow> diskUsedBytes r = None"
    "diskTotalBytes ws' = None \<longrightarrow> diskTotalBytes r = None"
    "sessions ws' = None \<longrightarrow> sessions r = None" "sessionsAt ws' = None \<longrightarrow> sessionsAt r = None"
    "terminatedAt ws' = None \<longrightarrow> terminatedAt r = None"
    using ws' by (simp_all add: keeps_fields_def ws)
  show ?thesis
    by (rule ws_fields.equality)
      (simp_all add: patch_record_def transition_attrs_def TRANSITION_CLEARABLE_def
        toWorkspaceDetail_eq keep r(3) set_attr_keep)
qed

lemma toWorkspace_transition_attrs:
  assumes "storable ws"
  shows "toWorkspace (transition_attrs ws) = Inr (toWorkspaceDetail ws)"
proof -
  have "map_fields (\<lambda>_. resources ws) fromStoredSession (transition_attrs ws) = toWorkspaceDetail ws"
    by (rule ws_fields.equality)
      (simp_all add: transition_attrs_def toWorkspaceDetail_eq option.map_comp sessions_roundtrip)
  then show ?thesis
    using toWorkspace_valid [of "transition_attrs ws" "resources ws"] assms
    by (simp add: storable_def transition_attrs_def)
qed

lemma op_keeps_fields:
  assumes "apply_op op ws = Ok ws'" "\<And>at. op \<noteq> OpUndelete at"
  shows "keeps_fields ws ws'"
  using assms by (cases op)
    (auto simp: op_simps keeps_fields_def split: if_splits sum.splits option.splits)

lemma op_storable:
  assumes "apply_op op ws = Ok ws'" and "storable ws"
  shows "storable ws'"
  using op_identity [OF assms(1)] assms(2) by (simp add: storable_def same_identity_def)

section \<open>Properties\<close>

text \<open>
  C23. Write, then read. Where a stored record reads back as the workspace an operation was
  applied to, the record after the transition's patch reads back as the operation's
  result: every field it set is there, every binding it cleared is gone, and what it did
  not touch is kept. Two exceptions are in the statement: the undelete, and the time at
  which sharing was enabled, which the projection drops.
\<close>

theorem persist_roundtrip:
  assumes "toWorkspace r = Inr ws" and "normal_email (ownerEmail r)" and "shareEnabledAt r = None"
    and "apply_op op ws = Ok ws'" and "\<And>at. op \<noteq> OpUndelete at"
  shows "toWorkspace (patch_record TRANSITION_CLEARABLE (transition_attrs ws') r) =
           Inr (ws'\<lparr>shareEnabledAt := None\<rparr>)"
proof -
  obtain res where "ws = map_fields (\<lambda>_. res) fromStoredSession r"
    "isValidWorkspaceResourcePair res"
    using toWorkspace_InrE [OF assms(1,2)] by metis
  then have "storable ws" using assms(2) by (simp add: storable_def)
  then have "storable ws'" by (rule op_storable [OF assms(4)])
  then show ?thesis
    using patch_transition [OF assms(1-3) op_keeps_fields [OF assms(4,5)]]
    by (simp add: toWorkspace_transition_attrs toWorkspaceDetail_eq)
qed

lemma sample_ws_storable [simp]: "storable sample_ws"
  by (simp add: storable_def normal_email_def sample_ws_def reserve_def sample_params_def orElse_def
      del: defaultResourcesForEditor.simps)

theorem persist_roundtrip_witness:
  "\<exists>ws. apply_op (OpProvisioned ''vol-1'' ''task-1'' (Iso 1) None) (toWorkspaceDetail sample_ws) = Ok ws \<and>
     toWorkspace (patch_record TRANSITION_CLEARABLE (transition_attrs ws) (transition_attrs sample_ws)) =
       Inr (ws\<lparr>shareEnabledAt := None\<rparr>)"
proof -
  have read: "toWorkspace (transition_attrs sample_ws) = Inr (toWorkspaceDetail sample_ws)"
    by (simp add: toWorkspace_transition_attrs)
  have mail: "normal_email (ownerEmail (transition_attrs sample_ws))"
    using sample_ws_storable by (simp add: transition_attrs_def storable_def)
  obtain ws where op: "apply_op (OpProvisioned ''vol-1'' ''task-1'' (Iso 1) None)
      (toWorkspaceDetail sample_ws) = Ok ws"
    by (simp add: markProvisioned_def TRANSITIONS_event_simps)
  show ?thesis using persist_roundtrip [OF read mail _ op] op by (simp add: transition_attrs_def)
qed

text \<open>
  The undelete is the exception: its transition clears the two times of the tombstone
  in memory, and neither is on the clear list, so a record restored through the ordinary
  transition write still carries when it was deleted.
\<close>

theorem undelete_keeps_tombstone_times:
  assumes "toWorkspace r = Inr ws" and "undeleteWorkspace ws now = Ok ws'"
  shows "deleteRequestedAt ws' = None \<and> terminatedAt ws' = None \<and>
     deleteRequestedAt (patch_record TRANSITION_CLEARABLE (transition_attrs ws') r) =
       deleteRequestedAt r \<and>
     terminatedAt (patch_record TRANSITION_CLEARABLE (transition_attrs ws') r) = terminatedAt r"
  using assms(2)
  by (auto simp: undeleteWorkspace_def result_map_Ok_iff patch_record_def TRANSITION_CLEARABLE_def
      transition_attrs_def toWorkspaceDetail_eq split: if_splits)

theorem undelete_keeps_tombstone_times_witness:
  "\<exists>r ws ws'. toWorkspace r = Inr ws \<and> undeleteWorkspace ws (Iso 9) = Ok ws' \<and> terminatedAt r = Some (Iso 5) \<and>
     terminatedAt (patch_record TRANSITION_CLEARABLE (transition_attrs ws') r) = Some (Iso 5)"
proof -
  define ws where "ws = toWorkspaceDetail (sample_ws\<lparr>state := Terminated, terminatedAt := Some (Iso 5),
    latestSnapshotId := Some ''snap-1''\<rparr>)"
  have "storable ws" using sample_ws_storable by (simp add: ws_def storable_def toWorkspaceDetail_eq)
  then have read: "toWorkspace (transition_attrs ws) = Inr ws"
    by (simp add: toWorkspace_transition_attrs) (simp add: ws_def toWorkspaceDetail_eq)
  obtain ws' where op: "undeleteWorkspace ws (Iso 9) = Ok ws'"
    by (simp add: undeleteWorkspace_def ws_def TRANSITIONS_event_simps toWorkspaceDetail_eq)
  have "terminatedAt (transition_attrs ws) = Some (Iso 5)"
    by (simp add: transition_attrs_def ws_def toWorkspaceDetail_eq)
  then show ?thesis using undelete_keeps_tombstone_times [OF read op] read op by auto
qed

end
