(* ===== verification/Service_Base.thy ===== *)
theory Service_Base
  imports Persistence
begin

text \<open>
  The ground of the workspace service (\<^verbatim>\<open>packages/control-plane/src/workspace-service.ts\<close>):
  the table, the quota counters, the audit ledger and the cloud as one state \<open>sys\<close>; the
  awaited calls as steps, before each of which other actors may run and each of which may
  fail; and the methods every operation is built from (\<^verbatim>\<open>find\<close>, \<^verbatim>\<open>require\<close>, \<^verbatim>\<open>auditItem\<close>,
  \<^verbatim>\<open>persistNew\<close>, \<^verbatim>\<open>persistTransition\<close>, the index queries).

  Concurrency. A world carries a schedule: for every awaited call a turn, which says what
  the rest of the system does just before the call (a function on \<open>sys\<close>) and whether the
  call completes, is rejected, completes with its answer lost, or (for a transaction) is
  cancelled by contention. Code between two awaits is atomic, as it is in Node. An
  exhausted schedule means no interference and no failure. The list of calls made is kept
  in \<open>trace\<close>, and the table records the state changes written to it in \<open>moves\<close>; no
  definition reads either.

  Parameters. \<open>deps\<close> holds what is not under \<^verbatim>\<open>src/\<close>: the providers behind the storage and
  compute ports, the UUIDs \<^verbatim>\<open>randomUUID\<close> returns, the schema validation ElectroDB performs
  on the attributes it is given, and the code with which DynamoDB cancels a transaction
  that subtracts from a counter that does not exist (if it does).
\<close>

section \<open>State\<close>

datatype audit_action =
    SessionCreate | SessionStart | SessionStop | SessionDelete | SessionTerminated
  | SessionRecover | SessionUndelete | SessionPurged | SessionAccess | SessionSettings
  | SessionRestore | SessionShareEnabled | SessionShareDisabled | SessionSnapshotLost
  | SecurityPrivilegeAttempt | SnapshotPurged

record audit_event =
  ev_id :: string
  ev_at :: iso_timestamp
  ev_actor :: string
  ev_action :: audit_action
  ev_target :: string
  ev_detail :: string
  ev_resources :: "workspace_resources option"

datatype metric =
    MetricCount string int "(string \<times> string) list"
  | MetricTiming string js_number "(string \<times> string) list"

text \<open>One change of the stored state of a workspace; \<^term>\<open>None\<close> is the absence of the record.\<close>

record move =
  mv_id :: string
  mv_from :: "workspace_state option"
  mv_to :: "workspace_state option"

record 'p sys =
  table :: "(string \<times> stored_fields \<times> int) list"
  ownerCounts :: "(string \<times> int) list"
  ledger :: "audit_event list"
  metricLog :: "metric list"
  cloud :: 'p
  clockMs :: int
  wallMs :: int
  uuids :: nat
  moves :: "move list"

section \<open>Transactions\<close>

datatype tx_item =
    TxCreate stored_fields
  | TxPatch string stored_fields "field_name list" int
  | TxDelete string int
  | TxAddCount string "int option"
  | TxSubCount string
  | TxEvent audit_event

datatype fault = Clean | Failing js_error | AnswerLost js_error | Cancelled "string option list"

record 'p turn =
  others :: "'p sys \<Rightarrow> 'p sys"
  fault :: fault

datatype call =
    CGet string
  | CQueryState workspace_state
  | CQueryOwner string
  | CScanCounts
  | CWrite "tx_item list"
  | CPutEvent audit_event
  | CSetCount string int
  | CRunTask run_task_input
  | CStopTask string
  | CTaskState string
  | CCreateSnapshot string bool
  | CTagSnapshot string
  | CDeleteSnapshot string
  | CListSnapshots
  | CSleep
  | CListVolumes
  | CDeleteVolume string
  | CListTasks
  | CListSecrets
  | CDeleteSecret string
  | CPruneTaskDefs int
  | CDescribeService string
  | CScaleService string int
  | CReadActivity

record 'p world =
  sys :: "'p sys"
  schedule :: "'p turn list"
  trace :: "(call \<times> bool) list"

record 'p deps =
  hasAudit :: bool
  hasMetrics :: bool
  hasOwnerCounts :: bool
  uuidOf :: "nat \<Rightarrow> string"
  schemaError :: "stored_fields \<Rightarrow> js_error option"
  subMissing :: "string option"
  d_runTask :: "iso_timestamp \<Rightarrow> run_task_input \<Rightarrow> 'p \<Rightarrow> (js_error + compute_task) \<times> 'p"
  d_stopTask :: "string \<Rightarrow> 'p \<Rightarrow> (js_error + unit) \<times> 'p"
  d_taskState :: "string \<Rightarrow> 'p \<Rightarrow> (js_error + task_liveness) \<times> 'p"
  d_createSnapshot ::
    "iso_timestamp \<Rightarrow> string \<Rightarrow> bool \<Rightarrow> string option \<Rightarrow> 'p \<Rightarrow> (js_error + snapshot) \<times> 'p"
  d_tagSnapshotRetained :: "string \<Rightarrow> 'p \<Rightarrow> (js_error + unit) \<times> 'p"
  d_deleteSnapshot :: "string \<Rightarrow> 'p \<Rightarrow> (js_error + unit) \<times> 'p"
  d_listSnapshots :: "'p \<Rightarrow> (js_error + snapshot_ref list) \<times> 'p"

definition lookup :: "'p sys \<Rightarrow> string \<Rightarrow> (stored_fields \<times> int) option" where
  "lookup s = map_of (table s)"

definition CONDITION_FAILED :: string where
  "CONDITION_FAILED = ''ConditionalCheckFailed''"

text \<open>The code of an item whose condition fails; \<^term>\<open>None\<close> for one that would be applied.\<close>

fun tx_code :: "string option \<Rightarrow> tx_item \<Rightarrow> 'p sys \<Rightarrow> string option" where
  "tx_code sub (TxCreate r) s = (if lookup s (wsId r) = None then None else Some CONDITION_FAILED)"
| "tx_code sub (TxPatch i d cl v) s =
     (case lookup s i of
        None \<Rightarrow> Some CONDITION_FAILED
      | Some (r, u) \<Rightarrow> if u = v then None else Some CONDITION_FAILED)"
| "tx_code sub (TxDelete i v) s =
     (case lookup s i of
        None \<Rightarrow> Some CONDITION_FAILED
      | Some (r, u) \<Rightarrow> if u = v then None else Some CONDITION_FAILED)"
| "tx_code sub (TxAddCount owner limit) s =
     (case (limit, map_of (ownerCounts s) owner) of
        (Some l, Some c) \<Rightarrow> if c < l then None else Some CONDITION_FAILED
      | _ \<Rightarrow> None)"
| "tx_code sub (TxSubCount owner) s =
     (case map_of (ownerCounts s) owner of None \<Rightarrow> sub | Some _ \<Rightarrow> None)"
| "tx_code sub (TxEvent e) s = None"

definition add_count :: "string \<Rightarrow> int \<Rightarrow> 'p sys \<Rightarrow> 'p sys" where
  "add_count owner n s =
     s\<lparr>ownerCounts := AList.update owner (orElse (map_of (ownerCounts s) owner) 0 + n)
        (ownerCounts s)\<rparr>"

definition log_move ::
  "string \<Rightarrow> workspace_state option \<Rightarrow> workspace_state option \<Rightarrow> 'p sys \<Rightarrow> 'p sys" where
  "log_move i a b s = s\<lparr>moves := moves s @ [\<lparr>mv_id = i, mv_from = a, mv_to = b\<rparr>]\<rparr>"

definition put_record :: "string \<Rightarrow> stored_fields \<Rightarrow> int \<Rightarrow> 'p sys \<Rightarrow> 'p sys" where
  "put_record i r v s =
     log_move i (map_option (state \<circ> fst) (lookup s i)) (Some (state r))
       (s\<lparr>table := AList.update i (r, v) (table s)\<rparr>)"

definition drop_record :: "string \<Rightarrow> 'p sys \<Rightarrow> 'p sys" where
  "drop_record i s =
     log_move i (map_option (state \<circ> fst) (lookup s i)) None
       (s\<lparr>table := AList.delete i (table s)\<rparr>)"

fun tx_apply :: "tx_item \<Rightarrow> 'p sys \<Rightarrow> 'p sys" where
  "tx_apply (TxCreate r) s = put_record (wsId r) r 0 s"
| "tx_apply (TxPatch i d cl v) s =
     (case lookup s i of
        None \<Rightarrow> s
      | Some (r, u) \<Rightarrow> put_record i (patch_record cl d r) (v + 1) s)"
| "tx_apply (TxDelete i v) s = drop_record i s"
| "tx_apply (TxAddCount owner limit) s = add_count owner 1 s"
| "tx_apply (TxSubCount owner) s = add_count owner (- 1) s"
| "tx_apply (TxEvent e) s = s\<lparr>ledger := ledger s @ [e]\<rparr>"

section \<open>Actions\<close>

datatype 'a outcome = Ret 'a | Raise js_error

type_synonym ('p, 'a) act = "'p world \<Rightarrow> 'a outcome \<times> 'p world"

definition ret :: "'a \<Rightarrow> ('p, 'a) act" where
  "ret a w = (Ret a, w)"

definition raise :: "js_error \<Rightarrow> ('p, 'a) act" where
  "raise e w = (Raise e, w)"

definition bindM :: "('p, 'a) act \<Rightarrow> ('a \<Rightarrow> ('p, 'b) act) \<Rightarrow> ('p, 'b) act" where
  "bindM m f w = (case m w of (Ret a, w') \<Rightarrow> f a w' | (Raise e, w') \<Rightarrow> (Raise e, w'))"

definition tryM :: "('p, 'a) act \<Rightarrow> (js_error \<Rightarrow> ('p, 'a) act) \<Rightarrow> ('p, 'a) act" where
  "tryM m h w = (case m w of (Ret a, w') \<Rightarrow> (Ret a, w') | (Raise e, w') \<Rightarrow> h e w')"

text \<open>Continue with the value of a result, return its error: the source's
  \<^verbatim>\<open>if (!r.ok) return r\<close>.\<close>

definition onOk ::
  "('a, domain_error) result \<Rightarrow> ('a \<Rightarrow> ('p, ('b, domain_error) result) act) \<Rightarrow>
   ('p, ('b, domain_error) result) act" where
  "onOk r f = (case r of Ok a \<Rightarrow> f a | Err e \<Rightarrow> ret (Err e))"

definition bindR ::
  "('p, ('a, domain_error) result) act \<Rightarrow> ('a \<Rightarrow> ('p, ('b, domain_error) result) act) \<Rightarrow>
   ('p, ('b, domain_error) result) act" where
  "bindR m f = bindM m (\<lambda>r. onOk r f)"

definition whenM :: "bool \<Rightarrow> ('p, unit) act \<Rightarrow> ('p, unit) act" where
  "whenM b m = (if b then m else ret ())"

definition liftE :: "js_error + 'a \<Rightarrow> ('p, 'a) act" where
  "liftE x = (case x of Inl e \<Rightarrow> raise e | Inr a \<Rightarrow> ret a)"

definition now :: "('p, iso_timestamp) act" where
  "now w = (Ret (Iso (clockMs (sys w))), w)"

definition dateNow :: "('p, int) act" where
  "dateNow w = (Ret (wallMs (sys w)), w)"

definition randomUUID :: "'p deps \<Rightarrow> ('p, string) act" where
  "randomUUID d w =
     (Ret (uuidOf d (uuids (sys w))), w\<lparr>sys := (sys w)\<lparr>uuids := uuids (sys w) + 1\<rparr>\<rparr>)"

definition emit :: "'p deps \<Rightarrow> metric \<Rightarrow> ('p, unit) act" where
  "emit d m w =
     (Ret (), if hasMetrics d then w\<lparr>sys := (sys w)\<lparr>metricLog := metricLog (sys w) @ [m]\<rparr>\<rparr> else w)"

text \<open>
  One awaited call. Its turn runs the other actors, then the call itself: \<open>act\<close> on the state,
  or nothing (the request was rejected), or \<open>act\<close> with the answer replaced by an error.
  \<open>cancel\<close> says what a cancellation by contention answers; for a call that is no
  transaction it is ignored. The call is added to the trace with whether it answered well.
\<close>

fun deliver :: "js_error option \<Rightarrow> 'a outcome \<Rightarrow> 'a outcome" where
  "deliver None r = r"
| "deliver (Some e) r = Raise e"

definition record_call :: "call \<Rightarrow> ('a \<Rightarrow> bool) \<Rightarrow> 'a outcome \<times> 'p sys \<Rightarrow> 'p turn list \<Rightarrow>
    'p world \<Rightarrow> 'a outcome \<times> 'p world" where
  "record_call c good r rest w =
     (fst r, \<lparr>sys = snd r, schedule = rest,
        trace = trace w @ [(c, case fst r of Ret a \<Rightarrow> good a | Raise _ \<Rightarrow> False)]\<rparr>)"

definition perform ::
  "call \<Rightarrow> ('a \<Rightarrow> bool) \<Rightarrow> (string option list \<Rightarrow> 'a option) \<Rightarrow>
   ('p sys \<Rightarrow> 'a outcome \<times> 'p sys) \<Rightarrow> ('p, 'a) act" where
  "perform c good cancel act w =
     (case schedule w of
        [] \<Rightarrow> record_call c good (act (sys w)) [] w
      | t # rest \<Rightarrow>
          (let s = others t (sys w) in
           record_call c good
             (case fault t of
                Clean \<Rightarrow> act s
              | Failing e \<Rightarrow> (Raise e, s)
              | AnswerLost e \<Rightarrow> (deliver (Some e) (fst (act s)), snd (act s))
              | Cancelled codes \<Rightarrow>
                  (case cancel codes of None \<Rightarrow> act s | Some a \<Rightarrow> (Ret a, s)))
             rest w))"

definition io :: "call \<Rightarrow> ('p sys \<Rightarrow> 'a outcome \<times> 'p sys) \<Rightarrow> ('p, 'a) act" where
  "io c act = perform c (\<lambda>_. True) (\<lambda>_. None) act"

definition reading :: "('p sys \<Rightarrow> 'a) \<Rightarrow> 'p sys \<Rightarrow> 'a outcome \<times> 'p sys" where
  "reading f s = (Ret (f s), s)"

text \<open>A call on a provider acts on the cloud only; what it throws is raised.\<close>

definition provider :: "('p \<Rightarrow> (js_error + 'a) \<times> 'p) \<Rightarrow> 'p sys \<Rightarrow> 'a outcome \<times> 'p sys" where
  "provider f s =
     (case f (cloud s) of
        (Inl e, c) \<Rightarrow> (Raise e, s\<lparr>cloud := c\<rparr>)
      | (Inr a, c) \<Rightarrow> (Ret a, s\<lparr>cloud := c\<rparr>))"

definition runTask :: "'p deps \<Rightarrow> run_task_input \<Rightarrow> ('p, compute_task) act" where
  "runTask d inp = io (CRunTask inp) (\<lambda>s. provider (d_runTask d (Iso (clockMs s)) inp) s)"

definition stopTask :: "'p deps \<Rightarrow> string \<Rightarrow> ('p, unit) act" where
  "stopTask d t = io (CStopTask t) (provider (d_stopTask d t))"

definition taskState :: "'p deps \<Rightarrow> string \<Rightarrow> ('p, task_liveness) act" where
  "taskState d t = io (CTaskState t) (provider (d_taskState d t))"

definition createSnapshot ::
  "'p deps \<Rightarrow> string \<Rightarrow> bool \<Rightarrow> string option \<Rightarrow> ('p, snapshot) act" where
  "createSnapshot d v retain owner =
     io (CCreateSnapshot v retain)
       (\<lambda>s. provider (d_createSnapshot d (Iso (clockMs s)) v retain owner) s)"

definition tagSnapshotRetained :: "'p deps \<Rightarrow> string \<Rightarrow> ('p, unit) act" where
  "tagSnapshotRetained d i = io (CTagSnapshot i) (provider (d_tagSnapshotRetained d i))"

definition deleteSnapshot :: "'p deps \<Rightarrow> string \<Rightarrow> ('p, unit) act" where
  "deleteSnapshot d i = io (CDeleteSnapshot i) (provider (d_deleteSnapshot d i))"

definition listSnapshots :: "'p deps \<Rightarrow> ('p, snapshot_ref list) act" where
  "listSnapshots d = io CListSnapshots (provider (d_listSnapshots d))"

definition sleep :: "int \<Rightarrow> ('p, unit) act" where
  "sleep ms = io CSleep (\<lambda>s. (Ret (), s\<lparr>wallMs := wallMs s + ms\<rparr>))"

section \<open>Writes\<close>

definition conditionalCheckFailed :: js_error where
  "conditionalCheckFailed =
     plain_error ''ConditionalCheckFailedException'' ''The conditional request failed''"

definition transactionCanceledAsConflict :: js_error where
  "transactionCanceledAsConflict =
     plain_error ''ConditionalCheckFailedException''
       ''conditional request failed (transaction canceled)''"

definition commit_items ::
  "string option \<Rightarrow> tx_item list \<Rightarrow> 'p sys \<Rightarrow> string option list option \<times> 'p sys" where
  "commit_items sub items s =
     (let codes = map (\<lambda>i. tx_code sub i s) items in
      if \<forall>c \<in> set codes. c = None then (None, fold tx_apply items s) else (Some codes, s))"

text \<open>\<^verbatim>\<open>writeTransaction(...).go()\<close>: all items or none; answers the codes of a cancellation.\<close>

definition writeTransaction ::
  "'p deps \<Rightarrow> tx_item list \<Rightarrow> ('p, string option list option) act" where
  "writeTransaction d items =
     perform (CWrite items) (\<lambda>r. r = None) (\<lambda>codes. Some (Some codes))
       (\<lambda>s. case commit_items (subMissing d) items s of (r, s') \<Rightarrow> (Ret r, s'))"

text \<open>A single conditional write, \<^verbatim>\<open>.where(...).go()\<close>, raises when its condition fails.\<close>

definition writeOne :: "'p deps \<Rightarrow> tx_item \<Rightarrow> ('p, unit) act" where
  "writeOne d item =
     io (CWrite [item])
       (\<lambda>s. case commit_items (subMissing d) [item] s of
              (None, s') \<Rightarrow> (Ret (), s')
            | (Some _, s') \<Rightarrow> (Raise conditionalCheckFailed, s'))"

text \<open>ElectroDB validates the attributes before a request is made.\<close>

definition validate :: "'p deps \<Rightarrow> stored_fields \<Rightarrow> ('p, unit) act" where
  "validate d attrs = (case schemaError d attrs of None \<Rightarrow> ret () | Some e \<Rightarrow> raise e)"

definition FATAL_TX_CODES :: "string list" where
  "FATAL_TX_CODES = [''ValidationError'', ''ItemCollectionSizeLimitExceeded'']"

fun fatalTransactionCode :: "string option list \<Rightarrow> string option" where
  "fatalTransactionCode [] = None"
| "fatalTransactionCode (c # cs) =
     (case c of
        Some code \<Rightarrow> if code \<in> set FATAL_TX_CODES then Some code else fatalTransactionCode cs
      | None \<Rightarrow> fatalTransactionCode cs)"

definition fatal_error :: "string \<Rightarrow> js_error" where
  "fatal_error code = plain_error ''Error''
     (''workspace write transaction failed (DynamoDB '' @ code @ '') -- not a concurrency conflict'')"

definition canceledTransactionError :: "string option list \<Rightarrow> js_error" where
  "canceledTransactionError codes =
     (case fatalTransactionCode codes of
        Some fatal \<Rightarrow> fatal_error fatal
      | None \<Rightarrow> transactionCanceledAsConflict)"

definition QuotaExceededError :: "string \<Rightarrow> js_error" where
  "QuotaExceededError reason = plain_error ''QuotaExceededError'' reason"

definition isQuotaExceeded :: "js_error \<Rightarrow> bool" where
  "isQuotaExceeded e \<longleftrightarrow> err_name e = ''QuotaExceededError''"

definition ComputeUnavailableError :: "string \<Rightarrow> js_error" where
  "ComputeUnavailableError reason = plain_error ''ComputeUnavailableError'' reason"

definition canceledCreateError ::
  "string option list \<Rightarrow> nat \<Rightarrow> string \<Rightarrow> int \<Rightarrow> js_error" where
  "canceledCreateError codes quotaIndex owner limit =
     (case fatalTransactionCode codes of
        Some fatal \<Rightarrow> fatal_error fatal
      | None \<Rightarrow>
          if quotaIndex < length codes \<and> codes ! quotaIndex = Some CONDITION_FAILED then
            QuotaExceededError
              (''workspace quota reached for '' @ owner @ '' (limit '' @ int_text limit @ '')'')
          else transactionCanceledAsConflict)"

section \<open>Reading and writing a workspace\<close>

definition SYSTEM_ACTOR :: string where
  "SYSTEM_ACTOR = ''system''"

record lifecycle_audit =
  la_action :: audit_action
  la_target :: string
  la_actor :: string
  la_detail :: string
  la_resources :: "workspace_resources option"

definition mk_audit ::
  "audit_action \<Rightarrow> string \<Rightarrow> string \<Rightarrow> string \<Rightarrow> lifecycle_audit" where
  "mk_audit action target actor detail =
     \<lparr>la_action = action, la_target = target, la_actor = actor, la_detail = detail,
      la_resources = None\<rparr>"

type_synonym loaded_workspace = "workspace \<times> int"

definition svc_find :: "'p deps \<Rightarrow> string \<Rightarrow> ('p, loaded_workspace option) act" where
  "svc_find d i =
     bindM (io (CGet i) (reading (\<lambda>s. lookup s i))) (\<lambda>data.
       case data of
         None \<Rightarrow> ret None
       | Some (r, v) \<Rightarrow> bindM (liftE (toWorkspace r)) (\<lambda>ws. ret (Some (ws, v))))"

definition svc_require ::
  "'p deps \<Rightarrow> string \<Rightarrow> ('p, (loaded_workspace, domain_error) result) act" where
  "svc_require d i =
     bindM (svc_find d i) (\<lambda>loaded.
       ret (case loaded of None \<Rightarrow> Err (NotFound ''workspace'' i) | Some lw \<Rightarrow> Ok lw))"

definition auditItem :: "'p deps \<Rightarrow> lifecycle_audit \<Rightarrow> ('p, audit_event option) act" where
  "auditItem d a =
     (if \<not> hasAudit d then ret None
      else bindM (randomUUID d) (\<lambda>u. bindM now (\<lambda>at.
        ret (Some \<lparr>ev_id = ''evt-'' @ u, ev_at = at, ev_actor = la_actor a,
                   ev_action = la_action a, ev_target = la_target a, ev_detail = la_detail a,
                   ev_resources = la_resources a\<rparr>))))"

definition persistNew ::
  "'p deps \<Rightarrow> workspace \<Rightarrow> lifecycle_audit \<Rightarrow> int option \<Rightarrow> ('p, unit) act" where
  "persistNew d ws audit quotaLimit =
     (let item = spread_attrs ws in
      bindM (auditItem d audit) (\<lambda>ev.
      bindM (validate d item) (\<lambda>_.
        case ev of
          None \<Rightarrow> writeOne d (TxCreate item)
        | Some e \<Rightarrow>
            if hasOwnerCounts d \<and> quotaLimit \<noteq> None then
              bindM (writeTransaction d
                       [TxCreate item, TxEvent e, TxAddCount (ownerId ws) quotaLimit])
                (\<lambda>r. case r of
                       None \<Rightarrow> ret ()
                     | Some codes \<Rightarrow>
                         raise (canceledCreateError codes 2 (ownerId ws) (the quotaLimit)))
            else
              bindM (writeTransaction d [TxCreate item, TxEvent e])
                (\<lambda>r. case r of
                       None \<Rightarrow> ret ()
                     | Some codes \<Rightarrow> raise (canceledTransactionError codes)))))"

definition persistTransition ::
  "'p deps \<Rightarrow> workspace \<Rightarrow> int \<Rightarrow> lifecycle_audit option \<Rightarrow> ('p, unit) act" where
  "persistTransition d ws observedVersion audit =
     (let patch = TxPatch (wsId ws) (transition_attrs ws) TRANSITION_CLEARABLE observedVersion in
      bindM (case audit of None \<Rightarrow> ret None | Some a \<Rightarrow> auditItem d a) (\<lambda>ev.
      bindM (validate d (transition_attrs ws)) (\<lambda>_.
        case ev of
          None \<Rightarrow> writeOne d patch
        | Some e \<Rightarrow>
            bindM (writeTransaction d [patch, TxEvent e])
              (\<lambda>r. case r of
                     None \<Rightarrow> ret ()
                     | Some codes \<Rightarrow> raise (canceledTransactionError codes)))))"

text \<open>\<^verbatim>\<open>try { await persistTransition(...) } catch (e) { if (!isVersionConflict(e)) throw e; ... }\<close>,
  followed by the continuation of the operation.\<close>

definition persist_or ::
  "'p deps \<Rightarrow> workspace \<Rightarrow> int \<Rightarrow> lifecycle_audit option \<Rightarrow> ('p, 'a) act \<Rightarrow> ('p, 'a) act \<Rightarrow>
   ('p, 'a) act" where
  "persist_or d ws v audit conflict continue =
     bindM (tryM (bindM (persistTransition d ws v audit) (\<lambda>_. ret True))
              (\<lambda>e. if isVersionConflict e then ret False else raise e))
       (\<lambda>written. if written then continue else conflict)"

definition recordsByStates ::
  "'p deps \<Rightarrow> workspace_state list \<Rightarrow> ('p, (stored_fields \<times> int) list) act" where
  "recordsByStates d states =
     foldr (\<lambda>st rest.
       bindM (io (CQueryState st)
               (reading (\<lambda>s. filter (\<lambda>r. state (fst r) = st) (map snd (table s)))))
         (\<lambda>page. bindM rest (\<lambda>pages. ret (page @ pages))))
       states (ret [])"

text \<open>\<^verbatim>\<open>records.map(toWorkspace)\<close>, which throws on the first record that is not valid.\<close>

fun toWorkspaces :: "(stored_fields \<times> int) list \<Rightarrow> js_error + workspace list" where
  "toWorkspaces [] = Inr []"
| "toWorkspaces (r # rs) =
     (case toWorkspace (fst r) of
        Inl e \<Rightarrow> Inl e
      | Inr ws \<Rightarrow> map_sum id (Cons ws) (toWorkspaces rs))"

definition allRecords :: "'p deps \<Rightarrow> ('p, (stored_fields \<times> int) list) act" where
  "allRecords d = recordsByStates d WORKSPACE_STATES"

end
