(* ===== verification/Service_Launch.thy ===== *)
theory Service_Launch
  imports Service_Base
begin

text \<open>
  Creating, launching and waking (\<^verbatim>\<open>workspace-service.ts\<close>): the instant create and its
  launch phase, waiting for capacity, the claim-before-launch wake, wake-on-connect, and
  the recovery of launches that did not complete. One definition per method, with the
  source's guards, reads and writes in the source's order.
\<close>

section \<open>Create\<close>

record create_input =
  ci_ownerId :: string
  ci_ownerEmail :: "string option"
  ci_ownerRole :: "owner_role option"
  ci_baseImage :: string
  ci_editor :: "editor_kind option"
  ci_resources :: "workspace_resources option"
  ci_snapshotIntervalMs :: "int option"
  ci_idleStopMs :: "int option"
  ci_alwaysOn :: "bool option"
  ci_repoUrl :: "string option"
  ci_repoRef :: "string option"
  ci_quotaLimit :: "int option"

definition provision_of :: "create_input \<Rightarrow> string \<Rightarrow> iso_timestamp \<Rightarrow> provision_params" where
  "provision_of inp i at =
     \<lparr>pp_id = i, pp_ownerId = ci_ownerId inp, pp_ownerEmail = ci_ownerEmail inp,
      pp_ownerRole = ci_ownerRole inp, pp_repoUrl = ci_repoUrl inp,
      pp_baseImage = ci_baseImage inp, pp_editor = ci_editor inp,
      pp_resources = ci_resources inp, pp_snapshotIntervalMs = ci_snapshotIntervalMs inp,
      pp_idleStopMs = ci_idleStopMs inp,
      pp_alwaysOn = (if ci_alwaysOn inp = Some True then Some True else None), pp_at = at\<rparr>"

definition create_detail :: "workspace_resources \<Rightarrow> string option \<Rightarrow> string" where
  "create_detail res repo =
     ''resources cpuUnits='' @ int_text (cpuUnits res) @ '' memoryMiB='' @
     int_text (memoryMiB res) @ '' volumeGiB='' @ int_text (volumeGiB res) @ ''; '' @
     (case repo of None \<Rightarrow> ''blank session'' | Some u \<Rightarrow> ''repo '' @ u)"

definition reserveWorkspace :: "'p deps \<Rightarrow> create_input \<Rightarrow> ('p, workspace_dto) act" where
  "reserveWorkspace d inp =
     bindM (randomUUID d) (\<lambda>u. bindM now (\<lambda>at.
     bindM (liftE (reserve (provision_of inp (''ws-'' @ u) at))) (\<lambda>ws.
     bindM (persistNew d ws
         \<lparr>la_action = SessionCreate, la_target = ''ws-'' @ u,
          la_actor = orElse (ci_ownerEmail inp) (ci_ownerId inp),
          la_detail = create_detail (resources ws) (ci_repoUrl inp),
          la_resources = Some (resources ws)\<rparr>
         (ci_quotaLimit inp)) (\<lambda>_.
     ret (toWorkspaceDto ws)))))"

section \<open>Failures and waits of a launch\<close>

definition rollbackWake :: "'p deps \<Rightarrow> string \<Rightarrow> ('p, unit) act" where
  "rollbackWake d i =
     bindM (svc_find d i) (\<lambda>loaded.
       case loaded of
         None \<Rightarrow> ret ()
       | Some (ws, v) \<Rightarrow>
           if state ws \<noteq> Provisioning then ret ()
           else bindM now (\<lambda>at.
             case markStopped ws None at of
               Err _ \<Rightarrow> ret ()
             | Ok reverted \<Rightarrow> persist_or d reverted v None (ret ()) (ret ())))"

definition recordLaunchFailure ::
  "'p deps \<Rightarrow> string \<Rightarrow> string \<Rightarrow> ('p, (workspace_dto, domain_error) result) act" where
  "recordLaunchFailure d i reason =
     bindM (svc_find d i) (\<lambda>found.
       case found of
         None \<Rightarrow> ret (Err (NotFound ''workspace'' i))
       | Some (ws, v) \<Rightarrow>
           bindM now (\<lambda>at. onOk (markProvisioningFailed ws reason at) (\<lambda>failed.
             persist_or d failed v None
               (ret (Err (Unavailable reason))) (ret (Err (Unavailable reason))))))"

definition METRIC_WORKSPACE_PLACEMENT_REFUSED :: string where
  "METRIC_WORKSPACE_PLACEMENT_REFUSED = ''workspace.placement.refused''"

definition METRIC_WORKSPACE_WAKE_LATENCY_MS :: string where
  "METRIC_WORKSPACE_WAKE_LATENCY_MS = ''workspace.wake.latency_ms''"

definition waitForCapacity ::
  "'p deps \<Rightarrow> string \<Rightarrow> js_error \<Rightarrow> ('p, (workspace_dto, domain_error) result) act" where
  "waitForCapacity d i refusal =
     bindM (svc_find d i) (\<lambda>found.
       case found of
         None \<Rightarrow> ret (Err (NotFound ''workspace'' i))
       | Some (ws, v) \<Rightarrow>
           bindM now (\<lambda>at.
           bindM (liftE (deferPlacement ws (err_message refusal) at)) (\<lambda>waiting.
             case waiting of
               Err e \<Rightarrow>
                 (let why = (case e of
                      Conflict reason \<Rightarrow> reason
                    | _ \<Rightarrow> ''could not launch workspace task: '' @ err_message refusal)
                  in if latestSnapshotId ws \<noteq> None then
                       bindM (rollbackWake d i) (\<lambda>_. ret (Err (Unavailable why)))
                     else recordLaunchFailure d i why)
             | Ok deferred \<Rightarrow>
                 persist_or d deferred v None
                   (ret (Err (Conflict (''launch of '' @ i @ '' lost a concurrent update''))))
                   (bindM (emit d (MetricCount METRIC_WORKSPACE_PLACEMENT_REFUSED 1
                        [(''baseImage'', baseImage ws), (''reason'', or_empty (err_reason refusal))]))
                     (\<lambda>_. ret (Ok (toWorkspaceDto deferred)))))))"

section \<open>Launching a reservation\<close>

definition quietly :: "('p, unit) act \<Rightarrow> ('p, unit) act" where
  "quietly m = tryM m (\<lambda>_. ret ())"

definition launch_input :: "workspace \<Rightarrow> string \<Rightarrow> string option \<Rightarrow> run_task_input" where
  "launch_input ws i repoRef =
     \<lparr>rt_workspaceId = i, rt_baseImage = baseImage ws, rt_editor = editor ws,
      rt_fromSnapshot = None, rt_repoUrl = repoUrl ws, rt_repoRef = repoRef,
      rt_resources = resources ws\<rparr>"

definition bind_launched ::
  "'p deps \<Rightarrow> string \<Rightarrow> compute_task \<Rightarrow> ('p, (workspace_dto, domain_error) result) act" where
  "bind_launched d i task =
     bindM now (\<lambda>at.
     bindM (svc_find d i) (\<lambda>current.
       case current of
         None \<Rightarrow>
           bindM (quietly (stopTask d (task_id task))) (\<lambda>_. ret (Err (NotFound ''workspace'' i)))
       | Some (ws, v) \<Rightarrow>
           if state ws \<noteq> Provisioning \<or> taskId ws \<noteq> None then
             bindM (quietly (stopTask d (task_id task))) (\<lambda>_.
               ret (Err (Conflict (''launch of '' @ i @ '' lost a concurrent update (now '' @
                 state_name (state ws) @ '')''))))
           else
             onOk (markProvisioned ws (task_volumeId task) (task_id task) at (task_sshHost task))
               (\<lambda>bound.
                  tryM (bindM (persistTransition d bound v None)
                          (\<lambda>_. ret (Ok (toWorkspaceDto bound))))
                    (\<lambda>e. bindM (quietly (stopTask d (task_id task))) (\<lambda>_.
                       if isVersionConflict e then
                         ret (Err (Conflict (''launch of '' @ i @ '' lost a concurrent update'')))
                       else raise e)))))"

definition launchReserved ::
  "'p deps \<Rightarrow> string \<Rightarrow> string option \<Rightarrow> ('p, (workspace_dto, domain_error) result) act" where
  "launchReserved d i repoRef =
     bindM (svc_find d i) (\<lambda>found.
       case found of
         None \<Rightarrow> ret (Err (NotFound ''workspace'' i))
       | Some (ws, _) \<Rightarrow>
           if state ws \<noteq> Provisioning \<or> taskId ws \<noteq> None then ret (Ok (toWorkspaceDto ws))
           else
             bindM (tryM (bindM (runTask d (launch_input ws i repoRef)) (\<lambda>task. ret (Inr task)))
                      (\<lambda>e. ret (Inl e)))
               (\<lambda>launched.
                  case launched of
                    Inl e \<Rightarrow>
                      if isPlacementRefused e then waitForCapacity d i e
                      else recordLaunchFailure d i
                        (''could not launch workspace task: '' @ err_message e)
                  | Inr task \<Rightarrow> bind_launched d i task))"

definition svc_create :: "'p deps \<Rightarrow> create_input \<Rightarrow> ('p, workspace_dto) act" where
  "svc_create d inp =
     bindM (reserveWorkspace d inp) (\<lambda>dto.
     bindM (launchReserved d (wsId (fst dto)) (ci_repoRef inp)) (\<lambda>launched.
       case launched of
         Ok v \<Rightarrow> ret v
       | Err e \<Rightarrow> raise (ComputeUnavailableError
           (case e of Conflict reason \<Rightarrow> reason | _ \<Rightarrow> ''launch failed''))))"

section \<open>Waking\<close>

definition wake_input :: "workspace \<Rightarrow> run_task_input" where
  "wake_input ws =
     \<lparr>rt_workspaceId = wsId ws, rt_baseImage = baseImage ws, rt_editor = editor ws,
      rt_fromSnapshot = latestSnapshotId ws, rt_repoUrl = None, rt_repoRef = None,
      rt_resources = resources ws\<rparr>"

definition commit_wake ::
  "'p deps \<Rightarrow> string \<Rightarrow> workspace \<Rightarrow> iso_timestamp \<Rightarrow> string \<Rightarrow> compute_task \<Rightarrow>
   ('p, (workspace_dto, domain_error) result) act" where
  "commit_wake d i ws at actor task =
     bindM (svc_find d i) (\<lambda>claimed.
       case claimed of
         None \<Rightarrow>
           bindM (stopTask d (task_id task)) (\<lambda>_. ret (Err (NotFound ''workspace'' i)))
       | Some (cws, v) \<Rightarrow>
           (case markProvisioned cws (task_volumeId task) (task_id task) at (task_sshHost task) of
              Err e \<Rightarrow> bindM (stopTask d (task_id task)) (\<lambda>_. ret (Err e))
            | Ok next \<Rightarrow>
                bindM
                  (tryM (bindM (persistTransition d next v
                           (Some (mk_audit SessionStart i actor ''woken from snapshot'')))
                         (\<lambda>_. ret None))
                    (\<lambda>e. bindM (stopTask d (task_id task)) (\<lambda>_.
                       if \<not> isVersionConflict e then bindM (rollbackWake d i) (\<lambda>_. raise e)
                       else bindM (svc_find d i) (\<lambda>current.
                         ret (Some (case current of
                           None \<Rightarrow> Err (NotFound ''workspace'' i)
                         | Some (c, _) \<Rightarrow>
                             if state c = Running \<or> state c = Idle then Ok (toWorkspaceDto c)
                             else Err (Conflict (''wake of '' @ i @
                               '' lost a concurrent update (now '' @ state_name (state c) @
                               '')''))))))))
                  (\<lambda>lost. case lost of
                     Some answer \<Rightarrow> ret answer
                   | None \<Rightarrow>
                       bindM now (\<lambda>t.
                       bindM (emit d (MetricTiming METRIC_WORKSPACE_WAKE_LATENCY_MS (elapsed t at)
                           [(''baseImage'', baseImage ws)])) (\<lambda>_.
                       ret (Ok (toWorkspaceDto next)))))))"

definition launchClaimedWake ::
  "'p deps \<Rightarrow> string \<Rightarrow> workspace \<Rightarrow> iso_timestamp \<Rightarrow> string \<Rightarrow>
   ('p, (workspace_dto, domain_error) result) act" where
  "launchClaimedWake d i ws at actor =
     bindM (tryM (bindM (runTask d (wake_input ws)) (\<lambda>task. ret (Inr task))) (\<lambda>e. ret (Inl e)))
       (\<lambda>launched.
          case launched of
            Inl e \<Rightarrow>
              if isPlacementRefused e then waitForCapacity d i e
              else bindM (rollbackWake d i) (\<lambda>_.
                ret (Err (Unavailable (''could not launch workspace task: '' @ err_message e))))
          | Inr task \<Rightarrow> commit_wake d i ws at actor task)"

definition listPlacementDue :: "'p deps \<Rightarrow> ('p, active_workspace list) act" where
  "listPlacementDue d =
     bindM now (\<lambda>at.
     bindM (recordsByStates d [Provisioning]) (\<lambda>records.
     bindM (liftE (toWorkspaces records)) (\<lambda>wss.
     ret (map (\<lambda>ws. \<lparr>aw_id = wsId ws, aw_lastActivity = lastActivity ws, aw_idleStopMs = None,
                     aw_alwaysOn = None\<rparr>)
            (filter (\<lambda>ws. placementDue ws at) wss)))))"

definition retryPlacement ::
  "'p deps \<Rightarrow> string \<Rightarrow> ('p, (workspace_dto, domain_error) result) act" where
  "retryPlacement d i =
     bindM (svc_find d i) (\<lambda>found.
       case found of
         None \<Rightarrow> ret (Err (NotFound ''workspace'' i))
       | Some (ws, _) \<Rightarrow>
           bindM now (\<lambda>at.
             if \<not> placementDue ws at then
               ret (Err (Conflict (''workspace '' @ i @ '' has no placement retry due'')))
             else if latestSnapshotId ws = None then launchReserved d i None
             else launchClaimedWake d i ws at SYSTEM_ACTOR))"

definition WAKE_WAIT_TIMEOUT_MS :: int where
  "WAKE_WAIT_TIMEOUT_MS = 180000"

definition WAKE_POLL_INTERVAL_MS :: int where
  "WAKE_POLL_INTERVAL_MS = 250"

text \<open>
  The polling loop of \<^verbatim>\<open>awaitWoken\<close>. Its fuel is the number of polls; 721 are enough, since
  every sleep advances the wall clock by the poll interval and 720 intervals make up the
  timeout.
\<close>

fun awaitWoken_loop ::
  "nat \<Rightarrow> 'p deps \<Rightarrow> string \<Rightarrow> int \<Rightarrow> ('p, (workspace_dto, domain_error) result) act" where
  "awaitWoken_loop 0 d i deadline = raise (plain_error ''OutOfFuel'' [])"
| "awaitWoken_loop (Suc n) d i deadline =
     bindM (svc_find d i) (\<lambda>loaded.
       case loaded of
         None \<Rightarrow> ret (Err (NotFound ''workspace'' i))
       | Some (ws, _) \<Rightarrow>
           if state ws = Running \<or> state ws = Idle then ret (Ok (toWorkspaceDto ws))
           else if state ws \<noteq> Provisioning then
             ret (Err (Conflict (''wake of '' @ i @ '' did not complete (now '' @
               state_name (state ws) @ '')'')))
           else bindM dateNow (\<lambda>t.
             if deadline \<le> t then
               ret (Err (Conflict (''timed out waiting for '' @ i @ '' to wake'')))
             else bindM (sleep WAKE_POLL_INTERVAL_MS) (\<lambda>_. awaitWoken_loop n d i deadline)))"

definition WAKE_POLLS :: nat where
  "WAKE_POLLS = 721"

definition awaitWoken ::
  "'p deps \<Rightarrow> string \<Rightarrow> ('p, (workspace_dto, domain_error) result) act" where
  "awaitWoken d i =
     bindM dateNow (\<lambda>t. awaitWoken_loop WAKE_POLLS d i (t + WAKE_WAIT_TIMEOUT_MS))"

definition svc_start ::
  "'p deps \<Rightarrow> string \<Rightarrow> string \<Rightarrow> ('p, (workspace_dto, domain_error) result) act" where
  "svc_start d i actor =
     bindR (svc_require d i) (\<lambda>(ws, v).
     bindM now (\<lambda>at. onOk (markWaking ws at) (\<lambda>claim.
       if latestSnapshotId ws = None then
         ret (Err (Conflict (''cannot start '' @ i @ '': no snapshot to hydrate from'')))
       else
         persist_or d claim v None (awaitWoken d i)
           (bindM now (\<lambda>t. launchClaimedWake d i ws t actor)))))"

definition svc_connect ::
  "'p deps \<Rightarrow> string \<Rightarrow> string \<Rightarrow> ('p, (workspace_dto, domain_error) result) act" where
  "svc_connect d i actor =
     bindR (svc_require d i) (\<lambda>(ws, v).
       case planConnect (state ws) of
         Ready \<Rightarrow> ret (Ok (toWorkspaceDto ws))
       | Pending \<Rightarrow> awaitWoken d i
       | WakeIt \<Rightarrow>
           bindM (svc_start d i actor) (\<lambda>started.
             case started of
               Ok dto \<Rightarrow> if state (fst dto) = Provisioning then awaitWoken d i else ret started
             | Err _ \<Rightarrow>
                 bindM (svc_find d i) (\<lambda>reloaded.
                   case reloaded of
                     None \<Rightarrow> ret started
                   | Some (rws, _) \<Rightarrow>
                       if state rws = Running \<or> state rws = Idle then
                         ret (Ok (toWorkspaceDto rws))
                       else if state rws = Provisioning then awaitWoken d i
                       else ret started))
       | NotAvailable \<Rightarrow>
           ret (Err (Conflict (''cannot connect to '' @ i @ '': workspace is '' @
             state_name (state ws)))))"

section \<open>Recovery\<close>

definition recoverError ::
  "'p deps \<Rightarrow> string \<Rightarrow> ('p, (unit, domain_error) result) act" where
  "recoverError d i =
     bindM (svc_find d i) (\<lambda>found.
       case found of
         None \<Rightarrow> ret (Err (NotFound ''workspace'' i))
       | Some (ws, v) \<Rightarrow>
           bindM now (\<lambda>at. onOk (markRecovered ws at) (\<lambda>recovered.
             persist_or d recovered v
               (Some (mk_audit SessionRecover i SYSTEM_ACTOR ''recovered from error to stopped''))
               (ret (Err (Conflict (''recover of '' @ i @ '' lost a concurrent update''))))
               (ret (Ok ())))))"

definition svc_retry ::
  "'p deps \<Rightarrow> string \<Rightarrow> ('p, (workspace_dto, domain_error) result) act" where
  "svc_retry d i =
     bindM (svc_find d i) (\<lambda>found.
       case found of
         None \<Rightarrow> ret (Err (NotFound ''workspace'' i))
       | Some (ws, v) \<Rightarrow>
           if latestSnapshotId ws \<noteq> None then
             bindR (recoverError d i) (\<lambda>_. svc_start d i SYSTEM_ACTOR)
           else
             bindM now (\<lambda>at. onOk (retryProvisioning ws at) (\<lambda>next.
               persist_or d next v None
                 (ret (Err (Conflict (''retry of '' @ i @ '' lost a concurrent update''))))
                 (launchReserved d i None))))"

definition recoverStuckProvisioning ::
  "'p deps \<Rightarrow> string \<Rightarrow> ('p, (unit, domain_error) result) act" where
  "recoverStuckProvisioning d i =
     bindM (svc_find d i) (\<lambda>loaded.
       let gone = Err (Conflict (''workspace '' @ i @ '' is no longer provisioning'')) in
       case loaded of
         None \<Rightarrow> ret gone
       | Some (ws, v) \<Rightarrow>
           if state ws \<noteq> Provisioning then ret gone
           else bindM now (\<lambda>at.
             onOk (if latestSnapshotId ws = None
                   then markProvisioningFailed ws
                     ''provisioning did not complete (no snapshot to resume from)'' at
                   else markStopped ws None at)
               (\<lambda>recovered. persist_or d recovered v None
                  (ret (Err (Conflict (''workspace '' @ i @ '' provisioning recovery lost a race''))))
                  (ret (Ok ())))))"

section \<open>Settings\<close>

text \<open>
  A patch: absent fields are left alone; \<open>idleStopMs\<close> is \<^term>\<open>Some None\<close> for an explicit null.
\<close>

record settings_patch =
  sp_snapshotIntervalMs :: "int option"
  sp_idleStopMs :: "int option option"
  sp_alwaysOn :: "bool option"

definition apply_settings :: "settings_patch \<Rightarrow> workspace \<Rightarrow> workspace" where
  "apply_settings p ws =
     ws\<lparr>snapshotIntervalMs := orElseOpt (sp_snapshotIntervalMs p) (snapshotIntervalMs ws),
        idleStopMs := (case sp_idleStopMs p of None \<Rightarrow> idleStopMs ws | Some v \<Rightarrow> v),
        alwaysOn := (case sp_alwaysOn p of None \<Rightarrow> alwaysOn ws
                     | Some b \<Rightarrow> if b then Some True else None)\<rparr>"

definition settings_changes :: "settings_patch \<Rightarrow> string list" where
  "settings_changes p =
     (case sp_snapshotIntervalMs p of
        None \<Rightarrow> [] | Some n \<Rightarrow> [''snapshot interval '' @ int_text n @ ''ms'']) @
     (case sp_idleStopMs p of
        None \<Rightarrow> []
      | Some None \<Rightarrow> [''idle stop: default'']
      | Some (Some n) \<Rightarrow> [''idle stop '' @ int_text n @ ''ms'']) @
     (case sp_alwaysOn p of
        None \<Rightarrow> [] | Some b \<Rightarrow> [if b then ''always on'' else ''always on cleared''])"

definition updateSettings ::
  "'p deps \<Rightarrow> string \<Rightarrow> settings_patch \<Rightarrow> string \<Rightarrow>
   ('p, (workspace_dto, domain_error) result) act" where
  "updateSettings d i patch actor =
     bindR (svc_require d i) (\<lambda>(ws, v).
       let next = apply_settings patch ws; changes = settings_changes patch in
       persist_or d next v
         (Some (mk_audit SessionSettings i actor
            (if changes = [] then ''settings updated'' else join_with ''; '' changes)))
         (ret (Err (Conflict (''settings update of '' @ i @ '' lost a concurrent update''))))
         (ret (Ok (toWorkspaceDto next))))"

end
