(* ===== verification/Service_Stop.thy ===== *)
theory Service_Stop
  imports Service_Launch
begin

text \<open>
  Stopping, snapshots and reports (\<^verbatim>\<open>workspace-service.ts\<close>): the direct stop of the idle
  sweep, the cancelable manual stop and its convergence, point-in-time snapshots and the
  restoration of one, the heartbeat of the in-workspace agent, the drift reconciliation of
  lost tasks and lost snapshots, and the spectate flag.
\<close>

section \<open>Scale to zero\<close>

definition snapshotForTransition ::
  "'p deps \<Rightarrow> string \<Rightarrow> string \<Rightarrow> int \<Rightarrow> ('p, (string, domain_error) result) act" where
  "snapshotForTransition d i vol version =
     tryM (bindM (createSnapshot d vol False (Some i)) (\<lambda>snap. ret (Ok (snap_id snap))))
       (\<lambda>e. bindM (svc_find d i) (\<lambda>current.
          if isResourceGoneError e \<or> map_option snd current \<noteq> Some version then
            ret (Err (Conflict (''snapshot of '' @ i @ '' lost a concurrent update'')))
          else raise e))"

definition snapshotBeforeStop ::
  "'p deps \<Rightarrow> string \<Rightarrow> workspace \<Rightarrow> int \<Rightarrow> iso_timestamp \<Rightarrow>
   ('p, ((string \<times> iso_timestamp) option, domain_error) result) act" where
  "snapshotBeforeStop d i ws version at =
     (case volumeId ws of
        None \<Rightarrow> ret (Ok None)
      | Some vol \<Rightarrow>
          bindR (snapshotForTransition d i vol version) (\<lambda>snap. ret (Ok (Some (snap, at)))))"

text \<open>The recency guard of the idle sweep: the reason to skip the stop, if there is one.\<close>

definition idle_guard :: "string \<Rightarrow> workspace \<Rightarrow> int \<Rightarrow> iso_timestamp \<Rightarrow> domain_error option" where
  "idle_guard i ws requireIdleForMs at =
     (if alwaysOn ws = Some True then
        Some (Conflict (''stop of '' @ i @ '' skipped: workspace is always-on''))
      else
        let requiredMs = max requireIdleForMs (orElse (idleStopMs ws) 0);
            idleForMs = elapsed at (lastActivity ws)
        in if js_less idleForMs (Some requiredMs) then
             Some (Conflict (''stop of '' @ i @ '' skipped: last active '' @
               (case idleForMs of None \<Rightarrow> ''NaN'' | Some n \<Rightarrow> int_text n) @ ''ms ago''))
           else None)"

text \<open>The stop of the workspace that was loaded, and \<^verbatim>\<open>stop\<close> itself.\<close>

definition stop_loaded ::
  "'p deps \<Rightarrow> string \<Rightarrow> string \<Rightarrow> int option \<Rightarrow> loaded_workspace \<Rightarrow>
   ('p, (workspace_dto, domain_error) result) act" where
  "stop_loaded d i actor requireIdleForMs = (\<lambda>(ws, v).
     onOk (transition (state ws) Stop) (\<lambda>_.
     bindM now (\<lambda>at.
       case (case requireIdleForMs of None \<Rightarrow> None | Some ms \<Rightarrow> idle_guard i ws ms at) of
         Some skip \<Rightarrow> ret (Err skip)
       | None \<Rightarrow>
           bindR (snapshotBeforeStop d i ws v at) (\<lambda>snapped.
           onOk (markStopped ws snapped at) (\<lambda>next.
             persist_or d next v (Some (mk_audit SessionStop i actor ''scaled to zero''))
               (bindM (svc_find d i) (\<lambda>current.
                  ret (case current of
                    None \<Rightarrow> Err (NotFound ''workspace'' i)
                  | Some (c, _) \<Rightarrow>
                      if state c = Stopped then Ok (toWorkspaceDto c)
                      else Err (Conflict (''stop of '' @ i @ '' lost a concurrent update (now '' @
                        state_name (state c) @ '')'')))))
               (bindM (case taskId ws of None \<Rightarrow> ret () | Some t \<Rightarrow> quietly (stopTask d t))
                 (\<lambda>_. ret (Ok (toWorkspaceDto next)))))))))"

definition svc_stop ::
  "'p deps \<Rightarrow> string \<Rightarrow> string \<Rightarrow> int option \<Rightarrow> ('p, (workspace_dto, domain_error) result) act" where
  "svc_stop d i actor requireIdleForMs =
     bindR (svc_require d i) (stop_loaded d i actor requireIdleForMs)"

section \<open>The cancelable stop\<close>

definition requestStop ::
  "'p deps \<Rightarrow> string \<Rightarrow> string \<Rightarrow> ('p, (workspace_dto, domain_error) result) act" where
  "requestStop d i actor =
     bindR (svc_require d i) (\<lambda>(ws, v).
     bindM now (\<lambda>at. onOk (markStopping ws at (Some actor)) (\<lambda>next.
       persist_or d next v None
         (ret (Err (Conflict (''stop of '' @ i @ '' lost a concurrent update''))))
         (ret (Ok (toWorkspaceDto next))))))"

definition in_grace :: "workspace \<Rightarrow> iso_timestamp \<Rightarrow> bool" where
  "in_grace ws at =
     (case stopRequestedAt ws of
        None \<Rightarrow> False
      | Some t \<Rightarrow> js_less (elapsed at t) (Some DEFAULT_STOP_GRACE_MS))"

definition finish_snapshot ::
  "'p deps \<Rightarrow> workspace \<Rightarrow> iso_timestamp \<Rightarrow> ('p, (string \<times> iso_timestamp) option) act" where
  "finish_snapshot d ws at =
     (case volumeId ws of
        None \<Rightarrow> ret None
      | Some vol \<Rightarrow>
          tryM (bindM (createSnapshot d vol False (Some (wsId ws)))
                  (\<lambda>snap. ret (Some (snap_id snap, at))))
            (\<lambda>e. if isResourceGoneError e then ret None else raise e))"

definition finishStop ::
  "'p deps \<Rightarrow> string \<Rightarrow> bool \<Rightarrow> ('p, (unit, domain_error) result) act" where
  "finishStop d i ignoreGrace =
     bindM (svc_find d i) (\<lambda>found.
       case found of
         None \<Rightarrow> ret (Ok ())
       | Some (fws, _) \<Rightarrow>
           if state fws \<noteq> Stopping then ret (Ok ())
           else bindM now (\<lambda>at.
             if \<not> ignoreGrace \<and> in_grace fws at then ret (Ok ())
             else
               bindM (finish_snapshot d fws at) (\<lambda>fresh.
               bindM (svc_find d i) (\<lambda>recheck.
                 case recheck of
                   None \<Rightarrow> ret (Ok ())
                 | Some (ws, v) \<Rightarrow>
                     if state ws \<noteq> Stopping then ret (Ok ())
                     else
                       bindM (case taskId ws of None \<Rightarrow> ret () | Some t \<Rightarrow> stopTask d t) (\<lambda>_.
                       onOk (markStopped ws fresh at) (\<lambda>next.
                         persist_or d next v
                           (Some (mk_audit SessionStop i (orElse (stopRequestedBy ws) SYSTEM_ACTOR)
                              ''scaled to zero''))
                           (bindM (svc_find d i) (\<lambda>current.
                              ret (if map_option (state \<circ> fst) current = Some Stopped then Ok ()
                                   else Err (Conflict (''finish-stop of '' @ i @
                                     '' lost a concurrent update'')))))
                           (ret (Ok ()))))))))"

definition cancelStop ::
  "'p deps \<Rightarrow> string \<Rightarrow> string \<Rightarrow> ('p, (workspace_dto, domain_error) result) act" where
  "cancelStop d i actor =
     bindR (svc_require d i) (\<lambda>(ws, v).
       if state ws = Running \<or> state ws = Idle then ret (Ok (toWorkspaceDto ws))
       else bindM now (\<lambda>at. onOk (cancelStopping ws at) (\<lambda>next.
         persist_or d next v
           (Some (mk_audit SessionRecover i actor ''manual stop canceled -- session resumed''))
           (ret (Err (Conflict (''cancel-stop of '' @ i @ '' lost a concurrent update''))))
           (ret (Ok (toWorkspaceDto next))))))"

definition listStopping :: "'p deps \<Rightarrow> ('p, string list) act" where
  "listStopping d = bindM (recordsByStates d [Stopping]) (\<lambda>rs. ret (map (wsId \<circ> fst) rs))"

section \<open>Reports of the agent\<close>

record heartbeat_report =
  hr_functional :: "probes option"
  hr_active :: "bool option"
  hr_sessions :: "agent_session list option"

definition NO_REPORT :: heartbeat_report where
  "NO_REPORT = \<lparr>hr_functional = None, hr_active = None, hr_sessions = None\<rparr>"

definition fold_report ::
  "heartbeat_report \<Rightarrow> iso_timestamp \<Rightarrow> workspace \<Rightarrow> workspace" where
  "fold_report rep at ws =
     (let next = (case hr_functional rep of None \<Rightarrow> ws | Some p \<Rightarrow> recordFunctional ws p at)
      in case hr_sessions rep of None \<Rightarrow> next | Some ss \<Rightarrow> recordSessions next ss at)"

definition beat_activity ::
  "heartbeat_report \<Rightarrow> iso_timestamp \<Rightarrow> workspace \<Rightarrow> ws_result" where
  "beat_activity rep at ws =
     (if state ws \<noteq> Provisioning \<and> hr_active rep \<noteq> Some False then markActivity ws at else Ok ws)"

text \<open>The loop of \<^verbatim>\<open>heartbeat\<close>: \<open>again\<close> is how many attempts are left after this one.\<close>

fun heartbeat_loop ::
  "nat \<Rightarrow> 'p deps \<Rightarrow> string \<Rightarrow> heartbeat_report \<Rightarrow>
   ('p, (workspace_dto, domain_error) result) act" where
  "heartbeat_loop again d i rep =
     bindR (svc_require d i) (\<lambda>(ws, v).
     bindM now (\<lambda>at.
       if state ws \<noteq> Provisioning \<and> state ws \<noteq> Running \<and> state ws \<noteq> Idle then
         ret (Err (Conflict (''cannot heartbeat '' @ i @ '': workspace is '' @
           state_name (state ws))))
       else onOk (beat_activity rep at ws) (\<lambda>active.
         let next = fold_report rep at active in
         persist_or d next v None
           (case again of
              Suc n \<Rightarrow> heartbeat_loop n d i rep
            | 0 \<Rightarrow> ret (Err (Conflict (''heartbeat for '' @ i @ '' lost concurrent updates''))))
           (ret (Ok (toWorkspaceDto next))))))"

declare heartbeat_loop.simps [simp del]

definition svc_heartbeat ::
  "'p deps \<Rightarrow> string \<Rightarrow> heartbeat_report \<Rightarrow> ('p, (workspace_dto, domain_error) result) act" where
  "svc_heartbeat d i rep = heartbeat_loop 1 d i rep"

section \<open>Snapshots\<close>

definition not_running_conflict :: "string \<Rightarrow> workspace_state \<Rightarrow> domain_error" where
  "not_running_conflict i st =
     Conflict (''cannot snapshot '' @ i @ '': not running (state='' @ state_name st @ '')'')"

fun snapshot_loop ::
  "nat \<Rightarrow> 'p deps \<Rightarrow> string \<Rightarrow> string option \<Rightarrow> string \<Rightarrow> iso_timestamp \<Rightarrow>
   ('p, (workspace_dto, domain_error) result) act" where
  "snapshot_loop again d i prior snap at =
     bindR (svc_require d i) (\<lambda>(ws, v).
       if state ws \<noteq> Running \<and> state ws \<noteq> Idle then
         ret (Err (not_running_conflict i (state ws)))
       else if latestSnapshotId ws \<noteq> prior then
         ret (Err (Conflict (''snapshot of '' @ i @ '' lost a concurrent update'')))
       else
         let next = recordSnapshot ws snap at in
         persist_or d next v None
           (case again of
              Suc n \<Rightarrow> snapshot_loop n d i prior snap at
            | 0 \<Rightarrow> ret (Err (Conflict (''snapshot of '' @ i @ '' lost a concurrent update''))))
           (ret (Ok (toWorkspaceDto next))))"

declare snapshot_loop.simps [simp del]

definition svc_snapshot ::
  "'p deps \<Rightarrow> string \<Rightarrow> ('p, (workspace_dto, domain_error) result) act" where
  "svc_snapshot d i =
     bindR (svc_require d i) (\<lambda>(ws, v).
       if state ws \<noteq> Running \<and> state ws \<noteq> Idle then
         ret (Err (not_running_conflict i (state ws)))
       else
         (case volumeId ws of
            None \<Rightarrow> ret (Err (Conflict (''cannot snapshot '' @ i @ '': no active volume'')))
          | Some vol \<Rightarrow>
              bindR (snapshotForTransition d i vol v) (\<lambda>snap.
              bindM now (\<lambda>at. snapshot_loop 1 d i (latestSnapshotId ws) snap at))))"

record workspace_snapshot_view =
  wv_id :: string
  wv_createdAt :: iso_timestamp
  wv_sizeGiB :: "int option"
  wv_retained :: bool
  wv_current :: bool

text \<open>Newest first; the creation time of a listed snapshot is one the provider set, so it parses.\<close>

definition listWorkspaceSnapshots ::
  "'p deps \<Rightarrow> string \<Rightarrow> ('p, (workspace_snapshot_view list, domain_error) result) act" where
  "listWorkspaceSnapshots d i =
     bindR (svc_require d i) (\<lambda>(ws, _).
     bindM (listSnapshots d) (\<lambda>all.
       ret (Ok (map (\<lambda>s. \<lparr>wv_id = sr_id s, wv_createdAt = sr_createdAt s,
                         wv_sizeGiB = sr_sizeGiB s, wv_retained = (sr_retained s = Some True),
                         wv_current = (latestSnapshotId ws = Some (sr_id s))\<rparr>)
         (sort_key (\<lambda>s. - orElse (date_parse (sr_createdAt s)) 0)
           (filter (\<lambda>s. sr_workspaceId s = Some i) all))))))"

definition iso_text :: "iso_timestamp \<Rightarrow> string" where
  "iso_text t = (case t of Iso n \<Rightarrow> int_text n | Malformed \<Rightarrow> ''malformed'')"

definition restoreSnapshot ::
  "'p deps \<Rightarrow> string \<Rightarrow> string \<Rightarrow> string \<Rightarrow> ('p, (workspace_dto, domain_error) result) act" where
  "restoreSnapshot d i snap actor =
     bindR (svc_require d i) (\<lambda>(ws, v).
     bindM (listSnapshots d) (\<lambda>all.
       case find (\<lambda>s. sr_id s = snap) all of
         None \<Rightarrow> ret (Err (NotFound ''snapshot'' snap))
       | Some target \<Rightarrow>
           if sr_workspaceId target \<noteq> Some i then ret (Err (NotFound ''snapshot'' snap))
           else bindM now (\<lambda>at.
             onOk (restoreToSnapshot ws (sr_id target, sr_createdAt target) at) (\<lambda>next.
             persist_or d next v
               (Some (mk_audit SessionRestore i actor
                  (''restore point set to '' @ snap @ '' (taken '' @
                   iso_text (sr_createdAt target) @ '')'')))
               (ret (Err (Conflict (''restore of '' @ i @ '' lost a concurrent update''))))
               (ret (Ok (toWorkspaceDto next)))))))"

section \<open>Drift\<close>

definition reconcileTaskLoss ::
  "'p deps \<Rightarrow> string \<Rightarrow> ('p, (bool \<times> workspace_dto, domain_error) result) act" where
  "reconcileTaskLoss d i =
     bindR (svc_require d i) (\<lambda>(ws, v).
       case taskId ws of
         None \<Rightarrow> ret (Ok (False, toWorkspaceDto ws))
       | Some t \<Rightarrow>
           if state ws \<noteq> Running \<and> state ws \<noteq> Idle then ret (Ok (False, toWorkspaceDto ws))
           else bindM (taskState d t) (\<lambda>live.
             if live = TaskRunning then ret (Ok (False, toWorkspaceDto ws))
             else bindM now (\<lambda>at. onOk (markTaskLost ws at) (\<lambda>next.
               persist_or d next v
                 (Some (mk_audit SessionStop i ''system:drift''
                    (''task lost; reconciled to '' @ state_name (state next))))
                 (ret (Err (Conflict (''drift reconcile of '' @ i @ '' lost a concurrent update''))))
                 (ret (Ok (True, toWorkspaceDto next)))))))"

definition markSnapshotLostFor ::
  "'p deps \<Rightarrow> string \<Rightarrow> ('p, (unit, domain_error) result) act" where
  "markSnapshotLostFor d i =
     bindM (svc_find d i) (\<lambda>found.
       case found of
         None \<Rightarrow> ret (Ok ())
       | Some (ws, v) \<Rightarrow>
           bindM now (\<lambda>at.
             case markSnapshotLost ws at of
               Err _ \<Rightarrow> ret (Ok ())
             | Ok lost \<Rightarrow>
                 persist_or d lost v
                   (Some (mk_audit SessionSnapshotLost i SYSTEM_ACTOR
                      ''referenced snapshot missing; marked unrecoverable''))
                   (ret (Ok ())) (ret (Ok ()))))"

section \<open>Sharing and access\<close>

definition svc_setShare ::
  "'p deps \<Rightarrow> string \<Rightarrow> bool \<Rightarrow> string option \<Rightarrow>
   ('p, (workspace_dto, domain_error) result) act" where
  "svc_setShare d i enabled actor =
     bindM (svc_find d i) (\<lambda>found.
       case found of
         None \<Rightarrow> ret (Err (NotFound ''workspace'' i))
       | Some (ws, v) \<Rightarrow>
           bindM now (\<lambda>at. onOk (setShare ws enabled at) (\<lambda>next.
             persist_or d next v
               (Some (mk_audit (if enabled then SessionShareEnabled else SessionShareDisabled) i
                  (orElse actor SYSTEM_ACTOR)
                  (if enabled
                   then ''spectate enabled -- signed-in viewers may watch a read-only mirror''
                   else ''spectate disabled'')))
               (ret (Err (Conflict (''share toggle of '' @ i @ '' lost a concurrent update''))))
               (ret (Ok (toWorkspaceDto next))))))"

definition append_event :: "audit_event \<Rightarrow> 'p sys \<Rightarrow> 'p sys" where
  "append_event e s = s\<lparr>ledger := ledger s @ [e]\<rparr>"

definition recordAccess ::
  "'p deps \<Rightarrow> string \<Rightarrow> string \<Rightarrow> bool \<Rightarrow> string \<Rightarrow> ('p, unit) act" where
  "recordAccess d i actor allowed detail =
     bindM (auditItem d (mk_audit SessionAccess i actor
         ((if allowed then ''allow'' else ''deny'') @ '': '' @ detail))) (\<lambda>ev.
       case ev of
         None \<Rightarrow> ret ()
       | Some e \<Rightarrow> io (CPutEvent e) (\<lambda>s. (Ret (), append_event e s)))"

end
