(* ===== verification/Service_Delete.thy ===== *)
theory Service_Delete
  imports Service_Stop
begin

text \<open>
  Deletion and its reversal (\<^verbatim>\<open>workspace-service.ts\<close>): the durable-intent delete, its
  convergence to a terminated tombstone with a retained snapshot, the undelete within the
  retention window, and the purge that ends it.
\<close>

definition svc_remove ::
  "'p deps \<Rightarrow> string \<Rightarrow> string \<Rightarrow> ('p, (unit, domain_error) result) act" where
  "svc_remove d i actor =
     bindR (svc_require d i) (\<lambda>(ws, v).
       if state ws = Deleting then ret (Ok ())
       else onOk (assertTerminable ws) (\<lambda>_.
         bindM now (\<lambda>at. onOk (markDeleting ws at) (\<lambda>next.
           persist_or d next v (Some (mk_audit SessionDelete i actor ''delete requested''))
             (ret (Err (Conflict (''delete of '' @ i @ '' lost a concurrent update''))))
             (ret (Ok ()))))))"

section \<open>Finishing a delete\<close>

definition needsFreshTeardownSnapshot :: "workspace \<Rightarrow> bool" where
  "needsFreshTeardownSnapshot ws =
     (case (latestSnapshotId ws, latestSnapshotAt ws) of
        (Some _, Some taken) \<Rightarrow>
          (case deleteRequestedAt ws of
             None \<Rightarrow> False
           | Some asked \<Rightarrow> js_less (date_parse taken) (date_parse asked))
      | _ \<Rightarrow> True)"

text \<open>
  The snapshot step: a fresh retained snapshot recorded on the tombstone, else the existing
  one tagged; the workspace and version to go on with, or the conflict that leaves the
  tombstone for the next sweep.
\<close>

definition retain_snapshot ::
  "'p deps \<Rightarrow> string \<Rightarrow> workspace \<Rightarrow> int \<Rightarrow> iso_timestamp \<Rightarrow>
   ('p, (workspace \<times> int, domain_error) result) act" where
  "retain_snapshot d i ws v at =
     tryM
       (if volumeId ws \<noteq> None \<and> needsFreshTeardownSnapshot ws then
          bindM (createSnapshot d (the (volumeId ws)) True (Some (wsId ws))) (\<lambda>snap.
            let next = recordSnapshot ws (snap_id snap) at in
            bindM (persistTransition d next v None) (\<lambda>_. ret (Ok (next, v + 1))))
        else
          (case latestSnapshotId ws of
             Some s \<Rightarrow> bindM (tagSnapshotRetained d s) (\<lambda>_. ret (Ok (ws, v)))
           | None \<Rightarrow> ret (Ok (ws, v))))
       (\<lambda>e. ret (Err (Conflict
          (if isVersionConflict e then ''finishDeleting '' @ i @ '' lost a concurrent update''
           else ''final snapshot for '' @ i @ '' failed: '' @ err_message e))))"

definition teardown_items ::
  "'p deps \<Rightarrow> string \<Rightarrow> workspace \<Rightarrow> workspace \<Rightarrow> int \<Rightarrow> audit_event option \<Rightarrow> tx_item list" where
  "teardown_items d i ws terminated v ev =
     [TxPatch i (spread_attrs terminated) TEARDOWN_CLEARABLE v] @
     (if hasOwnerCounts d then [TxSubCount (ownerId ws)] else []) @
     (case ev of None \<Rightarrow> [] | Some e \<Rightarrow> [TxEvent e])"

text \<open>The teardown of the deleting workspace that was loaded, and \<^verbatim>\<open>finishDeleting\<close> itself.\<close>

definition teardown_loaded ::
  "'p deps \<Rightarrow> string \<Rightarrow> loaded_workspace \<Rightarrow> ('p, (unit, domain_error) result) act" where
  "teardown_loaded d i loaded =
     bindM now (\<lambda>at.
     bindR (retain_snapshot d i (fst loaded) (snd loaded) at) (\<lambda>(ws, v).
     bindM (case taskId ws of None \<Rightarrow> ret () | Some t \<Rightarrow> quietly (stopTask d t)) (\<lambda>_.
     bindM (auditItem d (mk_audit SessionTerminated i SYSTEM_ACTOR
         ''teardown complete -- restorable until the retention purge'')) (\<lambda>term.
     onOk (markTerminated ws at) (\<lambda>terminated.
       let lost = Err (Conflict (''finishDeleting '' @ i @ '' lost a concurrent update''));
           items = teardown_items d i ws terminated v term
       in tryM
            (bindM (validate d (spread_attrs terminated)) (\<lambda>_.
               if term = None \<and> \<not> hasOwnerCounts d then
                 bindM (writeOne d (hd items)) (\<lambda>_. ret (Ok ()))
               else
                 bindM (writeTransaction d items) (\<lambda>r.
                   ret (if r = None then Ok () else lost))))
            (\<lambda>e. if isVersionConflict e then ret lost else raise e))))))"

definition finishDeleting ::
  "'p deps \<Rightarrow> string \<Rightarrow> ('p, (unit, domain_error) result) act" where
  "finishDeleting d i =
     bindM (svc_find d i) (\<lambda>found.
       case found of
         None \<Rightarrow> ret (Ok ())
       | Some loaded \<Rightarrow>
           if state (fst loaded) \<noteq> Deleting then ret (Ok ()) else teardown_loaded d i loaded)"

section \<open>Undelete\<close>

record undelete_opts =
  uo_quotaLimit :: "int option"
  uo_actor :: "string option"
  uo_retentionMs :: "int option"

definition retention_passed :: "workspace \<Rightarrow> iso_timestamp \<Rightarrow> int \<Rightarrow> bool" where
  "retention_passed ws at retentionMs =
     js_le (Some retentionMs) (elapsed at (orElse (terminatedAt ws) (lastActivity ws)))"

definition svc_undelete ::
  "'p deps \<Rightarrow> string \<Rightarrow> undelete_opts \<Rightarrow> ('p, (workspace_dto, domain_error) result) act" where
  "svc_undelete d i opts =
     bindM (svc_find d i) (\<lambda>found.
       case found of
         None \<Rightarrow> ret (Err (NotFound ''workspace'' i))
       | Some (ws, v) \<Rightarrow>
           bindM now (\<lambda>at.
             if state ws = Terminated \<and>
                retention_passed ws at (orElse (uo_retentionMs opts) DEFAULT_UNDELETE_RETENTION_MS)
             then ret (Err (Conflict (''cannot undelete '' @ i @
               '': the retention window has passed (snapshot purged soon)'')))
             else onOk (undeleteWorkspace ws at) (\<lambda>next.
               let audit = mk_audit SessionUndelete i (orElse (uo_actor opts) SYSTEM_ACTOR)
                     ''restored from retained snapshot within the retention window''
               in bindM (auditItem d audit) (\<lambda>ev.
                 bindM
                   (tryM
                     (case (ev, uo_quotaLimit opts) of
                        (Some e, Some limit) \<Rightarrow>
                          if hasOwnerCounts d then
                            bindM (validate d (spread_attrs next)) (\<lambda>_.
                            bindM (writeTransaction d
                                [TxPatch i (spread_attrs next) UNDELETE_CLEARABLE v,
                                 TxAddCount (ownerId ws) (Some limit), TxEvent e])
                              (\<lambda>r. case r of
                                     None \<Rightarrow> ret True
                                   | Some codes \<Rightarrow>
                                       raise (canceledCreateError codes 1 (ownerId ws) limit)))
                          else
                            bindM (persistTransition d next v (Some audit)) (\<lambda>_. ret True)
                      | _ \<Rightarrow>
                          bindM (persistTransition d next v (Some audit)) (\<lambda>_.
                          bindM (whenM (hasOwnerCounts d)
                                   (writeOne d (TxAddCount (ownerId ws) None))) (\<lambda>_.
                          ret True)))
                     (\<lambda>e. if isQuotaExceeded e \<or> \<not> isVersionConflict e then raise e
                          else ret False))
                   (\<lambda>written.
                      ret (if written then Ok (toWorkspaceDto next)
                           else Err (Conflict (''undelete of '' @ i @
                             '' lost a concurrent update''))))))))"

section \<open>Purge\<close>

definition purgeTombstoneRecord ::
  "'p deps \<Rightarrow> string \<Rightarrow> string option \<Rightarrow> int \<Rightarrow> string \<Rightarrow> string \<Rightarrow> ('p, bool) act" where
  "purgeTombstoneRecord d i latest v reason actor =
     bindM (auditItem d (mk_audit SessionPurged i actor
         (''tombstone and retained snapshot removed -- '' @ reason))) (\<lambda>ev.
     bindM (case ev of
              Some e \<Rightarrow> bindM (writeTransaction d [TxDelete i v, TxEvent e]) (\<lambda>r. ret (r = None))
            | None \<Rightarrow> bindM (writeOne d (TxDelete i v)) (\<lambda>_. ret True)) (\<lambda>removed.
       if \<not> removed then ret False
       else
         bindM (case latest of
                  None \<Rightarrow> ret ()
                | Some s \<Rightarrow> tryM (deleteSnapshot d s)
                    (\<lambda>e. if isResourceGoneError e then ret () else raise e))
           (\<lambda>_. ret True)))"

definition purge_expired :: "stored_fields \<Rightarrow> iso_timestamp \<Rightarrow> int \<Rightarrow> bool" where
  "purge_expired r at retentionMs =
     (case date_parse (orElse (terminatedAt r) (lastActivity r)) of
        None \<Rightarrow> False
      | Some t \<Rightarrow> \<not> js_less (js_minus (date_parse at) (Some t)) (Some retentionMs))"

fun purge_loop ::
  "'p deps \<Rightarrow> iso_timestamp \<Rightarrow> int \<Rightarrow> (stored_fields \<times> int) list \<Rightarrow> int \<Rightarrow> ('p, int) act" where
  "purge_loop d at retentionMs [] purged = ret purged"
| "purge_loop d at retentionMs (r # rs) purged =
     (if \<not> purge_expired (fst r) at retentionMs then purge_loop d at retentionMs rs purged
      else bindM (purgeTombstoneRecord d (wsId (fst r)) (latestSnapshotId (fst r)) (snd r)
                   ''retention window elapsed'' SYSTEM_ACTOR)
             (\<lambda>done. purge_loop d at retentionMs rs (if done then purged + 1 else purged)))"

definition purgeExpiredTombstones :: "'p deps \<Rightarrow> int \<Rightarrow> ('p, int) act" where
  "purgeExpiredTombstones d retentionMs =
     bindM (recordsByStates d [Terminated]) (\<lambda>records.
     bindM now (\<lambda>at. purge_loop d at retentionMs records 0))"

definition purgeNow ::
  "'p deps \<Rightarrow> string \<Rightarrow> string \<Rightarrow> ('p, (unit, domain_error) result) act" where
  "purgeNow d i actor =
     bindM (svc_find d i) (\<lambda>found.
       case found of
         None \<Rightarrow> ret (Ok ())
       | Some (ws, v) \<Rightarrow>
           if state ws \<noteq> Terminated then
             ret (Err (Conflict (''cannot permanently delete '' @ i @ '': it is '' @
               quoted (state_name (state ws)) @ '', not a deleted session'')))
           else
             bindM (purgeTombstoneRecord d (wsId ws) (latestSnapshotId ws) v
                      (''permanently deleted by '' @ actor) actor)
               (\<lambda>_. ret (Ok ())))"

end
