(* ===== verification/Service_Fleet.thy ===== *)
theory Service_Fleet
  imports Service_Delete
begin

text \<open>
  The fleet-wide reads and sweeps of the service (\<^verbatim>\<open>workspace-service.ts\<close>): the lists the
  reconciler works from, the keep-sets of garbage collection, the admin snapshot console,
  the quota counters, security events, and the timeline of the inspection view
  (\<^verbatim>\<open>packages/core/src/observability/timeline.ts\<close>).

  Where the source issues several reads at once (\<^verbatim>\<open>Promise.all\<close>), they are made here in the
  order they are listed, each with its own turn.
\<close>

section \<open>Lists\<close>

definition svc_list :: "'p deps \<Rightarrow> string option \<Rightarrow> ('p, workspace_dto list) act" where
  "svc_list d owner =
     bindM (case owner of
              Some o' \<Rightarrow> io (CQueryOwner o')
                (reading (\<lambda>s. filter (\<lambda>r. ownerId (fst r) = o') (map snd (table s))))
            | None \<Rightarrow> allRecords d) (\<lambda>records.
     bindM (liftE (toWorkspaces records)) (\<lambda>wss. ret (map toWorkspaceDto wss)))"

definition svc_get :: "'p deps \<Rightarrow> string \<Rightarrow> ('p, workspace_dto option) act" where
  "svc_get d i = bindM (svc_find d i) (\<lambda>loaded. ret (map_option (toWorkspaceDto \<circ> fst) loaded))"

record timeline_event =
  te_at :: iso_timestamp
  te_event :: string
  te_detail :: string

text \<open>Oldest first; \<^verbatim>\<open>!==\<close> on two instants is true where one of them is NaN. The record's
  times are the service's own, so the sort key parses.\<close>

definition deriveWorkspaceTimeline ::
  "iso_timestamp \<Rightarrow> iso_timestamp \<Rightarrow> iso_timestamp option \<Rightarrow> timeline_event list" where
  "deriveWorkspaceTimeline created activity snapshotAt =
     sort_key (\<lambda>e. orElse (date_parse (te_at e)) 0)
       ([\<lparr>te_at = created, te_event = ''created'', te_detail = ''workspace provisioned''\<rparr>] @
        (case snapshotAt of
           None \<Rightarrow> []
         | Some t \<Rightarrow> [\<lparr>te_at = t, te_event = ''snapshot'', te_detail = ''latest snapshot taken''\<rparr>]) @
        (if date_parse activity = None \<or> date_parse activity \<noteq> date_parse created
         then [\<lparr>te_at = activity, te_event = ''activity'', te_detail = ''last activity observed''\<rparr>]
         else []))"

definition svc_inspect ::
  "'p deps \<Rightarrow> string \<Rightarrow> ('p, (workspace \<times> timeline_event list) option) act" where
  "svc_inspect d i =
     bindM (svc_find d i) (\<lambda>loaded.
       ret (map_option (\<lambda>(ws, _). (toWorkspaceDetail ws,
         deriveWorkspaceTimeline (createdAt ws) (lastActivity ws) (latestSnapshotAt ws))) loaded))"

definition listActive :: "'p deps \<Rightarrow> ('p, active_workspace list) act" where
  "listActive d =
     bindM (recordsByStates d [Running, Idle]) (\<lambda>records.
       ret (map (\<lambda>(r, _). \<lparr>aw_id = wsId r, aw_lastActivity = lastActivity r,
         aw_idleStopMs = idleStopMs r, aw_alwaysOn = alwaysOn r\<rparr>) records))"

definition listStuckProvisioning :: "'p deps \<Rightarrow> ('p, active_workspace list) act" where
  "listStuckProvisioning d =
     bindM (recordsByStates d [Provisioning]) (\<lambda>records.
       ret (map (\<lambda>(r, _). \<lparr>aw_id = wsId r, aw_lastActivity = lastActivity r,
         aw_idleStopMs = None, aw_alwaysOn = None\<rparr>) records))"

definition listSnapshotCandidates :: "'p deps \<Rightarrow> ('p, snapshot_candidate list) act" where
  "listSnapshotCandidates d =
     bindM (recordsByStates d [Running, Idle]) (\<lambda>records.
       ret (map (\<lambda>(r, _). \<lparr>sc_id = wsId r, sc_latestSnapshotAt = latestSnapshotAt r,
                sc_createdAt = Some (createdAt r), sc_snapshotIntervalMs = snapshotIntervalMs r\<rparr>)
         (filter (\<lambda>(r, _). volumeId r \<noteq> None) records)))"

definition listDeleting :: "'p deps \<Rightarrow> ('p, workspace list) act" where
  "listDeleting d = bindM (recordsByStates d [Deleting]) (\<lambda>rs. liftE (toWorkspaces rs))"

definition listRecoverableErrors :: "'p deps \<Rightarrow> ('p, workspace list) act" where
  "listRecoverableErrors d =
     bindM (recordsByStates d [ErrorState]) (\<lambda>rs.
     bindM (liftE (toWorkspaces rs)) (\<lambda>wss. ret (filter (\<lambda>ws. \<not> isUnrecoverable ws) wss)))"

definition listSnapshotReferences :: "'p deps \<Rightarrow> ('p, (string \<times> string) list) act" where
  "listSnapshotReferences d =
     bindM (recordsByStates d [Stopped, ErrorState]) (\<lambda>records.
       ret (List.map_filter
         (\<lambda>(r, _). map_option (\<lambda>s. (wsId r, s)) (latestSnapshotId r)) records))"

section \<open>Keep-sets\<close>

record fleet_references =
  fr_volumeIds :: "string list"
  fr_snapshotIds :: "string list"
  fr_taskIds :: "string list"
  fr_secretWorkspaceIds :: "string list"

definition references_of :: "(stored_fields \<times> int) list \<Rightarrow> fleet_references" where
  "references_of records =
     \<lparr>fr_volumeIds = List.map_filter (volumeId \<circ> fst) records,
      fr_snapshotIds = List.map_filter (latestSnapshotId \<circ> fst) records,
      fr_taskIds = List.map_filter (taskId \<circ> fst) records,
      fr_secretWorkspaceIds = map (wsId \<circ> fst) (filter (\<lambda>(r, _). taskId r \<noteq> None) records)\<rparr>"

definition listFleetReferences :: "'p deps \<Rightarrow> ('p, fleet_references) act" where
  "listFleetReferences d = bindM (allRecords d) (\<lambda>records. ret (references_of records))"

definition listReferencedStorage :: "'p deps \<Rightarrow> ('p, string list \<times> string list) act" where
  "listReferencedStorage d =
     bindM (allRecords d) (\<lambda>records.
       ret (List.map_filter (volumeId \<circ> fst) records,
            List.map_filter (latestSnapshotId \<circ> fst) records))"

definition listReferencedTasks :: "'p deps \<Rightarrow> ('p, string list) act" where
  "listReferencedTasks d =
     bindM (allRecords d) (\<lambda>records. ret (List.map_filter (taskId \<circ> fst) records))"

definition listRuntimeSecretWorkspaceIds :: "'p deps \<Rightarrow> ('p, string list) act" where
  "listRuntimeSecretWorkspaceIds d =
     bindM (allRecords d) (\<lambda>records.
       ret (map (wsId \<circ> fst) (filter (\<lambda>(r, _). taskId r \<noteq> None) records)))"

section \<open>The admin snapshot console\<close>

record admin_snapshot_view =
  av_id :: string
  av_workspaceId :: "string option"
  av_sizeGiB :: "int option"
  av_createdAt :: iso_timestamp
  av_retained :: bool
  av_referenced :: bool

definition listSnapshotsForAdmin :: "'p deps \<Rightarrow> ('p, admin_snapshot_view list) act" where
  "listSnapshotsForAdmin d =
     bindM (listSnapshots d) (\<lambda>snaps.
     bindM (listReferencedStorage d) (\<lambda>(_, referenced).
       ret (map (\<lambda>s. \<lparr>av_id = sr_id s, av_workspaceId = sr_workspaceId s,
                     av_sizeGiB = sr_sizeGiB s, av_createdAt = sr_createdAt s,
                     av_retained = (sr_retained s = Some True),
                     av_referenced = (sr_id s \<in> set referenced)\<rparr>) snaps)))"

definition auditSnapshotPurge :: "'p deps \<Rightarrow> string \<Rightarrow> string \<Rightarrow> ('p, unit) act" where
  "auditSnapshotPurge d i actor =
     (if \<not> hasAudit d then ret ()
      else bindM (randomUUID d) (\<lambda>u. bindM now (\<lambda>at.
        let e = \<lparr>ev_id = ''evt-'' @ u, ev_at = at, ev_actor = actor, ev_action = SnapshotPurged,
                 ev_target = i, ev_detail = ''unreferenced EBS snapshot purged'',
                 ev_resources = None\<rparr>
        in io (CPutEvent e) (\<lambda>s. (Ret (), append_event e s)))))"

definition reap_snapshot :: "'p deps \<Rightarrow> string \<Rightarrow> ('p, unit) act" where
  "reap_snapshot d i =
     tryM (deleteSnapshot d i) (\<lambda>e. if isResourceGoneError e then ret () else raise e)"

definition deleteSnapshotById ::
  "'p deps \<Rightarrow> string \<Rightarrow> string \<Rightarrow> ('p, (unit, domain_error) result) act" where
  "deleteSnapshotById d i actor =
     bindM (listReferencedStorage d) (\<lambda>(_, referenced).
       if i \<in> set referenced then
         ret (Err (Conflict (''snapshot '' @ i @
           '' is still referenced by a workspace and cannot be purged'')))
       else bindM (reap_snapshot d i) (\<lambda>_. bindM (auditSnapshotPurge d i actor) (\<lambda>_. ret (Ok ()))))"

fun purge_unreferenced ::
  "'p deps \<Rightarrow> string \<Rightarrow> string list \<Rightarrow> snapshot_ref list \<Rightarrow> ('p, string list) act" where
  "purge_unreferenced d actor referenced [] = ret []"
| "purge_unreferenced d actor referenced (s # ss) =
     (if sr_id s \<in> set referenced then purge_unreferenced d actor referenced ss
      else bindM (reap_snapshot d (sr_id s)) (\<lambda>_.
        bindM (auditSnapshotPurge d (sr_id s) actor) (\<lambda>_.
        bindM (purge_unreferenced d actor referenced ss) (\<lambda>purged. ret (sr_id s # purged)))))"

definition purgeUnreferencedSnapshots :: "'p deps \<Rightarrow> string \<Rightarrow> ('p, string list) act" where
  "purgeUnreferencedSnapshots d actor =
     bindM (listSnapshots d) (\<lambda>snaps.
     bindM (listReferencedStorage d) (\<lambda>(_, referenced).
       purge_unreferenced d actor referenced snaps))"

section \<open>Quota counters\<close>

definition live_count :: "string \<Rightarrow> stored_fields list \<Rightarrow> int" where
  "live_count owner rs =
     int (length (filter (\<lambda>r. ownerId r = owner \<and> state r \<noteq> Terminated) rs))"

text \<open>The owners in the order of \<^verbatim>\<open>new Set([...actual.keys(), ...stored.keys()])\<close>.\<close>

definition count_owners :: "stored_fields list \<Rightarrow> (string \<times> int) list \<Rightarrow> string list" where
  "count_owners rs stored =
     rev (remdups (rev (map ownerId (filter (\<lambda>r. state r \<noteq> Terminated) rs) @ map fst stored)))"

definition set_count ::
  "string \<Rightarrow> int option \<Rightarrow> int \<Rightarrow> 'p sys \<Rightarrow> unit outcome \<times> 'p sys" where
  "set_count owner have want s =
     (if map_of (ownerCounts s) owner = have
      then (Ret (), s\<lparr>ownerCounts := AList.update owner want (ownerCounts s)\<rparr>)
      else (Raise conditionalCheckFailed, s))"

fun correct_counts ::
  "stored_fields list \<Rightarrow> (string \<times> int) list \<Rightarrow> string list \<Rightarrow> int \<Rightarrow> ('p, int) act" where
  "correct_counts rs stored [] corrected = ret corrected"
| "correct_counts rs stored (owner # owners) corrected =
     (let want = live_count owner rs; have = map_of stored owner in
      if have = Some want then correct_counts rs stored owners corrected
      else
        bindM (tryM (bindM (io (CSetCount owner want) (set_count owner have want))
                       (\<lambda>_. ret (corrected + 1)))
                 (\<lambda>e. if isVersionConflict e then ret corrected else raise e))
          (\<lambda>n. correct_counts rs stored owners n))"

definition reconcileOwnerCounts :: "'p deps \<Rightarrow> ('p, int) act" where
  "reconcileOwnerCounts d =
     (if \<not> hasOwnerCounts d then ret 0
      else bindM (allRecords d) (\<lambda>records.
        bindM (io CScanCounts (reading ownerCounts)) (\<lambda>stored.
          let rs = map fst records in
          correct_counts rs stored (count_owners rs stored) 0)))"

section \<open>Security events\<close>

definition SECURITY_EVENT_BUCKET_MS :: int where
  "SECURITY_EVENT_BUCKET_MS = 60000"

definition METRIC_SECURITY_PRIVILEGE_ATTEMPT :: string where
  "METRIC_SECURITY_PRIVILEGE_ATTEMPT = ''security.privilege_attempt''"

definition security_event_id :: "string \<Rightarrow> string \<Rightarrow> int \<Rightarrow> string" where
  "security_event_id i tool at =
     ''sec-'' @ i @ ''-'' @ tool @ ''-'' @ int_text (at div SECURITY_EVENT_BUCKET_MS)"

definition create_event :: "audit_event \<Rightarrow> 'p sys \<Rightarrow> unit outcome \<times> 'p sys" where
  "create_event e s =
     (if ev_id e \<in> ev_id ` set (ledger s) then (Raise conditionalCheckFailed, s)
      else (Ret (), append_event e s))"

definition clock_ms :: "('p, int) act" where
  "clock_ms w = (Ret (clockMs (sys w)), w)"

definition recordSecurityEvent ::
  "'p deps \<Rightarrow> string \<Rightarrow> string \<Rightarrow> ('p, (unit, domain_error) result) act" where
  "recordSecurityEvent d i tool =
     bindM (svc_find d i) (\<lambda>found.
       case found of
         None \<Rightarrow> ret (Err (NotFound ''workspace'' i))
       | Some _ \<Rightarrow>
           if \<not> hasAudit d then
             ret (Err (Unavailable ''security-event recording requires an audit ledger''))
           else bindM clock_ms (\<lambda>at.
             let e = \<lparr>ev_id = security_event_id i tool at, ev_at = Iso at, ev_actor = ''workspace'',
                      ev_action = SecurityPrivilegeAttempt, ev_target = i, ev_detail = tool,
                      ev_resources = None\<rparr>
             in bindM (tryM (bindM (io (CPutEvent e) (create_event e)) (\<lambda>_. ret True))
                         (\<lambda>er. if isVersionConflict er then ret False else raise er))
                  (\<lambda>created.
                     if created then
                       bindM (emit d (MetricCount METRIC_SECURITY_PRIVILEGE_ATTEMPT 1
                          [(''tool'', tool)])) (\<lambda>_. ret (Ok ()))
                     else ret (Ok ()))))"

end
