(* ===== verification/Service_Rules.thy ===== *)
theory Service_Rules
  imports Service_Fleet
begin

text \<open>
  What every operation of the service may rely on and what it guarantees, and the rules by
  which an operation is shown to keep its side. The rules follow the combinators the
  operations are written with, so a proof walks the operation's text.
\<close>

section \<open>The history of a table\<close>

definition legal_move :: "move \<Rightarrow> bool" where
  "legal_move m =
     (case (mv_from m, mv_to m) of
        (None, Some t) \<Rightarrow> t = Provisioning
      | (Some s, Some t) \<Rightarrow> s = t \<or> lifecycle_edge s t
      | (Some s, None) \<Rightarrow> s = Terminated
      | (None, None) \<Rightarrow> False)"

text \<open>The state a history leaves a workspace in.\<close>

fun replay :: "move list \<Rightarrow> string \<Rightarrow> workspace_state option" where
  "replay [] i = None"
| "replay (m # ms) i =
     (if mv_id m = i \<and> i \<notin> mv_id ` set ms then mv_to m else replay ms i)"

definition ever :: "'p sys \<Rightarrow> string \<Rightarrow> bool" where
  "ever s i \<longleftrightarrow> i \<in> mv_id ` set (moves s)"

lemma replay_snoc [simp]: "replay (ms @ [m]) i = (if mv_id m = i then mv_to m else replay ms i)"
  by (induction ms) auto

lemma replay_None: "i \<notin> mv_id ` set ms \<Longrightarrow> replay ms i = None"
  by (induction ms) auto

text \<open>Every move starts where the history before it left off.\<close>

fun chained :: "move list \<Rightarrow> bool" where
  "chained ms =
     (\<forall>k < length ms. mv_from (ms ! k) = replay (take k ms) (mv_id (ms ! k)))"

declare chained.simps [simp del]

lemma chained_snoc [simp]:
  "chained (ms @ [m]) \<longleftrightarrow> chained ms \<and> mv_from m = replay ms (mv_id m)"
  by (auto simp: chained.simps nth_append less_Suc_eq)

section \<open>Well-formed systems\<close>

definition rec_ok :: "string \<Rightarrow> stored_fields \<Rightarrow> bool" where
  "rec_ok i r \<longleftrightarrow>
     wsId r = i \<and> normal_email (ownerEmail r) \<and> shareEnabledAt r = None \<and>
     (\<exists>ws. toWorkspace r = Inr ws \<and> ws_inv ws)"

definition wf_sys :: "'p deps \<Rightarrow> 'p sys \<Rightarrow> bool" where
  "wf_sys d s \<longleftrightarrow>
     distinct (map fst (table s)) \<and>
     (\<forall>i r v. lookup s i = Some (r, v) \<longrightarrow> rec_ok i r) \<and>
     (\<forall>i. replay (moves s) i = map_option (state \<circ> fst) (lookup s i)) \<and>
     chained (moves s) \<and> (\<forall>m \<in> set (moves s). legal_move m) \<and>
     mv_id ` set (moves s) \<subseteq> newWorkspaceId (uuidOf d) ` {..<uuids s}"

lemma wf_ever: "\<lbrakk>wf_sys d s; lookup s i = Some rv\<rbrakk> \<Longrightarrow> ever s i"
  unfolding wf_sys_def ever_def by (metis option.simps(3) replay_None option.map_disc_iff)

text \<open>What one actor may do to the system while another is waiting.\<close>

definition guar :: "'p sys \<Rightarrow> 'p sys \<Rightarrow> bool" where
  "guar s t \<longleftrightarrow>
     (\<exists>ms. moves t = moves s @ ms) \<and> (\<exists>es. ledger t = ledger s @ es) \<and>
     (\<forall>i r v r' v'. lookup s i = Some (r, v) \<longrightarrow> lookup t i = Some (r', v') \<longrightarrow>
        v \<le> v' \<and> (v' = v \<longrightarrow> r' = r) \<and> ownerId r' = ownerId r \<and> createdAt r' = createdAt r) \<and>
     (\<forall>i. ever s i \<longrightarrow> lookup s i = None \<longrightarrow> lookup t i = None) \<and>
     wallMs s \<le> wallMs t \<and> uuids s \<le> uuids t"

lemma guar_refl [simp]: "guar s s"
  by (auto simp: guar_def)

lemma guar_ever: "\<lbrakk>guar s t; ever s i\<rbrakk> \<Longrightarrow> ever t i"
  by (auto simp: guar_def ever_def)

lemma guar_trans:
  assumes wf: "wf_sys d s" and st: "guar s t" and tu: "guar t u"
  shows "guar s u"
proof -
  have mid: "\<exists>rt. lookup t i = Some rt" if "lookup s i = Some rs" "lookup u i = Some ru" for i rs ru
    using that wf_ever [OF wf that(1)] guar_ever [OF st] tu
    by (cases "lookup t i") (auto simp: guar_def)
  have rec: "v \<le> v' \<and> (v' = v \<longrightarrow> r' = r) \<and> ownerId r' = ownerId r \<and> createdAt r' = createdAt r"
    if s: "lookup s i = Some (r, v)" and u: "lookup u i = Some (r', v')" for i r v r' v'
  proof -
    obtain q w where t: "lookup t i = Some (q, w)" using mid [OF s u] by auto
    have 1: "v \<le> w \<and> (w = v \<longrightarrow> q = r) \<and> ownerId q = ownerId r \<and> createdAt q = createdAt r"
      using st s t unfolding guar_def by blast
    have 2: "w \<le> v' \<and> (v' = w \<longrightarrow> r' = q) \<and> ownerId r' = ownerId q \<and> createdAt r' = createdAt q"
      using tu t u unfolding guar_def by blast
    from 1 2 show ?thesis by auto
  qed
  moreover have "lookup u i = None" if "ever s i" "lookup s i = None" for i
    using that guar_ever [OF st] st tu by (simp add: guar_def)
  ultimately show ?thesis
    using st tu by (auto simp: guar_def)
qed

section \<open>What an operation may know\<close>

definition stable_fact :: "('p sys \<Rightarrow> bool) \<Rightarrow> bool" where
  "stable_fact P \<longleftrightarrow> (\<forall>s t. guar s t \<longrightarrow> P s \<longrightarrow> P t)"

definition sound_ws :: "string \<Rightarrow> workspace \<Rightarrow> bool" where
  "sound_ws i ws \<longleftrightarrow> wsId ws = i \<and> ws_inv ws \<and> storable ws \<and> shareEnabledAt ws = None"

text \<open>The workspace was read at a version; as long as that is the version stored, it is what
  is stored.\<close>

definition obs :: "string \<Rightarrow> workspace \<Rightarrow> int \<Rightarrow> 'p sys \<Rightarrow> bool" where
  "obs i ws v s \<longleftrightarrow>
     sound_ws i ws \<and> ever s i \<and>
     (\<forall>r u. lookup s i = Some (r, u) \<longrightarrow> v \<le> u \<and> (u = v \<longrightarrow> toWorkspace r = Inr ws))"

lemma stable_obs [intro]: "stable_fact (obs i ws v)"
  unfolding stable_fact_def
proof (intro allI impI)
  fix s t :: "'p sys"
  assume g: "guar s t" and o: "obs i ws v s"
  have "v \<le> u' \<and> (u' = v \<longrightarrow> toWorkspace r' = Inr ws)" if t: "lookup t i = Some (r', u')" for r' u'
  proof -
    obtain r u where s: "lookup s i = Some (r, u)"
      using g o t by (cases "lookup s i") (auto simp: guar_def obs_def)
    with g t have "u \<le> u' \<and> (u' = u \<longrightarrow> r' = r)" unfolding guar_def by blast
    with s o show ?thesis by (auto simp: obs_def)
  qed
  then show "obs i ws v t" using o guar_ever [OF g] by (auto simp: obs_def)
qed

lemma stable_True [intro, simp]: "stable_fact (\<lambda>_. True)"
  by (simp add: stable_fact_def)

lemma stable_conj [intro]: "\<lbrakk>stable_fact P; stable_fact Q\<rbrakk> \<Longrightarrow> stable_fact (\<lambda>s. P s \<and> Q s)"
  unfolding stable_fact_def by blast

lemma toWorkspace_read:
  assumes "rec_ok i r"
  obtains ws where "toWorkspace r = Inr ws" "sound_ws i ws" "state ws = state r"
    "ownerId ws = ownerId r" "createdAt ws = createdAt r"
proof -
  from assms obtain ws where ws: "toWorkspace r = Inr ws" "ws_inv ws"
    by (auto simp: rec_ok_def)
  have mail: "normal_email (ownerEmail r)" and share: "shareEnabledAt r = None" and i: "wsId r = i"
    using assms by (auto simp: rec_ok_def)
  from toWorkspace_InrE [OF ws(1) mail] obtain res where
    "ws = map_fields (\<lambda>_. res) fromStoredSession r" "isValidWorkspaceResourcePair res" by metis
  with ws mail share i that [of ws] show thesis by (simp add: sound_ws_def storable_def)
qed

section \<open>Safety\<close>

definition good_turn :: "'p deps \<Rightarrow> 'p turn \<Rightarrow> bool" where
  "good_turn d t \<longleftrightarrow> (\<forall>s. wf_sys d s \<longrightarrow> wf_sys d (others t s) \<and> guar s (others t s))"

definition ok_world :: "'p deps \<Rightarrow> 'p world \<Rightarrow> bool" where
  "ok_world d w \<longleftrightarrow> wf_sys d (sys w) \<and> (\<forall>t \<in> set (schedule w). good_turn d t)"

definition safe :: "'p deps \<Rightarrow> ('p sys \<Rightarrow> bool) \<Rightarrow> ('p, 'a) act \<Rightarrow> ('a \<Rightarrow> 'p sys \<Rightarrow> bool) \<Rightarrow> bool" where
  "safe d P m Q \<longleftrightarrow>
     (\<forall>w. ok_world d w \<longrightarrow> P (sys w) \<longrightarrow>
        ok_world d (snd (m w)) \<and> guar (sys w) (sys (snd (m w))) \<and>
        (\<forall>a. fst (m w) = Ret a \<longrightarrow> Q a (sys (snd (m w)))))"

abbreviation safeT :: "'p deps \<Rightarrow> ('p sys \<Rightarrow> bool) \<Rightarrow> ('p, 'a) act \<Rightarrow> bool" where
  "safeT d P m \<equiv> safe d P m (\<lambda>_ _. True)"

named_theorems safe_intros \<open>rules for the operations and combinators\<close>

lemma safe_weaken: "\<lbrakk>safe d P m Q; \<And>s. P' s \<Longrightarrow> P s; \<And>a s. Q a s \<Longrightarrow> Q' a s\<rbrakk> \<Longrightarrow> safe d P' m Q'"
  by (auto simp: safe_def)

lemma safeT_pre: "safeT d (\<lambda>_. True) m \<Longrightarrow> safeT d P m"
  by (auto simp: safe_def)

lemma safe_bind:
  assumes m: "safe d P m Q" and f: "\<And>a. safe d (Q a) (f a) R"
  shows "safe d P (bindM m f) R"
  unfolding safe_def
proof (intro allI impI)
  fix w assume w: "ok_world d w" "P (sys w)"
  obtain r w' where mw: "m w = (r, w')" by fastforce
  have 1: "ok_world d w'" "guar (sys w) (sys w')" "\<And>a. r = Ret a \<Longrightarrow> Q a (sys w')"
    using m w mw by (auto simp: safe_def)
  show "ok_world d (snd (bindM m f w)) \<and> guar (sys w) (sys (snd (bindM m f w))) \<and>
    (\<forall>a. fst (bindM m f w) = Ret a \<longrightarrow> R a (sys (snd (bindM m f w))))"
  proof (cases r)
    case (Ret a)
    have "ok_world d (snd (f a w')) \<and> guar (sys w') (sys (snd (f a w'))) \<and>
        (\<forall>b. fst (f a w') = Ret b \<longrightarrow> R b (sys (snd (f a w'))))"
      using f [of a] 1 Ret by (auto simp: safe_def)
    moreover have "wf_sys d (sys w)" using w by (simp add: ok_world_def)
    ultimately show ?thesis
      using guar_trans [OF _ 1(2)] by (auto simp: bindM_def mw Ret)
  next
    case (Raise e)
    with 1 show ?thesis by (simp add: bindM_def mw)
  qed
qed

lemma safe_keep:
  assumes "safeT d (\<lambda>_. True) m" and "stable_fact P"
  shows "safe d P m (\<lambda>_. P)"
  using assms unfolding safe_def stable_fact_def by blast

lemma safeT_bind [safe_intros]:
  assumes "safeT d (\<lambda>_. True) m" and "stable_fact P" and "\<And>a. safeT d P (f a)"
  shows "safeT d P (bindM m f)"
  by (rule safe_bind [OF safe_keep [OF assms(1,2)] assms(3)])

lemma safe_try:
  assumes m: "safe d P m Q" and h: "\<And>e. safe d P (h e) Q" and P: "stable_fact P"
  shows "safe d P (tryM m h) Q"
  unfolding safe_def
proof (intro allI impI)
  fix w assume w: "ok_world d w" "P (sys w)"
  obtain r w' where mw: "m w = (r, w')" by fastforce
  have 1: "ok_world d w'" "guar (sys w) (sys w')" "\<And>a. r = Ret a \<Longrightarrow> Q a (sys w')"
    using m w mw by (auto simp: safe_def)
  show "ok_world d (snd (tryM m h w)) \<and> guar (sys w) (sys (snd (tryM m h w))) \<and>
    (\<forall>a. fst (tryM m h w) = Ret a \<longrightarrow> Q a (sys (snd (tryM m h w))))"
  proof (cases r)
    case (Raise e)
    have "P (sys w')" using P 1(2) w(2) by (auto simp: stable_fact_def)
    then have "ok_world d (snd (h e w')) \<and> guar (sys w') (sys (snd (h e w'))) \<and>
        (\<forall>b. fst (h e w') = Ret b \<longrightarrow> Q b (sys (snd (h e w'))))"
      using h [of e] 1 by (auto simp: safe_def)
    moreover have "wf_sys d (sys w)" using w by (simp add: ok_world_def)
    ultimately show ?thesis
      using guar_trans [OF _ 1(2)] by (auto simp: tryM_def mw Raise)
  qed (use 1 in \<open>simp add: tryM_def mw\<close>)
qed

lemmas safeT_try [safe_intros] = safe_try [where Q = "\<lambda>_ _. True"]

lemma safe_ret: "(\<And>s. P s \<Longrightarrow> Q a s) \<Longrightarrow> safe d P (ret a) Q"
  by (auto simp: safe_def ret_def)

lemma safe_raise: "safe d P (raise e) Q"
  by (auto simp: safe_def raise_def)

lemma safeT_pure [safe_intros]:
  "safeT d P (ret a)" "safeT d P (raise e)" "safeT d P now" "safeT d P dateNow"
  "safeT d P clock_ms"
  by (auto simp: safe_def ret_def raise_def now_def dateNow_def clock_ms_def)

lemma safeT_liftE [safe_intros]: "safeT d P (liftE x)"
  by (cases x) (simp_all add: liftE_def safeT_pure)

lemma safeT_if [safe_intros]: "\<lbrakk>b \<Longrightarrow> safe d P m Q; \<not> b \<Longrightarrow> safe d P n Q\<rbrakk> \<Longrightarrow> safe d P (if b then m else n) Q"
  by simp

lemma safeT_option [safe_intros]:
  "\<lbrakk>x = None \<Longrightarrow> safe d P m Q; \<And>a. x = Some a \<Longrightarrow> safe d P (f a) Q\<rbrakk> \<Longrightarrow>
     safe d P (case x of None \<Rightarrow> m | Some a \<Rightarrow> f a) Q"
  by (cases x) auto

lemma safeT_result [safe_intros]:
  "\<lbrakk>\<And>a. x = Ok a \<Longrightarrow> safe d P (f a) Q; \<And>e. x = Err e \<Longrightarrow> safe d P (g e) Q\<rbrakk> \<Longrightarrow>
     safe d P (case x of Ok a \<Rightarrow> f a | Err e \<Rightarrow> g e) Q"
  by (cases x) auto

lemma safeT_sum [safe_intros]:
  "\<lbrakk>\<And>a. x = Inl a \<Longrightarrow> safe d P (f a) Q; \<And>e. x = Inr e \<Longrightarrow> safe d P (g e) Q\<rbrakk> \<Longrightarrow>
     safe d P (case x of Inl a \<Rightarrow> f a | Inr e \<Rightarrow> g e) Q"
  by (cases x) auto

lemma safeT_nat [safe_intros]:
  "\<lbrakk>x = 0 \<Longrightarrow> safe d P m Q; \<And>n. x = Suc n \<Longrightarrow> safe d P (f n) Q\<rbrakk> \<Longrightarrow>
     safe d P (case x of 0 \<Rightarrow> m | Suc n \<Rightarrow> f n) Q"
  by (cases x) auto

lemma safeT_onOk [safe_intros]:
  "(\<And>a. r = Ok a \<Longrightarrow> safeT d P (f a)) \<Longrightarrow> safeT d P (onOk r f)"
  by (cases r) (simp_all add: onOk_def safeT_pure)

lemma safeT_bindR [safe_intros]:
  assumes "safeT d (\<lambda>_. True) m" and "stable_fact P" and "\<And>a. safeT d P (f a)"
  shows "safeT d P (bindR m f)"
  unfolding bindR_def by (intro safe_intros assms)

lemma safeT_when [safe_intros]: "safeT d P m \<Longrightarrow> safeT d P (whenM b m)"
  by (simp add: whenM_def safeT_pure)

section \<open>Calls\<close>

lemma safe_perform:
  assumes act: "\<And>s. \<lbrakk>wf_sys d s; P s\<rbrakk> \<Longrightarrow> wf_sys d (snd (act s)) \<and> guar s (snd (act s)) \<and>
      (\<forall>a. fst (act s) = Ret a \<longrightarrow> Q a (snd (act s)))"
    and cancel: "\<And>codes a s. \<lbrakk>cancel codes = Some a; P s\<rbrakk> \<Longrightarrow> Q a s"
    and P: "stable_fact P"
  shows "safe d P (perform c good cancel act) Q"
  unfolding safe_def
proof (intro allI impI)
  fix w assume w: "ok_world d w" "P (sys w)"
  let ?r = "perform c good cancel act w"
  show "ok_world d (snd ?r) \<and> guar (sys w) (sys (snd ?r)) \<and>
    (\<forall>a. fst ?r = Ret a \<longrightarrow> Q a (sys (snd ?r)))"
  proof (cases "schedule w")
    case Nil
    then show ?thesis using act w by (auto simp: perform_def record_call_def ok_world_def)
  next
    case (Cons t rest)
    let ?s = "others t (sys w)"
    have s: "wf_sys d ?s" "guar (sys w) ?s"
      using w Cons by (auto simp: ok_world_def good_turn_def)
    then have "P ?s" using w(2) P by (auto simp: stable_fact_def)
    note a = act [OF s(1) this]
    have "guar (sys w) (snd (act ?s))"
      using guar_trans [OF _ s(2)] a w by (auto simp: ok_world_def)
    then show ?thesis
      using a s cancel [OF _ \<open>P ?s\<close>] w Cons
      by (auto simp: perform_def record_call_def ok_world_def Let_def split: fault.split option.split)
  qed
qed

lemma safe_io:
  assumes "\<And>s. \<lbrakk>wf_sys d s; P s\<rbrakk> \<Longrightarrow> wf_sys d (snd (act s)) \<and> guar s (snd (act s)) \<and>
      (\<forall>a. fst (act s) = Ret a \<longrightarrow> Q a (snd (act s)))"
    and "stable_fact P"
  shows "safe d P (io c act) Q"
  unfolding io_def by (rule safe_perform) (use assms in auto)

text \<open>Steps that leave the table, its history and the ledger alone.\<close>

lemma wf_sys_frame:
  assumes "wf_sys d s" "table s' = table s" "moves s' = moves s" "uuids s \<le> uuids s'"
  shows "wf_sys d s'"
proof -
  have "lookup s' = lookup s" using assms by (simp add: lookup_def fun_eq_iff)
  moreover have "{..<uuids s} \<subseteq> {..<uuids s'}" using assms(4) by auto
  ultimately show ?thesis using assms(1-3) by (auto simp: wf_sys_def)
qed

lemma guar_frame:
  assumes "table s' = table s" "moves s' = moves s" "\<exists>es. ledger s' = ledger s @ es"
    "wallMs s \<le> wallMs s'" "uuids s \<le> uuids s'"
  shows "guar s s'"
proof -
  have "lookup s' = lookup s" using assms by (simp add: lookup_def fun_eq_iff)
  then show ?thesis using assms by (auto simp: guar_def)
qed

lemma safe_provider [safe_intros]:
  "safeT d P (runTask d inp)" "safeT d P (stopTask d t)" "safeT d P (taskState d t)"
  "safeT d P (createSnapshot d v retain owner)" "safeT d P (tagSnapshotRetained d j)"
  "safeT d P (deleteSnapshot d j)" "safeT d P (listSnapshots d)"
proof -
  have p: "wf_sys d (snd (provider f s)) \<and> guar s (snd (provider f s))"
    if "wf_sys d s" for f :: "'a \<Rightarrow> (js_error + 'b) \<times> 'a" and s
    using that by (auto simp: provider_def split: prod.split sum.split
        intro: wf_sys_frame guar_frame)
  show "safeT d P (runTask d inp)" "safeT d P (stopTask d t)" "safeT d P (taskState d t)"
    "safeT d P (createSnapshot d v retain owner)" "safeT d P (tagSnapshotRetained d j)"
    "safeT d P (deleteSnapshot d j)" "safeT d P (listSnapshots d)"
    unfolding runTask_def stopTask_def taskState_def createSnapshot_def tagSnapshotRetained_def
      deleteSnapshot_def listSnapshots_def
    by (rule safeT_pre, rule safe_io; (rule stable_True)?; simp add: p)+
qed

lemma safe_reading [safe_intros]: "safeT d P (io c (reading f))"
  by (rule safeT_pre, rule safe_io) (auto simp: reading_def)

lemma safe_sleep [safe_intros]: "0 \<le> ms \<Longrightarrow> safeT d P (sleep ms)"
  unfolding sleep_def
  by (rule safeT_pre, rule safe_io) (auto intro: wf_sys_frame guar_frame)

lemma safe_local [safe_intros]:
  "safeT d P (randomUUID d)" "safeT d P (emit d m)" "safeT d P (validate d attrs)"
  by (auto simp: safe_def randomUUID_def emit_def validate_def ok_world_def ret_def raise_def
      split: option.split intro: wf_sys_frame guar_frame)

lemma safe_auditItem [safe_intros]: "safeT d P (auditItem d a)"
  unfolding auditItem_def by (rule safeT_pre) (intro safe_intros stable_True)

lemma safe_append_event:
  "safeT d P (io c (\<lambda>s. (Ret (), append_event e s)))" "safeT d P (io c (create_event e))"
  "safeT d P (io c (set_count owner have want))"
  by (rule safeT_pre, rule safe_io;
      auto simp: append_event_def create_event_def set_count_def intro: wf_sys_frame guar_frame)+

lemmas safe_append_event [safe_intros]

lemma safe_recordsByStates [safe_intros]: "safeT d P (recordsByStates d states)"
proof (rule safeT_pre, induction states)
  case Nil
  then show ?case by (simp add: recordsByStates_def safeT_pure)
next
  case (Cons st states)
  then show ?case
    unfolding recordsByStates_def foldr.simps comp_def by (intro safe_intros stable_True)
qed

lemma safe_allRecords [safe_intros]: "safeT d P (allRecords d)"
  unfolding allRecords_def by (rule safe_recordsByStates)

section \<open>Reading a workspace\<close>

lemma safe_find:
  assumes P: "stable_fact P"
  shows "safe d P (svc_find d i)
    (\<lambda>found s. P s \<and> (\<forall>ws v. found = Some (ws, v) \<longrightarrow> obs i ws v s))"
  unfolding svc_find_def
proof (rule safe_bind)
  show "safe d P (io (CGet i) (reading (\<lambda>s. lookup s i)))
    (\<lambda>data s. P s \<and> (\<forall>r v. data = Some (r, v) \<longrightarrow> rec_ok i r \<and>
        (\<forall>ws. toWorkspace r = Inr ws \<longrightarrow> obs i ws v s)))"
  proof (rule safe_io [OF _ P])
    fix s assume s: "wf_sys d s" "P s"
    have "rec_ok i r \<and> (\<forall>ws. toWorkspace r = Inr ws \<longrightarrow> obs i ws v s)"
      if l: "lookup s i = Some (r, v)" for r v
    proof -
      have "rec_ok i r" using s l by (auto simp: wf_sys_def)
      moreover from this obtain ws where "toWorkspace r = Inr ws" "sound_ws i ws"
        by (rule toWorkspace_read)
      ultimately show ?thesis using l wf_ever [OF s(1) l] by (auto simp: obs_def)
    qed
    with s show "wf_sys d (snd (reading (\<lambda>s. lookup s i) s)) \<and>
         guar s (snd (reading (\<lambda>s. lookup s i) s)) \<and>
         (\<forall>a. fst (reading (\<lambda>s. lookup s i) s) = Ret a \<longrightarrow>
              P (snd (reading (\<lambda>s. lookup s i) s)) \<and>
              (\<forall>r v. a = Some (r, v) \<longrightarrow>
                 rec_ok i r \<and> (\<forall>ws. toWorkspace r = Inr ws \<longrightarrow>
                   obs i ws v (snd (reading (\<lambda>s. lookup s i) s)))))"
      by (simp add: reading_def)
  qed
next
  fix data :: "(stored_fields \<times> int) option"
  show "safe d (\<lambda>s. P s \<and> (\<forall>r v. data = Some (r, v) \<longrightarrow> rec_ok i r \<and>
        (\<forall>ws. toWorkspace r = Inr ws \<longrightarrow> obs i ws v s)))
     (case data of None \<Rightarrow> ret None
      | Some (r, v) \<Rightarrow> bindM (liftE (toWorkspace r)) (\<lambda>ws. ret (Some (ws, v))))
     (\<lambda>found s. P s \<and> (\<forall>ws v. found = Some (ws, v) \<longrightarrow> obs i ws v s))"
    by (auto simp: safe_def bindM_def liftE_def ret_def raise_def split: option.split sum.split)
qed

lemma safeT_find [safe_intros]: "safeT d P (svc_find d i)"
  by (rule safeT_pre, rule safe_weaken [OF safe_find [OF stable_True]]) auto

lemma safe_find_bind:
  assumes "stable_fact P" and "safeT d P (f None)"
    and "\<And>ws v. safeT d (\<lambda>s. P s \<and> obs i ws v s) (f (Some (ws, v)))"
  shows "safeT d P (bindM (svc_find d i) f)"
proof (rule safe_bind [OF safe_find [OF assms(1)]])
  fix found :: "loaded_workspace option"
  show "safeT d (\<lambda>s. P s \<and> (\<forall>ws v. found = Some (ws, v) \<longrightarrow> obs i ws v s)) (f found)"
    using assms(2,3) by (cases found) (auto intro: safe_weaken)
qed

lemma safe_require_bind:
  assumes "stable_fact P"
    and "\<And>ws v. safeT d (\<lambda>s. P s \<and> obs i ws v s) (f (ws, v))"
  shows "safeT d P (bindR (svc_require d i) f)"
proof -
  have "bindR (svc_require d i) f = bindM (svc_find d i) (\<lambda>loaded.
      onOk (case loaded of None \<Rightarrow> Err (NotFound ''workspace'' i) | Some lw \<Rightarrow> Ok lw) f)"
    by (simp add: bindR_def svc_require_def bindM_def ret_def fun_eq_iff split: outcome.split prod.split)
  then show ?thesis
    using assms by (simp only:) (rule safe_find_bind; simp add: onOk_def safeT_pure)
qed

section \<open>Writes\<close>

lemma lookup_put [simp]: "lookup (put_record i r v s) j = (if j = i then Some (r, v) else lookup s j)"
  by (simp add: put_record_def log_move_def lookup_def)

lemma lookup_drop [simp]: "lookup (drop_record i s) j = (if j = i then None else lookup s j)"
  by (simp add: drop_record_def log_move_def lookup_def)

lemma put_frame [simp]:
  "moves (put_record i r v s) =
     moves s @ [\<lparr>mv_id = i, mv_from = map_option (state \<circ> fst) (lookup s i), mv_to = Some (state r)\<rparr>]"
  "ledger (put_record i r v s) = ledger s" "wallMs (put_record i r v s) = wallMs s"
  "uuids (put_record i r v s) = uuids s"
  by (simp_all add: put_record_def log_move_def lookup_def)

lemma drop_frame [simp]:
  "moves (drop_record i s) =
     moves s @ [\<lparr>mv_id = i, mv_from = map_option (state \<circ> fst) (lookup s i), mv_to = None\<rparr>]"
  "ledger (drop_record i s) = ledger s" "wallMs (drop_record i s) = wallMs s"
  "uuids (drop_record i s) = uuids s"
  by (simp_all add: drop_record_def log_move_def lookup_def)

lemma distinct_put [simp]:
  "distinct (map fst (table s)) \<Longrightarrow> distinct (map fst (table (put_record i r v s)))"
  "distinct (map fst (table s)) \<Longrightarrow> distinct (map fst (table (drop_record i s)))"
  by (simp_all add: put_record_def drop_record_def log_move_def distinct_update distinct_delete)

lemma put_existing:
  assumes wf: "wf_sys d s" and l: "lookup s i = Some (r, v)" and ok: "rec_ok i r'" and v: "v < v'"
    and st: "state r' = state r \<or> lifecycle_edge (state r) (state r')"
    and same: "ownerId r' = ownerId r" "createdAt r' = createdAt r"
  shows "wf_sys d (put_record i r' v' s) \<and> guar s (put_record i r' v' s)"
proof -
  have "replay (moves s) i = Some (state r)" using wf l by (simp add: wf_sys_def)
  moreover have "i \<in> mv_id ` set (moves s)" using wf_ever [OF wf l] by (simp add: ever_def)
  ultimately have "wf_sys d (put_record i r' v' s)"
    using wf l ok st by (auto simp: wf_sys_def legal_move_def split: if_splits)
  moreover have "guar s (put_record i r' v' s)"
    using l v same by (auto simp: guar_def split: if_splits)
  ultimately show ?thesis ..
qed

lemma put_new:
  assumes wf: "wf_sys d s" and fresh: "\<not> ever s i" and ok: "rec_ok i r"
    and st: "state r = Provisioning" and i: "i \<in> newWorkspaceId (uuidOf d) ` {..<uuids s}"
  shows "wf_sys d (put_record i r 0 s) \<and> guar s (put_record i r 0 s)"
proof -
  have none: "lookup s i = None" using wf_ever [OF wf] fresh by (cases "lookup s i") auto
  have "wf_sys d (put_record i r 0 s)"
    using wf none ok st i fresh
    by (auto simp: wf_sys_def legal_move_def ever_def replay_None split: if_splits)
  moreover have "guar s (put_record i r 0 s)"
    using none fresh by (auto simp: guar_def split: if_splits)
  ultimately show ?thesis ..
qed

lemma drop_terminated:
  assumes wf: "wf_sys d s" and l: "lookup s i = Some (r, v)" and st: "state r = Terminated"
  shows "wf_sys d (drop_record i s) \<and> guar s (drop_record i s)"
proof -
  have "replay (moves s) i = Some Terminated" using wf l st by (simp add: wf_sys_def)
  moreover have "i \<in> mv_id ` set (moves s)" using wf_ever [OF wf l] by (simp add: ever_def)
  ultimately have "wf_sys d (drop_record i s)"
    using wf l st by (auto simp: wf_sys_def legal_move_def split: if_splits)
  moreover have "guar s (drop_record i s)"
    by (auto simp: guar_def split: if_splits)
  ultimately show ?thesis ..
qed

text \<open>The items of a transaction that do not touch the workspace table.\<close>

fun harmless :: "tx_item \<Rightarrow> bool" where
  "harmless (TxAddCount _ _) = True"
| "harmless (TxSubCount _) = True"
| "harmless (TxEvent _) = True"
| "harmless _ = False"

lemma harmless_apply:
  assumes "harmless x" and "wf_sys d s"
  shows "wf_sys d (tx_apply x s) \<and> guar s (tx_apply x s)"
  using assms by (cases x) (auto simp: add_count_def intro: wf_sys_frame guar_frame)

lemma harmless_fold:
  assumes "\<forall>x \<in> set xs. harmless x" and "wf_sys d s"
  shows "wf_sys d (fold tx_apply xs s) \<and> guar s (fold tx_apply xs s)"
  using assms
proof (induction xs arbitrary: s)
  case (Cons x xs)
  then have "wf_sys d (tx_apply x s)" "guar s (tx_apply x s)" using harmless_apply [of x d s] by auto
  with Cons guar_trans [of d s "tx_apply x s"] show ?case by auto
qed simp

definition step_ok :: "'p deps \<Rightarrow> ('p sys \<Rightarrow> bool) \<Rightarrow> tx_item \<Rightarrow> ('p sys \<Rightarrow> bool) \<Rightarrow> bool" where
  "step_ok d P x Q \<longleftrightarrow>
     (\<forall>s. wf_sys d s \<longrightarrow> P s \<longrightarrow> tx_code (subMissing d) x s = None \<longrightarrow>
        wf_sys d (tx_apply x s) \<and> guar s (tx_apply x s) \<and> Q (tx_apply x s))"

lemma commit_step:
  assumes "step_ok d P x Q" and "\<forall>y \<in> set xs. harmless y" and "stable_fact Q"
    and "wf_sys d s" and "P s"
  shows "wf_sys d (snd (commit_items (subMissing d) (x # xs) s)) \<and>
     guar s (snd (commit_items (subMissing d) (x # xs) s)) \<and>
     (fst (commit_items (subMissing d) (x # xs) s) = None \<longrightarrow>
        Q (snd (commit_items (subMissing d) (x # xs) s)))"
proof (cases "\<forall>y \<in> set (x # xs). tx_code (subMissing d) y s = None")
  case True
  let ?t = "tx_apply x s"
  have t: "wf_sys d ?t" "guar s ?t" "Q ?t" using assms True by (auto simp: step_ok_def)
  note rest = harmless_fold [OF assms(2) t(1)]
  then have "guar s (fold tx_apply xs ?t)" using guar_trans [OF assms(4) t(2)] by blast
  moreover have "Q (fold tx_apply xs ?t)" using rest t(3) assms(3) by (auto simp: stable_fact_def)
  ultimately show ?thesis using rest True by (auto simp: commit_items_def Let_def)
next
  case False
  then show ?thesis using assms(4) by (auto simp: commit_items_def Let_def)
qed

lemma safe_writeTransaction:
  assumes "step_ok d P x Q" and "\<forall>y \<in> set xs. harmless y" and "stable_fact P" and "stable_fact Q"
  shows "safe d P (writeTransaction d (x # xs)) (\<lambda>r s. r = None \<longrightarrow> Q s)"
  unfolding writeTransaction_def
  by (rule safe_perform)
    (use assms(3) commit_step [OF assms(1,2,4)] in \<open>auto simp: case_prod_beta\<close>)

lemma safe_writeOne:
  assumes "step_ok d P x Q" and "stable_fact P" and "stable_fact Q"
  shows "safe d P (writeOne d x) (\<lambda>_. Q)"
  unfolding writeOne_def
  by (rule safe_io)
    (use assms(2) commit_step [OF assms(1) _ assms(3), of "[]"] in
      \<open>auto simp: case_prod_beta split: option.split\<close>)

section \<open>The transition write\<close>

text \<open>What makes one workspace a legal successor of another in the table.\<close>

definition legal_write :: "workspace \<Rightarrow> workspace \<Rightarrow> bool" where
  "legal_write ws ws' \<longleftrightarrow>
     keeps_fields ws ws' \<and> same_identity ws ws' \<and> (ws_inv ws \<longrightarrow> ws_inv ws') \<and>
     (state ws' = state ws \<or> lifecycle_edge (state ws) (state ws'))"

lemma legal_op: "\<lbrakk>apply_op op ws = Ok ws'; \<And>at. op \<noteq> OpUndelete at\<rbrakk> \<Longrightarrow> legal_write ws ws'"
  using op_keeps_fields op_identity op_ws_inv op_edge unfolding legal_write_def by blast

lemma legal_writes:
  "markStopping ws at by' = Ok ws' \<Longrightarrow> legal_write ws ws'"
  "cancelStopping ws at = Ok ws' \<Longrightarrow> legal_write ws ws'"
  "markStopped ws fresh at = Ok ws' \<Longrightarrow> legal_write ws ws'"
  "markDeleting ws at = Ok ws' \<Longrightarrow> legal_write ws ws'"
  "setShare ws b at = Ok ws' \<Longrightarrow> legal_write ws ws'"
  "markWaking ws at = Ok ws' \<Longrightarrow> legal_write ws ws'"
  "markProvisioned ws vol t at host = Ok ws' \<Longrightarrow> legal_write ws ws'"
  "deferPlacement ws why at = Inr (Ok ws') \<Longrightarrow> legal_write ws ws'"
  "markProvisioningFailed ws why at = Ok ws' \<Longrightarrow> legal_write ws ws'"
  "retryProvisioning ws at = Ok ws' \<Longrightarrow> legal_write ws ws'"
  "restoreToSnapshot ws sn at = Ok ws' \<Longrightarrow> legal_write ws ws'"
  "markSnapshotLost ws at = Ok ws' \<Longrightarrow> legal_write ws ws'"
  "markTaskLost ws at = Ok ws' \<Longrightarrow> legal_write ws ws'"
  "markActivity ws at = Ok ws' \<Longrightarrow> legal_write ws ws'"
  "markRecovered ws at = Ok ws' \<Longrightarrow> legal_write ws ws'"
  "legal_write ws (recordSnapshot ws i at)"
  "legal_write ws (recordFunctional ws p at)"
  "legal_write ws (recordSessions ws ss at)"
  using legal_op [of "OpStopping at by'"] legal_op [of "OpCancelStop at"]
    legal_op [of "OpStopped fresh at"] legal_op [of "OpDeleting at"] legal_op [of "OpShare b at"]
    legal_op [of "OpWaking at"] legal_op [of "OpProvisioned vol t at host"]
    legal_op [of "OpDefer why at"] legal_op [of "OpFailed why at"] legal_op [of "OpRetry at"]
    legal_op [of "OpRestore sn at"] legal_op [of "OpSnapshotLost at"] legal_op [of "OpTaskLost at"]
    legal_op [of "OpActivity at"] legal_op [of "OpRecovered at"] legal_op [of "OpSnapshot i at"]
    legal_op [of "OpFunctional p at"] legal_op [of "OpSessions ss at"]
  by simp_all

lemma keeps_fields_trans: "\<lbrakk>keeps_fields a b; keeps_fields b c\<rbrakk> \<Longrightarrow> keeps_fields a c"
  unfolding keeps_fields_def by (elim conjE, intro conjI) simp_all

lemma legal_write_same_state:
  assumes "legal_write a b" and "legal_write b c" and "state c = state b"
  shows "legal_write a c"
  using assms keeps_fields_trans [of a b c] same_identity_trans [of a b c]
  by (simp add: legal_write_def)

lemma detail_inv [simp]: "ws_inv (toWorkspaceDetail ws) = ws_inv ws"
  by (simp add: ws_inv_def toWorkspaceDetail_eq)

lemma step_patch:
  assumes legal: "legal_write ws ws'"
  shows "step_ok d (obs i ws v) (TxPatch i (transition_attrs ws') TRANSITION_CLEARABLE v)
    (obs i (toWorkspaceDetail ws') (v + 1))"
  unfolding step_ok_def
proof (intro allI impI)
  fix s assume wf: "wf_sys d s" and o: "obs i ws v s"
    and code: "tx_code (subMissing d) (TxPatch i (transition_attrs ws') TRANSITION_CLEARABLE v) s = None"
  from code obtain r where l: "lookup s i = Some (r, v)" by (auto split: option.splits if_splits)
  have r: "toWorkspace r = Inr ws" and ws: "sound_ws i ws" using o l by (auto simp: obs_def)
  have ok: "rec_ok i r" using wf l by (auto simp: wf_sys_def)
  then obtain ws0 where "toWorkspace r = Inr ws0" and same0: "state ws0 = state r"
    "ownerId ws0 = ownerId r" "createdAt ws0 = createdAt r" by (rule toWorkspace_read)
  then have same: "state ws = state r" "ownerId ws = ownerId r" "createdAt ws = createdAt r"
    using r by simp_all
  have patch: "patch_record TRANSITION_CLEARABLE (transition_attrs ws') r = transition_attrs ws'"
    by (rule patch_transition [OF r]) (use ok legal in \<open>auto simp: rec_ok_def legal_write_def\<close>)
  have storable: "storable ws'" and ws': "wsId ws' = i" "ws_inv ws'"
    using ws legal by (auto simp: sound_ws_def legal_write_def same_identity_def storable_def)
  have new: "rec_ok i (transition_attrs ws')"
    using toWorkspace_transition_attrs [OF storable] ws' storable
    by (auto simp: rec_ok_def transition_attrs_def storable_def)
  have put: "wf_sys d (put_record i (transition_attrs ws') (v + 1) s) \<and>
      guar s (put_record i (transition_attrs ws') (v + 1) s)"
    by (rule put_existing [OF wf l new])
      (use legal same in \<open>auto simp: legal_write_def same_identity_def transition_attrs_def toWorkspaceDetail_eq\<close>)
  have "obs i (toWorkspaceDetail ws') (v + 1) (put_record i (transition_attrs ws') (v + 1) s)"
    using toWorkspace_transition_attrs [OF storable] ws' storable
    by (auto simp: obs_def sound_ws_def ever_def storable_def)
  with put show "wf_sys d (tx_apply (TxPatch i (transition_attrs ws') TRANSITION_CLEARABLE v) s) \<and>
     guar s (tx_apply (TxPatch i (transition_attrs ws') TRANSITION_CLEARABLE v) s) \<and>
     obs i (toWorkspaceDetail ws') (v + 1)
       (tx_apply (TxPatch i (transition_attrs ws') TRANSITION_CLEARABLE v) s)"
    by (simp add: l patch)
qed

text \<open>The transition write, from what its patch does.\<close>

lemma safe_persist_step:
  assumes step: "step_ok d P (TxPatch (wsId ws') (transition_attrs ws') TRANSITION_CLEARABLE v) Q"
    and P: "stable_fact P" and Q: "stable_fact Q"
  shows "safe d P (persistTransition d ws' v audit) (\<lambda>_. Q)"
proof -
  let ?x = "TxPatch (wsId ws') (transition_attrs ws') TRANSITION_CLEARABLE v"
  have pre: "safe d P (case audit of None \<Rightarrow> ret None | Some a \<Rightarrow> auditItem d a) (\<lambda>_. P)"
    by (rule safe_keep [OF _ P]) (intro safe_intros)
  have val: "safe d P (validate d (transition_attrs ws')) (\<lambda>_. P)"
    by (rule safe_keep [OF safe_local(3) P])
  have tx: "safe d P (bindM (writeTransaction d [?x, TxEvent e])
      (\<lambda>r. case r of None \<Rightarrow> ret () | Some codes \<Rightarrow> raise (canceledTransactionError codes)))
      (\<lambda>_. Q)" for e
    by (rule safe_bind [OF safe_writeTransaction [OF step _ P Q]])
      (auto split: option.split intro: safe_ret safe_raise)
  have "safe d P (case ev of None \<Rightarrow> writeOne d ?x
      | Some e \<Rightarrow> bindM (writeTransaction d [?x, TxEvent e])
          (\<lambda>r. case r of None \<Rightarrow> ret () | Some codes \<Rightarrow> raise (canceledTransactionError codes)))
      (\<lambda>_. Q)" for ev
    using tx safe_writeOne [OF step P Q] by (cases ev) simp_all
  then show ?thesis
    unfolding persistTransition_def Let_def
    by (intro safe_bind [OF pre] safe_bind [OF val])
qed

lemma safe_persistTransition:
  assumes "legal_write ws ws'" and "stable_fact P" and "wsId ws' = i"
  shows "safe d (\<lambda>s. P s \<and> obs i ws v s) (persistTransition d ws' v audit)
    (\<lambda>_ s. P s \<and> obs i (toWorkspaceDetail ws') (v + 1) s)"
proof (rule safe_persist_step)
  let ?x = "TxPatch (wsId ws') (transition_attrs ws') TRANSITION_CLEARABLE v"
  show "step_ok d (\<lambda>s. P s \<and> obs i ws v s) ?x (\<lambda>s. P s \<and> obs i (toWorkspaceDetail ws') (v + 1) s)"
    using step_patch [OF assms(1), of d i v] assms(2,3) by (auto simp: step_ok_def stable_fact_def)
qed (use assms(2) in auto)

text \<open>A patch that is legal for every record that reads as the workspace observed.\<close>

definition legal_patch ::
  "string \<Rightarrow> workspace \<Rightarrow> field_name list \<Rightarrow> stored_fields \<Rightarrow> bool" where
  "legal_patch i ws cl a \<longleftrightarrow>
     (\<forall>r. rec_ok i r \<longrightarrow> toWorkspace r = Inr ws \<longrightarrow>
        rec_ok i (patch_record cl a r) \<and>
        (state a = state ws \<or> lifecycle_edge (state ws) (state a)) \<and>
        ownerId a = ownerId ws \<and> createdAt a = createdAt ws)"

lemma step_legal_patch:
  assumes "legal_patch i ws cl a"
  shows "step_ok d (obs i ws v) (TxPatch i a cl v) (\<lambda>_. True)"
  unfolding step_ok_def
proof (intro allI impI)
  fix s assume wf: "wf_sys d s" and o: "obs i ws v s"
    and code: "tx_code (subMissing d) (TxPatch i a cl v) s = None"
  from code obtain r where l: "lookup s i = Some (r, v)" by (auto split: option.splits if_splits)
  have ok: "rec_ok i r" using wf l by (auto simp: wf_sys_def)
  have r: "toWorkspace r = Inr ws" using o l by (auto simp: obs_def)
  from ok obtain ws0 where "toWorkspace r = Inr ws0" and same0: "state ws0 = state r"
    "ownerId ws0 = ownerId r" "createdAt ws0 = createdAt r" by (rule toWorkspace_read)
  then have same: "state ws = state r" "ownerId ws = ownerId r" "createdAt ws = createdAt r"
    using r by simp_all
  have sel: "state (patch_record cl a r) = state a" "ownerId (patch_record cl a r) = ownerId a"
    "createdAt (patch_record cl a r) = createdAt a" by (simp_all add: patch_record_def)
  have a: "rec_ok i (patch_record cl a r)" "state a = state ws \<or> lifecycle_edge (state ws) (state a)"
    "ownerId a = ownerId ws" "createdAt a = createdAt ws"
    using assms ok r by (simp_all add: legal_patch_def)
  have "wf_sys d (put_record i (patch_record cl a r) (v + 1) s) \<and>
      guar s (put_record i (patch_record cl a r) (v + 1) s)"
    by (rule put_existing [OF wf l a(1)]) (use a(2-4) in \<open>simp_all add: same sel\<close>)
  then show "wf_sys d (tx_apply (TxPatch i a cl v) s) \<and> guar s (tx_apply (TxPatch i a cl v) s) \<and> True"
    by (simp add: l)
qed

lemma safe_persist_or:
  assumes "legal_write ws ws'" and "stable_fact P" and "wsId ws = i"
    and "safeT d P conflict" and "safeT d P continue"
  shows "safeT d (\<lambda>s. P s \<and> obs i ws v s) (persist_or d ws' v audit conflict continue)"
proof -
  let ?P = "\<lambda>s. P s \<and> obs i ws v s"
  have P: "stable_fact ?P" using assms(2) by auto
  have i: "wsId ws' = i" using assms(1,3) by (simp add: legal_write_def same_identity_def)
  have w: "safe d ?P (persistTransition d ws' v audit) (\<lambda>_ s. P s)"
    by (rule safe_weaken [OF safe_persistTransition [OF assms(1,2) i]]) auto
  have t: "safe d ?P (tryM (bindM (persistTransition d ws' v audit) (\<lambda>_. ret True))
      (\<lambda>e. if isVersionConflict e then ret False else raise e)) (\<lambda>_ s. P s)"
    by (rule safe_try [OF safe_bind [OF w] _ P]) (auto intro: safe_ret safe_raise)
  show ?thesis unfolding persist_or_def
    by (rule safe_bind [OF t]) (use assms(4,5) in simp)
qed

lemma safe_obs_facts:
  assumes "sound_ws i ws \<Longrightarrow> safe d (obs i ws v) m Q"
  shows "safe d (obs i ws v) m Q"
  using assms by (auto simp: safe_def obs_def)

text \<open>
  The rules by which an operation's text is followed: reading gives \<open>obs\<close>, a legal write
  consumes it, and everything else keeps it.
\<close>

named_theorems safe_first \<open>rules to try before the general ones\<close>

lemma safe_persist_obs [safe_first]:
  assumes "legal_write ws ws'" and "sound_ws i ws"
    and "safeT d (\<lambda>_. True) conflict" and "safeT d (\<lambda>_. True) continue"
  shows "safeT d (obs i ws v) (persist_or d ws' v audit conflict continue)"
proof -
  have "safeT d (\<lambda>s. True \<and> obs i ws v s) (persist_or d ws' v audit conflict continue)"
    by (rule safe_persist_or) (use assms in \<open>auto simp: sound_ws_def\<close>)
  then show ?thesis by simp
qed

lemma safe_read_bind [safe_first]:
  assumes "safeT d (\<lambda>_. True) (f None)"
    and "\<And>ws v. sound_ws i ws \<Longrightarrow> safeT d (obs i ws v) (f (Some (ws, v)))"
  shows "safeT d P (bindM (svc_find d i) f)"
proof -
  have "safeT d (\<lambda>s. True \<and> obs i ws v s) (f (Some (ws, v)))" for ws v
    using safe_obs_facts [OF assms(2)] by simp
  then show ?thesis
    by (rule safeT_pre [OF safe_find_bind [where f = f, OF stable_True assms(1)]])
qed

lemma safe_read_require [safe_first]:
  assumes "\<And>ws v. sound_ws i ws \<Longrightarrow> safeT d (obs i ws v) (f (ws, v))"
  shows "safeT d P (bindR (svc_require d i) f)"
proof -
  have "safeT d (\<lambda>s. True \<and> obs i ws v s) (f (ws, v))" for ws v
    using safe_obs_facts [OF assms] by simp
  then show ?thesis
    by (rule safeT_pre [OF safe_require_bind [OF stable_True]])
qed

lemma safe_persist_bind [safe_first]:
  assumes "legal_write ws ws'" and "sound_ws i ws" and "\<And>a. safeT d (\<lambda>_. True) (f a)"
  shows "safeT d (obs i ws v) (bindM (persistTransition d ws' v audit) f)"
proof -
  have "wsId ws' = i" using assms(1,2) by (simp add: legal_write_def same_identity_def sound_ws_def)
  from safe_persistTransition [OF assms(1) stable_True this, of d v audit]
  have "safe d (obs i ws v) (persistTransition d ws' v audit) (\<lambda>_ _. True)"
    by (rule safe_weaken) auto
  then show ?thesis by (rule safe_bind) (rule assms(3))
qed

text \<open>What a guarded write reports is all that is known after it.\<close>

lemma safe_bind_try [safe_first]:
  assumes "safeT d P (tryM m h)" and "\<And>a. safeT d (\<lambda>_. True) (f a)"
  shows "safeT d P (bindM (tryM m h) f)"
  by (rule safe_bind [OF assms])

text \<open>Of a result in a sum only the success carries a workspace.\<close>

lemma safe_liftE_bind [safe_first]:
  assumes "\<And>a. x = Inr a \<Longrightarrow> safeT d P (f a)"
  shows "safeT d P (bindM (liftE x) f)"
  using assms by (cases x) (auto simp: liftE_def safe_def bindM_def ret_def raise_def)

lemmas legal_write_ops = legal_writes(1-15)
lemmas legal_records [safe_intros] = legal_writes(16-18) stable_obs stable_True
lemmas safe_simps = option.case prod.case Let_def

lemma safe_quietly [safe_intros]: "\<lbrakk>safeT d P m; stable_fact P\<rbrakk> \<Longrightarrow> safeT d P (quietly m)"
  unfolding quietly_def by (rule safe_intros | assumption)+

end
