(* ===== verification/Service_Safety.thy ===== *)
theory Service_Safety
  imports Service_Rules
begin

text \<open>
  Every operation of the service keeps the guarantee: one lemma per operation, by the rules
  of \<open>Service_Rules\<close>, and the theorems about the whole service that follow from them.
\<close>

section \<open>Launching\<close>

lemma safe_rollbackWake [safe_intros]: "safeT d P (rollbackWake d i)"
  unfolding rollbackWake_def
  by (rule safeT_pre)
    (simp only: safe_simps | erule legal_write_ops | rule safe_first safe_intros | assumption)+

lemma safe_recordLaunchFailure [safe_intros]: "safeT d P (recordLaunchFailure d i why)"
  unfolding recordLaunchFailure_def
  by (rule safeT_pre)
    (simp only: safe_simps | erule legal_write_ops | rule safe_first safe_intros | assumption)+

lemma safe_waitForCapacity [safe_intros]: "safeT d P (waitForCapacity d i refusal)"
  unfolding waitForCapacity_def
  by (rule safeT_pre)
    (simp only: safe_simps | erule legal_write_ops | rule safe_first safe_intros | assumption)+

lemma safe_bind_launched [safe_intros]: "safeT d P (bind_launched d i task)"
  unfolding bind_launched_def
  by (rule safeT_pre)
    (simp only: safe_simps | erule legal_write_ops | rule safe_first safe_intros | assumption)+

lemma safe_launchReserved [safe_intros]: "safeT d P (launchReserved d i ref)"
  unfolding launchReserved_def
  by (rule safeT_pre)
    (simp only: safe_simps | erule legal_write_ops | rule safe_first safe_intros | assumption)+

lemma safe_commit_wake [safe_intros]: "safeT d P (commit_wake d i ws at actor task)"
  unfolding commit_wake_def
  by (rule safeT_pre)
    (simp only: safe_simps | erule legal_write_ops | rule safe_first safe_intros | assumption)+

lemma safe_launchClaimedWake [safe_intros]: "safeT d P (launchClaimedWake d i ws at actor)"
  unfolding launchClaimedWake_def
  by (rule safeT_pre)
    (simp only: safe_simps | erule legal_write_ops | rule safe_first safe_intros | assumption)+
lemma safe_listPlacementDue [safe_intros]: "safeT d P (listPlacementDue d)"
  unfolding listPlacementDue_def
  by (rule safeT_pre)
    (simp only: safe_simps | erule legal_write_ops | rule safe_first safe_intros | assumption)+

lemma safe_retryPlacement [safe_intros]: "safeT d P (retryPlacement d i)"
  unfolding retryPlacement_def
  by (rule safeT_pre)
    (simp only: safe_simps | erule legal_write_ops | rule safe_first safe_intros | assumption)+

lemma poll_nonneg: "0 \<le> WAKE_POLL_INTERVAL_MS"
  by (simp add: WAKE_POLL_INTERVAL_MS_def)

lemma safe_awaitWoken_loop [safe_intros]: "safeT d P (awaitWoken_loop n d i deadline)"
proof (rule safeT_pre, induction n)
  case (Suc n)
  note IH = safeT_pre [OF Suc]
  show ?case
    unfolding awaitWoken_loop.simps
    by (simp only: safe_simps | rule safe_first IH poll_nonneg safe_intros | assumption)+
qed (simp add: safeT_pure)

lemma safe_awaitWoken [safe_intros]: "safeT d P (awaitWoken d i)"
  unfolding awaitWoken_def
  by (rule safeT_pre)
    (simp only: safe_simps | erule legal_write_ops | rule safe_first safe_intros | assumption)+

lemma safe_start [safe_intros]: "safeT d P (svc_start d i actor)"
  unfolding svc_start_def
  by (rule safeT_pre)
    (simp only: safe_simps | erule legal_write_ops | rule safe_first safe_intros | assumption)+

lemma safe_connect_action [safe_intros]:
  "\<lbrakk>safe d P a Q; safe d P b Q; safe d P c Q; safe d P e Q\<rbrakk> \<Longrightarrow>
     safe d P (case x of Ready \<Rightarrow> a | WakeIt \<Rightarrow> b | Pending \<Rightarrow> c | NotAvailable \<Rightarrow> e) Q"
  by (cases x) auto

lemma safe_connect [safe_intros]: "safeT d P (svc_connect d i actor)"
  unfolding svc_connect_def
  by (rule safeT_pre)
    (simp only: safe_simps | erule legal_write_ops | rule safe_first safe_intros | assumption)+

lemma safe_recoverError [safe_intros]: "safeT d P (recoverError d i)"
  unfolding recoverError_def
  by (rule safeT_pre)
    (simp only: safe_simps | erule legal_write_ops | rule safe_first safe_intros | assumption)+

lemma safe_retry [safe_intros]: "safeT d P (svc_retry d i)"
  unfolding svc_retry_def
  by (rule safeT_pre)
    (simp only: safe_simps | erule legal_write_ops | rule safe_first safe_intros | assumption)+

lemma legal_recover:
  "(if b then markProvisioningFailed ws why at else markStopped ws fresh at) = Ok ws' \<Longrightarrow>
     legal_write ws ws'"
  by (auto intro: legal_write_ops split: if_splits)

lemma safe_recoverStuckProvisioning [safe_intros]: "safeT d P (recoverStuckProvisioning d i)"
  unfolding recoverStuckProvisioning_def
  by (rule safeT_pre)
    (simp only: safe_simps | erule legal_recover | rule safe_first safe_intros | assumption)+

lemma legal_settings: "legal_write ws (apply_settings p ws)"
  by (auto simp: legal_write_def apply_settings_def keeps_fields_def same_identity_def ws_inv_def
      orElseOpt_def split: option.split)

lemmas legal_settings [safe_intros]

lemma safe_updateSettings [safe_intros]: "safeT d P (updateSettings d i p actor)"
  unfolding updateSettings_def
  by (rule safeT_pre)
    (simp only: safe_simps | erule legal_write_ops | rule safe_first safe_intros | assumption)+

section \<open>Stopping, snapshots, reports\<close>

lemma safe_snapshotForTransition [safe_intros]: "safeT d P (snapshotForTransition d i vol v)"
  unfolding snapshotForTransition_def
  by (rule safeT_pre)
    (simp only: safe_simps | erule legal_write_ops | rule safe_first safe_intros | assumption)+

lemma safe_snapshotBeforeStop [safe_intros]: "safeT d P (snapshotBeforeStop d i ws v at)"
  unfolding snapshotBeforeStop_def
  by (rule safeT_pre)
    (simp only: safe_simps | erule legal_write_ops | rule safe_first safe_intros | assumption)+

lemma safe_stop [safe_intros]: "safeT d P (svc_stop d i actor ms)"
  unfolding svc_stop_def stop_loaded_def
  by (rule safeT_pre)
    (simp only: safe_simps | erule legal_write_ops | rule safe_first safe_intros | assumption)+

lemma safe_requestStop [safe_intros]: "safeT d P (requestStop d i actor)"
  unfolding requestStop_def
  by (rule safeT_pre)
    (simp only: safe_simps | erule legal_write_ops | rule safe_first safe_intros | assumption)+

lemma safe_finish_snapshot [safe_intros]: "safeT d P (finish_snapshot d ws at)"
  unfolding finish_snapshot_def
  by (rule safeT_pre)
    (simp only: safe_simps | erule legal_write_ops | rule safe_first safe_intros | assumption)+

lemma safe_finishStop [safe_intros]: "safeT d P (finishStop d i g)"
  unfolding finishStop_def
  by (rule safeT_pre)
    (simp only: safe_simps | erule legal_write_ops | rule safe_first safe_intros | assumption)+

lemma safe_cancelStop [safe_intros]: "safeT d P (cancelStop d i actor)"
  unfolding cancelStop_def
  by (rule safeT_pre)
    (simp only: safe_simps | erule legal_write_ops | rule safe_first safe_intros | assumption)+

lemma safe_listStopping [safe_intros]: "safeT d P (listStopping d)"
  unfolding listStopping_def
  by (rule safeT_pre)
    (simp only: safe_simps | erule legal_write_ops | rule safe_first safe_intros | assumption)+

lemma legal_beat:
  assumes "beat_activity rep at ws = Ok active"
  shows "legal_write ws (fold_report rep at active)"
proof -
  have refl: "legal_write a a" for a by (simp add: legal_write_def keeps_fields_def)
  have "legal_write ws active"
    using assms refl legal_write_ops(14) by (auto simp: beat_activity_def split: if_splits)
  moreover have "legal_write active (fold_report rep at active)"
    "state (fold_report rep at active) = state active"
    using refl legal_writes(17,18) legal_write_same_state [OF legal_writes(17) legal_writes(18)]
    by (auto simp: fold_report_def Let_def split: option.split)
  ultimately show ?thesis by (rule legal_write_same_state)
qed

lemma safe_heartbeat_loop [safe_intros]: "safeT d P (heartbeat_loop n d i rep)"
proof (rule safeT_pre, induction n)
  case 0
  show ?case
    unfolding heartbeat_loop.simps [of 0]
    by (simp only: safe_simps nat.case | erule legal_beat | rule safe_first safe_intros | assumption)+
next
  case (Suc n)
  note IH = safeT_pre [OF Suc]
  show ?case
    unfolding heartbeat_loop.simps [of "Suc n"]
    by (simp only: safe_simps nat.case | erule legal_beat | rule safe_first IH safe_intros | assumption)+
qed

lemma safe_snapshot_loop [safe_intros]: "safeT d P (snapshot_loop n d i before snap at)"
proof (rule safeT_pre, induction n)
  case 0
  show ?case
    unfolding snapshot_loop.simps [of 0]
    by (simp only: safe_simps nat.case | rule safe_first safe_intros | assumption)+
next
  case (Suc n)
  note IH = safeT_pre [OF Suc]
  show ?case
    unfolding snapshot_loop.simps [of "Suc n"]
    by (simp only: safe_simps nat.case | rule safe_first IH safe_intros | assumption)+
qed

lemma safe_heartbeat [safe_intros]: "safeT d P (svc_heartbeat d i rep)"
  unfolding svc_heartbeat_def
  by (rule safeT_pre)
    (simp only: safe_simps | erule legal_write_ops | rule safe_first safe_intros | assumption)+

lemma safe_snapshot [safe_intros]: "safeT d P (svc_snapshot d i)"
  unfolding svc_snapshot_def
  by (rule safeT_pre)
    (simp only: safe_simps | erule legal_write_ops | rule safe_first safe_intros | assumption)+

lemma safe_listWorkspaceSnapshots [safe_intros]: "safeT d P (listWorkspaceSnapshots d i)"
  unfolding listWorkspaceSnapshots_def
  by (rule safeT_pre)
    (simp only: safe_simps | erule legal_write_ops | rule safe_first safe_intros | assumption)+

lemma safe_restoreSnapshot [safe_intros]: "safeT d P (restoreSnapshot d i snap actor)"
  unfolding restoreSnapshot_def
  by (rule safeT_pre)
    (simp only: safe_simps | erule legal_write_ops | rule safe_first safe_intros | assumption)+

lemma safe_reconcileTaskLoss [safe_intros]: "safeT d P (reconcileTaskLoss d i)"
  unfolding reconcileTaskLoss_def
  by (rule safeT_pre)
    (simp only: safe_simps | erule legal_write_ops | rule safe_first safe_intros | assumption)+

lemma safe_markSnapshotLostFor [safe_intros]: "safeT d P (markSnapshotLostFor d i)"
  unfolding markSnapshotLostFor_def
  by (rule safeT_pre)
    (simp only: safe_simps | erule legal_write_ops | rule safe_first safe_intros | assumption)+

lemma safe_setShare [safe_intros]: "safeT d P (svc_setShare d i b actor)"
  unfolding svc_setShare_def
  by (rule safeT_pre)
    (simp only: safe_simps | erule legal_write_ops | rule safe_first safe_intros | assumption)+

lemma safe_recordAccess [safe_intros]: "safeT d P (recordAccess d i actor allowed detail)"
  unfolding recordAccess_def
  by (rule safeT_pre)
    (simp only: safe_simps | erule legal_write_ops | rule safe_first safe_intros | assumption)+

section \<open>Deleting\<close>

lemma patch_sel:
  "wsId (patch_record cl a r) = wsId r" "state (patch_record cl a r) = state a"
  "resources (patch_record cl a r) = resources a"
  "ownerEmail (patch_record cl a r) = set_attr False (ownerEmail a) (ownerEmail r)"
  "shareEnabledAt (patch_record cl a r) = set_attr False (shareEnabledAt a) (shareEnabledAt r)"
  by (simp_all add: patch_record_def)

lemma attrs_sel [simp]:
  "wsId (transition_attrs ws) = wsId ws" "wsId (spread_attrs ws) = wsId ws"
  "state (transition_attrs ws) = state ws" "state (spread_attrs ws) = state ws"
  "resources (transition_attrs ws) = Some (resources ws)"
  "resources (spread_attrs ws) = Some (resources ws)"
  "ownerId (transition_attrs ws) = ownerId ws" "ownerId (spread_attrs ws) = ownerId ws"
  "createdAt (transition_attrs ws) = createdAt ws" "createdAt (spread_attrs ws) = createdAt ws"
  "ownerEmail (transition_attrs ws) = ownerEmail ws" "ownerEmail (spread_attrs ws) = ownerEmail ws"
  "shareEnabledAt (transition_attrs ws) = None" "shareEnabledAt (spread_attrs ws) = None"
  by (simp_all add: transition_attrs_def spread_attrs_def toWorkspaceDetail_eq)

lemma legal_patchI:
  assumes same: "same_identity ws ws'" and step: "lifecycle_edge (state ws) (state ws')"
    and a: "a = transition_attrs ws' \<or> a = spread_attrs ws'"
    and inv: "\<And>r res. \<lbrakk>ws = map_fields (\<lambda>_. res) fromStoredSession r; ws_inv ws\<rbrakk> \<Longrightarrow>
      ws_inv (map_fields (\<lambda>_. res) fromStoredSession (patch_record cl a r))"
  shows "legal_patch i ws cl a"
  unfolding legal_patch_def
proof (intro allI impI)
  fix r assume r: "rec_ok i r" "toWorkspace r = Inr ws"
  have mail: "normal_email (ownerEmail r)" and share: "shareEnabledAt r = None" and i: "wsId r = i"
    and ws_inv: "ws_inv ws"
    using r by (auto simp: rec_ok_def)
  obtain res where ws: "ws = map_fields (\<lambda>_. res) fromStoredSession r"
    and res: "isValidWorkspaceResourcePair res"
    by (rule toWorkspace_InrE [OF r(2) mail])
  have sel: "resources a = Some res" "ownerEmail a = ownerEmail r" "state a = state ws'"
    "ownerId a = ownerId ws" "createdAt a = createdAt ws" "shareEnabledAt a = None"
    using a same ws by (auto simp: same_identity_def)
  have email: "ownerEmail (patch_record cl a r) = ownerEmail r"
    by (simp add: patch_sel sel set_attr_keep)
  have "toWorkspace (patch_record cl a r) =
      Inr (map_fields (\<lambda>_. res) fromStoredSession (patch_record cl a r))"
    by (rule toWorkspace_valid) (use mail res email in \<open>simp_all add: patch_sel sel\<close>)
  then have "rec_ok i (patch_record cl a r)"
    using mail share i email inv [OF ws ws_inv] by (simp add: rec_ok_def patch_sel sel)
  then show "rec_ok i (patch_record cl a r) \<and>
     (state a = state ws \<or> lifecycle_edge (state ws) (state a)) \<and>
     ownerId a = ownerId ws \<and> createdAt a = createdAt ws"
    using step sel by simp
qed

lemma legal_teardown:
  assumes "markTerminated ws at = Ok ws'" and "state ws = Deleting"
  shows "legal_patch i ws TEARDOWN_CLEARABLE (spread_attrs ws')"
proof (rule legal_patchI)
  have op: "apply_op (OpTerminated at) ws = Ok ws'" using assms by simp
  show "same_identity ws ws'" by (rule op_identity [OF op])
  show "lifecycle_edge (state ws) (state ws')"
    using op_edge [OF op] assms by (auto simp: markTerminated_def result_map_Ok_iff TRANSITIONS_event_simps)
  fix r :: stored_fields and res
  assume ws: "ws = map_fields (\<lambda>_. res) fromStoredSession r" and inv: "ws_inv ws"
  show "ws_inv (map_fields (\<lambda>_. res) fromStoredSession (patch_record TEARDOWN_CLEARABLE (spread_attrs ws') r))"
    using inv assms
    by (auto simp: ws_inv_def patch_record_def spread_attrs_def toWorkspaceDetail_eq ws
        TEARDOWN_CLEARABLE_def markTerminated_def result_map_Ok_iff TRANSITIONS_event_simps)
qed simp

lemma legal_undelete:
  assumes "undeleteWorkspace ws at = Ok ws'"
    and "a = transition_attrs ws' \<and> cl = TRANSITION_CLEARABLE \<or> a = spread_attrs ws' \<and> cl = UNDELETE_CLEARABLE"
  shows "legal_patch i ws cl a"
proof (rule legal_patchI)
  have op: "apply_op (OpUndelete at) ws = Ok ws'" using assms by simp
  show "same_identity ws ws'" by (rule op_identity [OF op])
  have state: "state ws = Terminated" "state ws' = Stopped"
    using assms(1) by (cases "state ws";
        auto simp: undeleteWorkspace_def result_map_Ok_iff TRANSITIONS_event_simps split: if_splits)+
  show "lifecycle_edge (state ws) (state ws')" using op_edge [OF op] state by auto
  fix r :: stored_fields and res
  assume ws: "ws = map_fields (\<lambda>_. res) fromStoredSession r" and inv: "ws_inv ws"
  show "ws_inv (map_fields (\<lambda>_. res) fromStoredSession (patch_record cl a r))"
    using inv assms state
    by (auto simp: ws_inv_def patch_record_def spread_attrs_def transition_attrs_def
        toWorkspaceDetail_eq ws TRANSITION_CLEARABLE_def UNDELETE_CLEARABLE_def undeleteWorkspace_def
        result_map_Ok_iff split: if_splits)
qed (use assms(2) in auto)

lemma safe_patch_bind [safe_first]:
  assumes "legal_patch i ws cl a" and "\<forall>y \<in> set rest. harmless y" and "\<And>r. safeT d (\<lambda>_. True) (f r)"
  shows "safeT d (obs i ws v) (bindM (writeTransaction d (TxPatch i a cl v # rest)) f)"
  by (rule safe_bind [OF safe_writeTransaction [OF step_legal_patch [OF assms(1)] assms(2)]])
    (auto intro: safeT_pre assms(3))

lemma safe_patch_one [safe_first]:
  assumes "legal_patch i ws cl a" and "\<And>r. safeT d (\<lambda>_. True) (f r)"
  shows "safeT d (obs i ws v) (bindM (writeOne d (TxPatch i a cl v)) f)"
  by (rule safe_bind [OF safe_writeOne [OF step_legal_patch [OF assms(1)]]])
    (auto intro: safeT_pre assms(2))

lemma safe_bindR:
  assumes "safe d P m (\<lambda>r s. \<forall>a. r = Ok a \<longrightarrow> Q a s)" and "\<And>a. safeT d (Q a) (f a)"
  shows "safeT d P (bindR m f)"
  unfolding bindR_def
proof (rule safe_bind [OF assms(1)])
  fix r show "safeT d (\<lambda>s. \<forall>a. r = Ok a \<longrightarrow> Q a s) (onOk r f)"
    using assms(2) by (cases r) (simp_all add: onOk_def safeT_pure)
qed

lemma safe_remove [safe_intros]: "safeT d P (svc_remove d i actor)"
  unfolding svc_remove_def
  by (rule safeT_pre)
    (simp only: safe_simps | erule legal_write_ops | rule safe_first safe_intros | assumption)+

lemma safe_retain_snapshot:
  assumes ws: "sound_ws i ws"
  shows "safe d (obs i ws v) (retain_snapshot d i ws v at)
    (\<lambda>r s. \<forall>a. r = Ok a \<longrightarrow> obs i (fst a) (snd a) s \<and> state (fst a) = state ws)"
proof -
  let ?Q = "\<lambda>r s. \<forall>a. r = Ok a \<longrightarrow> obs i (fst a) (snd a) s \<and> state (fst a) = state ws"
  have next_ws: "toWorkspaceDetail (recordSnapshot ws n at) = recordSnapshot ws n at"
    "wsId (recordSnapshot ws n at) = i" "state (recordSnapshot ws n at) = state ws" for n
    using ws by (simp_all add: toWorkspaceDetail_eq sound_ws_def recordSnapshot_def)
  have "safe d (obs i ws v) (bindM (persistTransition d (recordSnapshot ws n at) v None)
      (\<lambda>_. ret (Ok (recordSnapshot ws n at, v + 1)))) ?Q" for n
  proof (rule safe_bind)
    show "safe d (obs i ws v) (persistTransition d (recordSnapshot ws n at) v None)
        (\<lambda>_. obs i (recordSnapshot ws n at) (v + 1))"
      using safe_persistTransition [OF legal_writes(16) stable_True next_ws(2)]
      by (simp add: next_ws)
  qed (rule safe_ret, simp add: next_ws)
  then have "safe d (obs i ws v) (bindM (createSnapshot d vol b o') (\<lambda>snap.
      let next = recordSnapshot ws (snap_id snap) at in
      bindM (persistTransition d next v None) (\<lambda>_. ret (Ok (next, v + 1))))) ?Q" for vol b o'
    unfolding Let_def by (intro safe_bind [OF safe_keep [OF safe_provider(4) stable_obs]])
  moreover have "safe d (obs i ws v) (bindM (tagSnapshotRetained d n) (\<lambda>_. ret (Ok (ws, v)))) ?Q" for n
    by (intro safe_bind [OF safe_keep [OF safe_provider(5) stable_obs]] safe_ret) simp
  ultimately show ?thesis
    unfolding retain_snapshot_def
    by (intro safe_try stable_obs safeT_if safeT_option safe_ret) simp_all
qed

lemma safe_stop_own_task [safe_intros]:
  "stable_fact P \<Longrightarrow> safeT d P (case t of None \<Rightarrow> ret () | Some t \<Rightarrow> quietly (stopTask d t))"
  by (intro safe_intros)

lemma safe_retain_bind [safe_first]:
  assumes "sound_ws i ws"
    and "\<And>w u. \<lbrakk>sound_ws i w; state w = state ws\<rbrakk> \<Longrightarrow> safeT d (obs i w u) (f (w, u))"
  shows "safeT d (obs i ws v) (bindR (retain_snapshot d i ws v at) f)"
proof (rule safe_bindR [OF safe_retain_snapshot [OF assms(1)]])
  fix a :: "workspace \<times> int"
  have "safeT d (obs i (fst a) (snd a)) (f a)" if "state (fst a) = state ws"
    by (rule safe_obs_facts) (use assms(2) [of "fst a" "snd a"] that in simp)
  then show "safeT d (\<lambda>s. obs i (fst a) (snd a) s \<and> state (fst a) = state ws) (f a)"
    by (auto simp: safe_def)
qed

lemma safe_finishDeleting [safe_intros]: "safeT d P (finishDeleting d i)"
  unfolding finishDeleting_def teardown_loaded_def teardown_items_def
  by (rule safeT_pre)
    (simp only: safe_simps append.simps list.sel fst_conv snd_conv | (rule legal_teardown, assumption, simp)
     | rule safe_first safe_intros | assumption | (force split: option.split if_splits))+

lemma safe_undelete_bind:
  assumes "undeleteWorkspace ws at = Ok ws'" and "sound_ws i ws" and "\<And>a. safeT d (\<lambda>_. True) (f a)"
  shows "safeT d (obs i ws v) (bindM (persistTransition d ws' v audit) f)"
proof (rule safe_bind)
  have op: "apply_op (OpUndelete at) ws = Ok ws'" using assms by simp
  have "wsId ws' = i" using op_identity [OF op] assms(2) by (simp add: same_identity_def sound_ws_def)
  moreover have "legal_patch i ws TRANSITION_CLEARABLE (transition_attrs ws')"
    by (rule legal_undelete [OF assms(1)]) simp
  ultimately show "safe d (obs i ws v) (persistTransition d ws' v audit) (\<lambda>_ _. True)"
    by (intro safe_persist_step stable_obs stable_True) (simp add: step_legal_patch)
qed (rule assms)

lemma safe_add_count [safe_intros]: "safeT d P (writeOne d (TxAddCount owner l))"
  by (rule safeT_pre, rule safe_writeOne)
    (auto simp: step_ok_def add_count_def intro: wf_sys_frame guar_frame)

lemma safe_undelete [safe_intros]: "safeT d P (svc_undelete d i opts)"
  unfolding svc_undelete_def
  by (rule safeT_pre)
    (simp only: safe_simps | (erule legal_undelete, simp) | erule safe_undelete_bind
     | rule safe_first safe_intros | assumption | simp)+

text \<open>Of a tombstone, what was read stays true as long as its version does.\<close>

definition tomb :: "string \<Rightarrow> int \<Rightarrow> 'p sys \<Rightarrow> bool" where
  "tomb i v s \<longleftrightarrow>
     ever s i \<and> (\<forall>r u. lookup s i = Some (r, u) \<longrightarrow> v \<le> u \<and> (u = v \<longrightarrow> state r = Terminated))"

lemma stable_tomb [intro, safe_intros]: "stable_fact (tomb i v)"
  unfolding stable_fact_def
proof (intro allI impI)
  fix s t :: "'p sys" assume g: "guar s t" and o: "tomb i v s"
  have "v \<le> u' \<and> (u' = v \<longrightarrow> state r' = Terminated)" if t: "lookup t i = Some (r', u')" for r' u'
  proof -
    obtain r u where s: "lookup s i = Some (r, u)"
      using g o t by (cases "lookup s i") (auto simp: guar_def tomb_def)
    with g t have "u \<le> u' \<and> (u' = u \<longrightarrow> r' = r)" unfolding guar_def by blast
    with s o show ?thesis by (auto simp: tomb_def)
  qed
  then show "tomb i v t" using o guar_ever [OF g] by (auto simp: tomb_def)
qed

lemma toWorkspace_state: "toWorkspace r = Inr ws \<Longrightarrow> state ws = state r \<and> wsId ws = wsId r"
  by (auto simp: toWorkspace_def map_fields_def split: option.splits sum.splits)

lemma obs_tomb: "\<lbrakk>obs i ws v s; state ws = Terminated\<rbrakk> \<Longrightarrow> tomb i v s"
  using toWorkspace_state by (fastforce simp: obs_def tomb_def)

lemma step_purge: "step_ok d (tomb i v) (TxDelete i v) (\<lambda>_. True)"
  using drop_terminated by (fastforce simp: step_ok_def tomb_def split: option.splits if_splits)

lemma safe_purge_bind [safe_first]:
  assumes "\<forall>y \<in> set rest. harmless y" and "\<And>r. safeT d (\<lambda>_. True) (f r)"
  shows "safeT d (tomb i v) (bindM (writeTransaction d (TxDelete i v # rest)) f)"
  by (rule safe_bind [OF safe_writeTransaction [OF step_purge assms(1)]])
    (auto intro: safeT_pre assms(2))

lemma safe_purge_one [safe_first]:
  assumes "\<And>r. safeT d (\<lambda>_. True) (f r)"
  shows "safeT d (tomb i v) (bindM (writeOne d (TxDelete i v)) f)"
  by (rule safe_bind [OF safe_writeOne [OF step_purge]]) (auto intro: safeT_pre assms)

lemma safe_purgeTombstoneRecord [safe_first]:
  "safeT d (tomb i v) (purgeTombstoneRecord d i latest v reason actor)"
  unfolding purgeTombstoneRecord_def
  by (rule safeT_bind [OF safe_auditItem stable_tomb], rule safe_bind [where Q = "\<lambda>_ _. True"])
    (rule safe_first safe_intros | simp)+

lemma safe_purge_then [safe_first]:
  assumes "state ws = Terminated" and "sound_ws i ws" and "\<And>r. safeT d (\<lambda>_. True) (f r)"
  shows "safeT d (obs i ws v) (bindM (purgeTombstoneRecord d (wsId ws) latest v reason actor) f)"
proof (rule safe_bind)
  show "safeT d (obs i ws v) (purgeTombstoneRecord d (wsId ws) latest v reason actor)"
    by (rule safe_weaken [OF safe_purgeTombstoneRecord])
      (use assms(1,2) obs_tomb in \<open>auto simp: sound_ws_def\<close>)
qed (rule assms)

lemma safe_purgeNow [safe_intros]: "safeT d P (purgeNow d i actor)"
  unfolding purgeNow_def
  by (rule safeT_pre) (simp only: safe_simps | rule safe_first safe_intros | assumption | simp)+

text \<open>What a query by state says of every record it returns.\<close>

definition seen :: "stored_fields \<times> int \<Rightarrow> 'p sys \<Rightarrow> bool" where
  "seen r s \<longleftrightarrow> (state (fst r) = Terminated \<longrightarrow> tomb (wsId (fst r)) (snd r) s)"

lemma stable_seen: "stable_fact (\<lambda>s. \<forall>r \<in> set rs. seen r s)"
  using stable_tomb unfolding stable_fact_def seen_def by blast

lemma table_seen:
  assumes "wf_sys d s" and "(i, r) \<in> set (table s)"
  shows "seen r s"
proof -
  have l: "lookup s i = Some r" using assms by (simp add: wf_sys_def lookup_def)
  then have "wsId (fst r) = i" using assms(1) by (cases r) (auto simp: wf_sys_def rec_ok_def)
  then show ?thesis using l wf_ever [OF assms(1) l] by (cases r) (simp add: seen_def tomb_def)
qed

lemma safe_records_seen:
  "safe d (\<lambda>_. True) (recordsByStates d states) (\<lambda>rs s. \<forall>r \<in> set rs. seen r s \<and> state (fst r) \<in> set states)"
proof (induction states)
  case Nil
  then show ?case by (simp add: recordsByStates_def safe_ret)
next
  case (Cons st states)
  let ?S = "\<lambda>page s. \<forall>r \<in> set page. seen r s \<and> state (fst r) = st"
  have stable: "stable_fact (?S page)" for page
    using stable_seen unfolding stable_fact_def by blast
  have page: "safe d (\<lambda>_. True) (io (CQueryState st)
      (reading (\<lambda>s. filter (\<lambda>r. state (fst r) = st) (map snd (table s))))) ?S"
    by (rule safe_io) (use table_seen in \<open>auto simp: reading_def\<close>)
  have rest: "safe d (?S page) (recordsByStates d states) (\<lambda>rs s. ?S page s \<and>
      (\<forall>r \<in> set rs. seen r s \<and> state (fst r) \<in> set states))" for page
    using Cons stable [of page] unfolding safe_def stable_fact_def by blast
  show ?case
    unfolding recordsByStates_def foldr.simps comp_def
    by (rule safe_bind [OF page], rule safe_bind)
      (rule rest [unfolded recordsByStates_def], rule safe_ret, auto)
qed

lemma safe_purge_loop:
  "safeT d (\<lambda>s. \<forall>r \<in> set rs. seen r s \<and> state (fst r) = Terminated) (purge_loop d at ms rs n)"
proof (induction rs arbitrary: n)
  case (Cons r rs)
  let ?P = "\<lambda>rs s. \<forall>r \<in> set rs. seen r s \<and> state (fst r) = Terminated"
  have stable: "stable_fact (?P rs)" using stable_seen unfolding stable_fact_def by blast
  have one: "safe d (?P (r # rs)) (purgeTombstoneRecord d (wsId (fst r)) l (snd r) why who) (\<lambda>_. ?P rs)"
    for l why who
    using safe_purgeTombstoneRecord [of d "wsId (fst r)" "snd r" l why who] stable
    unfolding safe_def stable_fact_def seen_def by (meson list.set_intros)
  have skip: "safeT d (?P (r # rs)) (purge_loop d at ms rs n)" for n
    by (rule safe_weaken [OF Cons]) auto
  show ?case unfolding purge_loop.simps by (intro safeT_if skip safe_bind [OF one] Cons)
qed (simp add: safeT_pure)

lemma safe_purgeExpiredTombstones [safe_intros]: "safeT d P (purgeExpiredTombstones d ms)"
  unfolding purgeExpiredTombstones_def
proof (rule safeT_pre, rule safe_bind [OF safe_records_seen])
  fix rs :: "(stored_fields \<times> int) list"
  let ?P = "\<lambda>s. \<forall>r \<in> set rs. seen r s \<and> state (fst r) \<in> set [Terminated]"
  have "stable_fact ?P" using stable_seen unfolding stable_fact_def by blast
  then show "safeT d ?P (bindM now (\<lambda>at. purge_loop d at ms rs 0))"
    by (rule safeT_bind [OF safeT_pure(3)]) (rule safe_weaken [OF safe_purge_loop], auto)
qed

section \<open>The fleet\<close>

lemma safe_list [safe_intros]: "safeT d P (svc_list d owner)"
  unfolding svc_list_def by (rule safeT_pre) (simp only: safe_simps | rule safe_intros)+

lemma safe_get [safe_intros]: "safeT d P (svc_get d i)"
  unfolding svc_get_def by (rule safeT_pre) (simp only: safe_simps | rule safe_intros)+

lemma safe_inspect [safe_intros]: "safeT d P (svc_inspect d i)"
  unfolding svc_inspect_def by (rule safeT_pre) (simp only: safe_simps | rule safe_intros)+

lemma safe_lists [safe_intros]:
  "safeT d P (listActive d)" "safeT d P (listStuckProvisioning d)"
  "safeT d P (listSnapshotCandidates d)" "safeT d P (listDeleting d)"
  "safeT d P (listRecoverableErrors d)" "safeT d P (listSnapshotReferences d)"
  "safeT d P (listFleetReferences d)" "safeT d P (listReferencedStorage d)"
  "safeT d P (listReferencedTasks d)" "safeT d P (listRuntimeSecretWorkspaceIds d)"
  unfolding listActive_def listStuckProvisioning_def listSnapshotCandidates_def listDeleting_def
    listRecoverableErrors_def listSnapshotReferences_def listFleetReferences_def
    listReferencedStorage_def listReferencedTasks_def listRuntimeSecretWorkspaceIds_def
  by (rule safeT_pre; (simp only: safe_simps | rule safe_intros)+)+

lemma safe_listSnapshotsForAdmin [safe_intros]: "safeT d P (listSnapshotsForAdmin d)"
  unfolding listSnapshotsForAdmin_def
  by (rule safeT_pre) (simp only: safe_simps split_beta | rule safe_intros)+

lemma safe_auditSnapshotPurge [safe_intros]: "safeT d P (auditSnapshotPurge d i actor)"
  unfolding auditSnapshotPurge_def by (rule safeT_pre) (simp only: safe_simps | rule safe_intros)+

lemma safe_reap_snapshot [safe_intros]: "safeT d P (reap_snapshot d i)"
  unfolding reap_snapshot_def by (rule safeT_pre) (simp only: safe_simps | rule safe_intros)+

lemma safe_deleteSnapshotById [safe_intros]: "safeT d P (deleteSnapshotById d i actor)"
  unfolding deleteSnapshotById_def
  by (rule safeT_pre) (simp only: safe_simps split_beta | rule safe_intros)+

lemma safe_purge_unreferenced [safe_intros]: "safeT d P (purge_unreferenced d actor referenced ss)"
proof (rule safeT_pre, induction ss)
  case (Cons s ss)
  note IH = Cons
  show ?case unfolding purge_unreferenced.simps by (rule IH safe_intros)+
qed (simp add: safeT_pure)

lemma safe_purgeUnreferencedSnapshots [safe_intros]: "safeT d P (purgeUnreferencedSnapshots d actor)"
  unfolding purgeUnreferencedSnapshots_def
  by (rule safeT_pre) (simp only: safe_simps split_beta | rule safe_intros)+

lemma safe_correct_counts [safe_intros]: "safeT d P (correct_counts rs stored owners n)"
proof (rule safeT_pre, induction owners arbitrary: n)
  case (Cons o' owners)
  note IH = Cons
  show ?case unfolding correct_counts.simps Let_def by (rule IH safe_intros)+
qed (simp add: safeT_pure)

lemma safe_reconcileOwnerCounts [safe_intros]: "safeT d P (reconcileOwnerCounts d)"
  unfolding reconcileOwnerCounts_def by (rule safeT_pre) (simp only: safe_simps | rule safe_intros)+

lemma safe_recordSecurityEvent [safe_intros]: "safeT d P (recordSecurityEvent d i tool)"
  unfolding recordSecurityEvent_def by (rule safeT_pre) (simp only: safe_simps | rule safe_intros)+

end
