(* ===== verification/Service_Correct.thy ===== *)
theory Service_Correct
  imports Service_Safety
begin

text \<open>
  The service as a whole. Creation, whose record is new; the requests of the service as one
  datatype with the operation each runs; the states the service reaches; and the two
  theorems every other property of the table rests on.
\<close>

section \<open>Creating\<close>

text \<open>A fact that no other actor in the schedule invalidates.\<close>

definition held :: "'p deps \<Rightarrow> ('p sys \<Rightarrow> bool) \<Rightarrow> 'p world \<Rightarrow> bool" where
  "held d P w \<longleftrightarrow>
     P (sys w) \<and> (\<forall>t \<in> set (schedule w). \<forall>s. wf_sys d s \<longrightarrow> P s \<longrightarrow> P (others t s))"

abbreviation kept :: "'p deps \<Rightarrow> 'p world \<Rightarrow> 'p world \<Rightarrow> bool" where
  "kept d w w' \<equiv> ok_world d w' \<and> guar (sys w) (sys w')"

lemma held_perform:
  assumes w: "ok_world d w" and P: "held d P w"
    and act: "\<And>s. \<lbrakk>wf_sys d s; P s\<rbrakk> \<Longrightarrow> wf_sys d (snd (act s)) \<and> guar s (snd (act s))"
  shows "kept d w (snd (perform c good cancel act w))"
proof (cases "schedule w")
  case Nil
  then show ?thesis
    using act w P by (auto simp: perform_def record_call_def ok_world_def held_def)
next
  case (Cons t rest)
  let ?s = "others t (sys w)"
  have s: "wf_sys d ?s" "guar (sys w) ?s" "P ?s"
    using w P Cons by (auto simp: ok_world_def good_turn_def held_def)
  note a = act [OF s(1,3)]
  have "guar (sys w) (snd (act ?s))" using guar_trans [OF _ s(2)] a w by (auto simp: ok_world_def)
  then show ?thesis
    using a s w Cons
    by (auto simp: perform_def record_call_def ok_world_def Let_def split: fault.split option.split)
qed

text \<open>A fresh identifier: drawn, never used, and not given to anyone else.\<close>

definition unused :: "'p deps \<Rightarrow> nat \<Rightarrow> 'p sys \<Rightarrow> bool" where
  "unused d n s \<longleftrightarrow> \<not> ever s (newWorkspaceId (uuidOf d) n) \<and> n < uuids s"

lemma step_create:
  assumes "wsId ws = newWorkspaceId (uuidOf d) n" and "state ws = Provisioning" and "storable ws"
  shows "step_ok d (unused d n) (TxCreate (spread_attrs ws)) (\<lambda>_. True)"
proof -
  have "toWorkspace (spread_attrs ws) =
      Inr (map_fields (\<lambda>_. resources ws) fromStoredSession (spread_attrs ws))"
    by (rule toWorkspace_valid) (use assms(3) in \<open>simp_all add: storable_def\<close>)
  then have "rec_ok (wsId ws) (spread_attrs ws)"
    using assms by (simp add: rec_ok_def storable_def ws_inv_def)
  then show ?thesis
    using put_new assms unfolding step_ok_def unused_def by (fastforce simp: image_iff)
qed

text \<open>Code before the write: no call, no change of the table.\<close>

definition quiet_step :: "'p deps \<Rightarrow> ('p, 'a) act \<Rightarrow> bool" where
  "quiet_step d m \<longleftrightarrow> safeT d (\<lambda>_. True) m \<and>
     (\<forall>w. schedule (snd (m w)) = schedule w \<and> moves (sys (snd (m w))) = moves (sys w) \<and>
        uuids (sys w) \<le> uuids (sys (snd (m w))))"

definition creating :: "'p deps \<Rightarrow> nat \<Rightarrow> ('p, 'a) act \<Rightarrow> bool" where
  "creating d n m \<longleftrightarrow>
     (\<forall>w. ok_world d w \<longrightarrow> held d (unused d n) w \<longrightarrow> kept d w (snd (m w)))"

lemma quiet_steps:
  "quiet_step d (auditItem d a)" "quiet_step d (validate d attrs)" "quiet_step d now"
  "quiet_step d (liftE x)"
  unfolding quiet_step_def
  by (auto intro: safe_intros simp: auditItem_def validate_def bindM_def randomUUID_def now_def
      liftE_def ret_def raise_def split: option.split sum.split)

lemma kept_bind:
  assumes "ok_world d w" and m: "kept d w (snd (m w))"
    and f: "\<And>a w'. m w = (Ret a, w') \<Longrightarrow> ok_world d w' \<Longrightarrow> kept d w' (snd (f a w'))"
  shows "kept d w (snd (bindM m f w))"
proof (cases "m w")
  case (Pair r w')
  show ?thesis
  proof (cases r)
    case (Ret a)
    with m f [of a w'] Pair guar_trans [of d "sys w" "sys w'"] assms(1) show ?thesis
      by (auto simp: bindM_def ok_world_def)
  qed (use Pair m in \<open>auto simp: bindM_def\<close>)
qed

lemma creating_quiet:
  assumes m: "quiet_step d m" and f: "\<And>a. creating d n (f a)"
  shows "creating d n (bindM m f)"
  unfolding creating_def
proof (intro allI impI)
  fix w assume w: "ok_world d w" "held d (unused d n) w"
  show "kept d w (snd (bindM m f w))"
  proof (rule kept_bind [OF w(1)])
    show "kept d w (snd (m w))" using m w by (auto simp: quiet_step_def safe_def)
    fix a w' assume a: "m w = (Ret a, w')" and w': "ok_world d w'"
    have "schedule w' = schedule w" "moves (sys w') = moves (sys w)" "uuids (sys w) \<le> uuids (sys w')"
      using m a by (auto simp: quiet_step_def dest: spec [of _ w])
    then have "held d (unused d n) w'" using w(2) by (auto simp: held_def unused_def ever_def)
    then show "kept d w' (snd (f a w'))" using f w' by (simp add: creating_def)
  qed
qed

lemma creating_then:
  assumes "creating d n m" and "\<And>a. safeT d (\<lambda>_. True) (f a)"
  shows "creating d n (bindM m f)"
  using assms kept_bind by (fastforce simp: creating_def safe_def)

lemma creating_writes:
  assumes "wsId ws = newWorkspaceId (uuidOf d) n" and "state ws = Provisioning" and "storable ws"
  shows "creating d n (writeOne d (TxCreate (spread_attrs ws)))"
    and "\<forall>y \<in> set rest. harmless y \<Longrightarrow>
      creating d n (writeTransaction d (TxCreate (spread_attrs ws) # rest))"
proof -
  note step = step_create [OF assms]
  show "creating d n (writeOne d (TxCreate (spread_attrs ws)))"
    unfolding creating_def writeOne_def io_def
    by (intro allI impI, rule held_perform [where P = "unused d n"])
      (use commit_step [OF step _ stable_True, of "[]"] in
        \<open>auto simp: case_prod_beta split: option.split\<close>)
  show "creating d n (writeTransaction d (TxCreate (spread_attrs ws) # rest))"
    if "\<forall>y \<in> set rest. harmless y"
    unfolding creating_def writeTransaction_def
    by (intro allI impI, rule held_perform [where P = "unused d n"])
      (use commit_step [OF step that stable_True] in \<open>auto simp: case_prod_beta\<close>)
qed

lemma creating_persistNew:
  assumes "wsId ws = newWorkspaceId (uuidOf d) n" and "state ws = Provisioning" and "storable ws"
  shows "creating d n (persistNew d ws audit limit)"
proof -
  have tx: "creating d n (bindM (writeTransaction d (TxCreate (spread_attrs ws) # rest))
      (\<lambda>r. case r of None \<Rightarrow> ret () | Some codes \<Rightarrow> raise (f codes)))"
    if "\<forall>y \<in> set rest. harmless y" for rest f
    by (rule creating_then [OF creating_writes(2) [OF assms that]]) (intro safe_intros)
  show ?thesis
    unfolding persistNew_def Let_def
    by (intro creating_quiet quiet_steps) (auto split: option.split intro!: tx creating_writes(1) assms)
qed

lemma reserve_valid:
  assumes "reserve p = Inr ws"
  shows "wsId ws = pp_id p" "state ws = Provisioning" "ownerEmail ws = pp_ownerEmail p"
    "isValidWorkspaceResourcePair (resources ws)"
  using assms by (auto simp: reserve_def assertValidWorkspaceResources_def split: sum.splits if_splits)

text \<open>
  The identifier drawn is unused when \<^verbatim>\<open>randomUUID\<close> never repeats itself and no other actor
  creates a record under it.
\<close>

definition own_id :: "'p deps \<Rightarrow> 'p world \<Rightarrow> bool" where
  "own_id d w \<longleftrightarrow>
     inj (uuidOf d) \<and>
     (\<forall>t \<in> set (schedule w). \<forall>s. wf_sys d s \<longrightarrow> unused d (uuids (sys w)) s \<longrightarrow>
        unused d (uuids (sys w)) (others t s))"

lemma kept_reserveWorkspace:
  assumes w: "ok_world d w" and own: "own_id d w" and email: "normal_email (ci_ownerEmail inp)"
  shows "kept d w (snd (reserveWorkspace d inp w))"
  unfolding reserveWorkspace_def
proof (rule kept_bind [OF w])
  show "kept d w (snd (randomUUID d w))" using safe_local(1) [of d "\<lambda>_. True"] w by (auto simp: safe_def)
  fix u w' assume u: "randomUUID d w = (Ret u, w')" and w': "ok_world d w'"
  let ?n = "uuids (sys w)"
  have "newWorkspaceId (uuidOf d) ?n \<notin> newWorkspaceId (uuidOf d) ` {..<?n}"
    using own by (auto simp: own_id_def newWorkspaceId_def dest: injD)
  then have "\<not> ever (sys w) (newWorkspaceId (uuidOf d) ?n)"
    using w by (auto simp: ok_world_def wf_sys_def ever_def)
  then have "unused d ?n (sys w')" "schedule w' = schedule w"
    using u by (auto simp: randomUUID_def unused_def ever_def)
  then have held: "held d (unused d ?n) w'" using own by (simp add: held_def own_id_def)
  have u': "''ws-'' @ u = newWorkspaceId (uuidOf d) ?n"
    using u by (simp add: randomUUID_def newWorkspaceId_def)
  have new: "creating d ?n (bindM (persistNew d ws audit limit) (\<lambda>_. ret (toWorkspaceDto ws)))"
    if "reserve (provision_of inp (''ws-'' @ u) at) = Inr ws" for at ws audit limit
    by (rule creating_then [OF creating_persistNew safeT_pure(1)])
      (use reserve_valid [OF that] email u' in \<open>simp_all add: provision_of_def storable_def\<close>)
  have "creating d ?n (bindM now (\<lambda>at.
      bindM (liftE (reserve (provision_of inp (''ws-'' @ u) at))) (\<lambda>ws.
      bindM (persistNew d ws
         \<lparr>la_action = SessionCreate, la_target = ''ws-'' @ u,
          la_actor = orElse (ci_ownerEmail inp) (ci_ownerId inp),
          la_detail = create_detail (resources ws) (ci_repoUrl inp),
          la_resources = Some (resources ws)\<rparr>
         (ci_quotaLimit inp)) (\<lambda>_.
      ret (toWorkspaceDto ws)))))"
  proof (rule creating_quiet [OF quiet_steps(3)])
    fix at
    show "creating d ?n (bindM (liftE (reserve (provision_of inp (''ws-'' @ u) at))) (\<lambda>ws.
      bindM (persistNew d ws
         \<lparr>la_action = SessionCreate, la_target = ''ws-'' @ u,
          la_actor = orElse (ci_ownerEmail inp) (ci_ownerId inp),
          la_detail = create_detail (resources ws) (ci_repoUrl inp),
          la_resources = Some (resources ws)\<rparr>
         (ci_quotaLimit inp)) (\<lambda>_.
      ret (toWorkspaceDto ws))))"
      using new [of at] by (cases "reserve (provision_of inp (''ws-'' @ u) at)")
        (auto simp: liftE_def bindM_def ret_def raise_def creating_def)
  qed
  then show "kept d w' (snd (bindM now (\<lambda>at.
      bindM (liftE (reserve (provision_of inp (''ws-'' @ u) at))) (\<lambda>ws.
      bindM (persistNew d ws
         \<lparr>la_action = SessionCreate, la_target = ''ws-'' @ u,
          la_actor = orElse (ci_ownerEmail inp) (ci_ownerId inp),
          la_detail = create_detail (resources ws) (ci_repoUrl inp),
          la_resources = Some (resources ws)\<rparr>
         (ci_quotaLimit inp)) (\<lambda>_.
      ret (toWorkspaceDto ws)))) w'))"
    using held w' by (simp add: creating_def)
qed

lemma kept_create:
  assumes w: "ok_world d w" and own: "own_id d w" and email: "normal_email (ci_ownerEmail inp)"
  shows "kept d w (snd (svc_create d inp w))"
  unfolding svc_create_def
proof (rule kept_bind [OF w])
  show "kept d w (snd (reserveWorkspace d inp w))" by (rule kept_reserveWorkspace [OF assms])
  fix dto w' assume "ok_world d w'"
  moreover have "safeT d (\<lambda>_. True) (bindM (launchReserved d i ref) (\<lambda>launched.
      case launched of Ok v \<Rightarrow> ret v | Err e \<Rightarrow> raise (f e)))" for i ref and f :: "domain_error \<Rightarrow> js_error"
    by (intro safe_intros)
  ultimately show "kept d w' (snd (bindM (launchReserved d (wsId (fst dto)) (ci_repoRef inp))
      (\<lambda>launched. case launched of Ok v \<Rightarrow> ret v | Err e \<Rightarrow> raise (ComputeUnavailableError
         (case e of Conflict reason \<Rightarrow> reason | _ \<Rightarrow> ''launch failed''))) w'))"
    by (auto simp: safe_def)
qed

section \<open>The service\<close>

datatype request =
    RqReserve create_input | RqCreate create_input | RqLaunch string "string option"
  | RqStart string string | RqConnect string string | RqRetry string | RqRetryPlacement string
  | RqRecoverError string | RqRecoverStuck string | RqSettings string settings_patch string
  | RqStop string string "int option" | RqRequestStop string string | RqFinishStop string bool
  | RqCancelStop string string | RqHeartbeat string heartbeat_report | RqSnapshot string
  | RqRestore string string string | RqTaskLoss string | RqSnapshotLost string
  | RqShare string bool "string option" | RqAccess string string bool string
  | RqRemove string string | RqFinishDeleting string | RqUndelete string undelete_opts
  | RqPurgeExpired int | RqPurgeNow string string | RqList "string option" | RqInspect string
  | RqFleetReferences | RqDeleteSnapshot string string | RqPurgeUnreferenced string
  | RqOwnerCounts | RqSecurityEvent string string

definition discard :: "('p, 'a) act \<Rightarrow> ('p, unit) act" where
  "discard m = bindM m (\<lambda>_. ret ())"

fun serve :: "'p deps \<Rightarrow> request \<Rightarrow> ('p, unit) act" where
  "serve d (RqReserve inp) = discard (reserveWorkspace d inp)"
| "serve d (RqCreate inp) = discard (svc_create d inp)"
| "serve d (RqLaunch i ref) = discard (launchReserved d i ref)"
| "serve d (RqStart i actor) = discard (svc_start d i actor)"
| "serve d (RqConnect i actor) = discard (svc_connect d i actor)"
| "serve d (RqRetry i) = discard (svc_retry d i)"
| "serve d (RqRetryPlacement i) = discard (retryPlacement d i)"
| "serve d (RqRecoverError i) = discard (recoverError d i)"
| "serve d (RqRecoverStuck i) = discard (recoverStuckProvisioning d i)"
| "serve d (RqSettings i p actor) = discard (updateSettings d i p actor)"
| "serve d (RqStop i actor idle) = discard (svc_stop d i actor idle)"
| "serve d (RqRequestStop i actor) = discard (requestStop d i actor)"
| "serve d (RqFinishStop i g) = discard (finishStop d i g)"
| "serve d (RqCancelStop i actor) = discard (cancelStop d i actor)"
| "serve d (RqHeartbeat i rep) = discard (svc_heartbeat d i rep)"
| "serve d (RqSnapshot i) = discard (svc_snapshot d i)"
| "serve d (RqRestore i snap actor) = discard (restoreSnapshot d i snap actor)"
| "serve d (RqTaskLoss i) = discard (reconcileTaskLoss d i)"
| "serve d (RqSnapshotLost i) = discard (markSnapshotLostFor d i)"
| "serve d (RqShare i on actor) = discard (svc_setShare d i on actor)"
| "serve d (RqAccess i actor ok why) = discard (recordAccess d i actor ok why)"
| "serve d (RqRemove i actor) = discard (svc_remove d i actor)"
| "serve d (RqFinishDeleting i) = discard (finishDeleting d i)"
| "serve d (RqUndelete i opts) = discard (svc_undelete d i opts)"
| "serve d (RqPurgeExpired ms) = discard (purgeExpiredTombstones d ms)"
| "serve d (RqPurgeNow i actor) = discard (purgeNow d i actor)"
| "serve d (RqList owner) = discard (svc_list d owner)"
| "serve d (RqInspect i) = discard (svc_inspect d i)"
| "serve d RqFleetReferences = discard (listFleetReferences d)"
| "serve d (RqDeleteSnapshot i actor) = discard (deleteSnapshotById d i actor)"
| "serve d (RqPurgeUnreferenced actor) = discard (purgeUnreferencedSnapshots d actor)"
| "serve d RqOwnerCounts = discard (reconcileOwnerCounts d)"
| "serve d (RqSecurityEvent i tool) = discard (recordSecurityEvent d i tool)"

fun created_by :: "request \<Rightarrow> create_input option" where
  "created_by (RqReserve inp) = Some inp"
| "created_by (RqCreate inp) = Some inp"
| "created_by _ = None"

text \<open>A creation is admitted with an owner's address in normal form and an identifier that is
  its own.\<close>

definition admitted :: "'p deps \<Rightarrow> request \<Rightarrow> 'p world \<Rightarrow> bool" where
  "admitted d rq w =
     (case created_by rq of
        None \<Rightarrow> True
      | Some inp \<Rightarrow> own_id d w \<and> normal_email (ci_ownerEmail inp))"

lemma safe_discard [safe_intros]: "safeT d (\<lambda>_. True) m \<Longrightarrow> safeT d P (discard m)"
  unfolding discard_def by (rule safeT_pre) (rule safe_intros | assumption)+

lemma kept_discard: "\<lbrakk>ok_world d w; kept d w (snd (m w))\<rbrakk> \<Longrightarrow> kept d w (snd (discard m w))"
  unfolding discard_def by (rule kept_bind) (auto simp: ret_def)

lemma kept_serve:
  assumes "ok_world d w" and "admitted d rq w"
  shows "kept d w (snd (serve d rq w))"
proof (cases "created_by rq")
  case None
  then have "safeT d (\<lambda>_. True) (serve d rq)" by (cases rq) (simp_all add: safe_intros)
  then show ?thesis using assms by (auto simp: safe_def)
next
  case (Some inp)
  then show ?thesis
    using assms kept_discard [OF assms(1)] kept_reserveWorkspace [of d w inp] kept_create [of d w inp]
    by (cases rq) (auto simp: admitted_def)
qed

text \<open>The states the service reaches by serving requests one after the other, each under any
  schedule of turns that keep the guarantee.\<close>

inductive reached :: "'p deps \<Rightarrow> 'p sys \<Rightarrow> 'p sys \<Rightarrow> bool" for d s where
  here: "reached d s s"
| request: "\<lbrakk>reached d s t; \<forall>tn \<in> set ts. good_turn d tn;
     admitted d rq \<lparr>sys = t, schedule = ts, trace = []\<rparr>\<rbrakk> \<Longrightarrow>
     reached d s (sys (snd (serve d rq \<lparr>sys = t, schedule = ts, trace = []\<rparr>)))"

lemma reached_keeps:
  assumes "reached d s t" and "wf_sys d s"
  shows "wf_sys d t \<and> guar s t"
  using assms
proof (induction rule: reached.induct)
  case (request t ts rq)
  then have ok: "ok_world d \<lparr>sys = t, schedule = ts, trace = []\<rparr>" by (simp add: ok_world_def)
  from kept_serve [OF ok request.hyps(3)] guar_trans [of d s t] request
  show ?case by (auto simp: ok_world_def)
qed simp

section \<open>The fakes as providers\<close>

text \<open>The parameters instantiated by the repository's own fakes, for concrete runs.\<close>

definition fake_deps :: "fake_cloud deps" where
  "fake_deps =
     \<lparr>hasAudit = True, hasMetrics = True, hasOwnerCounts = True, uuidOf = sample_uuid,
      schemaError = (\<lambda>_. None), subMissing = None,
      d_runTask = fake_runTask sample_uuid,
      d_stopTask = (\<lambda>t c. (Inr (), fake_stopTask t c)),
      d_taskState = (\<lambda>t c. (Inr (fake_taskState t c), c)),
      d_createSnapshot = (\<lambda>at v retain owner c.
        case fake_createSnapshot sample_uuid at v retain owner (storage c) of
          (r, st) \<Rightarrow> (r, c\<lparr>storage := st\<rparr>)),
      d_tagSnapshotRetained = (\<lambda>i c. (Inr (), c\<lparr>storage := fake_tagSnapshotRetained i (storage c)\<rparr>)),
      d_deleteSnapshot = (\<lambda>i c. (Inr (), c\<lparr>storage := fake_deleteSnapshot i (storage c)\<rparr>)),
      d_listSnapshots = (\<lambda>c. (Inr (fake_listSnapshots (storage c)), c))\<rparr>"

definition empty_cloud :: fake_cloud where
  "empty_cloud = \<lparr>storage = empty_storage, taskVolumes = [], placementRefusals = 0, fixedSshHost = None\<rparr>"

definition empty_sys :: "fake_cloud sys" where
  "empty_sys =
     \<lparr>table = [], ownerCounts = [], ledger = [], metricLog = [], cloud = empty_cloud, clockMs = 0,
      wallMs = 0, uuids = 0, moves = []\<rparr>"

definition sample_input :: create_input where
  "sample_input =
     \<lparr>ci_ownerId = ''u1'', ci_ownerEmail = None, ci_ownerRole = None, ci_baseImage = ''golden'',
      ci_editor = Some Monaco, ci_resources = None, ci_snapshotIntervalMs = None,
      ci_idleStopMs = None, ci_alwaysOn = None, ci_repoUrl = None, ci_repoRef = None,
      ci_quotaLimit = Some 2\<rparr>"

definition sample_world :: "fake_cloud world" where
  "sample_world = \<lparr>sys = empty_sys, schedule = [], trace = []\<rparr>"

lemma wf_empty_sys [simp]: "wf_sys d empty_sys"
  by (simp add: wf_sys_def empty_sys_def lookup_def chained.simps)

lemma sample_admitted [simp]:
  "ok_world fake_deps sample_world" "admitted fake_deps (RqCreate sample_input) sample_world"
  by (simp_all add: ok_world_def admitted_def own_id_def sample_world_def sample_input_def
      normal_email_def fake_deps_def)

section \<open>Properties\<close>

text \<open>
  C1. The guarantee of the service. Let a request of any kind run in a well-formed system,
  under any schedule of other actors that keep the guarantee and of failing, lost and
  cancelled calls. Then the system stays well formed (every stored record reads back as a
  workspace that satisfies the record invariant, the history starts every workspace in
  provisioning, continues each one where it was and only ever follows the transition
  table, and removes a record only from a terminated one), and the request itself keeps
  the guarantee: history and ledger are only appended to, a stored version never goes
  back and identifies the stored record, no record changes its owner or creation time,
  and a removed workspace never returns.
\<close>

theorem service_guarantee:
  assumes "ok_world d w" and "admitted d rq w"
  shows "wf_sys d (sys (snd (serve d rq w))) \<and> guar (sys w) (sys (snd (serve d rq w)))"
  using kept_serve [OF assms] by (simp add: ok_world_def)

theorem service_guarantee_witness:
  "wf_sys fake_deps (sys (snd (serve fake_deps (RqCreate sample_input) sample_world)))"
  using service_guarantee [OF sample_admitted] by blast

text \<open>
  Requests may interleave with requests: a request served to its end under a schedule of
  well-behaved turns is itself a well-behaved turn of anyone who was waiting.
\<close>

theorem request_is_good_turn:
  assumes "\<forall>t \<in> set ts. good_turn d t" and "created_by rq = None"
  shows "good_turn d \<lparr>others = \<lambda>s. sys (snd (serve d rq \<lparr>sys = s, schedule = ts, trace = []\<rparr>)), fault = f\<rparr>"
  unfolding good_turn_def
proof (intro allI impI)
  fix s assume "wf_sys d s"
  with assms have "ok_world d \<lparr>sys = s, schedule = ts, trace = []\<rparr>"
    "admitted d rq \<lparr>sys = s, schedule = ts, trace = []\<rparr>"
    by (simp_all add: ok_world_def admitted_def)
  from kept_serve [OF this]
  show "wf_sys d (others \<lparr>others = \<lambda>s. sys (snd (serve d rq \<lparr>sys = s, schedule = ts, trace = []\<rparr>)), fault = f\<rparr> s) \<and>
    guar s (others \<lparr>others = \<lambda>s. sys (snd (serve d rq \<lparr>sys = s, schedule = ts, trace = []\<rparr>)), fault = f\<rparr> s)"
    by (simp add: ok_world_def)
qed

theorem request_is_good_turn_witness:
  "good_turn fake_deps \<lparr>others = \<lambda>s. sys (snd (serve fake_deps (RqRemove ''ws-'' ''u1'')
     \<lparr>sys = s, schedule = [], trace = []\<rparr>)), fault = Clean\<rparr>"
  by (rule request_is_good_turn) simp_all

text \<open>
  C6. Every workspace lives a life of the lifecycle. Whatever requests have been served from
  the empty table on, and whatever interfered with them: each state change in the history
  starts in the state the history before it left that workspace in and is a move of the
  lifecycle, and the state stored now is the one its history ends in.
\<close>

theorem stored_states_follow_lifecycle:
  assumes "reached d s0 s" and "table s0 = []" and "moves s0 = []"
  shows "(\<forall>k < length (moves s).
            mv_from (moves s ! k) = replay (take k (moves s)) (mv_id (moves s ! k)) \<and>
            legal_move (moves s ! k)) \<and>
         (\<forall>i. map_option (state \<circ> fst) (lookup s i) = replay (moves s) i)"
proof -
  have "wf_sys d s0" using assms(2,3) by (simp add: wf_sys_def lookup_def chained.simps)
  from reached_keeps [OF assms(1) this] have "wf_sys d s" by blast
  then show ?thesis by (simp add: wf_sys_def chained.simps)
qed

theorem stored_states_follow_lifecycle_witness:
  "\<exists>s. reached fake_deps empty_sys s \<and>
     (\<forall>i. map_option (state \<circ> fst) (lookup s i) = replay (moves s) i)"
proof -
  have "reached fake_deps empty_sys (sys (snd (serve fake_deps (RqCreate sample_input) sample_world)))"
    unfolding sample_world_def
    by (rule reached.request [OF reached.here])
      (use sample_admitted in \<open>simp_all add: sample_world_def\<close>)
  from stored_states_follow_lifecycle [OF this] this show ?thesis by (auto simp: empty_sys_def)
qed

end
