(* ===== verification/Service_Trace.thy ===== *)
theory Service_Trace
  imports Service_Correct
begin

text \<open>
  The order in which the operations of the service call out, whatever the schedule of other
  actors and failing calls: a small logic of the calls an action makes (\<open>does\<close>), with
  rules for calls that are never made (\<open>never\<close>), made only after another (\<open>guarded\<close>) and
  for launched tasks that are not lost (\<open>settles\<close>), and the orderings the service relies
  on for data safety.
\<close>

section \<open>Traces\<close>

text \<open>The calls an action makes, whatever the schedule.\<close>

definition does :: "('p, 'a) act \<Rightarrow> ('a outcome \<Rightarrow> (call \<times> bool) list \<Rightarrow> bool) \<Rightarrow> bool" where
  "does m Q \<longleftrightarrow> (\<forall>w. \<exists>cs. trace (snd (m w)) = trace w @ cs \<and> Q (fst (m w)) cs)"

definition never :: "(call \<Rightarrow> bool) \<Rightarrow> ('p, 'a) act \<Rightarrow> bool" where
  "never A m \<longleftrightarrow> does m (\<lambda>_ cs. \<forall>c \<in> set cs. \<not> A (fst c))"

text \<open>No call of the first kind before one of the second.\<close>

fun only_after :: "(call \<Rightarrow> bool) \<Rightarrow> (call \<times> bool \<Rightarrow> bool) \<Rightarrow> (call \<times> bool) list \<Rightarrow> bool" where
  "only_after A B [] \<longleftrightarrow> True"
| "only_after A B (c # cs) \<longleftrightarrow> \<not> A (fst c) \<and> (B c \<or> only_after A B cs)"

lemma only_after_append:
  "only_after A B (xs @ ys) \<longleftrightarrow> only_after A B xs \<and> ((\<exists>x \<in> set xs. B x) \<or> only_after A B ys)"
  by (induction xs) auto

lemma only_after_never: "\<forall>c \<in> set cs. \<not> A (fst c) \<Longrightarrow> only_after A B cs"
  by (induction cs) auto

lemma only_after_nth:
  "only_after A B cs \<longleftrightarrow> (\<forall>k < length cs. A (fst (cs ! k)) \<longrightarrow> (\<exists>j < k. B (cs ! j)))"
proof (induction cs)
  case (Cons c cs)
  have "(\<forall>k < length (c # cs). A (fst ((c # cs) ! k)) \<longrightarrow> (\<exists>j < k. B ((c # cs) ! j))) \<longleftrightarrow>
    \<not> A (fst c) \<and> (\<forall>k < length cs. A (fst (cs ! k)) \<longrightarrow> B c \<or> (\<exists>j < k. B (cs ! j)))"
    by (simp add: All_less_Suc2 Ex_less_Suc2)
  with Cons show ?case by auto
qed simp

lemma does_bind:
  assumes m: "does m P" and f: "\<And>a. does (f a) (Q a)"
    and ret: "\<And>a r xs ys. \<lbrakk>P (Ret a) xs; Q a r ys\<rbrakk> \<Longrightarrow> R r (xs @ ys)"
    and raise: "\<And>e xs. P (Raise e) xs \<Longrightarrow> R (Raise e) xs"
  shows "does (bindM m f) R"
  unfolding does_def
proof
  fix w
  obtain xs where xs: "trace (snd (m w)) = trace w @ xs" "P (fst (m w)) xs"
    using m by (auto simp: does_def)
  show "\<exists>cs. trace (snd (bindM m f w)) = trace w @ cs \<and> R (fst (bindM m f w)) cs"
  proof (cases "m w")
    case (Pair r w')
    show ?thesis
    proof (cases r)
      case (Ret a)
      obtain ys where "trace (snd (f a w')) = trace w' @ ys" "Q a (fst (f a w')) ys"
        using f [of a] by (auto simp: does_def)
      with xs Pair Ret ret show ?thesis by (auto simp: bindM_def)
    next
      case (Raise e)
      with xs Pair raise show ?thesis by (auto simp: bindM_def)
    qed
  qed
qed

lemma does_try:
  assumes m: "does m P" and h: "\<And>e. does (h e) (Q e)"
    and ret: "\<And>a xs. P (Ret a) xs \<Longrightarrow> R (Ret a) xs"
    and raise: "\<And>e r xs ys. \<lbrakk>P (Raise e) xs; Q e r ys\<rbrakk> \<Longrightarrow> R r (xs @ ys)"
  shows "does (tryM m h) R"
  unfolding does_def
proof
  fix w
  obtain xs where xs: "trace (snd (m w)) = trace w @ xs" "P (fst (m w)) xs"
    using m by (auto simp: does_def)
  show "\<exists>cs. trace (snd (tryM m h w)) = trace w @ cs \<and> R (fst (tryM m h w)) cs"
  proof (cases "m w")
    case (Pair r w')
    show ?thesis
    proof (cases r)
      case (Raise e)
      obtain ys where "trace (snd (h e w')) = trace w' @ ys" "Q e (fst (h e w')) ys"
        using h [of e] by (auto simp: does_def)
      with xs Pair Raise raise show ?thesis by (auto simp: tryM_def)
    next
      case (Ret a)
      with xs Pair ret show ?thesis by (auto simp: tryM_def)
    qed
  qed
qed

lemma does_local:
  assumes "\<And>w. trace (snd (m w)) = trace w" and "\<And>w. R (fst (m w)) []"
  shows "does m R"
  using assms by (auto simp: does_def)

lemma does_perform:
  assumes "\<And>r. (\<forall>a. r = Ret a \<longrightarrow> R r [(c, good a)]) \<and> (\<forall>e. r = Raise e \<longrightarrow> R r [(c, False)])"
  shows "does (perform c good cancel act) R"
proof -
  have "R r [(c, case r of Ret a \<Rightarrow> good a | Raise _ \<Rightarrow> False)]" for r
    using assms [of r] by (cases r) auto
  then show ?thesis
    by (auto simp: does_def perform_def record_call_def Let_def split: list.split)
qed

lemma does_io:
  assumes "\<And>a. R (Ret a) [(c, True)]" and "\<And>e. R (Raise e) [(c, False)]"
  shows "does (io c act) R"
  unfolding io_def by (rule does_perform) (use assms in auto)

lemma does_weaken: "\<lbrakk>does m P; \<And>r cs. P r cs \<Longrightarrow> Q r cs\<rbrakk> \<Longrightarrow> does m Q"
  unfolding does_def by blast

named_theorems never_intros \<open>actions that make no call of a kind\<close>

lemma never_bind [never_intros]: "\<lbrakk>never A m; \<And>a. never A (f a)\<rbrakk> \<Longrightarrow> never A (bindM m f)"
  unfolding never_def
  by (erule does_bind [where Q = "\<lambda>_ _ cs. \<forall>c \<in> set cs. \<not> A (fst c)"]) auto

lemma never_try [never_intros]: "\<lbrakk>never A m; \<And>e. never A (h e)\<rbrakk> \<Longrightarrow> never A (tryM m h)"
  unfolding never_def
  by (erule does_try [where Q = "\<lambda>_ _ cs. \<forall>c \<in> set cs. \<not> A (fst c)"]) auto

lemma never_local [never_intros]:
  "never A (ret a)" "never A (raise e)" "never A now" "never A dateNow" "never A clock_ms"
  "never A (randomUUID d)" "never A (emit d m)" "never A (validate d attrs)" "never A (liftE x)"
  unfolding never_def
  by (rule does_local; simp add: ret_def raise_def now_def dateNow_def clock_ms_def randomUUID_def
      emit_def validate_def liftE_def split: option.split sum.split)+

lemma never_cases [never_intros]:
  "\<lbrakk>never A m; never A n\<rbrakk> \<Longrightarrow> never A (if b then m else n)"
  "\<lbrakk>never A m; \<And>x. never A (f x)\<rbrakk> \<Longrightarrow> never A (case z of None \<Rightarrow> m | Some x \<Rightarrow> f x)"
  "\<lbrakk>\<And>x. never A (f x); \<And>e. never A (g e)\<rbrakk> \<Longrightarrow> never A (case y of Ok x \<Rightarrow> f x | Err e \<Rightarrow> g e)"
  "\<lbrakk>\<And>x. never A (f' x); \<And>e. never A (g' e)\<rbrakk> \<Longrightarrow> never A (case y' of Inl x \<Rightarrow> f' x | Inr e \<Rightarrow> g' e)"
  "\<lbrakk>\<And>x. never A (h x)\<rbrakk> \<Longrightarrow> never A (onOk y'' h)"
  by (auto simp: onOk_def intro: never_local split: option.split result.split sum.split)

lemma never_bindR [never_intros]: "\<lbrakk>never A m; \<And>a. never A (f a)\<rbrakk> \<Longrightarrow> never A (bindR m f)"
  unfolding bindR_def by (intro never_intros)

lemma never_when [never_intros]: "never A m \<Longrightarrow> never A (whenM b m)"
  unfolding whenM_def by (intro never_intros)

lemma never_quietly [never_intros]: "never A m \<Longrightarrow> never A (quietly m)"
  unfolding quietly_def by (intro never_intros)

lemma never_call:
  "\<not> A c \<Longrightarrow> never A (perform c good cancel act)" "\<not> A c \<Longrightarrow> never A (io c act)"
  unfolding never_def by (rule does_perform, simp) (rule does_io, simp_all)

lemma never_calls [never_intros]:
  "\<not> A (CRunTask inp) \<Longrightarrow> never A (runTask d inp)" "\<not> A (CStopTask t) \<Longrightarrow> never A (stopTask d t)"
  "\<not> A (CTaskState t) \<Longrightarrow> never A (taskState d t)"
  "\<not> A (CCreateSnapshot v b) \<Longrightarrow> never A (createSnapshot d v b owner)"
  "\<not> A (CTagSnapshot j) \<Longrightarrow> never A (tagSnapshotRetained d j)"
  "\<not> A (CDeleteSnapshot j) \<Longrightarrow> never A (deleteSnapshot d j)"
  "\<not> A CListSnapshots \<Longrightarrow> never A (listSnapshots d)" "\<not> A CSleep \<Longrightarrow> never A (sleep ms)"
  "\<not> A (CWrite items) \<Longrightarrow> never A (writeTransaction d items)"
  "\<not> A (CWrite [item]) \<Longrightarrow> never A (writeOne d item)"
  "\<not> A (CGet i) \<Longrightarrow> never A (svc_find d i)"
  unfolding runTask_def stopTask_def taskState_def createSnapshot_def tagSnapshotRetained_def
    deleteSnapshot_def listSnapshots_def sleep_def writeTransaction_def writeOne_def svc_find_def
  by (rule never_call never_intros; assumption?)+ (auto intro: never_intros)


lemma never_require [never_intros]: "\<not> A (CGet i) \<Longrightarrow> never A (svc_require d i)"
  unfolding svc_require_def by (intro never_intros)

lemma never_auditItem [never_intros]: "never A (auditItem d a)"
  unfolding auditItem_def by (intro never_intros)

abbreviation transition_patch :: "workspace \<Rightarrow> int \<Rightarrow> tx_item" where
  "transition_patch ws v \<equiv> TxPatch (wsId ws) (transition_attrs ws) TRANSITION_CLEARABLE v"

lemma does_nothing: "never (\<lambda>_. True) m \<Longrightarrow> does m (\<lambda>_ cs. cs = [])"
  unfolding never_def by (erule does_weaken) (metis list.set_intros(1) neq_Nil_conv)

lemma does_persistTransition:
  "does (persistTransition d ws v audit)
     (\<lambda>r cs. (\<forall>c \<in> set cs. \<exists>rest. fst c = CWrite (transition_patch ws v # rest)) \<and>
        length cs \<le> 1 \<and>
        (r = Ret () \<longrightarrow> (\<exists>rest. (CWrite (transition_patch ws v # rest), True) \<in> set cs)))"
    (is "does _ ?Q")
proof -
  have one: "does (writeOne d (transition_patch ws v)) ?Q"
    unfolding writeOne_def by (rule does_io) auto
  have "does (bindM (writeTransaction d [transition_patch ws v, TxEvent e])
      (\<lambda>r. case r of None \<Rightarrow> ret () | Some codes \<Rightarrow> raise (f codes))) ?Q" for e f
  proof (rule does_bind [where Q = "\<lambda>a r cs. cs = [] \<and> (r = Ret () \<longrightarrow> a = None)"])
    show "does (writeTransaction d [transition_patch ws v, TxEvent e])
        (\<lambda>r cs. \<exists>b. cs = [(CWrite [transition_patch ws v, TxEvent e], b)] \<and> (r = Ret None \<longrightarrow> b))"
      unfolding writeTransaction_def by (rule does_perform) auto
    show "does (case a of None \<Rightarrow> ret () | Some codes \<Rightarrow> raise (f codes))
        (\<lambda>r cs. cs = [] \<and> (r = Ret () \<longrightarrow> a = None))" for a
      by (rule does_local) (auto simp: ret_def raise_def split: option.split)
  qed auto
  with one have rest: "does (case ev of None \<Rightarrow> writeOne d (transition_patch ws v)
      | Some e \<Rightarrow> bindM (writeTransaction d [transition_patch ws v, TxEvent e])
          (\<lambda>r. case r of None \<Rightarrow> ret () | Some codes \<Rightarrow> raise (canceledTransactionError codes))) ?Q"
    for ev by (cases ev) simp_all
  have val: "does (bindM (validate d (transition_attrs ws)) (\<lambda>_. case ev of None \<Rightarrow> writeOne d (transition_patch ws v)
      | Some e \<Rightarrow> bindM (writeTransaction d [transition_patch ws v, TxEvent e])
          (\<lambda>r. case r of None \<Rightarrow> ret () | Some codes \<Rightarrow> raise (canceledTransactionError codes)))) ?Q" for ev
    by (rule does_bind [OF does_nothing rest]) (auto intro: never_intros)
  show ?thesis
    unfolding persistTransition_def Let_def
    by (rule does_bind [OF does_nothing val]) (auto intro: never_intros split: option.split)
qed

lemma never_persistTransition [never_intros]:
  "(\<And>rest. \<not> A (CWrite (transition_patch ws v # rest))) \<Longrightarrow> never A (persistTransition d ws v audit)"
  unfolding never_def by (rule does_weaken [OF does_persistTransition]) fastforce

section \<open>Order of calls\<close>

definition guarded :: "(call \<Rightarrow> bool) \<Rightarrow> (call \<times> bool \<Rightarrow> bool) \<Rightarrow> ('p, 'a) act \<Rightarrow> bool" where
  "guarded A B m \<longleftrightarrow> does m (\<lambda>_ cs. only_after A B cs)"

named_theorems guarded_intros \<open>rules for the order of calls\<close>

lemma guarded_never: "never A m \<Longrightarrow> guarded A B m"
  unfolding guarded_def never_def by (erule does_weaken) (rule only_after_never)

lemma guarded_bind [guarded_intros]:
  "\<lbrakk>never A m; \<And>a. guarded A B (f a)\<rbrakk> \<Longrightarrow> guarded A B (bindM m f)"
  unfolding guarded_def never_def
  by (erule does_bind [where Q = "\<lambda>_ _ cs. only_after A B cs"])
    (auto simp: only_after_append only_after_never)

lemma guarded_cases [guarded_intros]:
  "\<lbrakk>guarded A B m; guarded A B n\<rbrakk> \<Longrightarrow> guarded A B (if b then m else n)"
  "\<lbrakk>guarded A B m; \<And>x. guarded A B (f x)\<rbrakk> \<Longrightarrow> guarded A B (case z of None \<Rightarrow> m | Some x \<Rightarrow> f x)"
  "\<lbrakk>\<And>x. guarded A B (f x); \<And>e. guarded A B (g e)\<rbrakk> \<Longrightarrow> guarded A B (case y of Ok x \<Rightarrow> f x | Err e \<Rightarrow> g e)"
  "\<lbrakk>\<And>x. y'' = Ok x \<Longrightarrow> guarded A B (h x)\<rbrakk> \<Longrightarrow> guarded A B (onOk y'' h)"
  "guarded A B (ret a)"
  by (auto simp: onOk_def intro: guarded_never never_local split: option.split result.split)

lemma guarded_bindR [guarded_intros]:
  "\<lbrakk>never A m; \<And>a. guarded A B (f a)\<rbrakk> \<Longrightarrow> guarded A B (bindR m f)"
  unfolding bindR_def by (intro guarded_intros)

text \<open>Any action of the service extends the trace.\<close>

abbreviation tracked :: "('p, 'a) act \<Rightarrow> bool" where
  "tracked m \<equiv> never (\<lambda>_. False) m"

lemma guarded_persist_or:
  assumes A: "\<And>rest. \<not> A (CWrite (transition_patch ws v # rest))"
    and B: "\<And>rest. B (CWrite (transition_patch ws v # rest), True)"
    and conflict: "guarded A B conflict" and continue: "tracked continue"
  shows "guarded A B (persist_or d ws v audit conflict continue)"
  unfolding persist_or_def guarded_def
proof (rule does_bind [where Q = "\<lambda>b _ cs. b \<or> only_after A B cs"])
  let ?P = "\<lambda>r cs. (\<forall>c \<in> set cs. \<not> A (fst c)) \<and> (r = Ret True \<longrightarrow> (\<exists>c \<in> set cs. B c))"
  have written: "does (persistTransition d ws v audit)
      (\<lambda>r cs. (\<forall>c \<in> set cs. \<not> A (fst c)) \<and> (r = Ret () \<longrightarrow> (\<exists>c \<in> set cs. B c)))"
    by (rule does_weaken [OF does_persistTransition]) (use A B in fastforce)
  have "does (bindM (persistTransition d ws v audit) (\<lambda>_. ret True)) ?P"
    by (rule does_bind [OF written, where Q = "\<lambda>_ _ cs. cs = []"])
      (auto intro: does_local simp: ret_def)
  then show "does (tryM (bindM (persistTransition d ws v audit) (\<lambda>_. ret True))
      (\<lambda>e. if isVersionConflict e then ret False else raise e)) ?P"
    by (rule does_try [where Q = "\<lambda>_ r cs. cs = [] \<and> r \<noteq> Ret True"])
      (auto intro: does_local simp: ret_def raise_def)
  show "does (if b then continue else conflict) (\<lambda>_ cs. b \<or> only_after A B cs)" for b
    using conflict continue by (auto simp: guarded_def never_def elim: does_weaken)
qed (use A B in \<open>auto simp: only_after_append only_after_never\<close>)

section \<open>Operations that make no call of a kind\<close>

lemma never_persist_or [never_intros]:
  "\<lbrakk>\<And>rest. \<not> A (CWrite (transition_patch ws v # rest)); never A conflict; never A continue\<rbrakk> \<Longrightarrow>
     never A (persist_or d ws v audit conflict continue)"
  unfolding persist_or_def by (intro never_intros)

lemma never_awaitWoken_loop [never_intros]:
  "\<lbrakk>\<not> A (CGet i); \<not> A CSleep\<rbrakk> \<Longrightarrow> never A (awaitWoken_loop n d i deadline)"
proof (induction n)
  case (Suc n)
  then show ?case
    unfolding awaitWoken_loop.simps by (auto intro!: never_intros simp: case_prod_beta split: option.split)
qed (simp add: never_intros)

lemma never_awaitWoken [never_intros]: "\<lbrakk>\<not> A (CGet i); \<not> A CSleep\<rbrakk> \<Longrightarrow> never A (awaitWoken d i)"
  unfolding awaitWoken_def by (intro never_intros)

lemma tracked_rollbackWake [never_intros]: "tracked (rollbackWake d i)"
  unfolding rollbackWake_def by (rule never_intros | simp only: split_beta | simp)+

lemma tracked_recordLaunchFailure [never_intros]: "tracked (recordLaunchFailure d i why)"
  unfolding recordLaunchFailure_def by (rule never_intros | simp only: split_beta | simp)+

lemma tracked_waitForCapacity [never_intros]: "tracked (waitForCapacity d i e)"
  unfolding waitForCapacity_def Let_def by (rule never_intros | simp only: split_beta | simp)+

lemma tracked_commit_wake [never_intros]: "tracked (commit_wake d i ws at actor task)"
  unfolding commit_wake_def by (rule never_intros | simp only: split_beta | simp)+

lemma tracked_launchClaimedWake [never_intros]: "tracked (launchClaimedWake d i ws at actor)"
  unfolding launchClaimedWake_def by (rule never_intros | simp only: split_beta | simp)+

section \<open>Kinds of calls\<close>

fun launches :: "call \<Rightarrow> bool" where
  "launches (CRunTask inp) = True"
| "launches _ = False"

fun stops :: "call \<Rightarrow> bool" where
  "stops (CStopTask t) = True"
| "stops _ = False"

text \<open>A write that was applied and put the workspace in a state.\<close>

fun wrote :: "workspace_state \<Rightarrow> call \<times> bool \<Rightarrow> bool" where
  "wrote st (CWrite (TxPatch i a cl v # rest), ok) \<longleftrightarrow> ok \<and> state a = st"
| "wrote st _ \<longleftrightarrow> False"

lemma waking_state: "markWaking ws at = Ok ws' \<Longrightarrow> state ws' = Provisioning"
  by (cases "state ws") (auto simp: markWaking_def result_map_Ok_iff TRANSITIONS_event_simps)

lemma stopped_state: "markStopped ws fresh at = Ok ws' \<Longrightarrow> state ws' = Stopped"
  by (cases "state ws") (auto simp: markStopped_def result_map_Ok_iff TRANSITIONS_event_simps)

lemma guarded_start: "guarded launches (wrote Provisioning) (svc_start d i actor)"
  unfolding svc_start_def
  by (rule guarded_intros guarded_persist_or | simp only: split_beta
    | (simp add: waking_state; fail) | (rule guarded_never; rule never_intros) | rule never_intros)+

lemma guarded_stop: "guarded stops (wrote Stopped) (svc_stop d i actor ms)"
  unfolding svc_stop_def stop_loaded_def snapshotBeforeStop_def snapshotForTransition_def
  by (rule guarded_intros guarded_persist_or | simp only: split_beta
    | (simp add: stopped_state; fail) | (rule guarded_never; rule never_intros) | rule never_intros)+

text \<open>An action whose success comes with a call of the second kind, and that makes none of the
  first.\<close>

definition secures ::
  "(call \<Rightarrow> bool) \<Rightarrow> (call \<times> bool \<Rightarrow> bool) \<Rightarrow> ('p, ('a, domain_error) result) act \<Rightarrow> bool" where
  "secures A B m \<longleftrightarrow>
     does m (\<lambda>r cs. (\<forall>c \<in> set cs. \<not> A (fst c)) \<and> (\<forall>a. r = Ret (Ok a) \<longrightarrow> (\<exists>c \<in> set cs. B c)))"

lemma secures_bind:
  "\<lbrakk>does m (\<lambda>r cs. (\<forall>c \<in> set cs. \<not> A (fst c)) \<and> (\<forall>a. r = Ret a \<longrightarrow> (\<exists>c \<in> set cs. B c)));
    \<And>a. never A (f a)\<rbrakk> \<Longrightarrow> secures A B (bindM m f)"
  unfolding secures_def never_def
  by (erule does_bind [where Q = "\<lambda>_ _ cs. \<forall>c \<in> set cs. \<not> A (fst c)"]) auto

lemma secures_try:
  "\<lbrakk>secures A B m; \<And>e. does (h e) (\<lambda>r cs. (\<forall>c \<in> set cs. \<not> A (fst c)) \<and> (\<forall>a. r \<noteq> Ret (Ok a)))\<rbrakk> \<Longrightarrow>
     secures A B (tryM m h)"
  unfolding secures_def
  by (erule does_try [where Q = "\<lambda>_ r cs. (\<forall>c \<in> set cs. \<not> A (fst c)) \<and> (\<forall>a. r \<noteq> Ret (Ok a))"]) auto

lemma secures_bindR:
  assumes "secures A B m" and "\<And>a. never A (f a)"
  shows "secures A B (bindR m f)"
  unfolding bindR_def secures_def
proof (rule does_bind [OF assms(1) [unfolded secures_def]])
  fix r
  show "does (onOk r f) (\<lambda>r' cs. (\<forall>c \<in> set cs. \<not> A (fst c)) \<and> (\<forall>a. r' = Ret (Ok a) \<longrightarrow> (\<exists>b. r = Ok b)))"
    using assms(2) by (cases r) (auto simp: onOk_def never_def ret_def elim: does_weaken intro: does_local)
qed auto

lemma guarded_secured:
  assumes "secures A B m" and "\<And>a. tracked (f a)"
  shows "guarded A B (bindR m f)"
  unfolding bindR_def guarded_def
proof (rule does_bind [OF assms(1) [unfolded secures_def]])
  fix r
  show "does (onOk r f) (\<lambda>_ cs. (\<exists>b. r = Ok b) \<or> cs = [])"
    using assms(2) by (cases r) (auto simp: onOk_def never_def ret_def elim: does_weaken intro: does_local)
qed (auto simp: only_after_append only_after_never)

lemma call_secures:
  "\<lbrakk>\<not> A c; B (c, True)\<rbrakk> \<Longrightarrow>
     does (io c act) (\<lambda>r cs. (\<forall>c \<in> set cs. \<not> A (fst c)) \<and> (\<forall>a. r = Ret a \<longrightarrow> (\<exists>c \<in> set cs. B c)))"
  by (rule does_io) simp_all

definition calls_of :: "('p, 'a) act \<Rightarrow> 'p world \<Rightarrow> (call \<times> bool) list" where
  "calls_of m w = drop (length (trace w)) (trace (snd (m w)))"

lemma does_calls: "does m Q \<Longrightarrow> Q (fst (m w)) (calls_of m w)"
  by (auto simp: does_def calls_of_def dest: spec [of _ w])

lemma guarded_calls: "guarded A B m \<Longrightarrow> only_after A B (calls_of m w)"
  unfolding guarded_def by (rule does_calls)

lemma never_calls_of: "never A m \<Longrightarrow> list_all (\<lambda>c. \<not> A (fst c)) (calls_of m w)"
  using does_calls [of m "\<lambda>_ cs. \<forall>c \<in> set cs. \<not> A (fst c)" w] by (simp add: never_def list_all_iff)

fun writes :: "call \<Rightarrow> bool" where
  "writes (CWrite items) = True"
| "writes _ = False"

fun snapped :: "call \<times> bool \<Rightarrow> bool" where
  "snapped (CCreateSnapshot v retain, ok) = ok"
| "snapped _ = False"

fun retained :: "call \<times> bool \<Rightarrow> bool" where
  "retained (CCreateSnapshot v retain, ok) \<longleftrightarrow> ok \<and> retain"
| "retained (CTagSnapshot j, ok) \<longleftrightarrow> ok"
| "retained _ \<longleftrightarrow> False"

text \<open>What ends a session: its task stopped, or its record terminated.\<close>

fun ends :: "call \<Rightarrow> bool" where
  "ends (CStopTask t) = True"
| "ends (CWrite (TxPatch i a cl v # rest)) \<longleftrightarrow> state a = Terminated"
| "ends _ = False"

lemma secures_snapshotForTransition:
  "secures writes snapped (snapshotForTransition d i vol v)"
  unfolding snapshotForTransition_def createSnapshot_def
proof (rule secures_try [OF secures_bind [OF call_secures]])
  show "does (bindM (svc_find d i) (\<lambda>current.
          if isResourceGoneError e \<or> map_option snd current \<noteq> Some v then
            ret (Err (Conflict (''snapshot of '' @ i @ '' lost a concurrent update'')))
          else raise e)) (\<lambda>r cs. (\<forall>c \<in> set cs. \<not> writes (fst c)) \<and> (\<forall>a. r \<noteq> Ret (Ok a)))" for e
    by (rule does_bind [OF never_calls(11) [of writes i d, unfolded never_def],
          where Q = "\<lambda>_ r cs. cs = [] \<and> (\<forall>a. r \<noteq> Ret (Ok a))"])
      (auto intro: does_local simp: ret_def raise_def)
qed (auto intro: never_intros)

lemma secures_retain_snapshot:
  assumes "volumeId ws \<noteq> None \<or> latestSnapshotId ws \<noteq> None" and "state ws = Deleting"
  shows "secures ends retained (retain_snapshot d i ws v at)"
  unfolding retain_snapshot_def createSnapshot_def tagSnapshotRetained_def Let_def
proof (rule secures_try)
  have st: "state (recordSnapshot ws n at) = Deleting" for n
    using assms(2) by (simp add: recordSnapshot_def)
  show "secures ends retained
       (if volumeId ws \<noteq> None \<and> needsFreshTeardownSnapshot ws then
          bindM (io (CCreateSnapshot (the (volumeId ws)) True)
            (\<lambda>s. provider (d_createSnapshot d (Iso (clockMs s)) (the (volumeId ws)) True (Some (wsId ws))) s))
            (\<lambda>snap. bindM (persistTransition d (recordSnapshot ws (snap_id snap) at) v None)
              (\<lambda>_. ret (Ok (recordSnapshot ws (snap_id snap) at, v + 1))))
        else (case latestSnapshotId ws of
             Some s \<Rightarrow> bindM (io (CTagSnapshot s) (provider (d_tagSnapshotRetained d s))) (\<lambda>_. ret (Ok (ws, v)))
           | None \<Rightarrow> ret (Ok (ws, v))))"
    using assms
    by (auto simp: needsFreshTeardownSnapshot_def st split: option.splits
        intro!: secures_bind call_secures never_intros)
qed (auto intro: does_local simp: ret_def)

lemma secures_snapshotBeforeStop:
  "volumeId ws \<noteq> None \<Longrightarrow> secures writes snapped (snapshotBeforeStop d i ws v at)"
  unfolding snapshotBeforeStop_def
  by (auto intro!: secures_bindR secures_snapshotForTransition never_intros)

lemma guarded_stop_writes:
  assumes "volumeId ws \<noteq> None"
  shows "guarded writes snapped (stop_loaded d i actor ms (ws, v))"
  unfolding stop_loaded_def prod.case
  by (rule guarded_cases(1-4) guarded_cases(5) guarded_secured
      secures_snapshotBeforeStop [OF assms] never_intros
    | (rule guarded_bind, rule never_local(3)) | simp)+

lemma guarded_stop_loaded: "guarded stops (wrote Stopped) (stop_loaded d i actor ms (ws, v))"
  unfolding stop_loaded_def snapshotBeforeStop_def snapshotForTransition_def
  by (rule guarded_intros guarded_persist_or | simp only: split_beta
    | (simp add: stopped_state; fail) | (rule guarded_never; rule never_intros) | rule never_intros)+

lemma guarded_teardown:
  assumes "volumeId ws \<noteq> None \<or> latestSnapshotId ws \<noteq> None" and "state ws = Deleting"
  shows "guarded ends retained (teardown_loaded d i (ws, v))"
  unfolding teardown_loaded_def fst_conv snd_conv Let_def
  by (rule guarded_cases(1-4) guarded_cases(5) guarded_secured
      secures_retain_snapshot [OF assms] never_intros
    | (rule guarded_bind, rule never_local(3)) | simp only: split_beta | simp)+

fun reaps :: "call \<Rightarrow> bool" where
  "reaps (CDeleteSnapshot j) = True"
| "reaps _ = False"

fun removed :: "string \<Rightarrow> int \<Rightarrow> call \<times> bool \<Rightarrow> bool" where
  "removed i v (CWrite (TxDelete j u # rest), ok) \<longleftrightarrow> ok \<and> j = i \<and> u = v"
| "removed i v _ \<longleftrightarrow> False"

lemma guarded_purge: "guarded reaps (removed i v) (purgeTombstoneRecord d i latest v reason actor)"
  unfolding purgeTombstoneRecord_def
proof (rule guarded_bind [OF never_auditItem])
  fix ev
  let ?m = "case ev of
              Some e \<Rightarrow> bindM (writeTransaction d [TxDelete i v, TxEvent e]) (\<lambda>r. ret (r = None))
            | None \<Rightarrow> bindM (writeOne d (TxDelete i v)) (\<lambda>_. ret True)"
  let ?P = "\<lambda>r cs. (\<forall>c \<in> set cs. \<not> reaps (fst c)) \<and> (r = Ret True \<longrightarrow> (\<exists>c \<in> set cs. removed i v c))"
  have tx: "does (writeTransaction d [TxDelete i v, TxEvent e]) (\<lambda>r cs. (\<forall>c \<in> set cs. \<not> reaps (fst c)) \<and>
      (r = Ret None \<longrightarrow> (\<exists>c \<in> set cs. removed i v c)))" for e
    unfolding writeTransaction_def by (rule does_perform) auto
  have one: "does (writeOne d (TxDelete i v)) (\<lambda>r cs. (\<forall>c \<in> set cs. \<not> reaps (fst c)) \<and>
      (r = Ret () \<longrightarrow> (\<exists>c \<in> set cs. removed i v c)))"
    unfolding writeOne_def by (rule does_io) auto
  have "does ?m ?P"
  proof (cases ev)
    case None
    have "does (bindM (writeOne d (TxDelete i v)) (\<lambda>_. ret True)) ?P"
      by (rule does_bind [OF one, where Q = "\<lambda>_ r cs. cs = []"]) (auto intro: does_local simp: ret_def)
    then show ?thesis by (simp add: None)
  next
    case (Some e)
    have "does (bindM (writeTransaction d [TxDelete i v, TxEvent e]) (\<lambda>r. ret (r = None))) ?P"
      by (rule does_bind [OF tx, where Q = "\<lambda>a r cs. cs = [] \<and> r = Ret (a = None)"])
        (auto intro: does_local simp: ret_def)
    then show ?thesis by (simp add: Some)
  qed
  then show "guarded reaps (removed i v) (bindM ?m (\<lambda>removed. if \<not> removed then ret False
       else bindM (case latest of None \<Rightarrow> ret ()
                | Some s \<Rightarrow> tryM (deleteSnapshot d s) (\<lambda>e. if isResourceGoneError e then ret () else raise e))
           (\<lambda>_. ret True)))"
    unfolding guarded_def
  proof (rule does_bind [where Q = "\<lambda>b _ cs. b \<or> cs = []"])
    fix b
    have "tracked (bindM (case latest of None \<Rightarrow> ret ()
          | Some s \<Rightarrow> tryM (deleteSnapshot d s) (\<lambda>e. if isResourceGoneError e then ret () else raise e))
        (\<lambda>_. ret True))"
      by (rule never_intros | simp)+
    then show "does (if \<not> b then ret False
       else bindM (case latest of None \<Rightarrow> ret ()
                | Some s \<Rightarrow> tryM (deleteSnapshot d s) (\<lambda>e. if isResourceGoneError e then ret () else raise e))
           (\<lambda>_. ret True)) (\<lambda>_ cs. b \<or> cs = [])"
      by (auto simp: never_def ret_def elim: does_weaken intro: does_local)
  qed (auto simp: only_after_append only_after_never)
qed

section \<open>Compensation\<close>

fun binds :: "string \<Rightarrow> call \<times> bool \<Rightarrow> bool" where
  "binds t (CWrite (TxPatch i a cl v # rest), ok) \<longleftrightarrow> ok \<and> taskId a = Some t"
| "binds t _ \<longleftrightarrow> False"

text \<open>An action that does not return with a task neither bound to its record nor asked to stop.\<close>

fun settled :: "string \<Rightarrow> 'a outcome \<Rightarrow> (call \<times> bool) list \<Rightarrow> bool" where
  "settled t (Raise e) cs \<longleftrightarrow> True"
| "settled t (Ret a) cs \<longleftrightarrow> (\<exists>c \<in> set cs. fst c = CStopTask t \<or> binds t c)"

definition settles :: "string \<Rightarrow> ('p, 'a) act \<Rightarrow> bool" where
  "settles t m \<longleftrightarrow> does m (settled t)"

lemma settled_more: "settled t (Ret a) xs \<or> settled t r ys \<Longrightarrow> settled t r (xs @ ys)"
  by (cases r) auto

lemma settles_first: "\<lbrakk>settles t m; \<And>a. tracked (f a)\<rbrakk> \<Longrightarrow> settles t (bindM m f)"
  unfolding settles_def never_def
  by (erule does_bind [where Q = "\<lambda>_ _ _. True"]) (auto elim: does_weaken simp del: settled.simps(2) intro: settled_more)

lemma settles_later: "\<lbrakk>tracked m; \<And>a. settles t (f a)\<rbrakk> \<Longrightarrow> settles t (bindM m f)"
  unfolding settles_def never_def
  by (erule does_bind [where Q = "\<lambda>_. settled t"]) (auto intro!: settled_more)

lemma settles_try: "\<lbrakk>settles t m; \<And>e. settles t (h e)\<rbrakk> \<Longrightarrow> settles t (tryM m h)"
  unfolding settles_def
  by (erule does_try [where Q = "\<lambda>_. settled t"]) (auto intro!: settled_more)

lemma settled_stop: "\<exists>c \<in> set cs. fst c = CStopTask t \<Longrightarrow> settled t r cs"
  by (cases r) auto

lemma settles_stop: "settles t (stopTask d t)" "settles t (quietly (stopTask d t))"
proof -
  have stop: "does (stopTask d t) (\<lambda>_ cs. \<exists>c \<in> set cs. fst c = CStopTask t)"
    unfolding stopTask_def by (rule does_io) simp_all
  then show "settles t (stopTask d t)" unfolding settles_def by (rule does_weaken) (rule settled_stop)
  show "settles t (quietly (stopTask d t))"
    unfolding settles_def quietly_def
    by (rule does_try [OF stop, where Q = "\<lambda>_ r cs. cs = []"])
      (auto intro: does_local simp: ret_def intro!: settled_stop)
qed

lemma settles_bound:
  assumes "taskId ws = Some t"
  shows "settles t (persistTransition d ws v audit)"
proof -
  have "binds t (CWrite (transition_patch ws v # rest), True)" for rest
    using assms by (simp add: transition_attrs_def toWorkspaceDetail_eq)
  then show ?thesis
    unfolding settles_def by (intro does_weaken [OF does_persistTransition]) (metis (full_types) settled.elims(3) unit_eq)
qed

lemma settles_calls: "settles t m \<Longrightarrow> settled t (fst (m w)) (calls_of m w)"
  unfolding settles_def by (rule does_calls)

lemma provisioned_task: "markProvisioned ws vol t at host = Ok ws' \<Longrightarrow> taskId ws' = Some t"
  by (auto simp: markProvisioned_def noPlacementWait_def result_map_Ok_iff)

lemma provisioning_binds: "state ws = Provisioning \<Longrightarrow> \<exists>ws'. markProvisioned ws vol t at host = Ok ws'"
  by (simp add: markProvisioned_def TRANSITIONS_event_simps)

lemma settles_commit_wake: "settles (task_id task) (commit_wake d i ws at actor task)"
  unfolding commit_wake_def
  by (rule settles_later)
    (auto split: option.split result.split intro!: settles_first settles_try settles_stop(1)
      settles_bound never_intros dest: provisioned_task)

lemma settles_bind_launched: "settles (task_id task) (bind_launched d i task)"
proof -
  have bind: "settles (task_id task)
      (onOk (markProvisioned ws vol (task_id task) at host) (\<lambda>bound.
         tryM (bindM (persistTransition d bound v None) (\<lambda>_. ret (Ok (toWorkspaceDto bound))))
           (\<lambda>e. bindM (quietly (stopTask d (task_id task))) (\<lambda>_.
              if isVersionConflict e then ret (Err (Conflict why)) else raise e))))"
    if "state ws = Provisioning" for ws v at vol host why
    using provisioning_binds [OF that, of vol "task_id task" at host]
    by (auto simp: onOk_def intro!: settles_try settles_first settles_stop(2) settles_bound never_intros
        dest: provisioned_task)
  show ?thesis
    unfolding bind_launched_def
    by (rule settles_later, rule never_local, rule settles_later)
      (auto split: option.split intro!: bind settles_first settles_stop(2) never_intros)
qed

section \<open>Properties\<close>

text \<open>
  C9. A wake launches once. Whatever the schedule, an explicit start asks for a task only
  after its own claim, the conditional write that puts the workspace in provisioning, was
  applied; a caller that loses that write launches nothing.
\<close>

theorem start_claims_before_launch:
  "only_after launches (wrote Provisioning) (calls_of (svc_start d i actor) w)"
  by (rule guarded_calls [OF guarded_start])


text \<open>
  C12. Scale to zero releases last. Whatever the schedule, the stop of a workspace that was
  loaded with a volume writes nothing before a snapshot of the volume was taken, and asks
  for the task to be stopped only after the stopped record was written.
\<close>

theorem stop_releases_last:
  assumes "volumeId ws \<noteq> None"
  shows "only_after writes snapped (calls_of (stop_loaded d i actor ms (ws, v)) w) \<and>
     only_after stops (wrote Stopped) (calls_of (stop_loaded d i actor ms (ws, v)) w)"
  using guarded_calls [OF guarded_stop_writes [OF assms]] guarded_calls [OF guarded_stop_loaded] by blast

text \<open>
  C13. A delete keeps the data. Whatever the schedule, the teardown of a deleting workspace
  that has a volume or a snapshot neither stops its task nor terminates its record before
  a snapshot with its files was taken with the retain tag, or its existing one was tagged.
\<close>

theorem teardown_retains_first:
  assumes "volumeId ws \<noteq> None \<or> latestSnapshotId ws \<noteq> None" and "state ws = Deleting"
  shows "only_after ends retained (calls_of (teardown_loaded d i (ws, v)) w)"
  by (rule guarded_calls [OF guarded_teardown [OF assms]])

text \<open>
  The purge removes the record first. Whatever the schedule, the snapshot of a tombstone
  is deleted only after the record was, under the version that was read: a tombstone that
  was undeleted in between keeps its snapshot.
\<close>

theorem purge_removes_record_first:
  "only_after reaps (removed i v) (calls_of (purgeTombstoneRecord d i latest v reason actor) w)"
  by (rule guarded_calls [OF guarded_purge])


section \<open>Concrete runs\<close>

text \<open>A session created on the fakes, and what the stop and the teardown of it call.\<close>

definition created_world :: "fake_cloud world" where
  "created_world = snd (svc_create fake_deps sample_input sample_world)"

lemma created_quiet: "schedule created_world = []"
proof -
  have "(case schedule created_world of [] \<Rightarrow> True | _ \<Rightarrow> False)" by code_simp
  then show ?thesis by (simp split: list.splits)
qed

lemma created_record:
  "case lookup (sys created_world) ''ws-'' of
     None \<Rightarrow> False
   | Some (r, v) \<Rightarrow>
       (case toWorkspace r of
          Inl _ \<Rightarrow> False
        | Inr ws \<Rightarrow> state ws = Running \<and> taskId ws = Some ''task-x'' \<and> volumeId ws = Some ''vol-'')"
  by code_simp

lemma created_cloud:
  "cloud (sys created_world) =
     \<lparr>storage = \<lparr>volumeDirs = [(''vol-'', [])],
        volumeMetas = [(''vol-'', \<lparr>vm_createdAt = Iso 0, vm_sizeGiB = 8\<rparr>)],
        snapshotDirs = [], snapshotMetas = [], uuidsDrawn = 2\<rparr>,
      taskVolumes = [(''task-x'', ''vol-'')], placementRefusals = 0, fixedSshHost = None\<rparr>"
  by code_simp

lemma created_ok: "ok_world fake_deps created_world"
  unfolding created_world_def
  by (rule kept_create [THEN conjunct1])
    (use sample_admitted in \<open>simp_all add: admitted_def\<close>)

theorem stop_releases_last_witness:
  "volumeId (sample_ws\<lparr>volumeId := Some ''vol-''\<rparr>) \<noteq> None \<and>
   only_after writes snapped
     (calls_of (stop_loaded fake_deps ''ws-'' ''u1'' None (sample_ws\<lparr>volumeId := Some ''vol-''\<rparr>, 1))
       created_world)"
  using stop_releases_last [of "sample_ws\<lparr>volumeId := Some ''vol-''\<rparr>" fake_deps "''ws-''" "''u1''" None 1 created_world]
  by simp

theorem teardown_retains_first_witness:
  "only_after ends retained
     (calls_of (teardown_loaded fake_deps ''ws-''
        (sample_ws\<lparr>state := Deleting, volumeId := Some ''vol-''\<rparr>, 1)) created_world)"
  by (rule teardown_retains_first) simp_all

end
