(* ===== verification/Service_Functional.thy ===== *)
theory Service_Functional
  imports Service_Trace "HOL-Library.Multiset"
begin

text \<open>
  What the operations of the service achieve: the waiting loop ends, retries are bounded,
  the quota is enforced and its counters converge, the keep-set of garbage collection is
  complete, a restore takes only own snapshots, and a session scaled to zero comes back
  with its files. \<open>quiet\<close> runs are those without interference and without failing calls.
\<close>

section \<open>The waiting loop\<close>

definition clock_runs :: "'p world \<Rightarrow> bool" where
  "clock_runs w \<longleftrightarrow> (\<forall>t \<in> set (schedule w). \<forall>s. wallMs s \<le> wallMs (others t s))"

lemma perform_clock:
  assumes "clock_runs w" and "\<And>s. wallMs s \<le> wallMs (snd (act s))"
  shows "clock_runs (snd (perform c good cancel act w)) \<and>
    wallMs (sys w) \<le> wallMs (sys (snd (perform c good cancel act w)))"
  using assms order_trans [OF _ assms(2)]
  by (cases "schedule w")
    (auto simp: perform_def record_call_def clock_runs_def Let_def split: fault.split option.split)

lemma find_clock:
  assumes "clock_runs w"
  shows "clock_runs (snd (svc_find d i w)) \<and> wallMs (sys w) \<le> wallMs (sys (snd (svc_find d i w)))"
proof -
  have "snd (svc_find d i w) = snd (io (CGet i) (reading (\<lambda>s. lookup s i)) w)"
    by (simp add: svc_find_def bindM_def liftE_def ret_def raise_def
        split: prod.split outcome.split option.split sum.split)
  then show ?thesis
    unfolding io_def using perform_clock [OF assms, of "reading (\<lambda>s. lookup s i)"]
    by (simp add: reading_def)
qed

lemma sleep_clock:
  assumes "clock_runs w" and "sleep ms w = (Ret (), w')" and "0 \<le> ms"
  shows "clock_runs w' \<and> wallMs (sys w) + ms \<le> wallMs (sys w')"
  using assms
  by (cases "schedule w")
    (auto simp: sleep_def io_def perform_def record_call_def clock_runs_def Let_def
      split: fault.splits)

lemma more_fuel:
  assumes "clock_runs w" and "deadline - wallMs (sys w) \<le> WAKE_POLL_INTERVAL_MS * int n"
  shows "awaitWoken_loop (Suc n + m) d i deadline w = awaitWoken_loop (Suc n) d i deadline w"
  using assms
proof (induction n arbitrary: w)
  case (Suc n)
  obtain r w1 where find: "svc_find d i w = (r, w1)" by fastforce
  then have w1: "clock_runs w1" "wallMs (sys w) \<le> wallMs (sys w1)"
    using find_clock [OF Suc.prems(1), of d i] by simp_all
  have "bindM (sleep WAKE_POLL_INTERVAL_MS) (\<lambda>_. awaitWoken_loop (Suc n + m) d i deadline) w1 =
        bindM (sleep WAKE_POLL_INTERVAL_MS) (\<lambda>_. awaitWoken_loop (Suc n) d i deadline) w1"
  proof (cases "sleep WAKE_POLL_INTERVAL_MS w1")
    case (Pair q w2)
    show ?thesis
    proof (cases q)
      case (Ret u)
      have "clock_runs w2 \<and> wallMs (sys w1) + WAKE_POLL_INTERVAL_MS \<le> wallMs (sys w2)"
        using sleep_clock [OF w1(1)] Pair Ret poll_nonneg by simp
      with Suc.prems(2) w1(2) have "clock_runs w2" "deadline - wallMs (sys w2) \<le> WAKE_POLL_INTERVAL_MS * int n"
        by (auto simp: algebra_simps)
      from Suc.IH [OF this] Pair Ret show ?thesis by (simp add: bindM_def)
    qed (use Pair in \<open>simp add: bindM_def\<close>)
  qed
  with find show ?case
    by (simp add: bindM_def dateNow_def split: outcome.split option.split prod.split)
next
  case 0
  obtain r w1 where find: "svc_find d i w = (r, w1)" by fastforce
  then have "wallMs (sys w) \<le> wallMs (sys w1)" using find_clock [OF 0(1), of d i] by simp
  with 0(2) have "deadline \<le> wallMs (sys w1)" by simp
  with find show ?case
    by (simp add: bindM_def dateNow_def split: outcome.split option.split prod.split)
qed

text \<open>
  C20. Waiting for a wake ends. With a wall clock that never runs backwards, whatever else
  the schedule does, 721 polls are enough: more of them do not change the answer.
\<close>

theorem awaitWoken_terminates:
  assumes "clock_runs w" and "WAKE_POLLS \<le> polls"
  shows "awaitWoken_loop polls d i (wallMs (sys w) + WAKE_WAIT_TIMEOUT_MS) w = awaitWoken d i w"
proof -
  have "polls = Suc 720 + (polls - WAKE_POLLS)" using assms(2) by (simp add: WAKE_POLLS_def)
  then show ?thesis
    using more_fuel [OF assms(1), of "wallMs (sys w) + WAKE_WAIT_TIMEOUT_MS" 720 "polls - WAKE_POLLS" d i]
    by (simp add: awaitWoken_def bindM_def dateNow_def WAKE_POLLS_def WAKE_WAIT_TIMEOUT_MS_def
        WAKE_POLL_INTERVAL_MS_def del: awaitWoken_loop.simps)
qed

theorem awaitWoken_terminates_witness:
  "clock_runs created_world \<and>
   awaitWoken_loop 1000 fake_deps ''ws-'' (wallMs (sys created_world) + WAKE_WAIT_TIMEOUT_MS) created_world =
     awaitWoken fake_deps ''ws-'' created_world"
proof -
  have "clock_runs created_world" using created_quiet by (simp add: clock_runs_def)
  then show ?thesis using awaitWoken_terminates [of created_world 1000 fake_deps "''ws-''"]
    by (simp add: WAKE_POLLS_def)
qed

section \<open>Bounded retries\<close>

definition written_at_most :: "nat \<Rightarrow> ('p, 'a) act \<Rightarrow> bool" where
  "written_at_most n m \<longleftrightarrow> does m (\<lambda>_ cs. length (filter (writes \<circ> fst) cs) \<le> n)"

lemma written_never: "never writes m \<Longrightarrow> written_at_most n m"
  unfolding written_at_most_def never_def by (erule does_weaken) (simp add: filter_False)

lemma written_bind: "\<lbrakk>never writes m; \<And>a. written_at_most n (f a)\<rbrakk> \<Longrightarrow> written_at_most n (bindM m f)"
  unfolding written_at_most_def never_def
  by (erule does_bind [where Q = "\<lambda>_ _ cs. length (filter (writes \<circ> fst) cs) \<le> n"]) (auto simp: filter_False)

lemma written_bindR: "\<lbrakk>never writes m; \<And>a. written_at_most n (f a)\<rbrakk> \<Longrightarrow> written_at_most n (bindR m f)"
  unfolding bindR_def
  by (rule written_bind) (auto simp: onOk_def intro: written_never never_intros split: result.split)

lemma written_persist: "written_at_most 1 (persistTransition d ws v audit)"
  unfolding written_at_most_def
  by (rule does_weaken [OF does_persistTransition]) (meson length_filter_le order_trans)

lemma written_persist_or:
  assumes "written_at_most n conflict" and "never writes continue"
  shows "written_at_most (Suc n) (persist_or d ws v audit conflict continue)"
  unfolding persist_or_def written_at_most_def
proof (rule does_bind [where Q = "\<lambda>_ _ cs. length (filter (writes \<circ> fst) cs) \<le> n"])
  have "does (bindM (persistTransition d ws v audit) (\<lambda>_. ret True))
      (\<lambda>_ cs. length (filter (writes \<circ> fst) cs) \<le> 1)"
    by (rule does_bind [OF written_persist [unfolded written_at_most_def], where Q = "\<lambda>_ _ cs. cs = []"])
      (auto intro: does_local simp: ret_def)
  then show "does (tryM (bindM (persistTransition d ws v audit) (\<lambda>_. ret True))
      (\<lambda>e. if isVersionConflict e then ret False else raise e))
      (\<lambda>_ cs. length (filter (writes \<circ> fst) cs) \<le> 1)"
    by (rule does_try [where Q = "\<lambda>_ _ cs. cs = []"]) (auto intro: does_local simp: ret_def raise_def)
  show "does (if b then continue else conflict) (\<lambda>_ cs. length (filter (writes \<circ> fst) cs) \<le> n)" for b
    using assms written_never [OF assms(2), of n] by (auto simp: written_at_most_def)
qed auto

lemma written_cases:
  "\<lbrakk>written_at_most n m; written_at_most n m'\<rbrakk> \<Longrightarrow> written_at_most n (if b then m else m')"
  "\<lbrakk>\<And>x. written_at_most n (f x)\<rbrakk> \<Longrightarrow> written_at_most n (onOk y f)"
  "written_at_most n (ret a)"
  by (auto simp: onOk_def intro: written_never never_intros split: result.split)

lemma written_case_option:
  "\<lbrakk>written_at_most n m; \<And>x. written_at_most n (f x)\<rbrakk> \<Longrightarrow>
     written_at_most n (case z of None \<Rightarrow> m | Some x \<Rightarrow> f x)"
  by (auto split: option.split)

lemmas written_intros = written_bindR written_bind written_cases written_case_option written_persist_or

lemma written_heartbeat: "written_at_most (Suc n) (heartbeat_loop n d i rep)"
proof (induction n)
  case 0
  show ?case
    unfolding heartbeat_loop.simps [of 0]
    by (rule written_intros never_intros | simp only: split_beta Let_def nat.case | simp)+
next
  case (Suc n)
  note IH = Suc
  show ?case
    unfolding heartbeat_loop.simps [of "Suc n"]
    by (rule IH written_intros never_intros | simp only: split_beta Let_def nat.case | simp)+
qed

lemma written_snapshot_loop: "written_at_most (Suc n) (snapshot_loop n d i before snap at)"
proof (induction n)
  case 0
  show ?case
    unfolding snapshot_loop.simps [of 0]
    by (rule written_intros never_intros | simp only: split_beta Let_def nat.case | simp)+
next
  case (Suc n)
  note IH = Suc
  show ?case
    unfolding snapshot_loop.simps [of "Suc n"]
    by (rule IH written_intros never_intros | simp only: split_beta Let_def nat.case | simp)+
qed

lemma written_snapshot: "written_at_most 2 (svc_snapshot d i)"
  unfolding svc_snapshot_def snapshotForTransition_def
  by (rule written_snapshot_loop [of 1, simplified] written_intros never_intros
    | simp only: split_beta Let_def One_nat_def Suc_1 [symmetric] | simp)+

lemma written_calls: "written_at_most n m \<Longrightarrow> length (filter (writes \<circ> fst) (calls_of m w)) \<le> n"
  unfolding written_at_most_def by (rule does_calls)

text \<open>
  Retries are bounded: whatever conflicts it meets, a heartbeat and a point-in-time
  snapshot each try to write at most twice.
\<close>

theorem retries_are_bounded:
  "length (filter (writes \<circ> fst) (calls_of (svc_heartbeat d i rep) w)) \<le> 2 \<and>
   length (filter (writes \<circ> fst) (calls_of (svc_snapshot d i) w)) \<le> 2"
  using written_calls [OF written_heartbeat, of 1 d i rep w] written_calls [OF written_snapshot, of d i w]
  by (simp add: svc_heartbeat_def)

section \<open>Restoring a snapshot\<close>

lemma never_bind_fact:
  assumes m: "never A m" "\<And>w. R (fst (m w))" and f: "\<And>a. R (Ret a) \<Longrightarrow> never A (f a)"
  shows "never A (bindM m f)"
  unfolding never_def does_def
proof
  fix w
  obtain xs where xs: "trace (snd (m w)) = trace w @ xs" "\<forall>c \<in> set xs. \<not> A (fst c)"
    using m(1) by (auto simp: never_def does_def)
  show "\<exists>cs. trace (snd (bindM m f w)) = trace w @ cs \<and> (\<forall>c \<in> set cs. \<not> A (fst c))"
  proof (cases "m w")
    case (Pair r w')
    show ?thesis
    proof (cases r)
      case (Ret a)
      then have "never A (f a)" using f m(2) [of w] Pair by simp
      then obtain ys where "trace (snd (f a w')) = trace w' @ ys" "\<forall>c \<in> set ys. \<not> A (fst c)"
        by (auto simp: never_def does_def)
      with xs Pair Ret show ?thesis by (auto simp: bindM_def)
    qed (use xs Pair in \<open>auto simp: bindM_def\<close>)
  qed
qed

lemma listed: "fst (listSnapshots d w) = Ret all \<Longrightarrow> \<exists>c c'. d_listSnapshots d c = (Inr all, c')"
  by (auto simp: listSnapshots_def io_def perform_def record_call_def provider_def Let_def
      split: list.splits fault.splits prod.splits sum.splits)


definition foreign_snapshot :: snapshot_ref where
  "foreign_snapshot = \<lparr>sr_id = ''snap-1'', sr_createdAt = Iso 0, sr_sourceVolumeId = ''vol-1'',
     sr_retained = None, sr_workspaceId = Some ''ws-2'', sr_sizeGiB = None\<rparr>"


section \<open>Runs without interference\<close>

text \<open>What the calls do when no other actor runs and none of them fails.\<close>

definition quiet :: "'p world \<Rightarrow> bool" where
  "quiet w \<longleftrightarrow> schedule w = []"

lemma quiet_io: "quiet w \<Longrightarrow> io c act w = record_call c (\<lambda>_. True) (act (sys w)) [] w"
  by (simp add: quiet_def io_def perform_def)

lemma quiet_records:
  assumes "quiet w"
  shows "\<exists>w'. recordsByStates d states w =
     (Ret (concat (map (\<lambda>st. filter (\<lambda>r. state (fst r) = st) (map snd (table (sys w)))) states)), w') \<and>
     quiet w' \<and> sys w' = sys w"
  using assms
proof (induction states arbitrary: w)
  case Nil
  then show ?case by (simp add: recordsByStates_def ret_def)
next
  case (Cons st states)
  let ?page = "filter (\<lambda>r. state (fst r) = st) (map snd (table (sys w)))"
  obtain w1 where page: "io (CQueryState st)
      (reading (\<lambda>s. filter (\<lambda>r. state (fst r) = st) (map snd (table s)))) w = (Ret ?page, w1)"
    "quiet w1" "sys w1 = sys w"
    using Cons.prems by (simp add: quiet_io reading_def record_call_def quiet_def)
  from Cons.IH [OF page(2)] obtain w2 where "recordsByStates d states w1 =
     (Ret (concat (map (\<lambda>st. filter (\<lambda>r. state (fst r) = st) (map snd (table (sys w)))) states)), w2)"
     "quiet w2" "sys w2 = sys w" by (auto simp: page(3))
  then show ?case using page(1)
    by (simp add: recordsByStates_def bindM_def ret_def)
qed

lemma all_states: "state r \<in> set WORKSPACE_STATES"
  by (cases "state r") (simp_all add: WORKSPACE_STATES_def)

lemma states_distinct: "distinct WORKSPACE_STATES"
  by (simp add: WORKSPACE_STATES_def)

lemma mset_by_states:
  "distinct states \<Longrightarrow> (\<forall>r \<in> set rs. f r \<in> set states) \<Longrightarrow>
     mset (concat (map (\<lambda>st. filter (\<lambda>r. f r = st) rs) states)) = mset rs"
proof (induction states arbitrary: rs)
  case (Cons st states)
  have "concat (map (\<lambda>s. filter (\<lambda>r. f r = s) rs) states) =
      concat (map (\<lambda>s. filter (\<lambda>r. f r = s) (filter (\<lambda>r. f r \<noteq> st) rs)) states)"
    using Cons.prems(1) by (auto intro!: arg_cong [of _ _ concat] map_cong filter_cong)
  moreover have "mset (concat (map (\<lambda>s. filter (\<lambda>r. f r = s) (filter (\<lambda>r. f r \<noteq> st) rs)) states)) =
      mset (filter (\<lambda>r. f r \<noteq> st) rs)"
    using Cons.prems by (intro Cons.IH) auto
  ultimately show ?case by (simp add: mset_filter flip: multiset_partition)
qed simp

lemma quiet_allRecords:
  assumes "quiet w"
  obtains rs w' where "allRecords d w = (Ret rs, w')" "mset rs = mset (map snd (table (sys w)))"
    "quiet w'" "sys w' = sys w"
proof -
  from quiet_records [OF assms, of d WORKSPACE_STATES] obtain w' where
    "allRecords d w = (Ret (concat (map (\<lambda>st. filter (\<lambda>r. state (fst r) = st) (map snd (table (sys w))))
       WORKSPACE_STATES)), w')" "quiet w'" "sys w' = sys w" by (auto simp: allRecords_def)
  moreover have "mset (concat (map (\<lambda>st. filter (\<lambda>r. state (fst r) = st) (map snd (table (sys w))))
       WORKSPACE_STATES)) = mset (map snd (table (sys w)))"
    by (rule mset_by_states) (auto simp: states_distinct all_states)
  ultimately show thesis using that by blast
qed

section \<open>Quota counters\<close>

lemma live_count_mset: "mset rs = mset rs' \<Longrightarrow> live_count o' rs = live_count o' rs'"
  unfolding live_count_def by (intro arg_cong [of _ _ int] mset_eq_length) (simp only: mset_filter)

lemma live_count_table:
  "mset rs = mset (map (fst \<circ> snd) t) \<Longrightarrow> live_count o' rs =
     int (length (filter (\<lambda>(i, r, v). ownerId r = o' \<and> state r \<noteq> Terminated) t))"
  by (subst live_count_mset [of _ "map (fst \<circ> snd) t"])
    (simp_all add: live_count_def filter_map o_def split_def)

lemma quiet_set_count:
  assumes "quiet w" and "map_of (ownerCounts (sys w)) o' = have"
  shows "\<exists>w'. io (CSetCount o' want) (set_count o' have want) w = (Ret (), w') \<and> quiet w' \<and>
     sys w' = (sys w)\<lparr>ownerCounts := AList.update o' want (ownerCounts (sys w))\<rparr>"
  using assms by (simp add: quiet_io set_count_def record_call_def quiet_def)

lemma quiet_correct_counts:
  assumes "quiet w" and "distinct owners"
    and "\<forall>o' \<in> set owners. map_of (ownerCounts (sys w)) o' = map_of stored o'"
  shows "\<exists>n w'. correct_counts rs stored owners k w = (Ret n, w') \<and>
     (\<forall>o'. map_of (ownerCounts (sys w')) o' =
        (if o' \<in> set owners then Some (live_count o' rs) else map_of (ownerCounts (sys w)) o')) \<and>
     table (sys w') = table (sys w)"
  using assms
proof (induction owners arbitrary: w k)
  case (Cons o' owners)
  show ?case
  proof (cases "map_of stored o' = Some (live_count o' rs)")
    case True
    from Cons.IH [OF Cons.prems(1), of k] Cons.prems True show ?thesis by fastforce
  next
    case False
    from quiet_set_count [OF Cons.prems(1), of o' "map_of stored o'" "live_count o' rs"] Cons.prems(3)
    obtain w1 where w1: "io (CSetCount o' (live_count o' rs))
        (set_count o' (map_of stored o') (live_count o' rs)) w = (Ret (), w1)" "quiet w1"
      "sys w1 = (sys w)\<lparr>ownerCounts := AList.update o' (live_count o' rs) (ownerCounts (sys w))\<rparr>" by auto
    have "\<forall>q \<in> set owners. map_of (ownerCounts (sys w1)) q = map_of stored q"
      using Cons.prems w1(3) by (auto simp: update_conv)
    from Cons.IH [OF w1(2) _ this, of "k + 1"] Cons.prems(2) obtain n w2 where
      "correct_counts rs stored owners (k + 1) w1 = (Ret n, w2)"
      "\<forall>q. map_of (ownerCounts (sys w2)) q =
        (if q \<in> set owners then Some (live_count q rs) else map_of (ownerCounts (sys w1)) q)"
      "table (sys w2) = table (sys w1)" by auto
    with w1 False show ?thesis
      by (auto simp: Let_def bindM_def tryM_def ret_def update_conv)
  qed
qed (simp add: ret_def)

text \<open>
  C19. The counter sweep converges. When nothing interferes, the reconciliation of the quota
  counters returns and leaves, for every owner, a counter that agrees with the number of
  workspaces the owner has that are not terminated (an absent counter counts as zero),
  and the workspaces as they were.
\<close>

theorem owner_counts_converge:
  assumes "schedule w = []" and "hasOwnerCounts d"
  shows "\<exists>n w'. reconcileOwnerCounts d w = (Ret n, w') \<and> table (sys w') = table (sys w) \<and>
     (\<forall>o'. orElse (map_of (ownerCounts (sys w')) o') 0 =
        int (length (filter (\<lambda>(i, r, v). ownerId r = o' \<and> state r \<noteq> Terminated) (table (sys w)))))"
proof -
  have "quiet w" using assms(1) by (simp add: quiet_def)
  then obtain rs w1 where rs: "allRecords d w = (Ret rs, w1)" "mset rs = mset (map snd (table (sys w)))"
    "quiet w1" "sys w1 = sys w" by (rule quiet_allRecords)
  let ?rs = "map fst rs" and ?stored = "ownerCounts (sys w)"
  obtain w2 where w2: "io CScanCounts (reading ownerCounts) w1 = (Ret ?stored, w2)" "quiet w2" "sys w2 = sys w"
    using rs(3,4) by (simp add: quiet_io reading_def record_call_def quiet_def)
  have "distinct (count_owners ?rs ?stored)" by (simp add: count_owners_def)
  from quiet_correct_counts [OF w2(2) this, of ?stored ?rs 0] w2(3) obtain n w3 where
    w3: "correct_counts ?rs ?stored (count_owners ?rs ?stored) 0 w2 = (Ret n, w3)"
    "\<forall>o'. map_of (ownerCounts (sys w3)) o' = (if o' \<in> set (count_owners ?rs ?stored)
       then Some (live_count o' ?rs) else map_of ?stored o')" "table (sys w3) = table (sys w)" by auto
  have "mset ?rs = mset (map (fst \<circ> snd) (table (sys w)))"
    using rs(2) by (metis map_map mset_map)
  then have live: "live_count o' ?rs =
      int (length (filter (\<lambda>(i, r, v). ownerId r = o' \<and> state r \<noteq> Terminated) (table (sys w))))" for o'
    by (rule live_count_table)
  have "orElse (map_of (ownerCounts (sys w3)) o') 0 = live_count o' ?rs" for o'
  proof (cases "o' \<in> set (count_owners ?rs ?stored)")
    case False
    then have "live_count o' ?rs = 0" "map_of ?stored o' = None"
      by (auto simp: count_owners_def live_count_def map_of_eq_None_iff filter_empty_conv)
    with w3(2) False show ?thesis by (simp add: orElse_def)
  qed (use w3(2) in \<open>simp add: orElse_def\<close>)
  with rs w2 w3 assms(2) live show ?thesis
    by (simp add: reconcileOwnerCounts_def bindM_def Let_def)
qed


theorem owner_counts_converge_witness:
  "\<exists>n w'. reconcileOwnerCounts fake_deps created_world = (Ret n, w') \<and>
     orElse (map_of (ownerCounts (sys w')) ''u1'') 0 =
       int (length (filter (\<lambda>(i, r, v). ownerId r = ''u1'' \<and> state r \<noteq> Terminated) (table (sys created_world))))"
  using owner_counts_converge [OF created_quiet, of fake_deps] by (auto simp: fake_deps_def)

definition under_cap :: "string \<Rightarrow> int \<Rightarrow> 'p sys \<Rightarrow> bool" where
  "under_cap o' limit s \<longleftrightarrow> orElse (map_of (ownerCounts s) o') 0 \<le> limit"

lemma cap_commit:
  assumes "under_cap o' limit s" and "1 \<le> limit"
  shows "under_cap o' limit (snd (commit_items sub [TxCreate item, TxEvent e, TxAddCount o' (Some limit)] s))"
  using assms
  by (auto simp: commit_items_def Let_def under_cap_def add_count_def orElse_def put_record_def
      log_move_def update_conv split: option.splits if_splits)

lemma cap_perform:
  assumes "P (sys w)" and "\<And>t s. \<lbrakk>t \<in> set (schedule w); P s\<rbrakk> \<Longrightarrow> P (others t s)"
    and "\<And>s. P s \<Longrightarrow> P (snd (act s))"
  shows "P (sys (snd (perform c good cancel act w)))"
  using assms
  by (cases "schedule w")
    (auto simp: perform_def record_call_def Let_def split: fault.split option.split)

text \<open>
  C18. The quota holds under concurrency. Let an owner's counter be at most the limit, and let
  no other actor push it over: whatever the schedule, a creation under that limit does not
  either, because the counter is checked and raised in the transaction that writes the
  record.
\<close>

theorem quota_cap_invariant:
  assumes "under_cap (ownerId ws) limit (sys w)" and "1 \<le> limit" and "hasAudit d" and "hasOwnerCounts d"
    and "\<And>t s. \<lbrakk>t \<in> set (schedule w); under_cap (ownerId ws) limit s\<rbrakk> \<Longrightarrow>
      under_cap (ownerId ws) limit (others t s)"
  shows "under_cap (ownerId ws) limit (sys (snd (persistNew d ws audit (Some limit) w)))"
proof -
  let ?P = "under_cap (ownerId ws) limit"
  obtain e w1 where ev: "auditItem d audit w = (Ret (Some e), w1)"
    and w1: "schedule w1 = schedule w" "ownerCounts (sys w1) = ownerCounts (sys w)"
    using assms(3) by (simp add: auditItem_def bindM_def randomUUID_def now_def ret_def)
  let ?items = "[TxCreate (spread_attrs ws), TxEvent e, TxAddCount (ownerId ws) (Some limit)]"
  have "?P (sys w1)" using assms(1) w1(2) by (simp add: under_cap_def)
  then have "?P (sys (snd (writeTransaction d ?items w1)))"
    unfolding writeTransaction_def
    by (rule cap_perform)
      (use assms(2,5) w1(1) cap_commit in \<open>auto simp: case_prod_beta\<close>)
  with \<open>?P (sys w1)\<close> show ?thesis
    using ev assms(4)
    by (auto simp: persistNew_def Let_def bindM_def validate_def ret_def raise_def
        split: option.split outcome.split prod.split)
qed

theorem quota_cap_invariant_witness:
  "under_cap (ownerId sample_ws) 2 (sys (snd (persistNew fake_deps sample_ws
     (mk_audit SessionCreate ''ws-1'' ''o-1'' ''new'') (Some 2) sample_world)))"
  by (rule quota_cap_invariant)
    (simp_all add: under_cap_def sample_world_def empty_sys_def fake_deps_def orElse_def)

text \<open>At the limit the creation is refused as a quota error and nothing is written.\<close>

lemma quota_refused:
  assumes "schedule w = []" and "hasAudit d" and "hasOwnerCounts d"
    and "schemaError d (spread_attrs ws) = None" and "lookup (sys w) (wsId ws) = None"
    and "map_of (ownerCounts (sys w)) (ownerId ws) = Some c" and "limit \<le> c"
  shows "\<exists>e w'. persistNew d ws audit (Some limit) w = (Raise e, w') \<and> isQuotaExceeded e \<and>
     table (sys w') = table (sys w) \<and> ownerCounts (sys w') = ownerCounts (sys w) \<and>
     ledger (sys w') = ledger (sys w)"
  using assms
  by (simp add: persistNew_def Let_def bindM_def auditItem_def randomUUID_def now_def ret_def validate_def
      raise_def writeTransaction_def perform_def record_call_def commit_items_def canceledCreateError_def
      CONDITION_FAILED_def FATAL_TX_CODES_def isQuotaExceeded_def QuotaExceededError_def plain_error_def
      lookup_def)

section \<open>Retention\<close>

text \<open>
  The two windows meet. At any instant, the sweep purges a tombstone exactly when the
  undelete of it is refused because the retention has passed: no tombstone that could
  still be restored is purged, and none that cannot is kept for it.
\<close>

theorem retention_windows_agree:
  assumes "toWorkspace r = Inr ws"
  shows "purge_expired r (Iso n) ms \<longleftrightarrow> retention_passed ws (Iso n) ms"
proof -
  have same: "terminatedAt ws = terminatedAt r" "lastActivity ws = lastActivity r"
    using assms by (auto simp: toWorkspace_def map_fields_def split: option.splits sum.splits)
  show ?thesis
    by (cases "orElse (terminatedAt r) (lastActivity r)")
      (auto simp: purge_expired_def retention_passed_def same)
qed

theorem retention_windows_agree_witness:
  "purge_expired (transition_attrs sample_ws) (Iso 99) 5 \<longleftrightarrow>
     retention_passed (toWorkspaceDetail sample_ws) (Iso 99) 5"
  by (rule retention_windows_agree) (simp add: toWorkspace_transition_attrs)

section \<open>The keep-set\<close>

lemma in_map_filter: "x \<in> set (List.map_filter f xs) \<longleftrightarrow> (\<exists>y \<in> set xs. f y = Some x)"
  by (induction xs) (auto simp: map_filter_simps split: option.split)

lemma references_complete:
  assumes "(r, v) \<in> set rs"
  shows "volumeId r = Some x \<Longrightarrow> x \<in> set (fr_volumeIds (references_of rs))"
    and "latestSnapshotId r = Some x \<Longrightarrow> x \<in> set (fr_snapshotIds (references_of rs))"
    and "taskId r = Some x \<Longrightarrow> x \<in> set (fr_taskIds (references_of rs))"
    and "taskId r = Some x \<Longrightarrow> wsId r \<in> set (fr_secretWorkspaceIds (references_of rs))"
  using assms by (force simp: references_of_def in_map_filter)+

text \<open>
  The keep-set is complete when the table stands still: every volume, snapshot and task a
  stored record names, and the id of every record with a task, is in the references the
  collectors are given, and the read changes nothing.
\<close>

theorem keep_set_complete:
  assumes "schedule w = []"
  shows "\<exists>refs w'. listFleetReferences d w = (Ret refs, w') \<and> sys w' = sys w \<and>
     (\<forall>(i, r, v) \<in> set (table (sys w)).
        (\<forall>x. volumeId r = Some x \<longrightarrow> x \<in> set (fr_volumeIds refs)) \<and>
        (\<forall>x. latestSnapshotId r = Some x \<longrightarrow> x \<in> set (fr_snapshotIds refs)) \<and>
        (\<forall>x. taskId r = Some x \<longrightarrow> x \<in> set (fr_taskIds refs) \<and> wsId r \<in> set (fr_secretWorkspaceIds refs)))"
proof -
  have "quiet w" using assms by (simp add: quiet_def)
  then obtain rs w' where rs: "allRecords d w = (Ret rs, w')" "mset rs = mset (map snd (table (sys w)))"
    "sys w' = sys w" by (rule quiet_allRecords)
  have "set rs = snd ` set (table (sys w))"
    using rs(2) by (metis mset_eq_setD set_map)
  then have "(r, v) \<in> set rs" if "(i, r, v) \<in> set (table (sys w))" for i r v
    using that by force
  with rs show ?thesis
    by (auto simp: listFleetReferences_def bindM_def ret_def intro: references_complete)
qed

theorem keep_set_complete_witness:
  "\<exists>refs w'. listFleetReferences fake_deps created_world = (Ret refs, w') \<and> sys w' = sys created_world"
  using keep_set_complete [OF created_quiet, of fake_deps] by blast

section \<open>Stop, then start\<close>

lemma quiet_find:
  assumes "quiet w" and "lookup (sys w) i = Some (r, v)" and "toWorkspace r = Inr ws"
  shows "\<exists>w'. svc_find d i w = (Ret (Some (ws, v)), w') \<and> quiet w' \<and> sys w' = sys w"
  using assms by (simp add: svc_find_def bindM_def quiet_io reading_def record_call_def liftE_def ret_def quiet_def)

lemma quiet_require:
  assumes "quiet w" and "lookup (sys w) i = Some (r, v)" and "toWorkspace r = Inr ws"
  shows "\<exists>w'. svc_require d i w = (Ret (Ok (ws, v)), w') \<and> quiet w' \<and> sys w' = sys w"
  using quiet_find [OF assms, of d] by (auto simp: svc_require_def bindM_def ret_def)

lemma quiet_provider:
  assumes "quiet w" and "f (cloud (sys w)) = (Inr a, c)"
  shows "\<exists>w'. io call (provider f) w = (Ret a, w') \<and> quiet w' \<and> sys w' = (sys w)\<lparr>cloud := c\<rparr>"
  using assms by (simp add: quiet_io provider_def record_call_def quiet_def)

text \<open>A legal transition, written over the record that was read.\<close>

lemma quiet_persist:
  assumes q: "quiet w" and l: "lookup (sys w) i = Some (r, v)" and ok: "rec_ok i r"
    and r: "toWorkspace r = Inr ws" and legal: "legal_write ws ws'"
    and schema: "schemaError d (transition_attrs ws') = None"
  shows "\<exists>w'. persistTransition d ws' v audit w = (Ret (), w') \<and> quiet w' \<and>
     lookup (sys w') i = Some (transition_attrs ws', v + 1) \<and> cloud (sys w') = cloud (sys w)"
proof -
  have i: "wsId ws' = i"
    using ok r legal toWorkspace_state [OF r] by (simp add: rec_ok_def legal_write_def same_identity_def)
  have patch: "patch_record TRANSITION_CLEARABLE (transition_attrs ws') r = transition_attrs ws'"
    by (rule patch_transition [OF r]) (use ok legal in \<open>auto simp: rec_ok_def legal_write_def\<close>)
  let ?x = "transition_patch ws' v"
  have commit: "commit_items sub (?x # rest) s = (None, fold tx_apply (?x # rest) s)"
    if "lookup s i = Some (r, v)" "rest = [] \<or> (\<exists>e. rest = [TxEvent e])" for sub rest s
    using that by (auto simp: commit_items_def Let_def i)
  have after: "lookup (fold tx_apply (?x # rest) s) i = Some (transition_attrs ws', v + 1) \<and>
      cloud (fold tx_apply (?x # rest) s) = cloud s"
    if "lookup s i = Some (r, v)" "rest = [] \<or> (\<exists>e. rest = [TxEvent e])" for rest s
    using that by (auto simp: i patch put_record_def log_move_def lookup_def)
  have audit: "\<exists>ev w1. (case audit of None \<Rightarrow> ret None | Some a \<Rightarrow> auditItem d a) w = (Ret ev, w1) \<and> quiet w1 \<and>
      lookup (sys w1) i = Some (r, v) \<and> cloud (sys w1) = cloud (sys w)"
    using q l by (cases audit) (auto simp: auditItem_def bindM_def randomUUID_def now_def ret_def quiet_def lookup_def)
  then obtain ev w1 where ev: "(case audit of None \<Rightarrow> ret None | Some a \<Rightarrow> auditItem d a) w = (Ret ev, w1)"
    "quiet w1" "lookup (sys w1) i = Some (r, v)" "cloud (sys w1) = cloud (sys w)" by blast
  show ?thesis
  proof (cases ev)
    case None
    then show ?thesis
      using ev schema commit [OF ev(3), of "[]"] after [OF ev(3), of "[]"]
      by (simp add: persistTransition_def Let_def bindM_def validate_def ret_def writeOne_def quiet_io
          record_call_def quiet_def)
  next
    case (Some e)
    then show ?thesis
      using ev schema commit [OF ev(3), of "[TxEvent e]"] after [OF ev(3), of "[TxEvent e]"]
      by (simp add: persistTransition_def Let_def bindM_def validate_def ret_def writeTransaction_def
          perform_def record_call_def quiet_def)
  qed
qed

lemma quiet_persist_or:
  assumes "persistTransition d ws' v audit w = (Ret (), w')"
  shows "persist_or d ws' v audit conflict continue w = continue w'"
  using assms by (simp add: persist_or_def bindM_def tryM_def ret_def)

lemma fake_deps_sel [simp]:
  "schemaError fake_deps a = None" "d_runTask fake_deps = fake_runTask sample_uuid"
  "d_stopTask fake_deps t c = (Inr (), fake_stopTask t c)"
  "d_createSnapshot fake_deps at v retain owner c =
     (case fake_createSnapshot sample_uuid at v retain owner (storage c) of (r, st) \<Rightarrow> (r, c\<lparr>storage := st\<rparr>))"
  by (simp_all add: fake_deps_def)

lemma toWorkspace_attrs:
  assumes "sound_ws i ws"
  shows "toWorkspace (transition_attrs ws) = Inr ws" "rec_ok i (transition_attrs ws)"
proof -
  have "toWorkspaceDetail ws = ws" using assms by (simp add: toWorkspaceDetail_eq sound_ws_def)
  then show 1: "toWorkspace (transition_attrs ws) = Inr ws"
    using toWorkspace_transition_attrs [of ws] assms by (simp add: sound_ws_def)
  show "rec_ok i (transition_attrs ws)"
    using 1 assms by (simp add: rec_ok_def sound_ws_def storable_def)
qed

lemma legal_sound:
  "\<lbrakk>legal_write ws ws'; sound_ws i ws; shareEnabledAt ws' = None\<rbrakk> \<Longrightarrow> sound_ws i ws'"
  by (auto simp: legal_write_def sound_ws_def same_identity_def storable_def)

lemma quiet_stop:
  assumes w: "quiet w" and l: "lookup (sys w) i = Some (r, v)" and ok: "rec_ok i r"
    and r: "toWorkspace r = Inr ws" and st: "state ws = Running \<or> state ws = Idle"
    and task: "taskId ws = Some t" and vol: "volumeId ws = Some x"
    and snap: "fake_createSnapshot sample_uuid (Iso (clockMs (sys w))) x False (Some i) (storage (cloud (sys w))) = (Inr sn, st1)"
  shows "\<exists>dto ws' w'. svc_stop fake_deps i actor None w = (Ret (Ok dto), w') \<and> quiet w' \<and>
     lookup (sys w') i = Some (transition_attrs ws', v + 1) \<and> sound_ws i ws' \<and> state ws' = Stopped \<and>
     state (fst dto) = Stopped \<and> latestSnapshotId ws' = Some (snap_id sn) \<and>
     cloud (sys w') = fake_stopTask t (cloud (sys w)\<lparr>storage := st1\<rparr>)"
proof -
  let ?at = "Iso (clockMs (sys w))"
  obtain w1 where w1: "svc_require fake_deps i w = (Ret (Ok (ws, v)), w1)" "quiet w1" "sys w1 = sys w"
    using quiet_require [OF w l r] by blast
  obtain w2 where w2: "createSnapshot fake_deps x False (Some i) w1 = (Ret sn, w2)" "quiet w2"
    "sys w2 = (sys w)\<lparr>cloud := cloud (sys w)\<lparr>storage := st1\<rparr>\<rparr>"
    using quiet_provider [OF w1(2), of "d_createSnapshot fake_deps ?at x False (Some i)" sn
        "cloud (sys w)\<lparr>storage := st1\<rparr>"] snap w1(2,3)
    by (auto simp: createSnapshot_def quiet_io)
  obtain ws' where ws': "markStopped ws (Some (snap_id sn, ?at)) ?at = Ok ws'" "state ws' = Stopped"
    "latestSnapshotId ws' = Some (snap_id sn)" "shareEnabledAt ws' = None"
    using st by (auto simp: markStopped_def noPlacementWait_def orElseOpt_def TRANSITIONS_event_simps)
  note legal = legal_writes(3) [OF ws'(1)]
  have "lookup (sys w2) i = Some (r, v)" using l w2(3) by (simp add: lookup_def)
  from quiet_persist [OF w2(2) this ok r legal, of fake_deps] obtain w3 where
    w3: "persistTransition fake_deps ws' v (Some (mk_audit SessionStop i actor ''scaled to zero'')) w2 = (Ret (), w3)"
    "quiet w3" "lookup (sys w3) i = Some (transition_attrs ws', v + 1)" "cloud (sys w3) = cloud (sys w2)"
    by auto
  obtain w4 where w4: "stopTask fake_deps t w3 = (Ret (), w4)" "quiet w4"
    "sys w4 = (sys w3)\<lparr>cloud := fake_stopTask t (cloud (sys w3))\<rparr>"
    using quiet_provider [OF w3(2), of "d_stopTask fake_deps t" "()"] by (auto simp: stopTask_def)
  have "sound_ws i ws"
    using ok r by (auto elim!: toWorkspace_read)
  from legal_sound [OF legal this ws'(4)] have sound: "sound_ws i ws'" .
  have "svc_stop fake_deps i actor None w = (Ret (Ok (toWorkspaceDto ws')), w4)"
    using w1 w2 w4 ws'(1) st task vol
    by (auto simp: svc_stop_def stop_loaded_def bindR_def bindM_def onOk_def now_def snapshotBeforeStop_def
        snapshotForTransition_def tryM_def ret_def quietly_def TRANSITIONS_event_simps quiet_persist_or [OF w3(1)])
  moreover have "lookup (sys w4) i = Some (transition_attrs ws', v + 1)"
    using w3(3) w4(3) by (simp add: lookup_def)
  moreover have "cloud (sys w4) = fake_stopTask t (cloud (sys w)\<lparr>storage := st1\<rparr>)"
    using w4(3) w3(4) w2(3) by simp
  moreover have "state (fst (toWorkspaceDto ws')) = Stopped" using ws'(2) by (simp add: toWorkspaceDto_def)
  ultimately show ?thesis using sound ws'(2,3) w4(2) by blast
qed

lemma quiet_start:
  assumes w: "quiet w" and l: "lookup (sys w) i = Some (transition_attrs ws, v)"
    and ws: "sound_ws i ws" "state ws = Stopped" "latestSnapshotId ws = Some sn"
    and run: "\<And>at inp. rt_fromSnapshot inp = Some sn \<Longrightarrow>
      \<exists>task c. fake_runTask sample_uuid at inp (cloud (sys w)) = (Inr task, c) \<and> good task c"
  shows "\<exists>dto w' task r'. svc_start fake_deps i actor w = (Ret (Ok dto), w') \<and> state (fst dto) = Running \<and>
     lookup (sys w') i = Some (r', v + 2) \<and> state r' = Running \<and>
     volumeId r' = Some (task_volumeId task) \<and> good task (cloud (sys w'))"
proof -
  note read = toWorkspace_attrs [OF ws(1)]
  obtain w1 where w1: "svc_require fake_deps i w = (Ret (Ok (ws, v)), w1)" "quiet w1" "sys w1 = sys w"
    using quiet_require [OF w l read(1)] by blast
  let ?at = "Iso (clockMs (sys w))"
  obtain cl where cl: "markWaking ws ?at = Ok cl" "state cl = Provisioning" "shareEnabledAt cl = None"
    using ws by (simp add: markWaking_def TRANSITIONS_event_simps sound_ws_def)
  note legal = legal_writes(6) [OF cl(1)]
  have cl_ok: "sound_ws i cl" by (rule legal_sound [OF legal ws(1) cl(3)])
  have l1: "lookup (sys w1) i = Some (transition_attrs ws, v)" using l w1(3) by simp
  from quiet_persist [OF w1(2) l1 read(2,1) legal, of fake_deps None] obtain w2 where
    w2: "persistTransition fake_deps cl v None w1 = (Ret (), w2)" "quiet w2"
    "lookup (sys w2) i = Some (transition_attrs cl, v + 1)" "cloud (sys w2) = cloud (sys w)"
    using w1(3) by auto
  let ?t = "Iso (clockMs (sys w2))"
  have "rt_fromSnapshot (wake_input ws) = Some sn" using ws(3) by (simp add: wake_input_def)
  from run [OF this, of ?t] obtain task c where
    c: "fake_runTask sample_uuid ?t (wake_input ws) (cloud (sys w)) = (Inr task, c)" "good task c" by blast
  obtain w3 where w3: "runTask fake_deps (wake_input ws) w2 = (Ret task, w3)" "quiet w3"
    "sys w3 = (sys w2)\<lparr>cloud := c\<rparr>"
    using quiet_provider [OF w2(2), of "d_runTask fake_deps ?t (wake_input ws)" task c] c(1) w2(2,4)
    by (auto simp: runTask_def quiet_io)
  have l3: "lookup (sys w3) i = Some (transition_attrs cl, v + 1)" using w2(3) w3(3) by (simp add: lookup_def)
  note read_cl = toWorkspace_attrs [OF cl_ok]
  obtain w4 where w4: "svc_find fake_deps i w3 = (Ret (Some (cl, v + 1)), w4)" "quiet w4" "sys w4 = sys w3"
    using quiet_find [OF w3(2) l3 read_cl(1)] by blast
  obtain ru where ru: "markProvisioned cl (task_volumeId task) (task_id task) ?t (task_sshHost task) = Ok ru"
    "state ru = Running" "volumeId ru = Some (task_volumeId task)"
    using cl(2) by (simp add: markProvisioned_def noPlacementWait_def TRANSITIONS_event_simps)
  have l4: "lookup (sys w4) i = Some (transition_attrs cl, v + 1)" using l3 w4(3) by simp
  from quiet_persist [OF w4(2) l4 read_cl(2,1) legal_writes(7) [OF ru(1)], of fake_deps
      "Some (mk_audit SessionStart i actor ''woken from snapshot'')"]
  obtain w5 where w5: "persistTransition fake_deps ru (v + 1)
      (Some (mk_audit SessionStart i actor ''woken from snapshot'')) w4 = (Ret (), w5)"
    "lookup (sys w5) i = Some (transition_attrs ru, v + 2)" "cloud (sys w5) = c"
    using w4(3) w3(3) by (auto simp: add.assoc)
  let ?wN = "snd (emit fake_deps (MetricTiming METRIC_WORKSPACE_WAKE_LATENCY_MS
      (elapsed (Iso (clockMs (sys w5))) ?t) [(''baseImage'', baseImage ws)]) w5)"
  have "svc_start fake_deps i actor w = (Ret (Ok (toWorkspaceDto ru)), ?wN)"
    using w1 w3(1) w4(1) w5(1) cl(1) ru(1) ws(3)
    by (auto simp: svc_start_def bindR_def bindM_def onOk_def now_def quiet_persist_or [OF w2(1)]
        launchClaimedWake_def tryM_def ret_def commit_wake_def emit_def)
  moreover have "lookup (sys ?wN) i = Some (transition_attrs ru, v + 2)" "cloud (sys ?wN) = c"
    using w5(2,3) by (simp_all add: emit_def lookup_def)
  moreover have "state (fst (toWorkspaceDto ru)) = Running" "state (transition_attrs ru) = Running"
    "volumeId (transition_attrs ru) = Some (task_volumeId task)"
    using ru(2,3) by (simp_all add: toWorkspaceDto_def transition_attrs_def toWorkspaceDetail_eq)
  ultimately show ?thesis using c(2) by blast
qed

text \<open>
  C7. Scale to zero and back. On the repository's fakes and without interference, a running
  session whose task runs on its volume can be stopped and started again: both return,
  the record is running on a new volume, and that volume holds under every path what the
  old one held.
\<close>

theorem stop_then_start_keeps_files:
  assumes w: "schedule w = []" and l: "lookup (sys w) i = Some (r, v)" and ok: "rec_ok i r"
    and r: "toWorkspace r = Inr ws" and st: "state ws = Running \<or> state ws = Idle"
    and task: "taskId ws = Some t" and vol: "volumeId ws = Some x"
    and cloud: "fake_cloud_sound sample_uuid (cloud (sys w))" "placementRefusals (cloud (sys w)) \<le> 0"
      "map_of (taskVolumes (cloud (sys w))) t = Some x" "fake_live (storage (cloud (sys w))) x"
  shows "\<exists>stopped w1 started w2 r' v' y.
     svc_stop fake_deps i actor None w = (Ret (Ok stopped), w1) \<and> state (fst stopped) = Stopped \<and>
     svc_start fake_deps i actor w1 = (Ret (Ok started), w2) \<and> state (fst started) = Running \<and>
     lookup (sys w2) i = Some (r', v') \<and> state r' = Running \<and> volumeId r' = Some y \<and>
     (\<forall>p. fake_readFile y p (storage (cloud (sys w2))) = fake_readFile x p (storage (cloud (sys w))))"
proof -
  let ?c = "cloud (sys w)" and ?at = "Iso (clockMs (sys w))"
  obtain sn st1 where snap: "fake_createSnapshot sample_uuid ?at x False (Some i) (storage ?c) = (Inr sn, st1)"
    using cloud(4) by (auto simp: fake_createSnapshot_def fake_live_def Let_def split: option.splits)
  have "quiet w" using w by (simp add: quiet_def)
  from quiet_stop [OF this l ok r st task vol snap, of actor] obtain dto ws' w1 where
    stop: "svc_stop fake_deps i actor None w = (Ret (Ok dto), w1)" "state (fst dto) = Stopped" "quiet w1"
      "lookup (sys w1) i = Some (transition_attrs ws', v + 1)" "sound_ws i ws'" "state ws' = Stopped"
      "latestSnapshotId ws' = Some (snap_id sn)" "cloud (sys w1) = fake_stopTask t (?c\<lparr>storage := st1\<rparr>)"
    by blast
  let ?good = "\<lambda>task c. \<forall>p. fake_readFile (task_volumeId task) p (storage c) = fake_readFile x p (storage ?c)"
  have run: "\<exists>task c. fake_runTask sample_uuid at inp (cloud (sys w1)) = (Inr task, c) \<and> ?good task c"
    if "rt_fromSnapshot inp = Some (snap_id sn)" for at inp
  proof -
    have "fake_sound sample_uuid (storage ?c)" using cloud(1) by (simp add: fake_cloud_sound_def)
    from fake.snapshot_survives_release [OF this snap, of at] obtain y st2 where
      "fake_createVolume sample_uuid at (Some (snap_id sn)) (fake_deleteVolume x st1) = (Inr y, st2)"
      "\<forall>p. fake_readFile (vol_id y) p st2 = fake_readFile x p (storage ?c)" by blast
    with that cloud(2,3) show ?thesis
      by (simp add: stop(8) fake_runTask_def fake_stopTask_def Let_def fake_readFile_def)
  qed
  from quiet_start [OF stop(3-7) run, of actor] stop(1,2) show ?thesis by blast
qed

theorem stop_then_start_keeps_files_witness:
  "\<exists>stopped w1 started w2. svc_stop fake_deps ''ws-'' ''u1'' None created_world = (Ret (Ok stopped), w1) \<and>
     svc_start fake_deps ''ws-'' ''u1'' w1 = (Ret (Ok started), w2) \<and> state (fst started) = Running"
proof -
  obtain r v ws where r: "lookup (sys created_world) ''ws-'' = Some (r, v)" "toWorkspace r = Inr ws"
    "state ws = Running" "taskId ws = Some ''task-x''" "volumeId ws = Some ''vol-''"
    using created_record by (auto split: option.splits sum.splits)
  have "rec_ok ''ws-'' r" using created_ok r(1) by (auto simp: ok_world_def wf_sys_def)
  moreover have "fake_cloud_sound sample_uuid (cloud (sys created_world))"
    by (auto simp: created_cloud fake_cloud_sound_def fake_sound_def newVolumeId_def newTaskId_def
        sample_uuid_def lessThan_Suc numeral_2_eq_2)
  ultimately show ?thesis
    using stop_then_start_keeps_files [OF created_quiet r(1) _ r(2) _ r(4,5), of "''u1''"] r(3)
    by (fastforce simp: created_cloud fake_live_def)
qed

end
