(* ===== verification/Service_Teardown.thy ===== *)
theory Service_Teardown
  imports Service_Functional
begin

text \<open>
  The deletion path run to its end without interference: the teardown of a deleting
  workspace returns, and the retained snapshot its tombstone names holds the files.
\<close>

section \<open>Deletion keeps the files\<close>

lemma quiet_retain:
  assumes w: "quiet w" and l: "lookup (sys w) i = Some (r, v)" and ok: "rec_ok i r"
    and r: "toWorkspace r = Inr ws" and vol: "volumeId ws = Some x" and fresh: "needsFreshTeardownSnapshot ws"
    and snap: "fake_createSnapshot sample_uuid (Iso (clockMs (sys w))) x True (Some i) (storage (cloud (sys w))) = (Inr sn, st1)"
  shows "\<exists>w'. retain_snapshot fake_deps i ws v at w = (Ret (Ok (recordSnapshot ws (snap_id sn) at, v + 1)), w') \<and>
     quiet w' \<and> lookup (sys w') i = Some (transition_attrs (recordSnapshot ws (snap_id sn) at), v + 1) \<and>
     cloud (sys w') = cloud (sys w)\<lparr>storage := st1\<rparr>"
proof -
  let ?next = "recordSnapshot ws (snap_id sn) at"
  have i: "wsId ws = i" using ok r toWorkspace_state [OF r] by (simp add: rec_ok_def)
  obtain w2 where w2: "createSnapshot fake_deps x True (Some i) w = (Ret sn, w2)" "quiet w2"
    "sys w2 = (sys w)\<lparr>cloud := cloud (sys w)\<lparr>storage := st1\<rparr>\<rparr>"
    using quiet_provider [OF w, of "d_createSnapshot fake_deps (Iso (clockMs (sys w))) x True (Some i)" sn
        "cloud (sys w)\<lparr>storage := st1\<rparr>"] snap w
    by (auto simp: createSnapshot_def quiet_io)
  have "lookup (sys w2) i = Some (r, v)" using l w2(3) by (simp add: lookup_def)
  from quiet_persist [OF w2(2) this ok r legal_writes(16), of fake_deps "snap_id sn" at None] obtain w3 where
    w3: "persistTransition fake_deps ?next v None w2 = (Ret (), w3)" "quiet w3"
    "lookup (sys w3) i = Some (transition_attrs ?next, v + 1)" "cloud (sys w3) = cloud (sys w2)"
    by auto
  have "retain_snapshot fake_deps i ws v at w = (Ret (Ok (?next, v + 1)), w3)"
    using w2(1) w3(1) vol fresh i by (simp add: retain_snapshot_def tryM_def bindM_def ret_def Let_def)
  with w3 w2(3) show ?thesis by auto
qed

lemma quiet_own_task:
  assumes "quiet w"
  shows "\<exists>w'. (case t of None \<Rightarrow> ret () | Some t \<Rightarrow> quietly (stopTask fake_deps t)) w = (Ret (), w') \<and> quiet w' \<and>
     sys w' = (sys w)\<lparr>cloud := (case t of None \<Rightarrow> cloud (sys w) | Some t \<Rightarrow> fake_stopTask t (cloud (sys w)))\<rparr>"
proof (cases t)
  case (Some t')
  obtain w' where "stopTask fake_deps t' w = (Ret (), w')" "quiet w'"
    "sys w' = (sys w)\<lparr>cloud := fake_stopTask t' (cloud (sys w))\<rparr>"
    using quiet_provider [OF assms, of "d_stopTask fake_deps t'" "()"] by (auto simp: stopTask_def)
  then show ?thesis by (simp add: Some quietly_def tryM_def)
qed (use assms in \<open>simp add: ret_def\<close>)

lemma quiet_audit:
  assumes "quiet w" and "hasAudit d"
  shows "\<exists>e w'. auditItem d a w = (Ret (Some e), w') \<and> quiet w' \<and>
     table (sys w') = table (sys w) \<and> cloud (sys w') = cloud (sys w)"
  using assms by (auto simp: auditItem_def bindM_def randomUUID_def now_def ret_def quiet_def)

lemma fake_audited: "hasAudit fake_deps"
  by (simp add: fake_deps_def)

lemma quiet_teardown_write:
  assumes "quiet w" and "lookup (sys w) i = Some (r, v)"
  shows "\<exists>w'. writeTransaction fake_deps (teardown_items fake_deps i ws y v (Some e)) w = (Ret None, w') \<and>
     lookup (sys w') i = Some (patch_record TEARDOWN_CLEARABLE (spread_attrs y) r, v + 1) \<and>
     cloud (sys w') = cloud (sys w)"
  using assms
  by (auto simp: writeTransaction_def perform_def quiet_def record_call_def teardown_items_def fake_deps_def
      commit_items_def Let_def put_record_def log_move_def lookup_def add_count_def split: option.splits)

lemma stopTask_keeps_images:
  "snapshotDirs (storage (fake_stopTask t c)) = snapshotDirs (storage c)"
  "snapshotMetas (storage (fake_stopTask t c)) = snapshotMetas (storage c)"
  by (simp_all add: fake_stopTask_def fake_deleteVolume_def split: option.split)

definition after_teardown :: "workspace \<Rightarrow> fake_storage \<Rightarrow> fake_cloud \<Rightarrow> fake_cloud" where
  "after_teardown ws st1 c =
     (case taskId ws of None \<Rightarrow> c\<lparr>storage := st1\<rparr> | Some t \<Rightarrow> fake_stopTask t (c\<lparr>storage := st1\<rparr>))"

lemma after_teardown_images [simp]:
  "fake_image (storage (after_teardown ws st1 c)) = fake_image st1"
  "snapshotMetas (storage (after_teardown ws st1 c)) = snapshotMetas st1"
  by (simp_all add: after_teardown_def fake_image_def fun_eq_iff stopTask_keeps_images split: option.split)

lemma quiet_finishDeleting:
  assumes w: "quiet w" and l: "lookup (sys w) i = Some (r, v)" and ok: "rec_ok i r"
    and r: "toWorkspace r = Inr ws" and st: "state ws = Deleting" and vol: "volumeId ws = Some x"
    and fresh: "needsFreshTeardownSnapshot ws"
    and snap: "fake_createSnapshot sample_uuid (Iso (clockMs (sys w))) x True (Some i) (storage (cloud (sys w))) = (Inr sn, st1)"
  shows "\<exists>w' r'. finishDeleting fake_deps i w = (Ret (Ok ()), w') \<and> lookup (sys w') i = Some (r', v + 2) \<and>
     state r' = Terminated \<and> taskId r' = None \<and> volumeId r' = None \<and> latestSnapshotId r' = Some (snap_id sn) \<and>
     cloud (sys w') = after_teardown ws st1 (cloud (sys w))"
proof -
  let ?c = "cloud (sys w)" and ?at = "Iso (clockMs (sys w))"
  let ?next = "recordSnapshot ws (snap_id sn) ?at"
  obtain w1 where w1: "svc_find fake_deps i w = (Ret (Some (ws, v)), w1)" "quiet w1" "sys w1 = sys w"
    using quiet_find [OF w l r] by blast
  obtain w2 where w2: "retain_snapshot fake_deps i ws v ?at w1 = (Ret (Ok (?next, v + 1)), w2)" "quiet w2"
     "lookup (sys w2) i = Some (transition_attrs ?next, v + 1)" "cloud (sys w2) = ?c\<lparr>storage := st1\<rparr>"
    using quiet_retain [OF w1(2) _ ok r vol fresh, of v sn st1 ?at] l snap w1(3) by auto
  obtain w3 where w3: "(case taskId ws of None \<Rightarrow> ret () | Some t \<Rightarrow> quietly (stopTask fake_deps t)) w2 = (Ret (), w3)"
    "quiet w3" "sys w3 = (sys w2)\<lparr>cloud := (case taskId ws of None \<Rightarrow> cloud (sys w2) | Some t \<Rightarrow> fake_stopTask t (cloud (sys w2)))\<rparr>"
    using quiet_own_task [OF w2(2)] by blast
  obtain e w4 where w4: "auditItem fake_deps (mk_audit SessionTerminated i SYSTEM_ACTOR
        ''teardown complete -- restorable until the retention purge'') w3 = (Ret (Some e), w4)" "quiet w4"
    "table (sys w4) = table (sys w3)" "cloud (sys w4) = cloud (sys w3)"
    using quiet_audit [OF w3(2), of fake_deps] fake_audited by blast
  obtain y where y: "markTerminated ?next ?at = Ok y" "state y = Terminated" "taskId y = None" "volumeId y = None"
    "latestSnapshotId y = Some (snap_id sn)"
    using st by (auto simp: markTerminated_def TRANSITIONS_event_simps recordSnapshot_def)
  let ?r' = "patch_record TEARDOWN_CLEARABLE (spread_attrs y) (transition_attrs ?next)"
  have "lookup (sys w4) i = Some (transition_attrs ?next, v + 1)"
    using w2(3) w3(3) w4(3) by (simp add: lookup_def)
  from quiet_teardown_write [OF w4(2) this] obtain w5 where
    w5: "writeTransaction fake_deps (teardown_items fake_deps i ?next y (v + 1) (Some e)) w4 = (Ret None, w5)"
     "lookup (sys w5) i = Some (?r', v + 1 + 1)" "cloud (sys w5) = cloud (sys w4)" by blast
  have "finishDeleting fake_deps i w = (Ret (Ok ()), w5)"
    using w1 w2(1) w3(1) w4(1) w5(1) y(1) st
    by (simp add: finishDeleting_def teardown_loaded_def bindM_def bindR_def onOk_def now_def ret_def tryM_def
        validate_def Let_def recordSnapshot_def)
  moreover have "cloud (sys w5) = after_teardown ws st1 ?c"
    using w5(3) w4(4) w3(3) w2(4) by (simp add: after_teardown_def split: option.split)
  moreover have "state ?r' = Terminated \<and> taskId ?r' = None \<and> volumeId ?r' = None \<and> latestSnapshotId ?r' = Some (snap_id sn)"
    using y by (simp add: patch_record_def spread_attrs_def map_fields_def toWorkspaceDetail_eq set_attr_def TEARDOWN_CLEARABLE_def)
  moreover have "lookup (sys w5) i = Some (?r', v + 2)" using w5(2) by (simp add: algebra_simps)
  ultimately show ?thesis by blast
qed

text \<open>
  C8. A deletion keeps the files until the purge. On the repository's fakes and without
  interference, the teardown of a deleting workspace with a live volume that needs a fresh
  snapshot returns; the tombstone is terminated, holds neither task nor volume, and names
  a retained snapshot that holds under every path what the volume held.
\<close>

theorem teardown_keeps_files:
  assumes w: "schedule w = []" and l: "lookup (sys w) i = Some (r, v)" and ok: "rec_ok i r"
    and r: "toWorkspace r = Inr ws" and st: "state ws = Deleting"
    and vol: "volumeId ws = Some x" "fake_live (storage (cloud (sys w))) x"
    and fresh: "needsFreshTeardownSnapshot ws"
    and cloud: "fake_cloud_sound sample_uuid (cloud (sys w))"
  shows "\<exists>w' r' v' sn m. finishDeleting fake_deps i w = (Ret (Ok ()), w') \<and>
     lookup (sys w') i = Some (r', v') \<and> state r' = Terminated \<and> taskId r' = None \<and> volumeId r' = None \<and>
     latestSnapshotId r' = Some sn \<and> map_of (snapshotMetas (storage (cloud (sys w')))) sn = Some m \<and> sm_retained m \<and>
     fake_image (storage (cloud (sys w'))) sn = Some (\<lambda>p. fake_readFile x p (storage (cloud (sys w))))"
proof -
  let ?c = "cloud (sys w)" and ?at = "Iso (clockMs (sys w))"
  obtain sn st1 where snap: "fake_createSnapshot sample_uuid ?at x True (Some i) (storage ?c) = (Inr sn, st1)"
    using vol(2) by (auto simp: fake_createSnapshot_def fake_live_def Let_def split: option.splits)
  have retained: "\<exists>m. map_of (snapshotMetas st1) (snap_id sn) = Some m \<and> sm_retained m"
    using snap by (auto simp: fake_createSnapshot_def Let_def update_conv split: option.splits)
  have image: "fake_image st1 (snap_id sn) = Some (\<lambda>p. fake_readFile x p (storage ?c))"
    using fake_snapshot_law [OF _ snap] cloud by (simp add: fake_cloud_sound_def)
  have "quiet w" using w by (simp add: quiet_def)
  from quiet_finishDeleting [OF this l ok r st vol(1) fresh snap] retained image show ?thesis
    by (metis after_teardown_images)
qed

definition deleting_world :: "fake_cloud world" where
  "deleting_world = snd (svc_remove fake_deps ''ws-'' ''u1'' created_world)"

lemma deleting_quiet: "schedule deleting_world = []"
proof -
  have "(case schedule deleting_world of [] \<Rightarrow> True | _ \<Rightarrow> False)" by code_simp
  then show ?thesis by (simp split: list.splits)
qed

lemma deleting_record:
  "case lookup (sys deleting_world) ''ws-'' of
     None \<Rightarrow> False
   | Some (r, v) \<Rightarrow>
       (case toWorkspace r of
          Inl _ \<Rightarrow> False
        | Inr ws \<Rightarrow> state ws = Deleting \<and> volumeId ws = Some ''vol-'' \<and> needsFreshTeardownSnapshot ws)"
  by code_simp

lemma deleting_cloud: "cloud (sys deleting_world) = cloud (sys created_world)"
  by code_simp

lemma deleting_ok: "ok_world fake_deps deleting_world"
  using safe_remove [of fake_deps "\<lambda>_. True" "''ws-''" "''u1''"] created_ok
  unfolding deleting_world_def safe_def by blast

lemma created_cloud_sound: "fake_cloud_sound sample_uuid (cloud (sys created_world))"
  by (auto simp: created_cloud fake_cloud_sound_def fake_sound_def newVolumeId_def newTaskId_def
      sample_uuid_def lessThan_Suc numeral_2_eq_2)

theorem teardown_keeps_files_witness:
  "\<exists>w' r' v'. finishDeleting fake_deps ''ws-'' deleting_world = (Ret (Ok ()), w') \<and>
     lookup (sys w') ''ws-'' = Some (r', v') \<and> state r' = Terminated"
proof -
  obtain r v ws where r: "lookup (sys deleting_world) ''ws-'' = Some (r, v)" "toWorkspace r = Inr ws"
    "state ws = Deleting" "volumeId ws = Some ''vol-''" "needsFreshTeardownSnapshot ws"
    using deleting_record by (auto split: option.splits sum.splits)
  have "rec_ok ''ws-'' r" using deleting_ok r(1) by (auto simp: ok_world_def wf_sys_def)
  moreover have "fake_live (storage (cloud (sys deleting_world))) ''vol-''"
    by (simp add: deleting_cloud created_cloud fake_live_def)
  ultimately show ?thesis
    using teardown_keeps_files [OF deleting_quiet r(1) _ r(2-4) _ r(5)] created_cloud_sound
    by (fastforce simp: deleting_cloud)
qed

end
