(* ===== verification/Reconciler.thy ===== *)
theory Reconciler
  imports Service_Teardown
begin

text \<open>
  The reconciler (\<^verbatim>\<open>services/reconciler/src/index.ts\<close>): the background sweeps that converge the
  fleet, each a list of the service, a pure selection (theory \<open>Maintenance\<close>) and one call of
  the service or of a provider for every selected item, and the maintenance tick that runs
  them in order; and the roll-ups its entry point reports (\<^verbatim>\<open>services/reconciler/src/run.ts\<close>).

  The reconciler shares the storage and compute providers of its service, as \<^verbatim>\<open>run.ts\<close> wires
  it; the functions of those ports only it calls are further parameters, the optional ones of
  them as options. Reads the source issues at once are made in the order they are listed. What
  it logs changes nothing it reads and is left out.
\<close>

section \<open>Configuration\<close>

record 'p control_plane_scale_config =
  cp_describeService :: "string \<Rightarrow> 'p \<Rightarrow> (js_error + int) \<times> 'p"
  cp_scaleService :: "string \<Rightarrow> int \<Rightarrow> 'p \<Rightarrow> (js_error + unit) \<times> 'p"
  cp_readLastActivity :: "'p \<Rightarrow> (js_error + iso_timestamp option) \<times> 'p"
  cp_serviceName :: string
  cp_idleThresholdMs :: "int option"

record 'p reconciler_compute =
  rc_listWorkspaceTasks :: "('p \<Rightarrow> (js_error + workspace_task_ref list) \<times> 'p) option"
  rc_listWorkspaceAgentSecrets :: "('p \<Rightarrow> (js_error + workspace_agent_secret_ref list) \<times> 'p) option"
  rc_deleteAgentSecret :: "(string \<Rightarrow> 'p \<Rightarrow> (js_error + unit) \<times> 'p) option"
  rc_pruneTaskDefinitions :: "(int \<Rightarrow> 'p \<Rightarrow> (js_error + int) \<times> 'p) option"

record 'p reconciler_deps =
  rd_service :: "'p deps"
  rd_listVolumes :: "'p \<Rightarrow> (js_error + volume_ref list) \<times> 'p"
  rd_deleteVolume :: "string \<Rightarrow> 'p \<Rightarrow> (js_error + unit) \<times> 'p"
  rd_compute :: "'p reconciler_compute option"
  rd_idleThresholdMs :: "int option"
  rd_snapshotIntervalMs :: "int option"
  rd_earlySnapshotIntervalMs :: "int option"
  rd_earlySessionMs :: "int option"
  rd_taskDefKeep :: "int option"
  rd_convergeBudget :: "int option"
  rd_gcGraceMs :: "int option"
  rd_undeleteRetentionMs :: "int option"
  rd_provisioningTimeoutMs :: "int option"
  rd_controlPlane :: "'p control_plane_scale_config option"

record 'p reconciler =
  service :: "'p deps"
  r_listVolumes :: "'p \<Rightarrow> (js_error + volume_ref list) \<times> 'p"
  r_deleteVolume :: "string \<Rightarrow> 'p \<Rightarrow> (js_error + unit) \<times> 'p"
  r_compute :: "'p reconciler_compute option"
  r_idleThresholdMs :: int
  r_snapshotIntervalMs :: int
  r_earlySnapshotIntervalMs :: int
  r_earlySessionMs :: int
  r_taskDefKeep :: int
  r_convergeBudget :: int
  r_gcGraceMs :: int
  r_undeleteRetentionMs :: int
  r_provisioningTimeoutMs :: int
  r_controlPlane :: "'p control_plane_scale_config option"

definition new_reconciler :: "'p reconciler_deps \<Rightarrow> 'p reconciler" where
  "new_reconciler deps =
     \<lparr>service = rd_service deps, r_listVolumes = rd_listVolumes deps,
      r_deleteVolume = rd_deleteVolume deps, r_compute = rd_compute deps,
      r_idleThresholdMs = orElse (rd_idleThresholdMs deps) DEFAULT_IDLE_THRESHOLD_MS,
      r_snapshotIntervalMs = orElse (rd_snapshotIntervalMs deps) DEFAULT_SNAPSHOT_INTERVAL_MS,
      r_earlySnapshotIntervalMs =
        orElse (rd_earlySnapshotIntervalMs deps) DEFAULT_EARLY_SNAPSHOT_INTERVAL_MS,
      r_earlySessionMs = orElse (rd_earlySessionMs deps) DEFAULT_EARLY_SESSION_MS,
      r_taskDefKeep = orElse (rd_taskDefKeep deps) DEFAULT_TASKDEF_KEEP_REVISIONS,
      r_convergeBudget = orElse (rd_convergeBudget deps) DEFAULT_CONVERGE_BUDGET,
      r_gcGraceMs = orElse (rd_gcGraceMs deps) DEFAULT_GC_GRACE_MS,
      r_undeleteRetentionMs = orElse (rd_undeleteRetentionMs deps) DEFAULT_UNDELETE_RETENTION_MS,
      r_provisioningTimeoutMs =
        orElse (rd_provisioningTimeoutMs deps) DEFAULT_PROVISIONING_TIMEOUT_MS,
      r_controlPlane = rd_controlPlane deps\<rparr>"

section \<open>A sweep\<close>

text \<open>
  The counters of a sweep: \<open>acted\<close> is the field the source calls \<^verbatim>\<open>lost\<close>, \<^verbatim>\<open>recovered\<close>,
  \<^verbatim>\<open>acted\<close>, \<^verbatim>\<open>stopped\<close> or \<^verbatim>\<open>snapshotted\<close>.
\<close>

record sweep_result =
  scanned :: nat
  acted :: nat
  skipped :: nat
  failed :: nat

record reap_result =
  rp_scanned :: nat
  reaped :: nat
  rp_failed :: nat

datatype verdict = Acted | Nothing | Skipped

fun tally :: "verdict \<Rightarrow> sweep_result \<Rightarrow> sweep_result" where
  "tally Acted c = c\<lparr>acted := acted c + 1\<rparr>"
| "tally Nothing c = c"
| "tally Skipped c = c\<lparr>skipped := skipped c + 1\<rparr>"

definition of_result :: "('a, domain_error) result \<Rightarrow> verdict" where
  "of_result r = (case r of Ok _ \<Rightarrow> Acted | Err _ \<Rightarrow> Skipped)"

text \<open>The loop every sweep has: an item that throws is counted and does not end the loop.\<close>

definition attempt :: "('p, verdict) act \<Rightarrow> sweep_result \<Rightarrow> ('p, sweep_result) act" where
  "attempt m c =
     tryM (bindM m (\<lambda>v. ret (tally v c))) (\<lambda>e. ret (c\<lparr>failed := failed c + 1\<rparr>))"

fun sweep :: "('x \<Rightarrow> ('p, verdict) act) \<Rightarrow> 'x list \<Rightarrow> sweep_result \<Rightarrow> ('p, sweep_result) act" where
  "sweep f [] c = ret c"
| "sweep f (x # xs) c = bindM (attempt (f x) c) (sweep f xs)"

definition sweeping :: "nat \<Rightarrow> sweep_result" where
  "sweeping n = \<lparr>scanned = n, acted = 0, skipped = 0, failed = 0\<rparr>"

definition served :: "('p, ('a, domain_error) result) act \<Rightarrow> ('p, verdict) act" where
  "served m = bindM m (\<lambda>r. ret (of_result r))"

text \<open>\<^verbatim>\<open>xs.slice(0, n)\<close>: a negative \<open>n\<close> counts from the end.\<close>

definition slice0 :: "int \<Rightarrow> 'a list \<Rightarrow> 'a list" where
  "slice0 n xs = (if 0 \<le> n then take (nat n) xs else take (nat (int (length xs) + n)) xs)"

section \<open>Sweeps over workspaces\<close>

definition detectDrift :: "'p reconciler \<Rightarrow> ('p, sweep_result) act" where
  "detectDrift r =
     bindM (listActive (service r)) (\<lambda>active.
       sweep (\<lambda>ws. bindM (reconcileTaskLoss (service r) (aw_id ws)) (\<lambda>result.
           ret (case result of
                  Err _ \<Rightarrow> Skipped
                | Ok (lost, _) \<Rightarrow> if lost then Acted else Nothing)))
         active (sweeping (length active)))"

definition detectStorageDrift :: "'p reconciler \<Rightarrow> ('p, sweep_result) act" where
  "detectStorageDrift r =
     bindM (listSnapshotReferences (service r)) (\<lambda>refs.
       if refs = [] then ret (sweeping 0)
       else bindM (listSnapshots (service r)) (\<lambda>snaps.
         let existing = sr_id ` set snaps in
         sweep (\<lambda>(i, snapshotId).
             if snapshotId \<in> existing then ret Nothing
             else served (markSnapshotLostFor (service r) i))
           refs (sweeping (length refs))))"

definition recoverProvisioning :: "'p reconciler \<Rightarrow> ('p, sweep_result) act" where
  "recoverProvisioning r =
     bindM (listStuckProvisioning (service r)) (\<lambda>candidates.
     bindM now (\<lambda>at.
       sweep (\<lambda>i. served (recoverStuckProvisioning (service r) i))
         (selectIdle candidates at (r_provisioningTimeoutMs r)) (sweeping (length candidates))))"

definition finishDeletions :: "'p reconciler \<Rightarrow> ('p, sweep_result) act" where
  "finishDeletions r =
     bindM (listDeleting (service r)) (\<lambda>deleting.
       sweep (\<lambda>ws. served (finishDeleting (service r) (wsId ws)))
         (slice0 (r_convergeBudget r) deleting) (sweeping (length deleting)))"

definition finishStopping :: "'p reconciler \<Rightarrow> ('p, sweep_result) act" where
  "finishStopping r =
     bindM (listStopping (service r)) (\<lambda>stopping.
       sweep (\<lambda>i. served (finishStop (service r) i True))
         (slice0 (r_convergeBudget r) stopping) (sweeping (length stopping)))"

definition recoverErrors :: "'p reconciler \<Rightarrow> ('p, sweep_result) act" where
  "recoverErrors r =
     bindM (listRecoverableErrors (service r)) (\<lambda>recoverable.
       sweep (\<lambda>ws. served (recoverError (service r) (wsId ws)))
         (slice0 (r_convergeBudget r) recoverable) (sweeping (length recoverable)))"

definition runOnce :: "'p reconciler \<Rightarrow> ('p, sweep_result) act" where
  "runOnce r =
     bindM (listActive (service r)) (\<lambda>active.
     bindM now (\<lambda>at.
       sweep (\<lambda>i. served (svc_stop (service r) i SYSTEM_ACTOR (Some (r_idleThresholdMs r))))
         (selectIdle active at (r_idleThresholdMs r)) (sweeping (length active))))"

definition snapshotDue :: "'p reconciler \<Rightarrow> ('p, sweep_result) act" where
  "snapshotDue r =
     bindM (listSnapshotCandidates (service r)) (\<lambda>candidates.
     bindM now (\<lambda>at.
       sweep (\<lambda>i. served (svc_snapshot (service r) i))
         (selectDueForSnapshot candidates at (r_snapshotIntervalMs r)
            (Some (r_earlySnapshotIntervalMs r, r_earlySessionMs r)))
         (sweeping (length candidates))))"

section \<open>Reapers\<close>

record gc_result =
  volumesDeleted :: nat
  snapshotsDeleted :: nat
  volumesFailed :: nat
  snapshotsFailed :: nat

definition listVolumes :: "'p reconciler \<Rightarrow> ('p, volume_ref list) act" where
  "listVolumes r = io CListVolumes (provider (r_listVolumes r))"

definition deleteVolume :: "'p reconciler \<Rightarrow> string \<Rightarrow> ('p, unit) act" where
  "deleteVolume r i = io (CDeleteVolume i) (provider (r_deleteVolume r i))"

text \<open>One resource: done unless it throws.\<close>

definition effected :: "('p, unit) act \<Rightarrow> ('p, verdict) act" where
  "effected m = bindM m (\<lambda>_. ret Acted)"

definition collectGarbage :: "'p reconciler \<Rightarrow> fleet_references option \<Rightarrow> ('p, gc_result) act" where
  "collectGarbage r references =
     bindM (case references of
              Some refs \<Rightarrow> ret (fr_volumeIds refs, fr_snapshotIds refs)
            | None \<Rightarrow> listReferencedStorage (service r)) (\<lambda>(volumeIds, snapshotIds).
     bindM now (\<lambda>at.
     bindM (listVolumes r) (\<lambda>volumes.
     bindM (listSnapshots (service r)) (\<lambda>snapshots.
     bindM (sweep (\<lambda>i. effected (deleteVolume r i))
         (selectOrphanVolumes volumes (set volumeIds) at (r_gcGraceMs r)) (sweeping 0)) (\<lambda>vs.
     bindM (sweep (\<lambda>i. effected (deleteSnapshot (service r) i))
         (selectOrphanSnapshots snapshots (set snapshotIds) at (r_gcGraceMs r)) (sweeping 0)) (\<lambda>ss.
       ret \<lparr>volumesDeleted = acted vs, snapshotsDeleted = acted ss,
            volumesFailed = failed vs, snapshotsFailed = failed ss\<rparr>))))))"

definition reap_counts :: "sweep_result \<Rightarrow> reap_result" where
  "reap_counts c = \<lparr>rp_scanned = scanned c, reaped = acted c, rp_failed = failed c\<rparr>"

definition reapOrphanTasks ::
  "'p reconciler \<Rightarrow> fleet_references option \<Rightarrow> ('p, reap_result) act" where
  "reapOrphanTasks r references =
     (case Option.bind (r_compute r) rc_listWorkspaceTasks of
        None \<Rightarrow> ret (reap_counts (sweeping 0))
      | Some listTasks \<Rightarrow>
          bindM (case references of
                   Some refs \<Rightarrow> ret (fr_taskIds refs)
                 | None \<Rightarrow> listReferencedTasks (service r)) (\<lambda>referenced.
          bindM (io CListTasks (provider listTasks)) (\<lambda>existing.
          bindM now (\<lambda>at.
          bindM (sweep (\<lambda>t. effected (stopTask (service r) (tr_id t)))
              (selectOrphanTasks existing (set referenced) at (r_gcGraceMs r))
              (sweeping (length existing)))
            (\<lambda>c. ret (reap_counts c))))))"

definition reapOrphanSecrets ::
  "'p reconciler \<Rightarrow> fleet_references option \<Rightarrow> ('p, reap_result) act" where
  "reapOrphanSecrets r references =
     (case (Option.bind (r_compute r) rc_listWorkspaceAgentSecrets,
            Option.bind (r_compute r) rc_deleteAgentSecret) of
        (Some listSecrets, Some deleteSecret) \<Rightarrow>
          bindM (io CListSecrets (provider listSecrets)) (\<lambda>existing.
          bindM (case references of
                   Some refs \<Rightarrow> ret (fr_secretWorkspaceIds refs)
                 | None \<Rightarrow> listRuntimeSecretWorkspaceIds (service r)) (\<lambda>liveIds.
          bindM now (\<lambda>at.
          bindM (sweep (\<lambda>s. effected (io (CDeleteSecret (ar_name s)) (provider (deleteSecret (ar_name s)))))
              (selectOrphanSecrets existing (set liveIds) at (r_gcGraceMs r))
              (sweeping (length existing)))
            (\<lambda>c. ret (reap_counts c)))))
      | _ \<Rightarrow> ret (reap_counts (sweeping 0)))"

record prune_result =
  deregistered :: int
  pr_failed :: nat

definition pruneTaskDefinitions :: "'p reconciler \<Rightarrow> ('p, prune_result) act" where
  "pruneTaskDefinitions r =
     (case Option.bind (r_compute r) rc_pruneTaskDefinitions of
        None \<Rightarrow> ret \<lparr>deregistered = 0, pr_failed = 0\<rparr>
      | Some prune \<Rightarrow>
          tryM (bindM (io (CPruneTaskDefs (r_taskDefKeep r)) (provider (prune (r_taskDefKeep r))))
                  (\<lambda>n. ret \<lparr>deregistered = n, pr_failed = 0\<rparr>))
            (\<lambda>e. ret \<lparr>deregistered = 0, pr_failed = 1\<rparr>))"

section \<open>The control plane itself\<close>

record control_plane_idle_result =
  configured :: bool
  desiredCount :: int
  scaledToZero :: bool
  reason :: string
  cp_failed :: nat

definition controlPlaneIdleShutdown ::
  "'p reconciler \<Rightarrow> ('p, control_plane_idle_result) act" where
  "controlPlaneIdleShutdown r =
     (case r_controlPlane r of
        None \<Rightarrow> ret \<lparr>configured = False, desiredCount = 0, scaledToZero = False,
                   reason = ''unconfigured'', cp_failed = 0\<rparr>
      | Some cp \<Rightarrow>
          (let name = cp_serviceName cp;
               idleThresholdMs = orElse (cp_idleThresholdMs cp) DEFAULT_CONTROL_PLANE_IDLE_MS
           in tryM
             (bindM (io (CDescribeService name) (provider (cp_describeService cp name))) (\<lambda>desired.
              bindM (io CReadActivity (provider (cp_readLastActivity cp))) (\<lambda>lastActivityAt.
              bindM now (\<lambda>at.
                case decideControlPlaneIdle desired lastActivityAt at idleThresholdMs of
                  ScaleToZero why \<Rightarrow>
                    bindM (io (CScaleService name 0) (provider (cp_scaleService cp name 0))) (\<lambda>_.
                      ret \<lparr>configured = True, desiredCount = desired, scaledToZero = True,
                           reason = why, cp_failed = 0\<rparr>)
                | Hold why \<Rightarrow>
                    ret \<lparr>configured = True, desiredCount = desired, scaledToZero = False,
                         reason = why, cp_failed = 0\<rparr>
                | WakeTo _ why \<Rightarrow>
                    ret \<lparr>configured = True, desiredCount = desired, scaledToZero = False,
                         reason = why, cp_failed = 0\<rparr>))))
             (\<lambda>e. ret \<lparr>configured = True, desiredCount = 0, scaledToZero = False,
                       reason = ''error'', cp_failed = 1\<rparr>)))"

section \<open>The maintenance tick\<close>

record maintenance_result =
  provisioning :: sweep_result
  drift :: sweep_result
  storageDrift :: sweep_result
  recovered :: sweep_result
  deletions :: sweep_result
  stoppings :: sweep_result
  idles :: sweep_result
  snapshotting :: sweep_result
  tasks :: reap_result
  secrets :: reap_result
  taskDefs :: prune_result
  gc :: gc_result
  purged :: int
  quotaDriftCorrected :: int
  controlPlane :: control_plane_idle_result

definition purgeTombstones :: "'p reconciler \<Rightarrow> ('p, int) act" where
  "purgeTombstones r =
     tryM (purgeExpiredTombstones (service r) (r_undeleteRetentionMs r)) (\<lambda>e. ret 0)"

definition runMaintenance :: "'p reconciler \<Rightarrow> ('p, maintenance_result) act" where
  "runMaintenance r =
     bindM (recoverProvisioning r) (\<lambda>prov.
     bindM (detectDrift r) (\<lambda>dr.
     bindM (detectStorageDrift r) (\<lambda>sdr.
     bindM (recoverErrors r) (\<lambda>rec.
     bindM (finishDeletions r) (\<lambda>del.
     bindM (finishStopping r) (\<lambda>st.
     bindM (purgeTombstones r) (\<lambda>pu.
     bindM (runOnce r) (\<lambda>idl.
     bindM (snapshotDue r) (\<lambda>sn.
     bindM (listFleetReferences (service r)) (\<lambda>references.
     bindM (reapOrphanTasks r (Some references)) (\<lambda>ta.
     bindM (reapOrphanSecrets r (Some references)) (\<lambda>se.
     bindM (pruneTaskDefinitions r) (\<lambda>td.
     bindM (collectGarbage r (Some references)) (\<lambda>g.
     bindM (reconcileOwnerCounts (service r)) (\<lambda>qd.
     bindM (controlPlaneIdleShutdown r) (\<lambda>cpr.
       ret \<lparr>provisioning = prov, drift = dr, storageDrift = sdr, recovered = rec, deletions = del,
            stoppings = st, idles = idl, snapshotting = sn, tasks = ta, secrets = se, taskDefs = td,
            gc = g, purged = pu, quotaDriftCorrected = qd, controlPlane = cpr\<rparr>))))))))))))))))"

text \<open>The two roll-ups of \<^verbatim>\<open>run.ts\<close>.\<close>

definition rollup_skipped :: "maintenance_result \<Rightarrow> nat" where
  "rollup_skipped m =
     skipped (provisioning m) + skipped (drift m) + skipped (storageDrift m) + skipped (idles m) +
     skipped (snapshotting m) + skipped (recovered m) + skipped (deletions m)"

definition rollup_convergeFailed :: "maintenance_result \<Rightarrow> nat" where
  "rollup_convergeFailed m =
     failed (provisioning m) + failed (drift m) + failed (storageDrift m) + failed (recovered m) +
     failed (deletions m) + failed (idles m) + failed (snapshotting m)"

end
