(* ===== verification/Reconciler_Props.thy ===== *)
theory Reconciler_Props
  imports Reconciler
begin

text \<open>
  What the sweeps of the reconciler guarantee: one item never aborts a sweep and every item
  is accounted for, the converging sweeps are bounded by the budget, a maintenance tick keeps
  the guarantee of the service under any schedule, the reapers spare what the keep-set names,
  and the collector, run without interference, removes exactly the garbage.
\<close>

section \<open>Isolation and accounting\<close>

definition attempted :: "sweep_result \<Rightarrow> nat" where
  "attempted c = acted c + skipped c + failed c"

lemma attempted_sweeping [simp]: "attempted (sweeping n) = 0" "scanned (sweeping n) = n"
  by (simp_all add: attempted_def sweeping_def)

lemma tally_counts [simp]:
  "scanned (tally v c) = scanned c"
  "attempted (tally v c) = attempted c + (if v = Nothing then 0 else 1)"
  by (cases v; simp add: attempted_def)+

text \<open>Whatever happens to an item, its attempt returns and counts at most one.\<close>

lemma attempt_Ret:
  "\<exists>c'. fst (attempt m c w) = Ret c' \<and> scanned c' = scanned c \<and>
     attempted c' = attempted c + (if fst (m w) = Ret Nothing then 0 else 1)"
  by (cases "m w", cases "fst (m w)") (auto simp: attempt_def tryM_def bindM_def ret_def attempted_def [of "_\<lparr>failed := _\<rparr>"],
     simp add: attempted_def)

lemma sweep_Ret:
  "\<exists>c'. fst (sweep f xs c w) = Ret c' \<and> scanned c' = scanned c \<and>
     attempted c' \<le> attempted c + length xs \<and>
     ((\<forall>x w. fst (f x w) \<noteq> Ret Nothing) \<longrightarrow> attempted c' = attempted c + length xs)"
proof (induction xs arbitrary: c w)
  case (Cons x xs)
  obtain c1 where c1: "fst (attempt (f x) c w) = Ret c1" "scanned c1 = scanned c"
    "attempted c1 = attempted c + (if fst (f x w) = Ret Nothing then 0 else 1)"
    using attempt_Ret [of "f x" c w] by blast
  from Cons.IH [of c1 "snd (attempt (f x) c w)"] c1 show ?case
    by (cases "attempt (f x) c w") (auto simp: bindM_def split: if_splits)
qed (simp add: ret_def)

lemma served_settles: "fst (served m w) \<noteq> Ret Nothing"
  by (cases "m w", cases "fst (m w)")
    (auto simp: served_def bindM_def ret_def of_result_def split: result.split)

lemma effected_settles: "fst (effected m w) \<noteq> Ret Nothing"
  by (cases "m w", cases "fst (m w)") (auto simp: effected_def bindM_def ret_def)

text \<open>
  A sweep over a list is isolated: it throws only what its list threw, and otherwise
  reports the length of the list and has attempted at most that many items.
\<close>

definition isolated :: "('p, 'x list) act \<Rightarrow> ('p, sweep_result) act \<Rightarrow> bool" where
  "isolated l m \<longleftrightarrow> (\<forall>w. case fst (m w) of
      Raise e \<Rightarrow> fst (l w) = Raise e
    | Ret c \<Rightarrow> \<exists>xs. fst (l w) = Ret xs \<and> scanned c = length xs \<and> attempted c \<le> length xs)"

definition accounts :: "nat \<Rightarrow> nat \<Rightarrow> ('p, sweep_result) act \<Rightarrow> bool" where
  "accounts n k m \<longleftrightarrow> (\<forall>w. \<exists>c. fst (m w) = Ret c \<and> scanned c = n \<and> attempted c \<le> k)"

lemma accounts_sweep: "length xs \<le> k \<Longrightarrow> accounts n k (sweep f xs (sweeping n))"
  unfolding accounts_def
proof
  fix w assume "length xs \<le> k"
  with sweep_Ret [of f xs "sweeping n" w]
  show "\<exists>c. fst (sweep f xs (sweeping n) w) = Ret c \<and> scanned c = n \<and> attempted c \<le> k" by auto
qed

lemma accounts_now: "(\<And>t. accounts n k (m t)) \<Longrightarrow> accounts n k (bindM now m)"
  by (simp add: accounts_def bindM_def now_def)

lemma isolated_list:
  assumes "\<And>xs. accounts (length xs) (length xs) (m xs)"
  shows "isolated l (bindM l m)"
  unfolding isolated_def
proof
  fix w
  show "case fst (bindM l m w) of Raise e \<Rightarrow> fst (l w) = Raise e
    | Ret c \<Rightarrow> \<exists>xs. fst (l w) = Ret xs \<and> scanned c = length xs \<and> attempted c \<le> length xs"
  proof (cases "l w")
    case (Pair r w1)
    show ?thesis
    proof (cases r)
      case (Ret xs)
      moreover obtain c where "fst (m xs w1) = Ret c" "scanned c = length xs" "attempted c \<le> length xs"
        using assms [of xs] unfolding accounts_def by blast
      ultimately show ?thesis using Pair by (simp add: bindM_def)
    qed (use Pair in \<open>simp add: bindM_def\<close>)
  qed
qed

lemma length_selectIdle: "length (selectIdle active at ms) \<le> length active"
  unfolding selectIdle_def by (simp add: length_filter_le le_trans [OF length_filter_le])

lemma length_selectDue: "length (selectDueForSnapshot cs at ms early) \<le> length cs"
  by (simp add: selectDueForSnapshot_def)

lemma length_slice0: "length (slice0 n xs) \<le> length xs"
  by (auto simp: slice0_def)

lemmas isolated_rules = isolated_list accounts_now accounts_sweep

text \<open>
  C16. One workspace never aborts a sweep. Each sweep throws only when the read of its list
  threw; otherwise it returns, whatever its items did, having counted every item of the
  list as scanned and each item at most once as acted upon, skipped or failed.
\<close>

theorem sweeps_are_isolated:
  "isolated (listActive (service r)) (detectDrift r) \<and>
   isolated (listStuckProvisioning (service r)) (recoverProvisioning r) \<and>
   isolated (listDeleting (service r)) (finishDeletions r) \<and>
   isolated (listStopping (service r)) (finishStopping r) \<and>
   isolated (listRecoverableErrors (service r)) (recoverErrors r) \<and>
   isolated (listActive (service r)) (runOnce r) \<and>
   isolated (listSnapshotCandidates (service r)) (snapshotDue r)"
  unfolding detectDrift_def recoverProvisioning_def finishDeletions_def finishStopping_def
    recoverErrors_def runOnce_def snapshotDue_def
  by (intro conjI isolated_rules length_selectIdle length_selectDue length_slice0 order.refl)

lemma budgeted:
  assumes "fst (bindM l (\<lambda>xs. sweep (\<lambda>x. served (f x)) (slice0 b xs) (sweeping (length xs))) w) = Ret c"
    and "0 \<le> b"
  shows "attempted c = min (nat b) (scanned c)"
proof (cases "l w")
  case (Pair x w1)
  show ?thesis
  proof (cases x)
    case (Ret xs)
    with Pair assms sweep_Ret [of "\<lambda>x. served (f x)" "slice0 b xs" "sweeping (length xs)" w1] show ?thesis
      by (auto simp: bindM_def served_settles slice0_def)
  qed (use Pair assms in \<open>simp add: bindM_def\<close>)
qed

text \<open>
  C17. The converging sweeps are bounded and make progress: a sweep of deletions, of manual
  stops or of recoverable errors attempts exactly as many items as the budget allows and
  the list holds, and accounts for every one of them.
\<close>

theorem converge_budget:
  assumes "0 \<le> r_convergeBudget r" and "m \<in> {finishDeletions r, finishStopping r, recoverErrors r}"
    and "fst (m w) = Ret c"
  shows "attempted c = min (nat (r_convergeBudget r)) (scanned c)"
proof -
  from assms(2) consider "m = finishDeletions r" | "m = finishStopping r" | "m = recoverErrors r" by blast
  then show ?thesis
    using assms(3) unfolding finishDeletions_def finishStopping_def recoverErrors_def
    by cases (simp_all add: budgeted [OF _ assms(1)])
qed

section \<open>The tick keeps the guarantee of the service\<close>

lemma safe_attempt [safe_intros]: "safeT d (\<lambda>_. True) m \<Longrightarrow> safeT d P (attempt m c)"
  unfolding attempt_def by (rule safeT_pre) (intro safe_intros stable_True)

lemma safe_sweep [safe_intros]: "(\<And>x. safeT d (\<lambda>_. True) (f x)) \<Longrightarrow> safeT d P (sweep f xs c)"
proof (rule safeT_pre, induction xs arbitrary: c)
  case (Cons x xs)
  then show ?case by simp (intro safe_intros stable_True)
qed (simp add: safeT_pure)

lemma safe_verdict [safe_intros]:
  assumes "safeT d (\<lambda>_. True) m"
  shows "safeT d P (served m)"
  unfolding served_def by (rule safeT_pre) (intro safe_intros stable_True assms)

lemma safe_effected [safe_intros]:
  assumes "safeT d (\<lambda>_. True) m"
  shows "safeT d P (effected m)"
  unfolding effected_def by (rule safeT_pre) (intro safe_intros stable_True assms)

lemma safe_port [safe_intros]: "safeT d P (io c (provider f))"
  by (rule safeT_pre, rule safe_io)
    (auto simp: provider_def split: sum.splits prod.splits intro: wf_sys_frame guar_frame)

lemma safe_sweeps [safe_intros]:
  "safeT (service r) P (detectDrift r)" "safeT (service r) P (detectStorageDrift r)"
  "safeT (service r) P (recoverProvisioning r)" "safeT (service r) P (finishDeletions r)"
  "safeT (service r) P (finishStopping r)" "safeT (service r) P (recoverErrors r)"
  "safeT (service r) P (runOnce r)" "safeT (service r) P (snapshotDue r)"
  "safeT (service r) P (purgeTombstones r)"
  unfolding detectDrift_def detectStorageDrift_def recoverProvisioning_def finishDeletions_def
    finishStopping_def recoverErrors_def runOnce_def snapshotDue_def purgeTombstones_def Let_def case_prod_beta
  by (rule safeT_pre, (intro safe_intros stable_True))+

lemma safe_collectGarbage [safe_intros]: "safeT (service r) P (collectGarbage r refs)"
  unfolding collectGarbage_def listVolumes_def deleteVolume_def case_prod_beta
  by (rule safeT_pre, (intro safe_intros stable_True))

lemma safe_reapOrphanTasks [safe_intros]: "safeT (service r) P (reapOrphanTasks r refs)"
  unfolding reapOrphanTasks_def
  by (rule safeT_pre, (intro safe_intros stable_True))

lemma safe_reapOrphanSecrets [safe_intros]: "safeT (service r) P (reapOrphanSecrets r refs)"
  unfolding reapOrphanSecrets_def prod.case
  by (rule safeT_pre, (intro safe_intros stable_True))

lemma safe_prune [safe_intros]: "safeT (service r) P (pruneTaskDefinitions r)"
  unfolding pruneTaskDefinitions_def
  by (rule safeT_pre, (intro safe_intros stable_True))

lemma safe_decision [safe_intros]:
  "\<lbrakk>\<And>x. safeT d P (f x); \<And>x. safeT d P (g x); \<And>n x. safeT d P (h n x)\<rbrakk> \<Longrightarrow>
   safeT d P (case y of Hold x \<Rightarrow> f x | ScaleToZero x \<Rightarrow> g x | WakeTo n x \<Rightarrow> h n x)"
  by (cases y) simp_all

lemma safe_controlPlane [safe_intros]: "safeT (service r) P (controlPlaneIdleShutdown r)"
  unfolding controlPlaneIdleShutdown_def Let_def
  by (rule safeT_pre, (intro safe_intros stable_True))

lemma safe_runMaintenance [safe_intros]: "safeT (service r) P (runMaintenance r)"
  unfolding runMaintenance_def
  by (rule safeT_pre, (intro safe_intros stable_True))

section \<open>What the reapers touch\<close>

lemma never_sweep [never_intros]:
  "(\<And>x. x \<in> set xs \<Longrightarrow> never A (f x)) \<Longrightarrow> never A (sweep f xs c)"
proof (induction xs arbitrary: c)
  case (Cons x xs)
  have "never A (attempt (f x) c)" using Cons.prems [of x] unfolding attempt_def by (intro never_intros) simp
  with Cons show ?case by (auto intro: never_bind)
qed (simp add: never_local)

lemma never_effected [never_intros]: "never A m \<Longrightarrow> never A (effected m)"
  unfolding effected_def by (intro never_intros)

fun removes_referenced :: "fleet_references \<Rightarrow> call \<Rightarrow> bool" where
  "removes_referenced refs (CDeleteVolume i) \<longleftrightarrow> i \<in> set (fr_volumeIds refs)"
| "removes_referenced refs (CDeleteSnapshot i) \<longleftrightarrow> i \<in> set (fr_snapshotIds refs)"
| "removes_referenced refs (CStopTask t) \<longleftrightarrow> t \<in> set (fr_taskIds refs)"
| "removes_referenced refs _ \<longleftrightarrow> False"

definition reap_phase :: "'p reconciler \<Rightarrow> fleet_references \<Rightarrow> ('p, gc_result) act" where
  "reap_phase r refs =
     bindM (reapOrphanTasks r (Some refs)) (\<lambda>_.
     bindM (reapOrphanSecrets r (Some refs)) (\<lambda>_.
     bindM (pruneTaskDefinitions r) (\<lambda>_. collectGarbage r (Some refs))))"

lemma bind_ret: "bindM (ret a) f = f a"
  by (simp add: bindM_def ret_def fun_eq_iff)

lemma never_reap_tasks: "never (removes_referenced refs) (reapOrphanTasks r (Some refs))"
  unfolding reapOrphanTasks_def option.case bind_ret
  by (intro never_intros never_call(2)) (auto simp: selectOrphanTasks_def)

lemma never_reap_secrets: "never (removes_referenced refs) (reapOrphanSecrets r (Some refs))"
  unfolding reapOrphanSecrets_def option.case prod.case bind_ret
  by (intro never_intros never_call(2)) simp_all

lemma never_prune: "never (removes_referenced refs) (pruneTaskDefinitions r)"
  unfolding pruneTaskDefinitions_def by (intro never_intros never_call(2)) simp

lemma never_collect: "never (removes_referenced refs) (collectGarbage r (Some refs))"
  unfolding collectGarbage_def listVolumes_def deleteVolume_def option.case bind_ret prod.case
  by (intro never_intros never_call(2)) (auto simp: selectOrphanVolumes_def selectOrphanSnapshots_def)


lemma quiet_sweep:
  assumes "quiet w" and "\<And>i c. f i c = (Inr (), g i c)"
  shows "\<exists>w'. sweep (\<lambda>i. effected (io (k i) (provider (f i)))) xs c w =
      (Ret (c\<lparr>acted := acted c + length xs\<rparr>), w') \<and> quiet w' \<and>
      sys w' = (sys w)\<lparr>cloud := fold g xs (cloud (sys w))\<rparr>"
  using assms(1)
proof (induction xs arbitrary: w c)
  case (Cons x xs)
  obtain w1 where w1: "io (k x) (provider (f x)) w = (Ret (), w1)" "quiet w1"
    "sys w1 = (sys w)\<lparr>cloud := g x (cloud (sys w))\<rparr>"
    using quiet_provider [OF Cons.prems, of "f x" "()" "g x (cloud (sys w))"] assms(2) by blast
  from Cons.IH [OF w1(2), of "c\<lparr>acted := acted c + 1\<rparr>"] w1 show ?case
    by (auto simp: bindM_def attempt_def tryM_def effected_def ret_def)
qed (simp add: ret_def)

section \<open>The collector, exactly\<close>

lemma quiet_referenced:
  assumes "quiet w"
  shows "\<exists>vols snaps w'. listReferencedStorage d w = (Ret (vols, snaps), w') \<and> quiet w' \<and> sys w' = sys w \<and>
     set vols = {x. \<exists>(i, r, v) \<in> set (table (sys w)). volumeId r = Some x} \<and>
     set snaps = {x. \<exists>(i, r, v) \<in> set (table (sys w)). latestSnapshotId r = Some x}"
proof -
  obtain rs w' where rs: "allRecords d w = (Ret rs, w')" "mset rs = mset (map snd (table (sys w)))"
    "quiet w'" "sys w' = sys w" using assms by (rule quiet_allRecords)
  have "set rs = snd ` set (table (sys w))"
    using rs(2) by (metis mset_eq_setD set_map)
  with rs show ?thesis
    by (auto simp: listReferencedStorage_def bindM_def ret_def List.map_filter_def image_iff) (force+)
qed

lemma fold_delete_keys:
  "fold AList.delete xs al = filter (\<lambda>p. fst p \<notin> set xs) al"
  by (induction xs arbitrary: al) (auto simp: AList.delete_eq conj_commute intro!: filter_cong)

text \<open>The reconciler on the fakes, which offer none of the optional compute functions.\<close>

definition fake_reconciler_deps :: "fake_cloud reconciler_deps" where
  "fake_reconciler_deps =
     \<lparr>rd_service = fake_deps, rd_listVolumes = (\<lambda>c. (Inr (fake_listVolumes (storage c)), c)),
      rd_deleteVolume = (\<lambda>i c. (Inr (), c\<lparr>storage := fake_deleteVolume i (storage c)\<rparr>)),
      rd_compute = Some \<lparr>rc_listWorkspaceTasks = None, rc_listWorkspaceAgentSecrets = None,
        rc_deleteAgentSecret = None, rc_pruneTaskDefinitions = None\<rparr>,
      rd_idleThresholdMs = None, rd_snapshotIntervalMs = None, rd_earlySnapshotIntervalMs = None,
      rd_earlySessionMs = None, rd_taskDefKeep = None, rd_convergeBudget = None, rd_gcGraceMs = None,
      rd_undeleteRetentionMs = None, rd_provisioningTimeoutMs = None, rd_controlPlane = None\<rparr>"

definition fake_reconciler :: "fake_cloud reconciler" where
  "fake_reconciler = new_reconciler fake_reconciler_deps"

lemma fake_reconciler_simps [simp]:
  "service fake_reconciler = fake_deps" "r_convergeBudget fake_reconciler = 50"
  "r_gcGraceMs fake_reconciler = DEFAULT_GC_GRACE_MS"
  "r_listVolumes fake_reconciler = (\<lambda>c. (Inr (fake_listVolumes (storage c)), c))"
  "r_deleteVolume fake_reconciler = (\<lambda>i c. (Inr (), c\<lparr>storage := fake_deleteVolume i (storage c)\<rparr>))"
  by (simp_all add: fake_reconciler_def fake_reconciler_deps_def new_reconciler_def orElse_def
      DEFAULT_CONVERGE_BUDGET_def)

definition drop_volume :: "string \<Rightarrow> fake_cloud \<Rightarrow> fake_cloud" where
  "drop_volume i c = c\<lparr>storage := fake_deleteVolume i (storage c)\<rparr>"

definition drop_snapshot :: "string \<Rightarrow> fake_cloud \<Rightarrow> fake_cloud" where
  "drop_snapshot i c = c\<lparr>storage := fake_deleteSnapshot i (storage c)\<rparr>"

lemma fold_drop_volume [simp]:
  "volumeMetas (storage (fold drop_volume xs c)) = filter (\<lambda>p. fst p \<notin> set xs) (volumeMetas (storage c))"
  "snapshotMetas (storage (fold drop_volume xs c)) = snapshotMetas (storage c)"
  by (induction xs arbitrary: c)
    (auto simp: drop_volume_def fake_deleteVolume_def AList.delete_eq conj_commute intro!: filter_cong)

lemma fold_drop_snapshot [simp]:
  "snapshotMetas (storage (fold drop_snapshot xs c)) = filter (\<lambda>p. fst p \<notin> set xs) (snapshotMetas (storage c))"
  "volumeMetas (storage (fold drop_snapshot xs c)) = volumeMetas (storage c)"
  by (induction xs arbitrary: c)
    (auto simp: drop_snapshot_def fake_deleteSnapshot_def AList.delete_eq conj_commute intro!: filter_cong)

lemma quiet_collect:
  assumes "quiet w"
  shows "\<exists>vols snaps g w'. collectGarbage fake_reconciler None w = (Ret g, w') \<and>
     volumesFailed g = 0 \<and> snapshotsFailed g = 0 \<and>
     set vols = {x. \<exists>(i, r, v) \<in> set (table (sys w)). volumeId r = Some x} \<and>
     set snaps = {x. \<exists>(i, r, v) \<in> set (table (sys w)). latestSnapshotId r = Some x} \<and>
     sys w' = (sys w)\<lparr>cloud :=
        fold drop_snapshot (selectOrphanSnapshots (fake_listSnapshots (storage (cloud (sys w)))) (set snaps)
            (Iso (clockMs (sys w))) DEFAULT_GC_GRACE_MS)
          (fold drop_volume (selectOrphanVolumes (fake_listVolumes (storage (cloud (sys w)))) (set vols)
            (Iso (clockMs (sys w))) DEFAULT_GC_GRACE_MS) (cloud (sys w)))\<rparr>"
proof -
  let ?c = "cloud (sys w)" and ?at = "Iso (clockMs (sys w))" and ?g = DEFAULT_GC_GRACE_MS
  obtain vols snaps w1 where w1: "listReferencedStorage fake_deps w = (Ret (vols, snaps), w1)" "quiet w1"
    "sys w1 = sys w" "set vols = {x. \<exists>(i, r, v) \<in> set (table (sys w)). volumeId r = Some x}"
    "set snaps = {x. \<exists>(i, r, v) \<in> set (table (sys w)). latestSnapshotId r = Some x}"
    using quiet_referenced [OF assms] by blast
  obtain w2 where w2: "listVolumes fake_reconciler w1 = (Ret (fake_listVolumes (storage ?c)), w2)" "quiet w2"
    "sys w2 = sys w"
    using quiet_provider [OF w1(2), of "r_listVolumes fake_reconciler"] w1(3) by (auto simp: listVolumes_def)
  obtain w3 where w3: "listSnapshots fake_deps w2 = (Ret (fake_listSnapshots (storage ?c)), w3)" "quiet w3"
    "sys w3 = sys w"
    using quiet_provider [OF w2(2), of "d_listSnapshots fake_deps"] w2(3)
    by (auto simp: listSnapshots_def fake_deps_def)
  let ?vs = "selectOrphanVolumes (fake_listVolumes (storage ?c)) (set vols) ?at ?g"
  let ?ss = "selectOrphanSnapshots (fake_listSnapshots (storage ?c)) (set snaps) ?at ?g"
  obtain w4 where w4: "sweep (\<lambda>i. effected (deleteVolume fake_reconciler i)) ?vs (sweeping 0) w3 =
      (Ret ((sweeping 0)\<lparr>acted := length ?vs\<rparr>), w4)" "quiet w4"
    "sys w4 = (sys w)\<lparr>cloud := fold drop_volume ?vs ?c\<rparr>"
    using quiet_sweep [OF w3(2), of "r_deleteVolume fake_reconciler" drop_volume CDeleteVolume ?vs "sweeping 0"] w3(3)
    by (auto simp: deleteVolume_def drop_volume_def sweeping_def)
  obtain w5 where w5: "sweep (\<lambda>i. effected (deleteSnapshot fake_deps i)) ?ss (sweeping 0) w4 =
      (Ret ((sweeping 0)\<lparr>acted := length ?ss\<rparr>), w5)"
    "sys w5 = (sys w)\<lparr>cloud := fold drop_snapshot ?ss (fold drop_volume ?vs ?c)\<rparr>"
    using quiet_sweep [OF w4(2), of "d_deleteSnapshot fake_deps" drop_snapshot CDeleteSnapshot ?ss "sweeping 0"] w4(3)
    by (auto simp: deleteSnapshot_def drop_snapshot_def fake_deps_def sweeping_def)
  have "collectGarbage fake_reconciler None w =
      (Ret \<lparr>volumesDeleted = length ?vs, snapshotsDeleted = length ?ss, volumesFailed = 0,
        snapshotsFailed = 0\<rparr>, w5)"
    using w1(1) w2(1) w3(1) w4(1) w5(1)
    by (simp add: collectGarbage_def bindM_def now_def ret_def w1(3)) (simp add: sweeping_def)
  with w1(4,5) w5(2) show ?thesis by (intro exI conjI) (assumption | simp)+
qed

lemma keep_filter:
  assumes "distinct (map fst al)" and "set xs = fst ` {p \<in> set al. P p}"
  shows "filter (\<lambda>p. fst p \<notin> set xs) al = filter (\<lambda>p. \<not> P p) al"
  using assms by (intro filter_cong refl) (auto simp: image_iff dest: eq_key_imp_eq_value)

lemma orphans_of_fakes:
  "set (selectOrphanVolumes (fake_listVolumes st) K at g) =
     fst ` {p \<in> set (volumeMetas st). fst p \<notin> K \<and> aged (vm_createdAt (snd p)) at g}"
  "set (selectOrphanSnapshots (fake_listSnapshots st) K at g) =
     fst ` {p \<in> set (snapshotMetas st). \<not> sm_retained (snd p) \<and> fst p \<notin> K \<and> aged (sm_createdAt (snd p)) at g}"
  by (force simp: selectOrphanVolumes_def fake_listVolumes_def selectOrphanSnapshots_def
      fake_listSnapshots_def image_iff split: if_splits)+

text \<open>
  C14. The collector removes exactly the garbage. Run on the fakes without interference, it
  leaves the table alone, fails on nothing, and what is left of the volumes and of the
  snapshots are, in their order, those some workspace record names, those younger than the
  grace window and, of the snapshots, those tagged as retained.
\<close>

theorem collectGarbage_exact:
  assumes "schedule w = []" and "distinct (map fst (volumeMetas (storage (cloud (sys w)))))"
    and "distinct (map fst (snapshotMetas (storage (cloud (sys w)))))"
  shows "\<exists>g w'. collectGarbage fake_reconciler None w = (Ret g, w') \<and> table (sys w') = table (sys w) \<and>
     volumesFailed g = 0 \<and> snapshotsFailed g = 0 \<and>
     volumeMetas (storage (cloud (sys w'))) =
       filter (\<lambda>(i, m). (\<exists>(j, r, v) \<in> set (table (sys w)). volumeId r = Some i) \<or>
           \<not> aged (vm_createdAt m) (Iso (clockMs (sys w))) DEFAULT_GC_GRACE_MS)
         (volumeMetas (storage (cloud (sys w)))) \<and>
     snapshotMetas (storage (cloud (sys w'))) =
       filter (\<lambda>(i, m). sm_retained m \<or> (\<exists>(j, r, v) \<in> set (table (sys w)). latestSnapshotId r = Some i) \<or>
           \<not> aged (sm_createdAt m) (Iso (clockMs (sys w))) DEFAULT_GC_GRACE_MS)
         (snapshotMetas (storage (cloud (sys w))))"
proof -
  from assms(1) quiet_collect [of w] obtain vols snaps g w' where
    c: "collectGarbage fake_reconciler None w = (Ret g, w')" "volumesFailed g = 0" "snapshotsFailed g = 0"
     "set vols = {x. \<exists>(i, r, v) \<in> set (table (sys w)). volumeId r = Some x}"
     "set snaps = {x. \<exists>(i, r, v) \<in> set (table (sys w)). latestSnapshotId r = Some x}"
     "sys w' = (sys w)\<lparr>cloud :=
        fold drop_snapshot (selectOrphanSnapshots (fake_listSnapshots (storage (cloud (sys w)))) (set snaps)
            (Iso (clockMs (sys w))) DEFAULT_GC_GRACE_MS)
          (fold drop_volume (selectOrphanVolumes (fake_listVolumes (storage (cloud (sys w)))) (set vols)
            (Iso (clockMs (sys w))) DEFAULT_GC_GRACE_MS) (cloud (sys w)))\<rparr>"
    unfolding quiet_def by blast
  have "table (sys w') = table (sys w)" using c(6) by simp
  moreover have "volumeMetas (storage (cloud (sys w'))) =
       filter (\<lambda>(i, m). (\<exists>(j, r, v) \<in> set (table (sys w)). volumeId r = Some i) \<or>
           \<not> aged (vm_createdAt m) (Iso (clockMs (sys w))) DEFAULT_GC_GRACE_MS)
         (volumeMetas (storage (cloud (sys w))))"
    using c(4) by (simp add: c(6) keep_filter [OF assms(2) orphans_of_fakes(1)] split_def)
  moreover have "snapshotMetas (storage (cloud (sys w'))) =
       filter (\<lambda>(i, m). sm_retained m \<or> (\<exists>(j, r, v) \<in> set (table (sys w)). latestSnapshotId r = Some i) \<or>
           \<not> aged (sm_createdAt m) (Iso (clockMs (sys w))) DEFAULT_GC_GRACE_MS)
         (snapshotMetas (storage (cloud (sys w))))"
    using c(5) by (simp add: c(6) keep_filter [OF assms(3) orphans_of_fakes(2)] split_def)
  ultimately show ?thesis using c(1,2,3) by blast
qed

theorem collectGarbage_exact_witness:
  "\<exists>g w'. collectGarbage fake_reconciler None created_world = (Ret g, w') \<and>
     map fst (volumeMetas (storage (cloud (sys w')))) = [''vol-''] \<and> volumesFailed g = 0"
proof -
  let ?w = created_world
  have young: "\<not> aged (Iso 0) (Iso (clockMs (sys ?w))) DEFAULT_GC_GRACE_MS"
    by (simp add: DEFAULT_GC_GRACE_MS_def) code_simp
  from collectGarbage_exact [OF created_quiet] obtain g w' where
    "collectGarbage fake_reconciler None ?w = (Ret g, w')" "volumesFailed g = 0"
    "volumeMetas (storage (cloud (sys w'))) =
       filter (\<lambda>(i, m). (\<exists>(j, r, v) \<in> set (table (sys ?w)). volumeId r = Some i) \<or>
           \<not> aged (vm_createdAt m) (Iso (clockMs (sys ?w))) DEFAULT_GC_GRACE_MS)
         (volumeMetas (storage (cloud (sys ?w))))"
    by (auto simp: created_cloud)
  with young show ?thesis by (auto simp: created_cloud)
qed

section \<open>The tick\<close>

text \<open>
  C2. A maintenance tick keeps the guarantee of the service. Whatever the schedule of other
  actors that keep it and of failing, lost and cancelled calls, and whatever the providers
  answer, after the tick (also one that threw half-way) the table is well formed, and the
  tick has only appended to history and ledger, followed the transition table and never
  taken a version, an owner or a creation time back.
\<close>

theorem maintenance_guarantee:
  assumes "ok_world (service r) w"
  shows "wf_sys (service r) (sys (snd (runMaintenance r w))) \<and> guar (sys w) (sys (snd (runMaintenance r w)))"
  using safe_runMaintenance [of r "\<lambda>_. True"] assms unfolding safe_def ok_world_def by blast

theorem maintenance_guarantee_witness:
  "wf_sys fake_deps (sys (snd (runMaintenance fake_reconciler created_world)))"
  using maintenance_guarantee [of fake_reconciler created_world] created_ok by simp

text \<open>
  A shorter idle window of a workspace has no effect. The idle sweep selects a workspace
  by its own window where it has one, but passes the window of the deployment to the stop,
  which takes the larger of the two: between the two windows the workspace is selected on
  every tick, and every stop of it returns without a single call.
\<close>

theorem short_idle_window_ignored:
  assumes "idleStopMs ws = Some k" and "alwaysOn ws \<noteq> Some True"
    and "elapsed (Iso (clockMs (sys w))) (lastActivity ws) = Some n" and "k \<le> n" and "n < ms"
  shows "selectIdle [\<lparr>aw_id = wsId ws, aw_lastActivity = lastActivity ws, aw_idleStopMs = idleStopMs ws,
      aw_alwaysOn = alwaysOn ws\<rparr>] (Iso (clockMs (sys w))) ms = [wsId ws] \<and>
    calls_of (stop_loaded d i actor (Some ms) (ws, v)) w = []"
proof -
  obtain e where "idle_guard i ws ms (Iso (clockMs (sys w))) = Some e"
    using assms by (simp add: idle_guard_def orElse_def)
  then have "calls_of (stop_loaded d i actor (Some ms) (ws, v)) w = []"
    by (cases "transition (state ws) Stop")
      (simp_all add: calls_of_def stop_loaded_def onOk_def bindM_def now_def ret_def)
  with assms show ?thesis by (simp add: selectIdle_def orElse_def)
qed

theorem short_idle_window_ignored_witness:
  "calls_of (stop_loaded fake_deps ''ws-'' ''system'' (Some DEFAULT_IDLE_THRESHOLD_MS)
     (sample_ws\<lparr>idleStopMs := Some 60000, alwaysOn := None, lastActivity := Iso (-120000)\<rparr>, 0)) sample_world = []"
  using short_idle_window_ignored [of "sample_ws\<lparr>idleStopMs := Some 60000, alwaysOn := None, lastActivity := Iso (-120000)\<rparr>"
      60000 sample_world 120000 DEFAULT_IDLE_THRESHOLD_MS]
  by (simp add: sample_world_def empty_sys_def DEFAULT_IDLE_THRESHOLD_MS_def)

theorem converge_budget_witness:
  "\<exists>c. fst (finishDeletions fake_reconciler deleting_world) = Ret c \<and> attempted c = 1"
proof -
  have "case finishDeletions fake_reconciler deleting_world of
      (Ret c, _) \<Rightarrow> scanned c = 1 | _ \<Rightarrow> False" by code_simp
  then obtain c where c: "fst (finishDeletions fake_reconciler deleting_world) = Ret c" "scanned c = 1"
    by (auto split: prod.splits outcome.splits)
  with converge_budget [of fake_reconciler "finishDeletions fake_reconciler" deleting_world c] show ?thesis
    by simp
qed

end
