(* ===== verification/Converge.thy ===== *)
theory Converge
  imports Reconciler_Props
begin

text \<open>
  The converging sweep inside the web server (\<^verbatim>\<open>apps/web/lib/lifecycle-converge-sweep.ts\<close>): one
  tick finishes the stops, the deletions and the launches that wait for capacity. A tick may
  overlap the previous one; \<open>busy\<close> says which workspaces that one is converging when the
  tick gets to them in each of its three passes.
\<close>

datatype pass = StoppingPass | DeletingPass | PlacementPass

definition converge :: "(string \<Rightarrow> bool) \<Rightarrow> (string \<Rightarrow> ('p, unit) act) \<Rightarrow> string \<Rightarrow> ('p, unit) act" where
  "converge busy finish i = (if busy i then ret () else tryM (finish i) (\<lambda>_. ret ()))"

fun converge_each :: "(string \<Rightarrow> bool) \<Rightarrow> (string \<Rightarrow> ('p, unit) act) \<Rightarrow> string list \<Rightarrow> ('p, unit) act" where
  "converge_each busy finish [] = ret ()"
| "converge_each busy finish (i # is) = bindM (converge busy finish i) (\<lambda>_. converge_each busy finish is)"

text \<open>\<open>reach\<close> is the error of a control plane that could not be built, if there is one.\<close>

definition converge_run :: "'p deps \<Rightarrow> js_error option \<Rightarrow> (pass \<Rightarrow> string \<Rightarrow> bool) \<Rightarrow> ('p, unit) act" where
  "converge_run d reach busy =
     (case reach of
        Some _ \<Rightarrow> ret ()
      | None \<Rightarrow>
          tryM (bindM (listStopping d) (\<lambda>stopping.
                bindM (converge_each (busy StoppingPass) (\<lambda>i. discard (finishStop d i False)) stopping) (\<lambda>_.
                bindM (listDeleting d) (\<lambda>deleting.
                bindM (converge_each (busy DeletingPass) (\<lambda>i. discard (finishDeleting d i)) (map wsId deleting)) (\<lambda>_.
                bindM (listPlacementDue d) (\<lambda>due.
                converge_each (busy PlacementPass) (\<lambda>i. discard (retryPlacement d i)) (map aw_id due)))))))
            (\<lambda>_. ret ()))"

lemma converge_each_returns: "\<exists>w'. converge_each busy finish is w = (Ret (), w')"
  by (induction "is" arbitrary: w)
    (auto simp: converge_def bindM_def tryM_def ret_def split: prod.split outcome.split)

lemma safe_converge_each [safe_intros]:
  "(\<And>i. safeT d (\<lambda>_. True) (finish i)) \<Longrightarrow> safeT d (\<lambda>_. True) (converge_each busy finish is)"
  by (induction "is") (auto simp: converge_def intro!: safe_intros)

text \<open>
  A tick of the converging sweep always returns, whatever the control plane, the table or
  the cloud answer, whatever one workspace throws, and whatever an overlapping tick is busy
  with; and it keeps the guarantee of the service.
\<close>

theorem converge_run_returns:
  "fst (converge_run d reach busy w) = Ret () \<and>
   (ok_world d w \<longrightarrow> wf_sys d (sys (snd (converge_run d reach busy w))) \<and> guar (sys w) (sys (snd (converge_run d reach busy w))))"
proof
  show "fst (converge_run d reach busy w) = Ret ()"
    by (auto simp: converge_run_def tryM_def ret_def split: option.split prod.split outcome.split)
  have "safeT d (\<lambda>_. True) (converge_run d reach busy)"
    unfolding converge_run_def by (intro safe_intros)
  then show "ok_world d w \<longrightarrow> wf_sys d (sys (snd (converge_run d reach busy w))) \<and> guar (sys w) (sys (snd (converge_run d reach busy w)))"
    by (auto simp: safe_def ok_world_def)
qed

end
