(* ===== verification/Service_Findings.thy ===== *)
theory Service_Findings
  imports Service_Functional
begin

text \<open>
  Behaviours of the service that differ from what its comments intend, each shown by a
  concrete schedule on the fakes or from a hypothesis the repository itself records.
\<close>

definition clean_turn :: "fake_cloud turn" where
  "clean_turn = \<lparr>others = (\<lambda>s. s), fault = Clean\<rparr>"

section \<open>A failed launch reported late\<close>

definition reserved_world :: "fake_cloud world" where
  "reserved_world = snd (reserveWorkspace fake_deps sample_input sample_world)"

definition launch_elsewhere :: "fake_cloud sys \<Rightarrow> fake_cloud sys" where
  "launch_elsewhere s =
     sys (snd (launchReserved fake_deps ''ws-'' None \<lparr>sys = s, schedule = [], trace = []\<rparr>))"

definition late_failure :: "fake_cloud world" where
  "late_failure = reserved_world\<lparr>schedule :=
     [clean_turn, \<lparr>others = launch_elsewhere, fault = Failing (plain_error ''Error'' ''boom'')\<rparr>]\<rparr>"


section \<open>A scan that a workspace moves through\<close>

definition stopped_world :: "fake_cloud world" where
  "stopped_world = snd (svc_stop fake_deps ''ws-'' ''u1'' None created_world)"

definition wake_elsewhere :: "fake_cloud sys \<Rightarrow> fake_cloud sys" where
  "wake_elsewhere s =
     sys (snd (svc_start fake_deps ''ws-'' ''u1'' \<lparr>sys = s, schedule = [], trace = []\<rparr>))"

definition moving_scan :: "fake_cloud world" where
  "moving_scan = stopped_world\<lparr>schedule :=
     replicate 4 clean_turn @ [\<lparr>others = wake_elsewhere, fault = Clean\<rparr>]\<rparr>"

text \<open>
  The keep-set is one query per state, so a workspace that changes state between two of
  them can be in none: here a stopped session is woken after the running ones were listed
  and before the stopped ones are, and the purge of unreferenced snapshots deletes the
  snapshot its record names.
\<close>

theorem scan_misses_moving_workspace:
  "(case purgeUnreferencedSnapshots fake_deps ''admin'' moving_scan of (r, w) \<Rightarrow>
      (r, map_option (\<lambda>(r, v). (state r, latestSnapshotId r)) (lookup (sys w) ''ws-''),
       map sr_id (fake_listSnapshots (storage (cloud (sys w)))))) =
   (Ret [''snap-xx''], Some (Running, Some ''snap-xx''), [])"
  by code_simp

section \<open>A session with nothing to resume\<close>

definition null_resume :: "stored_fields \<Rightarrow> bool" where
  "null_resume a =
     (case sessions a of None \<Rightarrow> False | Some ss \<Rightarrow> \<exists>s \<in> set ss. resumeCommand s = NullAttr)"

fun terminates :: "call \<Rightarrow> bool" where
  "terminates (CWrite (TxPatch i a cl v # rest)) \<longleftrightarrow> state a = Terminated"
| "terminates _ = False"

lemma never_persist_other:
  "state ws \<noteq> Terminated \<Longrightarrow> never terminates (persistTransition d ws v audit)"
  by (intro never_persistTransition) simp

lemma recordSnapshot_state [simp]: "state (recordSnapshot ws n at) = state ws"
  by (simp add: recordSnapshot_def)

lemma never_retain:
  "state ws \<noteq> Terminated \<Longrightarrow> never terminates (retain_snapshot d i ws v at)"
  unfolding retain_snapshot_def Let_def by (rule never_intros never_persist_other | simp)+

lemma retained_same:
  "fst (retain_snapshot d i ws v at w) = Ret (Ok (x, u)) \<Longrightarrow> state x = state ws \<and> sessions x = sessions ws"
  by (auto simp: retain_snapshot_def bindM_def tryM_def ret_def Let_def recordSnapshot_def
      split: if_splits prod.splits outcome.splits option.splits)

lemma never_rejected:
  "\<lbrakk>schemaError d a \<noteq> None; \<And>e. never A (h e)\<rbrakk> \<Longrightarrow> never A (tryM (bindM (validate d a) f) h)"
  by (rule never_try) (auto simp: validate_def bindM_def raise_def never_def does_def)

text \<open>
  A session without a resume command makes its workspace undeletable. The teardown
  writes the sessions as they are in memory, with a null where there is no command; where
  the store rejects such a null, as the repository's notes record of ElectroDB, no
  teardown of a workspace that last reported such a session ever writes the terminated
  record, whatever the schedule.
\<close>

theorem null_resume_blocks_teardown:
  assumes reject: "\<And>a. null_resume a \<Longrightarrow> schemaError d a \<noteq> None"
    and ws: "state ws = Deleting" "sessions ws = Some ss" "\<exists>s \<in> set ss. resumeCommand s = None"
  shows "list_all (\<lambda>c. \<not> terminates (fst c)) (calls_of (teardown_loaded d i (ws, v)) w)"
proof -
  let ?same = "\<lambda>x :: workspace. state x = Deleting \<and> sessions x = Some ss"
  let ?R = "\<lambda>r. \<forall>x u. r = Ret (Ok (x, u)) \<longrightarrow> ?same x"
  have null: "null_resume (spread_attrs y)" if "sessions y = Some ss" for y
    using that ws(3) by (force simp: null_resume_def spread_attrs_def toWorkspaceDetail_eq
        spreadSession_def map_session_def)
  have same: "sessions y = Some ss" if "markTerminated x at = Ok y" "?same x" for x y at
    using that by (auto simp: markTerminated_def result_map_Ok_iff)
  have last: "never terminates (onOk (markTerminated x at) (\<lambda>y. tryM (bindM (validate d (spread_attrs y)) (f y))
      (\<lambda>e. if isVersionConflict e then ret lost else raise e)))" if "?same x" for x at f lost
    using reject [OF null [OF same [OF _ that]]]
    by (cases "markTerminated x at") (auto simp: onOk_def intro!: never_rejected never_local never_cases(1))
  have stop: "never terminates (case t of None \<Rightarrow> ret () | Some t \<Rightarrow> quietly (stopTask d t))" for t
    by (rule never_intros | simp)+
  have rest: "never terminates (bindM (case taskId x of None \<Rightarrow> ret () | Some t \<Rightarrow> quietly (stopTask d t)) (\<lambda>_.
      bindM (auditItem d a) (\<lambda>term. onOk (markTerminated x at) (\<lambda>y. tryM (bindM (validate d (spread_attrs y)) (f term y))
      (\<lambda>e. if isVersionConflict e then ret lost else raise e)))))" if "?same x" for x at f lost a
    by (rule never_bind [OF stop], rule never_bind [OF never_auditItem], rule last [OF that])
  have step: "never terminates (onOk r f)" if "?R (Ret r)" "\<And>x u. ?same x \<Longrightarrow> never terminates (f (x, u))"
      for r :: "(loaded_workspace, domain_error) result" and f
      using that by (cases r) (auto simp: onOk_def intro: never_local)
  have "never terminates (teardown_loaded d i (ws, v))"
    unfolding teardown_loaded_def bindR_def fst_conv snd_conv Let_def
  proof (rule never_bind [OF never_local(3)], rule never_bind_fact [where R = ?R])
    show "never terminates (retain_snapshot d i ws v at)" for at using ws(1) by (intro never_retain) simp
    show "?R (fst (retain_snapshot d i ws v at w))" for at w
      using retained_same [of d i ws v at w] ws by auto
  qed (rule step, assumption, use rest in simp)
  then show ?thesis by (rule never_calls_of)
qed

text \<open>The fakes behind a store that rejects a null.\<close>

definition strict_deps :: "fake_cloud deps" where
  "strict_deps = fake_deps\<lparr>schemaError :=
     (\<lambda>a. if null_resume a then Some (plain_error ''ElectroError'' ''Invalid value'') else None)\<rparr>"

definition plain_shell :: agent_session where
  "plain_shell = \<lparr>sess_name = ''shell'', sess_cwd = ''/home'', sess_command = ''bash'', resumeCommand = None,
     sess_createdAt = ''1'', sess_lastSeenAt = ''1'', sess_status = SessRunning, sess_live = True\<rparr>"

theorem null_resume_blocks_teardown_witness:
  "list_all (\<lambda>c. \<not> terminates (fst c)) (calls_of (teardown_loaded strict_deps ''ws-''
      (sample_ws\<lparr>state := Deleting, sessions := Some [plain_shell]\<rparr>, 1)) created_world)"
  by (rule null_resume_blocks_teardown [where ss = "[plain_shell]"]) (simp_all add: strict_deps_def plain_shell_def)

end
