(* ===== verification/Cost.thy ===== *)
theory Cost
  imports Persistence
begin

text \<open>
  The cost model (\<^verbatim>\<open>packages/core/src/observability/cost.ts\<close>): the billing phases a session's
  lifecycle events walk through, the intervals and the checkpointed totals derived from
  them, their clipping to a report window, the pricing, the fleet report and the run-rate
  projection; and the shape of an audit event (\<^verbatim>\<open>observability/audit.ts\<close>).

  Numbers. Instants and durations are whole milliseconds, so \<^typ>\<open>int\<close>. Money and sizes are
  IEEE doubles: their arithmetic is the parameter \<open>arith\<close>, about which nothing is assumed,
  in particular not that addition is associative. \<^verbatim>\<open>localeCompare\<close> is the parameter \<open>loc\<close>
  (whether one string sorts at or before another). The number of days of a report window
  is a whole number.
\<close>

section \<open>Audit events\<close>

record cost_event =
  ae_at :: iso_timestamp
  ae_actor :: string
  ae_action :: string
  ae_target :: string
  ae_detail :: string
  ae_resources :: "workspace_resources option"

section \<open>Phases\<close>

definition MS_PER_HOUR :: int where
  "MS_PER_HOUR = 60 * 60 * 1000"
definition MS_PER_DAY :: int where
  "MS_PER_DAY = 24 * MS_PER_HOUR"
definition HOURS_PER_MONTH :: int where
  "HOURS_PER_MONTH = 730"
definition MS_PER_MONTH :: int where
  "MS_PER_MONTH = HOURS_PER_MONTH * MS_PER_HOUR"

definition RUNNING_START_ACTIONS :: "string list" where
  "RUNNING_START_ACTIONS = [''session.create'', ''session.start'']"
definition STOP_ACTION :: string where
  "STOP_ACTION = ''session.stop''"
definition TEARDOWN_START_ACTION :: string where
  "TEARDOWN_START_ACTION = ''session.delete''"
definition TERMINATE_ACTION :: string where
  "TERMINATE_ACTION = ''session.terminated''"
definition UNDELETE_ACTION :: string where
  "UNDELETE_ACTION = ''session.undelete''"
definition PURGE_ACTION :: string where
  "PURGE_ACTION = ''session.purged''"
definition SNAPSHOT_LOST_ACTION :: string where
  "SNAPSHOT_LOST_ACTION = ''session.snapshot_lost''"

datatype walk_phase = PNone | PRunning | PStopped | PTeardown | PRetained | PTerminated

definition nextPhase :: "walk_phase \<Rightarrow> string \<Rightarrow> walk_phase option" where
  "nextPhase phase action =
     (if action \<in> set RUNNING_START_ACTIONS then
        (if phase = PNone \<or> phase = PStopped then Some PRunning else None)
      else if action = STOP_ACTION then
        (if phase = PRunning then Some PStopped else None)
      else if action = TEARDOWN_START_ACTION then
        (if phase = PRunning \<or> phase = PStopped then Some PTeardown else None)
      else if action = TERMINATE_ACTION then
        (if phase = PRetained then None else Some PRetained)
      else if action = UNDELETE_ACTION then
        (if phase = PRetained then Some PStopped else None)
      else if action = PURGE_ACTION then Some PTerminated
      else if action = SNAPSHOT_LOST_ACTION then
        (if phase = PStopped then Some PNone
         else if phase = PRetained then Some PTerminated else None)
      else None)"

section \<open>Intervals\<close>

record interval =
  fromMs :: int
  toMs :: int

record billing_intervals =
  running :: "interval list"
  stopped :: "interval list"
  teardown :: "interval list"
  terminated :: bool

definition instant :: "cost_event \<Rightarrow> int" where
  "instant e = (case date_parse (ae_at e) of Some m \<Rightarrow> m | None \<Rightarrow> 0)"

text \<open>The events that parse and pass \<open>P\<close>, in the order of their instants; the sort is stable.\<close>

definition chronological :: "(int \<Rightarrow> bool) \<Rightarrow> cost_event list \<Rightarrow> cost_event list" where
  "chronological P events =
     sort_key instant
       (filter (\<lambda>e. case date_parse (ae_at e) of None \<Rightarrow> False | Some m \<Rightarrow> P m) events)"

definition closeOpen ::
  "walk_phase \<Rightarrow> int \<Rightarrow> int \<Rightarrow> billing_intervals \<Rightarrow> billing_intervals" where
  "closeOpen phase openSince to b =
     (let i = \<lparr>fromMs = openSince, toMs = max openSince to\<rparr> in
      case phase of
        PRunning \<Rightarrow> b\<lparr>running := running b @ [i]\<rparr>
      | PStopped \<Rightarrow> b\<lparr>stopped := stopped b @ [i]\<rparr>
      | PRetained \<Rightarrow> b\<lparr>stopped := stopped b @ [i]\<rparr>
      | PTeardown \<Rightarrow> b\<lparr>teardown := teardown b @ [i]\<rparr>
      | PNone \<Rightarrow> b
      | PTerminated \<Rightarrow> b)"

fun walk_intervals ::
  "cost_event list \<Rightarrow> walk_phase \<Rightarrow> int \<Rightarrow> billing_intervals \<Rightarrow>
   walk_phase \<times> int \<times> billing_intervals" where
  "walk_intervals [] phase openSince b = (phase, openSince, b)"
| "walk_intervals (e # es) phase openSince b =
     (if phase = PTerminated then (phase, openSince, b)
      else case nextPhase phase (ae_action e) of
        None \<Rightarrow> walk_intervals es phase openSince b
      | Some p \<Rightarrow> walk_intervals es p (instant e) (closeOpen phase openSince (instant e) b))"

definition no_intervals :: billing_intervals where
  "no_intervals = \<lparr>running = [], stopped = [], teardown = [], terminated = False\<rparr>"

text \<open>Where \<open>now\<close> does not parse, no event passes the filter and no interval is open.\<close>

definition deriveBillingIntervals ::
  "cost_event list \<Rightarrow> iso_timestamp \<Rightarrow> billing_intervals" where
  "deriveBillingIntervals events now =
     (case date_parse now of
        None \<Rightarrow> no_intervals
      | Some nowMs \<Rightarrow>
          (case walk_intervals (chronological (\<lambda>m. m \<le> nowMs) events) PNone 0 no_intervals of
             (phase, openSince, b) \<Rightarrow>
               (if phase \<noteq> PTerminated then closeOpen phase openSince nowMs b else b)
                 \<lparr>terminated := phase = PRetained \<or> phase = PTerminated\<rparr>))"

definition totalMs :: "interval list \<Rightarrow> int" where
  "totalMs intervals = foldl (\<lambda>sum i. sum + (toMs i - fromMs i)) 0 intervals"

definition clipInterval :: "interval \<Rightarrow> int \<Rightarrow> int \<Rightarrow> interval option" where
  "clipInterval i from to =
     (let f = max (fromMs i) from; t = min (toMs i) to in
      if f < t then Some \<lparr>fromMs = f, toMs = t\<rparr> else None)"

definition clipIntervals :: "billing_intervals \<Rightarrow> interval \<Rightarrow> billing_intervals" where
  "clipIntervals b window =
     (let clip = List.map_filter (\<lambda>i. clipInterval i (fromMs window) (toMs window)) in
      b\<lparr>running := clip (running b), stopped := clip (stopped b), teardown := clip (teardown b)\<rparr>)"

definition relativeWindow :: "iso_timestamp \<Rightarrow> int \<Rightarrow> js_error + interval option" where
  "relativeWindow now days =
     (if days \<le> 0 then
        Inl (plain_error ''Error''
          (''relativeWindow: days must be a positive finite number, got '' @ int_text days))
      else Inr (case date_parse now of
        None \<Rightarrow> None
      | Some nowMs \<Rightarrow> Some \<lparr>fromMs = nowMs - days * MS_PER_DAY, toMs = nowMs\<rparr>))"

section \<open>Checkpoints\<close>

record walk_totals =
  runningMs :: int
  stoppedMs :: int
  teardownMs :: int

record billing_state = walk_totals +
  phase :: walk_phase

definition foldOpen ::
  "walk_totals \<Rightarrow> walk_phase \<Rightarrow> int \<Rightarrow> int \<Rightarrow> walk_totals" where
  "foldOpen totals p openSince to =
     (let d = max 0 (to - openSince) in
      if p = PRunning then totals\<lparr>runningMs := runningMs totals + d\<rparr>
      else if p = PStopped \<or> p = PRetained then totals\<lparr>stoppedMs := stoppedMs totals + d\<rparr>
      else if p = PTeardown then totals\<lparr>teardownMs := teardownMs totals + d\<rparr>
      else totals)"

fun walk_totals_over ::
  "cost_event list \<Rightarrow> walk_phase \<Rightarrow> int \<Rightarrow> walk_totals \<Rightarrow> walk_phase \<times> int \<times> walk_totals" where
  "walk_totals_over [] p openSince t = (p, openSince, t)"
| "walk_totals_over (e # es) p openSince t =
     (if p = PTerminated then (p, openSince, t)
      else case nextPhase p (ae_action e) of
        None \<Rightarrow> walk_totals_over es p openSince t
      | Some q \<Rightarrow> walk_totals_over es q (instant e) (foldOpen t p openSince (instant e)))"

text \<open>The bounds \<open>(after, through]\<close>; \<^term>\<open>None\<close> below is minus infinity.\<close>

definition walkBilling ::
  "cost_event list \<Rightarrow> int option \<Rightarrow> js_number \<Rightarrow> walk_phase \<Rightarrow> int \<Rightarrow> walk_totals \<Rightarrow>
   walk_phase \<times> int \<times> walk_totals" where
  "walkBilling events after through p openSince t =
     walk_totals_over
       (chronological (\<lambda>m. (case after of None \<Rightarrow> True | Some a \<Rightarrow> a < m) \<and>
          js_le (Some m) through) events) p openSince t"

definition no_totals :: walk_totals where
  "no_totals = \<lparr>runningMs = 0, stoppedMs = 0, teardownMs = 0\<rparr>"

definition at_phase :: "walk_phase \<Rightarrow> walk_totals \<Rightarrow> billing_state" where
  "at_phase p t =
     \<lparr>runningMs = runningMs t, stoppedMs = stoppedMs t, teardownMs = teardownMs t, phase = p\<rparr>"

text \<open>A checkpoint is an instant the service took from its clock.\<close>

definition deriveBillingState :: "cost_event list \<Rightarrow> int \<Rightarrow> billing_state" where
  "deriveBillingState events cutMs =
     (case walkBilling events None (Some cutMs) PNone 0 no_totals of
        (p, openSince, t) \<Rightarrow> at_phase p (foldOpen t p openSince cutMs))"

definition resumeBilling ::
  "billing_state \<Rightarrow> int \<Rightarrow> cost_event list \<Rightarrow> int \<Rightarrow> walk_totals \<times> bool" where
  "resumeBilling st cutMs eventsAfter nowMs =
     (if phase st = PTerminated then (walk_totals.truncate st, True)
      else case walkBilling eventsAfter (Some cutMs) (Some nowMs) (phase st) cutMs
               (walk_totals.truncate st) of
        (p, openSince, t) \<Rightarrow>
          (foldOpen t p openSince nowMs, p = PRetained \<or> p = PTerminated))"

section \<open>Pricing\<close>

record 'n arith =
  n_add :: "'n \<Rightarrow> 'n \<Rightarrow> 'n"
  n_mul :: "'n \<Rightarrow> 'n \<Rightarrow> 'n"
  n_div :: "'n \<Rightarrow> 'n \<Rightarrow> 'n"
  n_less :: "'n \<Rightarrow> 'n \<Rightarrow> bool"
  n_finite :: "'n \<Rightarrow> bool"
  n_text :: "'n \<Rightarrow> string"
  n_of_int :: "int \<Rightarrow> 'n"

record 'n pricing =
  fargateVcpuHourUsd :: 'n
  fargateGbHourUsd :: 'n
  ebsGbMonthUsd :: 'n
  snapshotGbMonthUsd :: 'n

record 'n workspace_sizing =
  vcpu :: 'n
  memoryGib :: 'n
  volumeGib :: 'n

record 'n cost_breakdown =
  computeUsd :: 'n
  volumeUsd :: 'n
  snapshotUsd :: 'n
  totalUsd :: 'n
  cb_runningMs :: int
  cb_stoppedMs :: int
  cb_teardownMs :: int

definition assertFiniteNonNegative :: "'n arith \<Rightarrow> string \<Rightarrow> 'n \<Rightarrow> js_error option" where
  "assertFiniteNonNegative A label value =
     (if \<not> n_finite A value \<or> n_less A value (n_of_int A 0) then
        Some (plain_error ''Error''
          (label @ '' must be a finite non-negative number, got '' @ n_text A value))
      else None)"

definition assertFinitePositive :: "'n arith \<Rightarrow> string \<Rightarrow> 'n \<Rightarrow> js_error option" where
  "assertFinitePositive A label value =
     (if \<not> n_finite A value \<or> \<not> n_less A (n_of_int A 0) value then
        Some (plain_error ''Error''
          (label @ '' must be a finite positive number, got '' @ n_text A value))
      else None)"

text \<open>The first assertion that throws.\<close>

definition firstError :: "js_error option list \<Rightarrow> js_error option" where
  "firstError checks = Option.bind (List.find (\<lambda>c. c \<noteq> None) checks) id"

definition assertPricing :: "'n arith \<Rightarrow> 'n pricing \<Rightarrow> js_error option" where
  "assertPricing A pr = firstError
     [assertFiniteNonNegative A ''pricing.fargateVcpuHourUsd'' (fargateVcpuHourUsd pr),
      assertFiniteNonNegative A ''pricing.fargateGbHourUsd'' (fargateGbHourUsd pr),
      assertFiniteNonNegative A ''pricing.ebsGbMonthUsd'' (ebsGbMonthUsd pr),
      assertFiniteNonNegative A ''pricing.snapshotGbMonthUsd'' (snapshotGbMonthUsd pr)]"

definition assertSizing :: "'n arith \<Rightarrow> 'n workspace_sizing \<Rightarrow> js_error option" where
  "assertSizing A sz = firstError
     [assertFinitePositive A ''sizing.vcpu'' (vcpu sz),
      assertFinitePositive A ''sizing.memoryGib'' (memoryGib sz),
      assertFinitePositive A ''sizing.volumeGib'' (volumeGib sz)]"

definition assertBreakdown :: "'n arith \<Rightarrow> string \<Rightarrow> 'n cost_breakdown \<Rightarrow> js_error option" where
  "assertBreakdown A label cost = firstError
     [assertFiniteNonNegative A (label @ ''.computeUsd'') (computeUsd cost),
      assertFiniteNonNegative A (label @ ''.volumeUsd'') (volumeUsd cost),
      assertFiniteNonNegative A (label @ ''.snapshotUsd'') (snapshotUsd cost),
      assertFiniteNonNegative A (label @ ''.totalUsd'') (totalUsd cost),
      assertFiniteNonNegative A (label @ ''.runningMs'') (n_of_int A (cb_runningMs cost)),
      assertFiniteNonNegative A (label @ ''.stoppedMs'') (n_of_int A (cb_stoppedMs cost)),
      assertFiniteNonNegative A (label @ ''.teardownMs'') (n_of_int A (cb_teardownMs cost))]"

definition raising :: "js_error option \<Rightarrow> 'a \<Rightarrow> js_error + 'a" where
  "raising check a = (case check of Some e \<Rightarrow> Inl e | None \<Rightarrow> Inr a)"

definition priceDurations ::
  "'n arith \<Rightarrow> walk_totals \<Rightarrow> 'n pricing \<Rightarrow> 'n workspace_sizing \<Rightarrow> js_error + 'n cost_breakdown" where
  "priceDurations A t pr sz =
     (case firstError
        [assertFiniteNonNegative A ''runningMs'' (n_of_int A (runningMs t)),
         assertFiniteNonNegative A ''stoppedMs'' (n_of_int A (stoppedMs t)),
         assertFiniteNonNegative A ''teardownMs'' (n_of_int A (teardownMs t)),
         assertPricing A pr, assertSizing A sz] of
        Some e \<Rightarrow> Inl e
      | None \<Rightarrow>
          (let runningHours = n_div A (n_of_int A (runningMs t)) (n_of_int A MS_PER_HOUR);
               compute = n_mul A runningHours
                 (n_add A (n_mul A (vcpu sz) (fargateVcpuHourUsd pr))
                    (n_mul A (memoryGib sz) (fargateGbHourUsd pr)));
               volume = n_mul A (n_mul A
                 (n_div A (n_of_int A (runningMs t + teardownMs t)) (n_of_int A MS_PER_MONTH))
                 (volumeGib sz)) (ebsGbMonthUsd pr);
               snapshot = n_mul A (n_mul A
                 (n_div A (n_of_int A (stoppedMs t + teardownMs t)) (n_of_int A MS_PER_MONTH))
                 (volumeGib sz)) (snapshotGbMonthUsd pr);
               cost = \<lparr>computeUsd = compute, volumeUsd = volume, snapshotUsd = snapshot,
                       totalUsd = n_add A (n_add A compute volume) snapshot,
                       cb_runningMs = runningMs t, cb_stoppedMs = stoppedMs t,
                       cb_teardownMs = teardownMs t\<rparr>
           in raising (assertBreakdown A ''cost'' cost) cost))"

definition interval_totals :: "billing_intervals \<Rightarrow> walk_totals" where
  "interval_totals b =
     \<lparr>runningMs = totalMs (running b), stoppedMs = totalMs (stopped b), teardownMs = totalMs (teardown b)\<rparr>"

definition priceIntervals ::
  "'n arith \<Rightarrow> billing_intervals \<Rightarrow> 'n pricing \<Rightarrow> 'n workspace_sizing \<Rightarrow> js_error + 'n cost_breakdown" where
  "priceIntervals A b pr sz = priceDurations A (interval_totals b) pr sz"

definition addBreakdowns ::
  "'n arith \<Rightarrow> 'n cost_breakdown \<Rightarrow> 'n cost_breakdown \<Rightarrow> 'n cost_breakdown" where
  "addBreakdowns A a b =
     \<lparr>computeUsd = n_add A (computeUsd a) (computeUsd b), volumeUsd = n_add A (volumeUsd a) (volumeUsd b),
      snapshotUsd = n_add A (snapshotUsd a) (snapshotUsd b), totalUsd = n_add A (totalUsd a) (totalUsd b),
      cb_runningMs = cb_runningMs a + cb_runningMs b, cb_stoppedMs = cb_stoppedMs a + cb_stoppedMs b,
      cb_teardownMs = cb_teardownMs a + cb_teardownMs b\<rparr>"

definition ZERO_COST :: "'n arith \<Rightarrow> 'n cost_breakdown" where
  "ZERO_COST A =
     \<lparr>computeUsd = n_of_int A 0, volumeUsd = n_of_int A 0, snapshotUsd = n_of_int A 0,
      totalUsd = n_of_int A 0, cb_runningMs = 0, cb_stoppedMs = 0, cb_teardownMs = 0\<rparr>"

section \<open>The fleet report\<close>

record 'n workspace_cost_input =
  ci_workspaceId :: string
  ci_owner :: string
  ci_sizing :: "'n workspace_sizing"
  ci_state :: "string option"
  ci_events :: "cost_event list"

record 'n session_cost =
  sc_workspaceId :: string
  sc_owner :: string
  sc_sizing :: "'n workspace_sizing"
  sc_state :: string
  sc_terminated :: bool
  sc_cost :: "'n cost_breakdown"

record 'n user_cost =
  uc_owner :: string
  uc_sessions :: nat
  uc_cost :: "'n cost_breakdown"

record cost_issue =
  is_workspaceId :: string
  is_reason :: string

record 'n fleet_cost_report =
  generatedAt :: iso_timestamp
  windowStart :: iso_timestamp
  fr_pricing :: "'n pricing"
  fr_total :: "'n cost_breakdown"
  byUser :: "'n user_cost list"
  bySession :: "'n session_cost list"
  unpriced :: "cost_issue list"

text \<open>
  \<^verbatim>\<open>xs.sort(cmp)\<close> with \<open>le a b\<close> for \<^verbatim>\<open>cmp(a, b) <= 0\<close>: the stable sort, which a consistent
  comparator determines.
\<close>

fun insert_by :: "('a \<Rightarrow> 'a \<Rightarrow> bool) \<Rightarrow> 'a \<Rightarrow> 'a list \<Rightarrow> 'a list" where
  "insert_by le x [] = [x]"
| "insert_by le x (y # ys) = (if le x y then x # y # ys else y # insert_by le x ys)"

definition sort_by :: "('a \<Rightarrow> 'a \<Rightarrow> bool) \<Rightarrow> 'a list \<Rightarrow> 'a list" where
  "sort_by le xs = foldr (insert_by le) xs []"

text \<open>The map from owner to running total, in the order owners are first met.\<close>

fun add_user :: "'n arith \<Rightarrow> 'n session_cost \<Rightarrow> 'n user_cost list \<Rightarrow> 'n user_cost list" where
  "add_user A s [] =
     [\<lparr>uc_owner = sc_owner s, uc_sessions = 1, uc_cost = addBreakdowns A (ZERO_COST A) (sc_cost s)\<rparr>]"
| "add_user A s (u # us) =
     (if uc_owner u = sc_owner s
      then u\<lparr>uc_sessions := uc_sessions u + 1, uc_cost := addBreakdowns A (uc_cost u) (sc_cost s)\<rparr> # us
      else u # add_user A s us)"

definition dearer_first :: "'n arith \<Rightarrow> 'n cost_breakdown \<Rightarrow> 'n cost_breakdown \<Rightarrow> bool" where
  "dearer_first A a b \<longleftrightarrow> \<not> n_less A (totalUsd a) (totalUsd b)"

definition aggregateFleetCost ::
  "'n arith \<Rightarrow> (string \<Rightarrow> string \<Rightarrow> bool) \<Rightarrow> 'n session_cost list \<Rightarrow> 'n pricing \<Rightarrow> iso_timestamp \<Rightarrow>
   iso_timestamp \<Rightarrow> cost_issue list \<Rightarrow> js_error + 'n fleet_cost_report" where
  "aggregateFleetCost A loc priced pr at start issues =
     (let canonical = sort_by (\<lambda>a b. loc (sc_workspaceId a) (sc_workspaceId b)) priced in
      case firstError (concat (map (\<lambda>s.
          [assertBreakdown A (''session '' @ sc_workspaceId s) (sc_cost s),
           assertSizing A (sc_sizing s)]) canonical)) of
        Some e \<Rightarrow> Inl e
      | None \<Rightarrow>
          Inr \<lparr>generatedAt = at, windowStart = start, fr_pricing = pr,
               fr_total = foldl (\<lambda>sum s. addBreakdowns A sum (sc_cost s)) (ZERO_COST A) canonical,
               byUser = sort_by (\<lambda>a b. dearer_first A (uc_cost a) (uc_cost b))
                 (foldl (\<lambda>us s. add_user A s us) [] canonical),
               bySession = sort_by (\<lambda>a b. dearer_first A (sc_cost a) (sc_cost b)) canonical,
               unpriced = sort_by (\<lambda>a b. loc (is_workspaceId a) (is_workspaceId b)) issues\<rparr>)"

definition session_of ::
  "'n workspace_cost_input \<Rightarrow> bool \<Rightarrow> 'n cost_breakdown \<Rightarrow> 'n session_cost" where
  "session_of w term cost =
     \<lparr>sc_workspaceId = ci_workspaceId w, sc_owner = ci_owner w, sc_sizing = ci_sizing w,
      sc_state = orElse (ci_state w) (if term then ''terminated'' else ''unknown''),
      sc_terminated = term, sc_cost = cost\<rparr>"

fun price_inputs ::
  "'n arith \<Rightarrow> 'n pricing \<Rightarrow> iso_timestamp \<Rightarrow> interval option \<Rightarrow> 'n workspace_cost_input list \<Rightarrow>
   js_error + 'n session_cost list" where
  "price_inputs A pr now window [] = Inr []"
| "price_inputs A pr now window (w # ws) =
     (let lifetime = deriveBillingIntervals (ci_events w) now;
          intervals = (case window of None \<Rightarrow> lifetime | Some x \<Rightarrow> clipIntervals lifetime x)
      in case priceIntervals A intervals pr (ci_sizing w) of
           Inl e \<Rightarrow> Inl e
         | Inr cost \<Rightarrow>
             if window \<noteq> None \<and> cb_runningMs cost + cb_stoppedMs cost + cb_teardownMs cost = 0
             then price_inputs A pr now window ws
             else map_sum id (Cons (session_of w (terminated lifetime) cost))
                    (price_inputs A pr now window ws))"

fun earliest_event :: "cost_event list \<Rightarrow> iso_timestamp \<Rightarrow> iso_timestamp" where
  "earliest_event [] earliest = earliest"
| "earliest_event (e # es) earliest =
     earliest_event es (if js_less (date_parse (ae_at e)) (date_parse earliest) then ae_at e else earliest)"

definition earliestEventAt :: "'n workspace_cost_input list \<Rightarrow> iso_timestamp \<Rightarrow> iso_timestamp" where
  "earliestEventAt inputs now = earliest_event (concat (map ci_events inputs)) now"

definition computeFleetCost ::
  "'n arith \<Rightarrow> (string \<Rightarrow> string \<Rightarrow> bool) \<Rightarrow> 'n workspace_cost_input list \<Rightarrow> 'n pricing \<Rightarrow>
   iso_timestamp \<Rightarrow> interval option \<Rightarrow> cost_issue list \<Rightarrow> iso_timestamp option \<Rightarrow>
   js_error + 'n fleet_cost_report" where
  "computeFleetCost A loc inputs pr now window issues ledgerStart =
     (case price_inputs A pr now window inputs of
        Inl e \<Rightarrow> Inl e
      | Inr priced \<Rightarrow>
          aggregateFleetCost A loc priced pr now
            (case window of
               Some x \<Rightarrow> Iso (fromMs x)
             | None \<Rightarrow> orElse ledgerStart (earliestEventAt inputs now)) issues)"

section \<open>The run rate\<close>

record 'n control_plane_sizing =
  cp_vcpu :: 'n
  cp_memoryGib :: 'n
  cp_replicas :: 'n

record 'n run_rate_projection =
  workspacesUsdPerHour :: 'n
  controlPlaneUsdPerHour :: 'n
  totalUsdPerHour :: 'n
  workspacesUsdPerDay :: 'n
  controlPlaneUsdPerDay :: 'n
  totalUsdPerDay :: 'n

definition workspaceHourlyUsd :: "'n arith \<Rightarrow> 'n workspace_sizing \<Rightarrow> 'n pricing \<Rightarrow> 'n" where
  "workspaceHourlyUsd A sz pr =
     n_add A (n_add A (n_mul A (vcpu sz) (fargateVcpuHourUsd pr))
         (n_mul A (memoryGib sz) (fargateGbHourUsd pr)))
       (n_div A (n_mul A (volumeGib sz) (ebsGbMonthUsd pr)) (n_of_int A HOURS_PER_MONTH))"

definition projectRunRate ::
  "'n arith \<Rightarrow> 'n workspace_sizing list \<Rightarrow> 'n control_plane_sizing \<Rightarrow> 'n pricing \<Rightarrow>
   js_error + 'n run_rate_projection" where
  "projectRunRate A workspaces cp pr =
     (case firstError ([assertPricing A pr,
          assertFinitePositive A ''controlPlane.vcpu'' (cp_vcpu cp),
          assertFinitePositive A ''controlPlane.memoryGib'' (cp_memoryGib cp),
          assertFiniteNonNegative A ''controlPlane.replicas'' (cp_replicas cp)] @
          map (assertSizing A) workspaces) of
        Some e \<Rightarrow> Inl e
      | None \<Rightarrow>
          (let ws = foldl (\<lambda>sum s. n_add A sum (workspaceHourlyUsd A s pr)) (n_of_int A 0) workspaces;
               c = n_mul A (cp_replicas cp)
                 (n_add A (n_mul A (cp_vcpu cp) (fargateVcpuHourUsd pr))
                    (n_mul A (cp_memoryGib cp) (fargateGbHourUsd pr)));
               total = n_add A ws c
           in Inr \<lparr>workspacesUsdPerHour = ws, controlPlaneUsdPerHour = c, totalUsdPerHour = total,
                   workspacesUsdPerDay = n_mul A ws (n_of_int A 24),
                   controlPlaneUsdPerDay = n_mul A c (n_of_int A 24),
                   totalUsdPerDay = n_mul A total (n_of_int A 24)\<rparr>))"

end
