(* ===== verification/Cost_Props.thy ===== *)
theory Cost_Props
  imports Cost "HOL-Library.Multiset"
begin

text \<open>
  Correctness of the cost model: the intervals are exactly the times of the billing phases,
  resuming from a checkpoint gives the figures of the full scan, report windows add up, and
  the report does not depend on the order in which sessions are collected, for any
  arithmetic of the amounts.
\<close>

section \<open>The two walks agree\<close>

lemma totalMs_append [simp]: "totalMs (xs @ [i]) = totalMs xs + (toMs i - fromMs i)"
  by (simp add: totalMs_def)

lemma totalMs_Nil [simp]: "totalMs [] = 0"
  by (simp add: totalMs_def)

lemma close_fold: "interval_totals (closeOpen p o' t b) = foldOpen (interval_totals b) p o' t"
  by (cases p) (simp_all add: closeOpen_def foldOpen_def interval_totals_def Let_def)

lemma walks_agree:
  "walk_intervals es p o' b = (q, o'', b') \<Longrightarrow>
   walk_totals_over es p o' (interval_totals b) = (q, o'', interval_totals b')"
  by (induction es p o' b rule: walk_intervals.induct)
    (auto simp: close_fold split: if_splits option.splits)

section \<open>Walking in two parts\<close>

lemma walk_append:
  "walk_totals_over (xs @ ys) p o' t = (case walk_totals_over xs p o' t of (q, o'', u) \<Rightarrow> walk_totals_over ys q o'' u)"
proof (induction xs arbitrary: p o' t)
  case (Cons x xs)
  have "walk_totals_over ys PTerminated o' t = (PTerminated, o', t)" for ys o' t by (cases ys) auto
  with Cons show ?case by (auto split: option.split)
qed simp

text \<open>What a walk yields once its last interval is closed at \<open>n\<close>.\<close>

definition billed :: "int \<Rightarrow> walk_phase \<times> int \<times> walk_totals \<Rightarrow> walk_totals \<times> walk_phase" where
  "billed n w = (case w of (p, o', t) \<Rightarrow> (foldOpen t p o' n, p))"

lemma foldOpen_split:
  "\<lbrakk>o' \<le> c; c \<le> n\<rbrakk> \<Longrightarrow> foldOpen (foldOpen t p o' c) p c n = foldOpen t p o' n"
  by (simp add: foldOpen_def Let_def)

lemma foldOpen_terminated [simp]: "foldOpen t PTerminated o' n = t"
  by (simp add: foldOpen_def)

lemma foldOpen_none [simp]: "foldOpen t PNone o' n = t"
  by (simp add: foldOpen_def)

lemma reopen:
  assumes "o' \<le> c \<or> p = PNone" and "c \<le> n" and "\<forall>e \<in> set es. c \<le> instant e \<and> instant e \<le> n"
  shows "billed n (walk_totals_over es p c (foldOpen t p o' c)) = billed n (walk_totals_over es p o' t)"
  using assms
proof (induction es arbitrary: p)
  case Nil
  then show ?case by (auto simp: billed_def foldOpen_split)
next
  case (Cons e es)
  then show ?case
    by (auto simp: foldOpen_split billed_def split: option.split)
qed

lemma walk_opened:
  "walk_totals_over es p o' t = (q, o'', u) \<Longrightarrow> (q = p \<and> o'' = o') \<or> (\<exists>e \<in> set es. o'' = instant e)"
  by (induction es p o' t rule: walk_totals_over.induct) (auto split: if_splits option.splits)

section \<open>Chronological order\<close>

definition readable :: "cost_event list \<Rightarrow> cost_event list" where
  "readable events = sort_key instant (filter (\<lambda>e. date_parse (ae_at e) \<noteq> None) events)"

lemma chronological_readable: "chronological P events = filter (\<lambda>e. P (instant e)) (readable events)"
  unfolding chronological_def readable_def filter_sort [symmetric]
  by (auto simp: instant_def intro!: filter_cong split: option.split)

lemma sorted_readable [simp]: "sorted (map instant (readable events))"
  by (simp add: readable_def)

lemma sorted_split:
  "sorted (map f xs) \<Longrightarrow> filter (\<lambda>x. f x \<le> n) xs = filter (\<lambda>x. f x \<le> c) xs @ filter (\<lambda>x. c < f x \<and> f x \<le> n) xs"
  if "c \<le> n" for c n :: int
proof (induction xs)
  case (Cons x xs)
  show ?case
  proof (cases "f x \<le> c")
    case False
    with Cons.prems have "filter (\<lambda>x. f x \<le> c) xs = []" by (auto simp: filter_empty_conv)
    with Cons False that show ?thesis by auto
  qed (use Cons that in auto)
qed simp

lemma chronological_split:
  "c \<le> n \<Longrightarrow> chronological (\<lambda>m. m \<le> n) events =
     chronological (\<lambda>m. m \<le> c) events @ chronological (\<lambda>m. c < m \<and> m \<le> n) events"
  unfolding chronological_readable by (rule sorted_split) simp_all

text \<open>The tail of the ledger after an instant, as \<^verbatim>\<open>StoredAuditSource.since\<close> returns it.\<close>

definition since :: "int \<Rightarrow> cost_event list \<Rightarrow> cost_event list" where
  "since c events = filter (\<lambda>e. js_less (Some c) (date_parse (ae_at e))) events"

lemma chronological_since:
  "k \<le> c \<Longrightarrow> chronological (\<lambda>m. c < m \<and> m \<le> n) (since k events) = chronological (\<lambda>m. c < m \<and> m \<le> n) events"
  unfolding chronological_def since_def filter_filter
  by (rule arg_cong [of _ _ "sort_key instant"]) (auto intro!: filter_cong split: option.split)

lemma interval_totals_terminated [simp]: "interval_totals (b\<lparr>terminated := x\<rparr>) = interval_totals b"
  by (simp add: interval_totals_def)

lemma derive_walk:
  "deriveBillingIntervals events (Iso n) = B \<Longrightarrow>
   (interval_totals B, terminated B) =
     (case billed n (walk_totals_over (chronological (\<lambda>m. m \<le> n) events) PNone 0 no_totals) of
        (t, p) \<Rightarrow> (t, p = PRetained \<or> p = PTerminated))"
proof -
  assume B: "deriveBillingIntervals events (Iso n) = B"
  obtain p o' b where w: "walk_intervals (chronological (\<lambda>m. m \<le> n) events) PNone 0 no_intervals = (p, o', b)"
    by (cases "walk_intervals (chronological (\<lambda>m. m \<le> n) events) PNone 0 no_intervals") auto
  have "interval_totals no_intervals = no_totals"
    by (simp add: interval_totals_def no_intervals_def no_totals_def)
  with walks_agree [OF w] have "walk_totals_over (chronological (\<lambda>m. m \<le> n) events) PNone 0 no_totals = (p, o', interval_totals b)"
    by simp
  then show ?thesis
    using w B by (auto simp: deriveBillingIntervals_def billed_def close_fold)
qed

lemma truncate_at_phase [simp]: "walk_totals.truncate (at_phase p t) = t" "phase (at_phase p t) = p"
  by (simp_all add: at_phase_def walk_totals.truncate_def)

text \<open>
  Resuming from a checkpoint is exact. For every ledger and every checkpoint not after
  now, the totals resumed from the checkpoint over the tail of the ledger (read from the
  checkpoint or from any earlier one) are those of the intervals derived from the whole
  ledger, and so is the verdict that the session is terminated.
\<close>

theorem checkpoint_resume_exact:
  assumes "k \<le> c" and "c \<le> n"
  shows "resumeBilling (deriveBillingState events c) c (since k events) n =
    (interval_totals (deriveBillingIntervals events (Iso n)), terminated (deriveBillingIntervals events (Iso n)))"
proof -
  let ?old = "chronological (\<lambda>m. m \<le> c) events" and ?new = "chronological (\<lambda>m. c < m \<and> m \<le> n) events"
  obtain p o' t where w: "walk_totals_over ?old PNone 0 no_totals = (p, o', t)"
    by (cases "walk_totals_over ?old PNone 0 no_totals") auto
  have "\<forall>e \<in> set ?old. instant e \<le> c" by (auto simp: chronological_readable)
  with walk_opened [OF w] have o': "o' \<le> c \<or> p = PNone" by auto
  have "\<forall>e \<in> set ?new. c \<le> instant e \<and> instant e \<le> n" by (auto simp: chronological_readable)
  note re = reopen [OF o' assms(2) this, of t]
  have "walk_totals_over (chronological (\<lambda>m. m \<le> n) events) PNone 0 no_totals = walk_totals_over ?new p o' t"
    by (simp add: chronological_split [OF assms(2)] walk_append w)
  with derive_walk [OF refl, of events n] re have full:
    "(interval_totals (deriveBillingIntervals events (Iso n)), terminated (deriveBillingIntervals events (Iso n))) =
      (case billed n (walk_totals_over ?new p c (foldOpen t p o' c)) of (t, p) \<Rightarrow> (t, p = PRetained \<or> p = PTerminated))"
    by simp
  have state: "deriveBillingState events c = at_phase p (foldOpen t p o' c)"
    by (simp add: deriveBillingState_def walkBilling_def w)
  show ?thesis
  proof (cases "p = PTerminated")
    case True
    then have "walk_totals_over ?new p c t = (p, c, t)" by (cases ?new) auto
    with True full state show ?thesis by (simp add: resumeBilling_def billed_def)
  next
    case False
    then show ?thesis
      using full state chronological_since [OF assms(1), of n events]
      by (simp add: resumeBilling_def walkBilling_def billed_def split: prod.splits)
  qed
qed

section \<open>Intervals are the times of the phases\<close>

text \<open>The reference: the phase a session is in at an instant, by replaying the events up to it.\<close>

definition advance :: "walk_phase \<Rightarrow> cost_event \<Rightarrow> walk_phase" where
  "advance p e = (if p = PTerminated then p else orElse (nextPhase p (ae_action e)) p)"

definition phase_at :: "cost_event list \<Rightarrow> int \<Rightarrow> walk_phase" where
  "phase_at events x = foldl advance PNone (chronological (\<lambda>m. m \<le> x) events)"

definition covers :: "int \<Rightarrow> interval list \<Rightarrow> bool" where
  "covers x is \<longleftrightarrow> (\<exists>i \<in> set is. fromMs i \<le> x \<and> x < toMs i)"

lemma covers_append [simp]: "covers x (is @ [i]) \<longleftrightarrow> covers x is \<or> (fromMs i \<le> x \<and> x < toMs i)"
  by (auto simp: covers_def)

lemma covers_Nil [simp]: "\<not> covers x []"
  by (simp add: covers_def)

lemma advance_terminated [simp]: "advance PTerminated e = PTerminated"
  by (simp add: advance_def)

lemma foldl_terminated [simp]: "foldl advance PTerminated es = PTerminated"
  by (induction es) simp_all

text \<open>
  A bucket of the intervals: the list it selects and the phases that fill it. Closing an
  open phase adds to the bucket what the phase was open for, if the phase is one of its own.
\<close>

locale billing_bucket =
  fixes g :: "billing_intervals \<Rightarrow> interval list" and K :: "walk_phase set"
  assumes closed: "covers x (g (closeOpen p o' n b)) \<longleftrightarrow> covers x (g b) \<or> (p \<in> K \<and> o' \<le> x \<and> x < n)"
    and idle: "PNone \<notin> K" "PTerminated \<notin> K"
    and fresh: "g no_intervals = []"
    and flag: "g (b\<lparr>terminated := f\<rparr>) = g b"
begin

lemma walk_covers:
  assumes "sorted (map instant es)" and "\<forall>e \<in> set es. p = PNone \<or> o' \<le> instant e"
    and "\<forall>e \<in> set es. instant e \<le> n" and "x < n" and "walk_intervals es p o' b = (q, o'', b')"
  shows "covers x (g (closeOpen q o'' n b')) \<longleftrightarrow> covers x (g b) \<or>
    ((p = PNone \<or> o' \<le> x) \<and> foldl advance p (filter (\<lambda>e. instant e \<le> x) es) \<in> K)"
  using assms
proof (induction es arbitrary: p o' b)
  case Nil
  then show ?case using idle by (auto simp: closed)
next
  case (Cons e es)
  have later: "filter (\<lambda>e. instant e \<le> x) es = []" if "x < instant e"
    using that Cons.prems(1) by (auto simp: filter_empty_conv)
  consider "p = PTerminated" | "p \<noteq> PTerminated" "nextPhase p (ae_action e) = None"
    | r where "p \<noteq> PTerminated" "nextPhase p (ae_action e) = Some r" by blast
  then show ?case
  proof cases
    case 1
    with Cons.prems(5) show ?thesis by (auto simp: closed idle)
  next
    case 2
    with Cons.prems(5) have "walk_intervals es p o' b = (q, o'', b')" by simp
    moreover have "advance p e = p" using 2 by (simp add: advance_def orElse_def)
    ultimately show ?thesis using Cons.IH [of p o' b] Cons.prems(1-4) by auto
  next
    case 3
    let ?b = "closeOpen p o' (instant e) b"
    from 3 Cons.prems(5) have "walk_intervals es r (instant e) ?b = (q, o'', b')" by simp
    from Cons.IH [OF _ _ _ _ this] Cons.prems(1-4)
    have IH: "covers x (g (closeOpen q o'' n b')) \<longleftrightarrow> covers x (g ?b) \<or>
      ((r = PNone \<or> instant e \<le> x) \<and> foldl advance r (filter (\<lambda>e. instant e \<le> x) es) \<in> K)" by auto
    show ?thesis
    proof (cases "instant e \<le> x")
      case True
      have "advance p e = r" using 3 by (simp add: advance_def orElse_def)
      with IH True Cons.prems(2) show ?thesis by (auto simp: closed)
    next
      case False
      with IH later idle show ?thesis by (auto simp: closed)
    qed
  qed
qed

lemma derived_covers:
  assumes "x < n"
  shows "covers x (g (deriveBillingIntervals events (Iso n))) \<longleftrightarrow> phase_at events x \<in> K"
proof -
  let ?es = "chronological (\<lambda>m. m \<le> n) events"
  obtain q o'' b' where w: "walk_intervals ?es PNone 0 no_intervals = (q, o'', b')"
    by (cases "walk_intervals ?es PNone 0 no_intervals") auto
  have "sorted (map instant ?es)"
    unfolding chronological_readable by (rule sorted_filter) simp
  moreover have "\<forall>e \<in> set ?es. instant e \<le> n" by (auto simp: chronological_readable)
  moreover have "filter (\<lambda>e. instant e \<le> x) ?es = chronological (\<lambda>m. m \<le> x) events"
    using assms by (auto simp: chronological_readable intro!: filter_cong)
  ultimately have "covers x (g (closeOpen q o'' n b')) \<longleftrightarrow> phase_at events x \<in> K"
    using walk_covers [OF _ _ _ assms w] by (simp add: phase_at_def fresh)
  then show ?thesis
    using w by (auto simp: deriveBillingIntervals_def flag closed idle)
qed

end

interpretation runningBucket: billing_bucket running "{PRunning}"
  by unfold_locales
    (auto simp: closeOpen_def Let_def no_intervals_def split: walk_phase.split)

interpretation stoppedBucket: billing_bucket stopped "{PStopped, PRetained}"
  by unfold_locales
    (auto simp: closeOpen_def Let_def no_intervals_def split: walk_phase.split)

interpretation teardownBucket: billing_bucket teardown "{PTeardown}"
  by unfold_locales
    (auto simp: closeOpen_def Let_def no_intervals_def split: walk_phase.split)

text \<open>
  C26. The intervals are exactly the times of the phases. For every ledger, in whatever order
  its events are, and every instant before now: the instant lies in a running interval if
  and only if replaying the events up to it ends in the running phase; in a stopped one if
  the replay ends stopped or retained; in a teardown one if it ends in teardown. So no
  instant is billed twice and none that should be is lost.
\<close>

theorem billing_intervals_exact:
  assumes "x < n"
  shows "(covers x (running (deriveBillingIntervals events (Iso n))) \<longleftrightarrow> phase_at events x = PRunning) \<and>
    (covers x (stopped (deriveBillingIntervals events (Iso n))) \<longleftrightarrow> phase_at events x \<in> {PStopped, PRetained}) \<and>
    (covers x (teardown (deriveBillingIntervals events (Iso n))) \<longleftrightarrow> phase_at events x = PTeardown)"
  using runningBucket.derived_covers [OF assms] stoppedBucket.derived_covers [OF assms]
    teardownBucket.derived_covers [OF assms] by simp

definition sample_billing :: "cost_event list" where
  "sample_billing =
     [\<lparr>ae_at = Iso 10, ae_actor = [], ae_action = ''session.stop'', ae_target = ''a'', ae_detail = [], ae_resources = None\<rparr>,
      \<lparr>ae_at = Iso 0, ae_actor = [], ae_action = ''session.create'', ae_target = ''a'', ae_detail = [], ae_resources = None\<rparr>]"

theorem billing_intervals_exact_witness:
  "covers 5 (running (deriveBillingIntervals sample_billing (Iso 20))) \<and>
   covers 15 (stopped (deriveBillingIntervals sample_billing (Iso 20)))"
proof -
  have "phase_at sample_billing 5 = PRunning" "phase_at sample_billing 15 = PStopped" by code_simp+
  then show ?thesis
    using billing_intervals_exact [of 5 20 sample_billing] billing_intervals_exact [of 15 20 sample_billing] by simp
qed

section \<open>Report windows\<close>

definition clipped :: "interval list \<Rightarrow> int \<Rightarrow> int \<Rightarrow> interval list" where
  "clipped is a b = List.map_filter (\<lambda>i. clipInterval i a b) is"

lemma clipIntervals_clipped:
  "running (clipIntervals b x) = clipped (running b) (fromMs x) (toMs x)"
  "stopped (clipIntervals b x) = clipped (stopped b) (fromMs x) (toMs x)"
  "teardown (clipIntervals b x) = clipped (teardown b) (fromMs x) (toMs x)"
  by (simp_all add: clipIntervals_def clipped_def Let_def)

lemma foldl_sum: "foldl (\<lambda>s i. s + f i) (c :: int) is = c + sum_list (map f is)"
  by (induction "is" arbitrary: c) simp_all

lemma totalMs_sum: "totalMs is = sum_list (map (\<lambda>i. toMs i - fromMs i) is)"
  by (simp add: totalMs_def foldl_sum)

lemma clipped_total: "totalMs (clipped is a b) = sum_list (map (\<lambda>i. max 0 (min (toMs i) b - max (fromMs i) a)) is)"
  unfolding clipped_def totalMs_sum
  by (induction "is") (auto simp: map_filter_simps clipInterval_def Let_def)

lemma clip_split:
  "\<lbrakk>a \<le> b; b \<le> c\<rbrakk> \<Longrightarrow> totalMs (clipped is a b) + totalMs (clipped is b c) = totalMs (clipped is a c)"
  unfolding clipped_total
proof (induction "is")
  case (Cons i "is")
  have "max 0 (min (toMs i) b - max (fromMs i) a) + max 0 (min (toMs i) c - max (fromMs i) b) =
      max 0 (min (toMs i) c - max (fromMs i) a)"
    using Cons.prems by (auto simp: max_def min_def)
  with Cons show ?case by simp
qed simp

text \<open>
  Report windows add up. For any intervals and instants a, b, c in this order, the
  durations clipped to the window from a to b and those clipped to the window from b to c
  sum to those clipped to the window from a to c, phase by phase; and an instant is covered
  after clipping exactly if it was covered and lies in the window.
\<close>

theorem windows_add_up:
  assumes "a \<le> b" and "b \<le> c"
  shows "runningMs (interval_totals (clipIntervals B \<lparr>fromMs = a, toMs = b\<rparr>)) +
      runningMs (interval_totals (clipIntervals B \<lparr>fromMs = b, toMs = c\<rparr>)) =
      runningMs (interval_totals (clipIntervals B \<lparr>fromMs = a, toMs = c\<rparr>)) \<and>
    stoppedMs (interval_totals (clipIntervals B \<lparr>fromMs = a, toMs = b\<rparr>)) +
      stoppedMs (interval_totals (clipIntervals B \<lparr>fromMs = b, toMs = c\<rparr>)) =
      stoppedMs (interval_totals (clipIntervals B \<lparr>fromMs = a, toMs = c\<rparr>)) \<and>
    teardownMs (interval_totals (clipIntervals B \<lparr>fromMs = a, toMs = b\<rparr>)) +
      teardownMs (interval_totals (clipIntervals B \<lparr>fromMs = b, toMs = c\<rparr>)) =
      teardownMs (interval_totals (clipIntervals B \<lparr>fromMs = a, toMs = c\<rparr>)) \<and>
    (covers x (running (clipIntervals B \<lparr>fromMs = a, toMs = c\<rparr>)) \<longleftrightarrow> covers x (running B) \<and> a \<le> x \<and> x < c)"
proof -
  have "covers x (clipped is a c) \<longleftrightarrow> covers x is \<and> a \<le> x \<and> x < c" for "is"
    unfolding clipped_def covers_def
    by (induction "is") (auto simp: map_filter_simps clipInterval_def Let_def)
  then show ?thesis
    by (simp add: interval_totals_def clipIntervals_clipped clip_split [OF assms])
qed

theorem windows_add_up_witness:
  "runningMs (interval_totals (clipIntervals (deriveBillingIntervals sample_billing (Iso 20)) \<lparr>fromMs = 2, toMs = 6\<rparr>)) +
   runningMs (interval_totals (clipIntervals (deriveBillingIntervals sample_billing (Iso 20)) \<lparr>fromMs = 6, toMs = 15\<rparr>)) = 8"
proof -
  have "runningMs (interval_totals (clipIntervals (deriveBillingIntervals sample_billing (Iso 20)) \<lparr>fromMs = 2, toMs = 15\<rparr>)) = 8"
    by code_simp
  then show ?thesis
    using windows_add_up [of 2 6 15 "deriveBillingIntervals sample_billing (Iso 20)"] by simp
qed
section \<open>Sorting by a comparator\<close>

lemma mset_insert_by [simp]: "mset (insert_by le x xs) = add_mset x (mset xs)"
  by (induction xs) auto

lemma mset_sort_by [simp]: "mset (sort_by le xs) = mset xs"
  by (induction xs) (simp_all add: sort_by_def)

lemma set_sort_by [simp]: "set (sort_by le xs) = set xs"
  by (rule mset_eq_setD) simp

definition total_preorder :: "('a \<Rightarrow> 'a \<Rightarrow> bool) \<Rightarrow> bool" where
  "total_preorder le \<longleftrightarrow> (\<forall>a b. le a b \<or> le b a) \<and> (\<forall>a b c. le a b \<longrightarrow> le b c \<longrightarrow> le a c)"

lemma sorted_insert_by:
  assumes "total_preorder le" and "sorted_wrt le xs"
  shows "sorted_wrt le (insert_by le x xs)"
  using assms(2)
proof (induction xs)
  case (Cons y ys)
  have "set (insert_by le x ys) = insert x (set ys)"
    by (metis mset_insert_by set_mset_add_mset_insert set_mset_mset)
  with Cons assms(1) show ?case
    unfolding total_preorder_def by auto
qed simp

lemma sorted_sort_by: "total_preorder le \<Longrightarrow> sorted_wrt le (sort_by le xs)"
  unfolding sort_by_def by (induction xs) (simp_all add: sorted_insert_by)

lemma sorted_unique:
  assumes "mset xs = mset ys" and "sorted_wrt le xs" and "sorted_wrt le ys"
    and "\<And>a b. \<lbrakk>a \<in> set xs; b \<in> set xs; le a b; le b a\<rbrakk> \<Longrightarrow> a = b"
  shows "xs = ys"
  using assms
proof (induction xs arbitrary: ys)
  case (Cons x xs)
  then obtain y zs where ys: "ys = y # zs" by (cases ys) auto
  have same: "set (x # xs) = set ys" using Cons.prems(1) by (rule mset_eq_setD)
  have "x = y"
  proof (rule ccontr)
    assume "x \<noteq> y"
    with same ys have xy: "x \<in> set zs" "y \<in> set xs" by auto
    with Cons.prems(2,3) ys have "le x y" "le y x" by auto
    with Cons.prems(4) [of x y] xy(2) \<open>x \<noteq> y\<close> show False by simp
  qed
  moreover have "xs = zs"
    using Cons.prems ys \<open>x = y\<close> by (intro Cons.IH) auto
  ultimately show ?case using ys by simp
qed simp

lemma sort_by_perm:
  assumes "mset xs = mset ys" and "total_preorder loc" and "\<And>a b. loc a b \<Longrightarrow> loc b a \<Longrightarrow> a = b"
    and "inj_on f (set xs)"
  shows "sort_by (\<lambda>a b. loc (f a) (f b)) xs = sort_by (\<lambda>a b. loc (f a) (f b)) ys"
proof (rule sorted_unique [where le = "\<lambda>a b. loc (f a) (f b)"])
  have "total_preorder (\<lambda>a b. loc (f a) (f b))"
    using assms(2) unfolding total_preorder_def by blast
  then show "sorted_wrt (\<lambda>a b. loc (f a) (f b)) (sort_by (\<lambda>a b. loc (f a) (f b)) xs)"
    "sorted_wrt (\<lambda>a b. loc (f a) (f b)) (sort_by (\<lambda>a b. loc (f a) (f b)) ys)" by (rule sorted_sort_by)+
  show "a = b" if "a \<in> set (sort_by (\<lambda>a b. loc (f a) (f b)) xs)" "b \<in> set (sort_by (\<lambda>a b. loc (f a) (f b)) xs)"
    "loc (f a) (f b)" "loc (f b) (f a)" for a b
    using that assms(3) [of "f a" "f b"] assms(4) by (auto dest: inj_onD)
qed (use assms(1) in simp)

text \<open>
  The report does not depend on the order its sessions are collected in: for any
  arithmetic of the amounts (no law of addition is needed), any two lists with the same
  sessions, of different workspaces, and the same issues give the same report, equal in
  every figure and every line, or the same error.
\<close>

theorem report_order_free:
  assumes loc: "total_preorder loc" "\<And>a b. loc a b \<Longrightarrow> loc b a \<Longrightarrow> a = b"
    and ss: "mset ss = mset ss'" "inj_on sc_workspaceId (set ss)"
    and issues: "mset xs = mset ys" "inj_on is_workspaceId (set xs)"
  shows "aggregateFleetCost A loc ss pr at start xs = aggregateFleetCost A loc ss' pr at start ys"
proof -
  have "sort_by (\<lambda>a b. loc (sc_workspaceId a) (sc_workspaceId b)) ss =
      sort_by (\<lambda>a b. loc (sc_workspaceId a) (sc_workspaceId b)) ss'"
    using ss(1) loc ss(2) by (rule sort_by_perm)
  moreover have "sort_by (\<lambda>a b. loc (is_workspaceId a) (is_workspaceId b)) xs =
      sort_by (\<lambda>a b. loc (is_workspaceId a) (is_workspaceId b)) ys"
    using issues(1) loc issues(2) by (rule sort_by_perm)
  ultimately show ?thesis by (simp only: aggregateFleetCost_def)
qed

end
