(* ===== verification/Cost_Service.thy ===== *)
theory Cost_Service
  imports Cost_Props
begin

text \<open>
  The cost service (\<^verbatim>\<open>packages/control-plane/src/cost-service.ts\<close>) and the audit source it
  reads (\<^verbatim>\<open>stored-audit-source.ts\<close>): grouping the ledger by session, owner and size
  attribution, the full-ledger report, the checkpoints and the report resumed from them,
  and the table the checkpoints are stored in.

  What the service reads during one call is the record \<open>cost_deps\<close>: the ledger, the tail of
  the ledger after an instant, the catalog, the clock (which does not move during a call) and
  the stored checkpoints, each of which may fail. Where two reads run concurrently and both
  fail, the error is that of the ledger. The record \<open>texts\<close> holds the comparisons of texts the
  code leaves to the platform: \<^verbatim>\<open>localeCompare\<close> on identifiers and on timestamps, the byte
  order of the table's time index, and the text of a timestamp.
\<close>

record texts =
  loc :: "string \<Rightarrow> string \<Rightarrow> bool"
  at_less :: "iso_timestamp \<Rightarrow> iso_timestamp \<Rightarrow> bool"
  at_after :: "iso_timestamp \<Rightarrow> iso_timestamp \<Rightarrow> bool"
  at_text :: "iso_timestamp \<Rightarrow> string"

section \<open>The audit source\<close>

text \<open>A stored value of which nothing is known: a number, or something else.\<close>

datatype raw_value = RawNumber int | RawOther
datatype raw_resources = NotObject | RawObject raw_value raw_value raw_value

record audit_record =
  ar_id :: string
  ar_at :: iso_timestamp
  ar_actor :: string
  ar_action :: string
  ar_target :: string
  ar_detail :: string
  ar_resources :: "raw_resources option"

fun positive_number :: "raw_value \<Rightarrow> int option" where
  "positive_number (RawNumber n) = (if 0 < n then Some n else None)"
| "positive_number RawOther = None"

text \<open>The type guard: \<^term>\<open>None\<close> where \<^verbatim>\<open>isWorkspaceResources\<close> is false.\<close>

fun isWorkspaceResources :: "raw_resources \<Rightarrow> workspace_resources option" where
  "isWorkspaceResources NotObject = None"
| "isWorkspaceResources (RawObject c m v) =
     (case (positive_number c, positive_number m, positive_number v) of
        (Some c, Some m, Some v) \<Rightarrow> Some \<lparr>cpuUnits = c, memoryMiB = m, volumeGiB = v\<rparr>
      | _ \<Rightarrow> None)"

definition toEvent :: "audit_record \<Rightarrow> js_error + cost_event" where
  "toEvent r =
     (let event = (\<lambda>res. \<lparr>ae_at = ar_at r, ae_actor = ar_actor r, ae_action = ar_action r,
                          ae_target = ar_target r, ae_detail = ar_detail r, ae_resources = res\<rparr>) in
      case ar_resources r of
        None \<Rightarrow> Inr (event None)
      | Some raw \<Rightarrow>
          (case isWorkspaceResources raw of
             None \<Rightarrow> Inl (plain_error ''Error''
               (''audit event '' @ ar_id r @ '' contains invalid structured workspace resources''))
           | Some res \<Rightarrow> Inr (event (Some res))))"

text \<open>\<^verbatim>\<open>xs.map(f)\<close> for an \<open>f\<close> that may throw.\<close>

fun traverse :: "('a \<Rightarrow> 'e + 'b) \<Rightarrow> 'a list \<Rightarrow> 'e + 'b list" where
  "traverse f [] = Inr []"
| "traverse f (x # xs) =
     (case f x of
        Inl e \<Rightarrow> Inl e
      | Inr y \<Rightarrow> (case traverse f xs of Inl e \<Rightarrow> Inl e | Inr ys \<Rightarrow> Inr (y # ys)))"

text \<open>The rows of the time index, in its order.\<close>

definition audit_all :: "audit_record list \<Rightarrow> js_error + cost_event list" where
  "audit_all rows = traverse toEvent rows"

definition audit_since :: "texts \<Rightarrow> audit_record list \<Rightarrow> iso_timestamp \<Rightarrow> js_error + cost_event list" where
  "audit_since T rows fromExclusive =
     traverse toEvent (filter (\<lambda>r. at_after T (ar_at r) fromExclusive) rows)"

definition audit_recent :: "audit_record list \<Rightarrow> nat \<Rightarrow> js_error + cost_event list" where
  "audit_recent rows limit = traverse toEvent (take limit (rev rows))"

section \<open>Sessions\<close>

definition SESSION_ACTION_PREFIX :: string where
  "SESSION_ACTION_PREFIX = ''session.''"

definition is_session :: "cost_event \<Rightarrow> bool" where
  "is_session e \<longleftrightarrow> take (length SESSION_ACTION_PREFIX) (ae_action e) = SESSION_ACTION_PREFIX"

fun push_event :: "cost_event \<Rightarrow> (string \<times> cost_event list) list \<Rightarrow> (string \<times> cost_event list) list" where
  "push_event e [] = [(ae_target e, [e])]"
| "push_event e ((k, es) # m) = (if k = ae_target e then (k, es @ [e]) # m else (k, es) # push_event e m)"

definition groupSessions :: "cost_event list \<Rightarrow> (string \<times> cost_event list) list" where
  "groupSessions events = foldl (\<lambda>m e. if is_session e then push_event e m else m) [] events"

definition lookup_events :: "(string \<times> cost_event list) list \<Rightarrow> string \<Rightarrow> cost_event list" where
  "lookup_events m k = (case map_of m k of None \<Rightarrow> [] | Some es \<Rightarrow> es)"

definition created :: "cost_event list \<Rightarrow> cost_event option" where
  "created events = List.find (\<lambda>e. ae_action e = ''session.create'') events"

definition ownerOf :: "cost_event list \<Rightarrow> workspace_dto option \<Rightarrow> string" where
  "ownerOf events record' =
     (case created events of
        Some e \<Rightarrow> ae_actor e
      | None \<Rightarrow> (case record' of Some w \<Rightarrow> ownerId (fst w) | None \<Rightarrow> ''unknown''))"

definition resourcesToSizing ::
  "'n arith \<Rightarrow> string \<Rightarrow> workspace_resources \<Rightarrow> js_error + 'n workspace_sizing" where
  "resourcesToSizing A i r =
     (if cpuUnits r \<le> 0 \<or> memoryMiB r \<le> 0 \<or> volumeGiB r \<le> 0
      then Inl (plain_error ''Error'' (''cost report cannot price workspace '' @ i @
             '': workspace resources are not finite positive numbers''))
      else Inr \<lparr>vcpu = n_div A (n_of_int A (cpuUnits r)) (n_of_int A 1024),
                memoryGib = n_div A (n_of_int A (memoryMiB r)) (n_of_int A 1024),
                volumeGib = n_of_int A (volumeGiB r)\<rparr>)"

definition sizingFromCreateEvent ::
  "'n arith \<Rightarrow> cost_event list \<Rightarrow> string \<Rightarrow> js_error + 'n workspace_sizing" where
  "sizingFromCreateEvent A events i =
     (case Option.bind (created events) ae_resources of
        None \<Rightarrow> Inl (plain_error ''Error'' (''cost report cannot price workspace '' @ i @
             '': session.create audit event has no structured resources''))
      | Some r \<Rightarrow> resourcesToSizing A i r)"

definition sizingOf ::
  "'n arith \<Rightarrow> string \<Rightarrow> cost_event list \<Rightarrow> workspace_dto option \<Rightarrow> js_error + 'n workspace_sizing" where
  "sizingOf A i events record' =
     (case record' of
        None \<Rightarrow> sizingFromCreateEvent A events i
      | Some w \<Rightarrow> resourcesToSizing A i (resources (fst w)))"

definition earliestAt :: "texts \<Rightarrow> cost_event list \<Rightarrow> iso_timestamp \<Rightarrow> iso_timestamp" where
  "earliestAt T events now =
     foldl (\<lambda>earliest e. if at_less T (ae_at e) earliest then ae_at e else earliest) now events"

text \<open>A \<^verbatim>\<open>Set\<close> iterates in the order of first insertion; a \<^verbatim>\<open>Map\<close> built from pairs keeps the last
  value of a key.\<close>

definition js_set :: "'a list \<Rightarrow> 'a list" where
  "js_set xs = rev (remdups (rev xs))"

definition records_by_id :: "workspace_dto list \<Rightarrow> string \<Rightarrow> workspace_dto option" where
  "records_by_id ws = map_of (rev (map (\<lambda>w. (wsId (fst w), w)) ws))"

definition all_ids :: "(string \<times> cost_event list) list \<Rightarrow> workspace_dto list \<Rightarrow> string list" where
  "all_ids byWorkspace ws = js_set (map fst byWorkspace @ map (\<lambda>w. wsId (fst w)) ws)"

section \<open>Checkpoints\<close>

record rollup_base =
  rb_workspaceId :: string
  rb_owner :: string
  checkpointAt :: iso_timestamp
  rb_windowStart :: iso_timestamp

datatype 'n rollup_record =
    Checkpoint (base: rollup_base) "'n workspace_sizing" walk_totals string
  | UnpricedMark (base: rollup_base) string

record 'n cost_deps =
  cd_all :: "js_error + cost_event list"
  cd_since :: "iso_timestamp \<Rightarrow> js_error + cost_event list"
  cd_workspaces :: "js_error + workspace_dto list"
  cd_now :: int
  cd_pricing :: "'n pricing"
  cd_rollups :: "(js_error + 'n rollup_record list) option"

fun phase_name :: "walk_phase \<Rightarrow> string" where
  "phase_name PNone = ''none''"
| "phase_name PRunning = ''running''"
| "phase_name PStopped = ''stopped''"
| "phase_name PTeardown = ''teardown''"
| "phase_name PRetained = ''retained''"
| "phase_name PTerminated = ''terminated''"

definition PHASES :: "walk_phase list" where
  "PHASES = [PRunning, PStopped, PTeardown, PRetained, PNone, PTerminated]"

definition asPhase :: "string \<Rightarrow> string \<Rightarrow> js_error + walk_phase" where
  "asPhase value i =
     (case List.find (\<lambda>p. phase_name p = value) PHASES of
        Some p \<Rightarrow> Inr p
      | None \<Rightarrow> Inl (plain_error ''Error''
          (''cost rollup for '' @ i @ '' has invalid billing phase '' @ quoted value)))"

definition UNPRICED_PHASE :: string where
  "UNPRICED_PHASE = ''unpriced''"

definition earlierIso :: "texts \<Rightarrow> iso_timestamp \<Rightarrow> iso_timestamp \<Rightarrow> js_error + iso_timestamp" where
  "earlierIso T a b =
     (case (a, b) of
        (Iso x, Iso y) \<Rightarrow> Inr (if x \<le> y then a else b)
      | _ \<Rightarrow> Inl (plain_error ''Error'' (''cost rollup has an unparseable timestamp: '' @
               quoted (at_text T a) @ '' / '' @ quoted (at_text T b))))"

text \<open>\<^verbatim>\<open>xs.reduce((acc, x) => earlierIso(acc, f(x)), a)\<close>.\<close>

fun earliest_of :: "texts \<Rightarrow> iso_timestamp \<Rightarrow> iso_timestamp list \<Rightarrow> js_error + iso_timestamp" where
  "earliest_of T a [] = Inr a"
| "earliest_of T a (x # xs) = (case earlierIso T a x of Inl e \<Rightarrow> Inl e | Inr b \<Rightarrow> earliest_of T b xs)"

definition rollup_record_of ::
  "'n arith \<Rightarrow> int \<Rightarrow> iso_timestamp \<Rightarrow> (string \<times> cost_event list) list \<Rightarrow> workspace_dto list \<Rightarrow>
   string \<Rightarrow> 'n rollup_record" where
  "rollup_record_of A now start byWorkspace ws i =
     (let events = lookup_events byWorkspace i;
          b = \<lparr>rb_workspaceId = i, rb_owner = ownerOf events (records_by_id ws i),
               checkpointAt = Iso now, rb_windowStart = start\<rparr>
      in case sizingOf A i events (records_by_id ws i) of
           Inl e \<Rightarrow> UnpricedMark b (err_message e)
         | Inr sz \<Rightarrow>
             (let st = deriveBillingState events now
              in Checkpoint b sz (walk_totals.truncate st) (phase_name (phase st))))"

definition rollup_records ::
  "'n arith \<Rightarrow> texts \<Rightarrow> int \<Rightarrow> cost_event list \<Rightarrow> workspace_dto list \<Rightarrow> 'n rollup_record list" where
  "rollup_records A T now events ws =
     (let byWorkspace = groupSessions events
      in map (rollup_record_of A now (earliestAt T events (Iso now)) byWorkspace ws)
           (all_ids byWorkspace ws))"

text \<open>\<^verbatim>\<open>rollup\<close>: the records it hands to \<^verbatim>\<open>replaceAll\<close>, \<^term>\<open>None\<close> where there is no store.\<close>

definition rollup ::
  "'n arith \<Rightarrow> texts \<Rightarrow> 'n cost_deps \<Rightarrow> js_error + 'n rollup_record list option" where
  "rollup A T d =
     (case cd_rollups d of
        None \<Rightarrow> Inr None
      | Some _ \<Rightarrow>
          (case cd_all d of
             Inl e \<Rightarrow> Inl e
           | Inr events \<Rightarrow>
               (case cd_workspaces d of
                  Inl e \<Rightarrow> Inl e
                | Inr ws \<Rightarrow> Inr (Some (rollup_records A T (cd_now d) events ws)))))"

definition rollupIfStale ::
  "'n arith \<Rightarrow> texts \<Rightarrow> 'n cost_deps \<Rightarrow> int \<Rightarrow> js_error + 'n rollup_record list option" where
  "rollupIfStale A T d maxAgeMs =
     (case cd_rollups d of
        None \<Rightarrow> Inr None
      | Some (Inl e) \<Rightarrow> Inl e
      | Some (Inr []) \<Rightarrow> rollup A T d
      | Some (Inr (first # rest)) \<Rightarrow>
          (let ats = map (\<lambda>r. checkpointAt (base r)) (first # rest);
               mixed = list_ex (\<lambda>a. a \<noteq> checkpointAt (base first)) ats
           in case earliest_of T (checkpointAt (base first)) ats of
                Inl e \<Rightarrow> Inl e
              | Inr oldest \<Rightarrow>
                  if \<not> mixed \<and> js_less (elapsed (Iso (cd_now d)) oldest) (Some maxAgeMs)
                  then Inr None else rollup A T d))"

section \<open>The two reports\<close>

definition cost_input ::
  "'n arith \<Rightarrow> (string \<times> cost_event list) list \<Rightarrow> workspace_dto list \<Rightarrow> string \<Rightarrow>
   'n workspace_cost_input + cost_issue" where
  "cost_input A byWorkspace ws i =
     (let events = lookup_events byWorkspace i; record' = records_by_id ws i
      in case sizingOf A i events record' of
           Inl e \<Rightarrow> Inr \<lparr>is_workspaceId = i, is_reason = err_message e\<rparr>
         | Inr sz \<Rightarrow>
             Inl \<lparr>ci_workspaceId = i, ci_owner = ownerOf events record', ci_sizing = sz,
                  ci_state = map_option (\<lambda>w. state_name (state (fst w))) record',
                  ci_events = events\<rparr>)"

definition lefts :: "('a + 'b) list \<Rightarrow> 'a list" where
  "lefts xs = List.map_filter (\<lambda>x. case x of Inl a \<Rightarrow> Some a | Inr _ \<Rightarrow> None) xs"

definition rights :: "('a + 'b) list \<Rightarrow> 'b list" where
  "rights xs = List.map_filter (\<lambda>x. case x of Inl _ \<Rightarrow> None | Inr b \<Rightarrow> Some b) xs"

definition fullScanReport ::
  "'n arith \<Rightarrow> texts \<Rightarrow> 'n cost_deps \<Rightarrow> interval option \<Rightarrow> js_error + 'n fleet_cost_report" where
  "fullScanReport A T d window =
     (case cd_all d of
        Inl e \<Rightarrow> Inl e
      | Inr events \<Rightarrow>
          (case cd_workspaces d of
             Inl e \<Rightarrow> Inl e
           | Inr ws \<Rightarrow>
               (let byWorkspace = groupSessions events;
                    inputs = map (cost_input A byWorkspace ws) (all_ids byWorkspace ws)
                in computeFleetCost A (loc T) (lefts inputs) (cd_pricing d) (Iso (cd_now d)) window
                     (rights inputs) (Some (earliestAt T events (Iso (cd_now d)))))))"

text \<open>
  A line of the report: a priced session or an issue. \<open>checkpoint_line\<close> is the body of the
  loop over the stored checkpoints, \<open>tail_line\<close> that of the loop over the sessions born after
  them. A checkpoint whose time does not parse has made the report fail before.
\<close>

type_synonym 'n line = "'n session_cost + cost_issue"

definition report_state :: "workspace_dto option \<Rightarrow> bool \<Rightarrow> string" where
  "report_state record' term =
     (case record' of
        Some w \<Rightarrow> state_name (state (fst w))
      | None \<Rightarrow> if term then ''terminated'' else ''unknown'')"

fun checkpoint_line ::
  "'n arith \<Rightarrow> 'n pricing \<Rightarrow> int \<Rightarrow> (string \<times> cost_event list) list \<Rightarrow> workspace_dto list \<Rightarrow>
   'n rollup_record \<Rightarrow> js_error + 'n line" where
  "checkpoint_line A pr now tailBy ws (UnpricedMark b reason) =
     Inr (Inr \<lparr>is_workspaceId = rb_workspaceId b, is_reason = reason\<rparr>)"
| "checkpoint_line A pr now tailBy ws (Checkpoint b sz t ph) =
     (let i = rb_workspaceId b in
      case asPhase ph i of
        Inl e \<Rightarrow> Inl e
      | Inr p \<Rightarrow>
          (case resumeBilling (at_phase p t)
               (case checkpointAt b of Iso c \<Rightarrow> c | Malformed \<Rightarrow> 0) (lookup_events tailBy i) now of
             (totals, term) \<Rightarrow>
               (case priceDurations A totals pr sz of
                  Inl e \<Rightarrow> Inl e
                | Inr cost \<Rightarrow>
                    Inr (Inl \<lparr>sc_workspaceId = i, sc_owner = rb_owner b, sc_sizing = sz,
                              sc_state = report_state (records_by_id ws i) term,
                              sc_terminated = term, sc_cost = cost\<rparr>))))"

definition tail_line ::
  "'n arith \<Rightarrow> 'n pricing \<Rightarrow> int \<Rightarrow> (string \<times> cost_event list) list \<Rightarrow> workspace_dto list \<Rightarrow>
   string \<Rightarrow> js_error + 'n line" where
  "tail_line A pr now tailBy ws i =
     (let events = lookup_events tailBy i; intervals = deriveBillingIntervals events (Iso now);
          record' = records_by_id ws i
      in case sizingOf A i events record' of
           Inl e \<Rightarrow> Inr (Inr \<lparr>is_workspaceId = i, is_reason = err_message e\<rparr>)
         | Inr sz \<Rightarrow>
             (case priceIntervals A intervals pr sz of
                Inl e \<Rightarrow> Inl e
              | Inr cost \<Rightarrow>
                  Inr (Inl \<lparr>sc_workspaceId = i, sc_owner = ownerOf events record', sc_sizing = sz,
                            sc_state = report_state record' (terminated intervals),
                            sc_terminated = terminated intervals, sc_cost = cost\<rparr>)))"

definition rollupReport ::
  "'n arith \<Rightarrow> texts \<Rightarrow> 'n cost_deps \<Rightarrow> 'n rollup_record list \<Rightarrow> js_error + 'n fleet_cost_report" where
  "rollupReport A T d rollups =
     (let now = cd_now d; pr = cd_pricing d in
      case earliest_of T (Iso now) (map (\<lambda>r. checkpointAt (base r)) rollups) of
        Inl e \<Rightarrow> Inl e
      | Inr oldestCheckpoint \<Rightarrow>
      case earliest_of T (Iso now) (map (\<lambda>r. rb_windowStart (base r)) rollups) of
        Inl e \<Rightarrow> Inl e
      | Inr start \<Rightarrow>
      case cd_since d oldestCheckpoint of
        Inl e \<Rightarrow> Inl e
      | Inr tail \<Rightarrow>
      case cd_workspaces d of
        Inl e \<Rightarrow> Inl e
      | Inr ws \<Rightarrow>
          (let tailBy = groupSessions tail; rolled = set (map (\<lambda>r. rb_workspaceId (base r)) rollups) in
           case traverse (checkpoint_line A pr now tailBy ws) rollups of
             Inl e \<Rightarrow> Inl e
           | Inr ls \<Rightarrow>
           case traverse (tail_line A pr now tailBy ws) (filter (\<lambda>i. i \<notin> rolled) (map fst tailBy)) of
             Inl e \<Rightarrow> Inl e
           | Inr ms \<Rightarrow> aggregateFleetCost A (loc T) (lefts (ls @ ms)) pr (Iso now) start (rights (ls @ ms))))"

definition report ::
  "'n arith \<Rightarrow> texts \<Rightarrow> 'n cost_deps \<Rightarrow> int option \<Rightarrow> js_error + 'n fleet_cost_report" where
  "report A T d windowDays =
     (case windowDays of
        Some days \<Rightarrow>
          (case relativeWindow (Iso (cd_now d)) days of
             Inl e \<Rightarrow> Inl e
           | Inr window \<Rightarrow> fullScanReport A T d window)
      | None \<Rightarrow>
          (case cd_rollups d of
             None \<Rightarrow> fullScanReport A T d None
           | Some (Inl e) \<Rightarrow> Inl e
           | Some (Inr rs) \<Rightarrow> if rs = [] then fullScanReport A T d None else rollupReport A T d rs))"

section \<open>The table of checkpoints\<close>

record 'n rollup_row =
  rr_base :: rollup_base
  rr_sizing :: "'n workspace_sizing"
  rr_totals :: walk_totals
  rr_phase :: string
  unpricedReason :: "string option"

type_synonym 'n rollup_table = "(string \<times> 'n rollup_row) list"

definition from_row :: "'n rollup_row \<Rightarrow> js_error + 'n rollup_record" where
  "from_row r =
     (if rr_phase r = UNPRICED_PHASE then
        (case unpricedReason r of
           None \<Rightarrow> Inl (plain_error ''Error'' (''cost rollup for '' @ rb_workspaceId (rr_base r) @
             '' is unpriced but carries no reason''))
         | Some reason \<Rightarrow> Inr (UnpricedMark (rr_base r) reason))
      else Inr (Checkpoint (rr_base r) (rr_sizing r) (rr_totals r) (rr_phase r)))"

fun to_row :: "'n arith \<Rightarrow> 'n rollup_record \<Rightarrow> 'n rollup_row" where
  "to_row A (Checkpoint b sz t ph) =
     \<lparr>rr_base = b, rr_sizing = sz, rr_totals = t, rr_phase = ph, unpricedReason = None\<rparr>"
| "to_row A (UnpricedMark b reason) =
     \<lparr>rr_base = b,
      rr_sizing = \<lparr>vcpu = n_of_int A 0, memoryGib = n_of_int A 0, volumeGib = n_of_int A 0\<rparr>,
      rr_totals = no_totals, rr_phase = UNPRICED_PHASE, unpricedReason = Some reason\<rparr>"

definition rollup_list :: "'n rollup_table \<Rightarrow> js_error + 'n rollup_record list" where
  "rollup_list t = traverse (\<lambda>(_, r). from_row r) t"

definition assertAllProcessed :: "string list \<Rightarrow> string \<Rightarrow> js_error option" where
  "assertAllProcessed unprocessed op =
     (if unprocessed \<noteq> [] then
        Some (plain_error ''Error'' (''cost rollup '' @ op @ '' left '' @ nat_text (length unprocessed) @
          '' unprocessed item(s) (DynamoDB BatchWriteItem throttle); rollup not persisted''))
      else None)"

text \<open>
  A batch write leaves some of its items undone: \<open>undone\<close> says which, for the identifiers of a
  batch. \<^verbatim>\<open>replaceAll\<close> yields the table it leaves behind and its outcome.
\<close>

definition batch_delete ::
  "(string list \<Rightarrow> string list) \<Rightarrow> string list \<Rightarrow> 'n rollup_table \<Rightarrow> 'n rollup_table" where
  "batch_delete undone ks t = fold AList.delete (filter (\<lambda>k. k \<notin> set (undone ks)) ks) t"

definition batch_put ::
  "(string list \<Rightarrow> string list) \<Rightarrow> 'n rollup_row list \<Rightarrow> 'n rollup_table \<Rightarrow> 'n rollup_table" where
  "batch_put undone rows t =
     fold (\<lambda>r. AList.update (rb_workspaceId (rr_base r)) r)
       (filter (\<lambda>r. rb_workspaceId (rr_base r) \<notin>
          set (undone (map (\<lambda>r. rb_workspaceId (rr_base r)) rows))) rows) t"

definition replaceAll ::
  "'n arith \<Rightarrow> (string list \<Rightarrow> string list) \<Rightarrow> (string list \<Rightarrow> string list) \<Rightarrow> 'n rollup_record list \<Rightarrow>
   'n rollup_table \<Rightarrow> 'n rollup_table \<times> js_error option" where
  "replaceAll A undoneDel undonePut records t =
     (let ids = map (\<lambda>r. rb_workspaceId (base r)) records in
      case rollup_list t of
        Inl e \<Rightarrow> (t, Some e)
      | Inr old \<Rightarrow>
          (let stale = filter (\<lambda>i. i \<notin> set ids) (map (\<lambda>r. rb_workspaceId (base r)) old);
               t1 = (if stale = [] then t else batch_delete undoneDel stale t);
               failed = (if stale = [] then None else assertAllProcessed (undoneDel stale) ''delete'')
           in case failed of
                Some e \<Rightarrow> (t1, Some e)
              | None \<Rightarrow>
                  if records = [] then (t1, None)
                  else (batch_put undonePut (map (to_row A) records) t1,
                        assertAllProcessed (undonePut ids) ''put'')))"

end
