(* ===== verification/Cost_Service_Props.thy ===== *)
theory Cost_Service_Props
  imports Cost_Service "HOL-Library.List_Lexorder" "HOL-Library.Char_ord"
begin

text \<open>
  Correctness of the cost service: the report resumed from the stored checkpoints is the
  report of the full scan, figure by figure, also where the rows of the table are of
  different generations; and the table gives back the checkpoints that were written.
\<close>

section \<open>Lists of outcomes\<close>

lemma traverse_Inr: "traverse f xs = Inr ys \<longleftrightarrow> map f xs = map Inr ys"
proof (induction xs arbitrary: ys)
  case (Cons x xs)
  show ?case by (cases ys) (auto simp: Cons.IH [symmetric] split: sum.splits)
qed auto

lemma map_Inr_cong:
  "\<lbrakk>map f xs = map Inr ys; \<And>x y. f x = Inr y \<Longrightarrow> g y = h x\<rbrakk> \<Longrightarrow> map g ys = map h xs"
  by (induction xs arbitrary: ys) auto

lemma traverse_perm:
  assumes "traverse f xs = Inr ys" and "mset (map f xs) = mset (map g zs)"
  shows "\<exists>ys'. traverse g zs = Inr ys' \<and> mset ys' = mset ys"
proof -
  have xs: "map f xs = map Inr ys" using assms(1) by (simp add: traverse_Inr)
  have "set (map g zs) = set (map f xs)" by (rule mset_eq_setD) (rule assms(2) [symmetric])
  then have "\<forall>y \<in> set (map g zs). \<exists>b. y = Inr b" by (auto simp: xs)
  then obtain ys' where zs: "map g zs = map Inr ys'"
    unfolding ex_map_conv [symmetric] by blast
  have "image_mset projr (mset (map g zs)) = image_mset projr (mset (map f xs))"
    by (simp only: assms(2))
  then have "mset ys' = mset ys"
    unfolding zs xs by (simp add: image_mset.compositionality comp_def)
  with zs show ?thesis by (auto simp: traverse_Inr)
qed

lemma map_filter_mset: "mset (List.map_filter f xs) = image_mset the (filter_mset (\<lambda>y. y \<noteq> None) (image_mset f (mset xs)))"
  by (induction xs) (auto simp: map_filter_simps split: option.split)

lemma lefts_perm: "mset xs = mset ys \<Longrightarrow> mset (lefts xs) = mset (lefts ys)"
  by (simp add: lefts_def map_filter_mset)

lemma rights_perm: "mset xs = mset ys \<Longrightarrow> mset (rights xs) = mset (rights ys)"
  by (simp add: rights_def map_filter_mset)

section \<open>Grouping\<close>

definition of_session :: "string \<Rightarrow> cost_event list \<Rightarrow> cost_event list" where
  "of_session i events = filter (\<lambda>e. is_session e \<and> ae_target e = i) events"

lemma push_event_keys:
  "map fst (push_event e m) = (if ae_target e \<in> set (map fst m) then map fst m else map fst m @ [ae_target e])"
  by (induction e m rule: push_event.induct) auto

lemma lookup_push:
  "lookup_events (push_event e m) i = lookup_events m i @ (if i = ae_target e then [e] else [])"
  by (induction e m rule: push_event.induct) (auto simp: lookup_events_def split: option.split)

lemma group_append:
  "groupSessions (es @ [e]) = (if is_session e then push_event e (groupSessions es) else groupSessions es)"
  by (simp add: groupSessions_def)

lemma group_keys [simp]:
  "set (map fst (groupSessions es)) = ae_target ` {e \<in> set es. is_session e}"
proof (induction es rule: rev_induct)
  case (snoc e es)
  then show ?case by (auto simp: group_append push_event_keys simp del: set_map)
qed (simp add: groupSessions_def)

lemma group_distinct [simp]: "distinct (map fst (groupSessions es))"
  by (induction es rule: rev_induct)
    (auto simp: group_append push_event_keys groupSessions_def simp del: set_map)

lemma lookup_group [simp]: "lookup_events (groupSessions es) i = of_session i es"
proof (induction es rule: rev_induct)
  case (snoc e es)
  then show ?case by (simp add: group_append lookup_push of_session_def)
qed (simp add: of_session_def groupSessions_def lookup_events_def)

lemma js_set [simp]: "set (js_set xs) = set xs" "distinct (js_set xs)"
  by (simp_all add: js_set_def)

lemma of_session_filter: "of_session i (filter P es) = filter P (of_session i es)"
  by (simp add: of_session_def conj_commute)

section \<open>The ledger\<close>

text \<open>
  What the service relies on. \<open>dated\<close>: every event carries a timestamp that parses.
  \<open>one_creation\<close>: the session of every lifecycle event was created by exactly one event, not
  after it. \<open>recorded\<close>: the creation of every workspace in the catalog is in the ledger with
  the workspace's resources. \<open>ledger_at\<close> is the ledger as it was at an instant.
\<close>

definition dated :: "cost_event list \<Rightarrow> bool" where
  "dated events \<longleftrightarrow> list_all (\<lambda>e. ae_at e \<noteq> Malformed) events"

definition is_creation :: "cost_event \<Rightarrow> bool" where
  "is_creation e \<longleftrightarrow> ae_action e = ''session.create''"

definition one_creation :: "cost_event list \<Rightarrow> bool" where
  "one_creation events \<longleftrightarrow>
     list_all (\<lambda>e. is_session e \<longrightarrow>
       (case filter is_creation (of_session (ae_target e) events) of
          [x] \<Rightarrow> instant x \<le> instant e | _ \<Rightarrow> False)) events"

definition recorded :: "cost_event list \<Rightarrow> workspace_dto list \<Rightarrow> bool" where
  "recorded events ws \<longleftrightarrow>
     list_all (\<lambda>w. Option.bind (created (of_session (wsId (fst w)) events)) ae_resources =
       Some (resources (fst w))) ws"

definition ledger_at :: "int \<Rightarrow> cost_event list \<Rightarrow> cost_event list" where
  "ledger_at c events = filter (\<lambda>e. instant e \<le> c) events"

definition live_ids :: "cost_event list \<Rightarrow> string set" where
  "live_ids events = ae_target ` {e \<in> set events. is_session e}"

lemma created_filter: "created events = (case filter is_creation events of [] \<Rightarrow> None | x # _ \<Rightarrow> Some x)"
  by (induction events) (auto simp: created_def is_creation_def)

lemma creationE:
  assumes "one_creation events" and "i \<in> live_ids (ledger_at c events)"
  obtains x where "filter is_creation (of_session i events) = [x]" "instant x \<le> c"
proof -
  obtain e where e: "e \<in> set events" "is_session e" "ae_target e = i" "instant e \<le> c"
    using assms(2) by (auto simp: live_ids_def ledger_at_def)
  with assms(1) have "case filter is_creation (of_session i events) of [x] \<Rightarrow> instant x \<le> instant e | _ \<Rightarrow> False"
    by (auto simp: one_creation_def list_all_iff)
  with e(4) that show thesis by (auto split: list.splits)
qed

lemma created_upto:
  assumes "one_creation events" and "i \<in> live_ids (ledger_at c events)"
  obtains x where "created (of_session i (ledger_at c events)) = Some x" "created (of_session i events) = Some x"
proof -
  obtain x where x: "filter is_creation (of_session i events) = [x]" "instant x \<le> c"
    using creationE [OF assms] .
  have "filter is_creation (of_session i (ledger_at c events)) = filter (\<lambda>e. instant e \<le> c) [x]"
    unfolding x(1) [symmetric] by (simp add: ledger_at_def of_session_filter conj_commute)
  with x that show thesis by (simp add: created_filter)
qed

lemma records_by_id_Some: "records_by_id ws i = Some w \<Longrightarrow> w \<in> set ws \<and> wsId (fst w) = i"
  by (auto simp: records_by_id_def dest!: map_of_SomeD)

lemma recorded_live:
  assumes "recorded events ws" and "w \<in> set ws"
  shows "wsId (fst w) \<in> live_ids events"
proof -
  have "created (of_session (wsId (fst w)) events) \<noteq> None"
    using assms by (cases "created (of_session (wsId (fst w)) events)") (auto simp: recorded_def list_all_iff)
  then obtain e where "e \<in> set (of_session (wsId (fst w)) events)"
    by (auto simp: created_def find_None_iff2 find_Some_iff dest: nth_mem)
  then have "e \<in> set events" "is_session e" "ae_target e = wsId (fst w)" by (auto simp: of_session_def)
  then show ?thesis unfolding live_ids_def by (metis (mono_tags, lifting) image_eqI mem_Collect_eq)
qed

lemma all_ids_live: "recorded events ws \<Longrightarrow> set (all_ids (groupSessions events) ws) = live_ids events"
proof -
  assume "recorded events ws"
  then have "(\<lambda>w. wsId (fst w)) ` set ws \<subseteq> live_ids events" by (auto dest: recorded_live)
  moreover have "set (map fst (groupSessions events)) = live_ids events" by (simp only: group_keys live_ids_def)
  ultimately show ?thesis by (auto simp: all_ids_def)
qed

lemma sizing_from_creation:
  assumes "recorded events ws"
  shows "sizingOf A i (of_session i events) (records_by_id ws i) = sizingFromCreateEvent A (of_session i events) i"
proof (cases "records_by_id ws i")
  case (Some w)
  then have "Option.bind (created (of_session i events)) ae_resources = Some (resources (fst w))"
    using assms records_by_id_Some [OF Some] by (auto simp: recorded_def list_all_iff)
  with Some show ?thesis by (simp add: sizingOf_def sizingFromCreateEvent_def)
qed (simp add: sizingOf_def)

section \<open>One line\<close>

definition full_line ::
  "'n arith \<Rightarrow> 'n pricing \<Rightarrow> int \<Rightarrow> cost_event list \<Rightarrow> workspace_dto list \<Rightarrow> string \<Rightarrow> js_error + 'n line" where
  "full_line A pr now events ws = tail_line A pr now (groupSessions events) ws"

lemma state_upto: "deriveBillingState (ledger_at c es) c = deriveBillingState es c"
proof -
  have "chronological (\<lambda>m. m \<le> c) (ledger_at c es) = chronological (\<lambda>m. m \<le> c) es"
    unfolding chronological_def ledger_at_def filter_filter
    by (rule arg_cong [of _ _ "sort_key instant"]) (auto simp: instant_def intro!: filter_cong split: option.splits)
  then show ?thesis by (simp add: deriveBillingState_def walkBilling_def)
qed

lemma asPhase_name [simp]: "asPhase (phase_name p) i = Inr p"
  by (cases p) (simp_all add: asPhase_def PHASES_def)

lemma at_phase_id [simp]: "at_phase (phase st) (walk_totals.truncate st) = st"
  by (simp add: at_phase_def walk_totals.truncate_def)

lemma of_session_upto: "of_session i (ledger_at c es) = ledger_at c (of_session i es)"
  by (simp add: ledger_at_def of_session_filter)

lemma checkpoint_line_full:
  assumes "k \<le> c" "c \<le> n" "one_creation events" "i \<in> live_ids (ledger_at c events)"
    and "recorded (ledger_at c events) ws'" "recorded events ws"
  shows "checkpoint_line A pr n (groupSessions (since k events)) ws
      (rollup_record_of A c start (groupSessions (ledger_at c events)) ws' i) = full_line A pr n events ws i"
proof -
  obtain x where x: "created (of_session i (ledger_at c events)) = Some x" "created (of_session i events) = Some x"
    using created_upto [OF assms(3,4)] .
  have sz: "sizingOf A i (of_session i (ledger_at c events)) (records_by_id ws' i) =
      sizingOf A i (of_session i events) (records_by_id ws i)"
    unfolding sizing_from_creation [OF assms(5)] sizing_from_creation [OF assms(6)]
    by (simp add: sizingFromCreateEvent_def x)
  have resume: "resumeBilling (deriveBillingState (of_session i (ledger_at c events)) c) c (of_session i (since k events)) n =
      (interval_totals (deriveBillingIntervals (of_session i events) (Iso n)),
       terminated (deriveBillingIntervals (of_session i events) (Iso n)))"
    using checkpoint_resume_exact [OF assms(1,2), of "of_session i events"]
    by (simp add: of_session_upto state_upto since_def of_session_filter)
  show ?thesis
    using resume
    by (auto simp: rollup_record_of_def full_line_def tail_line_def Let_def sz ownerOf_def x priceIntervals_def
        split: sum.split prod.split)
qed

section \<open>The two reports\<close>

text \<open>Both reports put their lines together in the same way.\<close>

definition assemble ::
  "'n arith \<Rightarrow> texts \<Rightarrow> 'n pricing \<Rightarrow> int \<Rightarrow> iso_timestamp \<Rightarrow> 'n line list \<Rightarrow> js_error + 'n fleet_cost_report" where
  "assemble A T pr now start ls = aggregateFleetCost A (loc T) (lefts ls) pr (Iso now) start (rights ls)"

lemma price_inputs_lines:
  "price_inputs A pr (Iso now) None (lefts (map (cost_input A (groupSessions events) ws) ids)) =
     map_sum id lefts (traverse (full_line A pr now events ws) ids)"
  "traverse (full_line A pr now events ws) ids = Inr ls \<Longrightarrow>
     rights (map (cost_input A (groupSessions events) ws) ids) = rights ls"
proof (induction ids arbitrary: ls)
  case (Cons i ids)
  { case 1 show ?case using Cons.IH(1)
      by (auto simp: full_line_def tail_line_def cost_input_def lefts_def map_filter_simps Let_def
          session_of_def report_state_def orElse_def split: sum.split option.split)
  next
    case 2 then show ?case using Cons.IH(2)
      by (auto simp: full_line_def tail_line_def cost_input_def rights_def map_filter_simps Let_def
          split: sum.splits) }
qed (simp_all add: lefts_def rights_def map_filter_simps)

lemma fullScan_lines:
  assumes "cd_all d = Inr events" and "cd_workspaces d = Inr ws"
  shows "fullScanReport A T d None =
    (case traverse (full_line A (cd_pricing d) (cd_now d) events ws) (all_ids (groupSessions events) ws) of
       Inl e \<Rightarrow> Inl e
     | Inr ls \<Rightarrow> assemble A T (cd_pricing d) (cd_now d) (earliestAt T events (Iso (cd_now d))) ls)"
  using assms price_inputs_lines [of A "cd_pricing d" "cd_now d" events ws "all_ids (groupSessions events) ws"]
  by (auto simp: fullScanReport_def computeFleetCost_def assemble_def Let_def orElse_def split: sum.splits)

definition line_id :: "'n line \<Rightarrow> string" where
  "line_id l = (case l of Inl s \<Rightarrow> sc_workspaceId s | Inr x \<Rightarrow> is_workspaceId x)"

lemma full_line_id: "full_line A pr n events ws i = Inr l \<Longrightarrow> line_id l = i"
  by (auto simp: full_line_def tail_line_def Let_def line_id_def split: sum.splits)

lemma lefts_rights_inj:
  assumes "distinct (map line_id ls)"
  shows "inj_on sc_workspaceId (set (lefts ls))" "inj_on is_workspaceId (set (rights ls))"
proof -
  have "set (lefts ls) = {s. Inl s \<in> set ls}" "set (rights ls) = {x. Inr x \<in> set ls}"
    by (induction ls) (auto simp: lefts_def rights_def map_filter_simps split: sum.splits)
  with assms show "inj_on sc_workspaceId (set (lefts ls))" "inj_on is_workspaceId (set (rights ls))"
    by (force simp: inj_on_def distinct_map line_id_def)+
qed

text \<open>What is assumed of the platform's comparisons: \<^verbatim>\<open>localeCompare\<close> orders identifiers totally,
  and both comparisons of timestamps order the ISO texts by the instants they denote.\<close>

definition orderly :: "texts \<Rightarrow> bool" where
  "orderly T \<longleftrightarrow> total_preorder (loc T) \<and> (\<forall>a b. loc T a b \<longrightarrow> loc T b a \<longrightarrow> a = b) \<and>
     (\<forall>a b. at_less T (Iso a) (Iso b) \<longleftrightarrow> a < b) \<and> (\<forall>a b. at_after T (Iso a) (Iso b) \<longleftrightarrow> b < a)"

lemma assemble_perm:
  assumes "orderly T" and "mset ls = mset ms" and "distinct (map line_id ls)"
  shows "assemble A T pr now start ls = assemble A T pr now start ms"
  unfolding assemble_def
  using assms lefts_perm [OF assms(2)] rights_perm [OF assms(2)] lefts_rights_inj [OF assms(3)]
  by (intro report_order_free) (auto simp: orderly_def)

section \<open>Timestamps\<close>

lemma Min_below:
  fixes c :: int
  assumes "finite S" and "s \<in> S" and "s \<le> c"
  shows "Min (insert c {x \<in> S. x \<le> c}) = Min S"
proof (rule Min_eqI)
  have "Min S \<le> s" using assms by simp
  then have "Min S \<le> c" using assms(3) by simp
  moreover have "Min S \<in> S" using assms(1,2) Min_in [of S] by blast
  ultimately show "Min S \<in> insert c {x \<in> S. x \<le> c}" by blast
  show "Min S \<le> y" if "y \<in> insert c {x \<in> S. x \<le> c}" for y
    using that \<open>Min S \<le> c\<close> assms(1) by auto
qed (use assms in simp)

lemma earliestAt_Min:
  assumes "orderly T" and "dated events"
  shows "earliestAt T events (Iso n) = Iso (Min (insert n (instant ` set events)))"
  using assms(2)
proof (induction events rule: rev_induct)
  case (snoc e es)
  then obtain m where m: "ae_at e = Iso m" by (cases "ae_at e") (auto simp: dated_def)
  then have "instant e = m" by (simp add: instant_def)
  then have "insert n (instant ` set (es @ [e])) = insert m (insert n (instant ` set es))" by auto
  then have "Min (insert n (instant ` set (es @ [e]))) = min m (Min (insert n (instant ` set es)))"
    by (simp only: Min_insert finite_insert finite_imageI finite_set insert_not_empty simp_thms)
  moreover have "earliestAt T (es @ [e]) (Iso n) = Iso (min m k)" if "earliestAt T es (Iso n) = Iso k" for k
    using that m assms(1) by (simp add: earliestAt_def orderly_def min_def)
  moreover have "earliestAt T es (Iso n) = Iso (Min (insert n (instant ` set es)))"
    using snoc by (simp add: dated_def)
  ultimately show ?case by (simp only:)
qed (simp add: earliestAt_def)

lemma earliest_of_Min: "earliest_of T (Iso n) (map Iso cs) = Inr (Iso (Min (insert n (set cs))))"
proof (induction cs arbitrary: n)
  case (Cons c cs)
  have "earlierIso T (Iso n) (Iso c) = Inr (Iso (min n c))" by (simp add: earlierIso_def min_def)
  moreover have "Min (insert n (insert c (set cs))) = Min (insert (min n c) (set cs))"
    by (cases "cs = []") (simp_all add: min.assoc)
  ultimately show ?case using Cons by simp
qed simp

lemma tail_since:
  assumes "orderly T" and "dated events"
  shows "filter (\<lambda>e. at_after T (ae_at e) (Iso k)) events = since k events"
  unfolding since_def
proof (rule filter_cong [OF refl])
  fix e assume "e \<in> set events"
  with assms(2) obtain m where "ae_at e = Iso m" by (cases "ae_at e") (auto simp: dated_def list_all_iff)
  with assms(1) show "at_after T (ae_at e) (Iso k) = js_less (Some k) (date_parse (ae_at e))"
    by (simp add: orderly_def)
qed

section \<open>Generations of checkpoints\<close>

text \<open>
  A row of the table: what a rollup at some instant up to now wrote for a workspace, from the
  ledger and a catalog as they were then. Different rows may come from different rollups.
\<close>

definition of_generation :: "'n arith \<Rightarrow> texts \<Rightarrow> cost_event list \<Rightarrow> int \<Rightarrow> 'n rollup_record \<Rightarrow> bool" where
  "of_generation A T events n r \<longleftrightarrow>
     (\<exists>c ws. c \<le> n \<and> recorded (ledger_at c events) ws \<and> r \<in> set (rollup_records A T c (ledger_at c events) ws))"

definition row_id :: "'n rollup_record \<Rightarrow> string" where
  "row_id r = rb_workspaceId (base r)"

definition row_at :: "'n rollup_record \<Rightarrow> int" where
  "row_at r = (case checkpointAt (base r) of Iso c \<Rightarrow> c | Malformed \<Rightarrow> 0)"

text \<open>No workspace is missing: one with an event not after every row's checkpoint has a row.\<close>

definition covering :: "cost_event list \<Rightarrow> 'n rollup_record list \<Rightarrow> bool" where
  "covering events rows \<longleftrightarrow>
     list_all (\<lambda>e. is_session e \<longrightarrow> list_all (\<lambda>r. instant e \<le> row_at r) rows \<longrightarrow>
       ae_target e \<in> set (map row_id rows)) events"

lemma base_of_record [simp]:
  "base (rollup_record_of A c start m ws i) =
     \<lparr>rb_workspaceId = i, rb_owner = ownerOf (lookup_events m i) (records_by_id ws i),
      checkpointAt = Iso c, rb_windowStart = start\<rparr>"
  by (simp add: rollup_record_of_def Let_def split: sum.split)

lemma generationE:
  assumes "of_generation A T events n r" and "orderly T" and "dated events"
  obtains ws where "events \<noteq> []" "row_at r \<le> n" "recorded (ledger_at (row_at r) events) ws"
    "row_id r \<in> live_ids (ledger_at (row_at r) events)" "checkpointAt (base r) = Iso (row_at r)"
    "rb_windowStart (base r) = Iso (Min (instant ` set events))" "Min (instant ` set events) \<le> row_at r"
    "r = rollup_record_of A (row_at r) (Iso (Min (instant ` set events)))
       (groupSessions (ledger_at (row_at r) events)) ws (row_id r)"
proof -
  obtain c ws i where c: "c \<le> n" "recorded (ledger_at c events) ws" "i \<in> live_ids (ledger_at c events)"
    and r: "r = rollup_record_of A c (earliestAt T (ledger_at c events) (Iso c)) (groupSessions (ledger_at c events)) ws i"
    using assms(1) by (auto simp: of_generation_def rollup_records_def Let_def all_ids_live)
  have "row_at r = c" "row_id r = i" by (simp_all add: r row_at_def row_id_def)
  obtain e where e: "e \<in> set events" "instant e \<le> c" using c(3) by (auto simp: live_ids_def ledger_at_def)
  have "dated (ledger_at c events)" using assms(3) by (auto simp: dated_def ledger_at_def list_all_iff)
  then have "earliestAt T (ledger_at c events) (Iso c) =
      Iso (Min (insert c {x \<in> instant ` set events. x \<le> c}))"
    using earliestAt_Min [OF assms(2), of "ledger_at c events" c]
    by (auto simp: ledger_at_def intro!: arg_cong [of _ _ Min])
  also have "\<dots> = Iso (Min (instant ` set events))"
    using e by (subst Min_below [of _ "instant e"]) auto
  finally have start: "earliestAt T (ledger_at c events) (Iso c) = Iso (Min (instant ` set events))" .
  have "Min (instant ` set events) \<le> instant e" using e(1) by simp
  with e(2) have "Min (instant ` set events) \<le> c" by simp
  moreover have "events \<noteq> []" using e(1) by auto
  ultimately show thesis
    using that [of ws] c start r \<open>row_at r = c\<close> \<open>row_id r = i\<close> by simp
qed

lemma traverse_both:
  assumes "mset (map f xs) = mset (map g ys @ map h zs)"
  shows "(\<exists>ls. traverse f xs = Inr ls \<and> mset ls = M) \<longleftrightarrow>
    (\<exists>as bs. traverse g ys = Inr as \<and> traverse h zs = Inr bs \<and> mset (as @ bs) = M)"
proof -
  let ?k = "case_sum g h" and ?ys = "map Inl ys @ map Inr zs"
  have both: "traverse ?k ?ys = Inr ls \<longleftrightarrow> (\<exists>as bs. traverse g ys = Inr as \<and> traverse h zs = Inr bs \<and> ls = as @ bs)" for ls
    by (auto simp: traverse_Inr comp_def append_eq_map_conv map_eq_append_conv)
  have "mset (map f xs) = mset (map ?k ?ys)" using assms by (simp add: comp_def)
  from traverse_perm [OF _ this] traverse_perm [OF _ this [symmetric]]
  have "(\<exists>ls. traverse f xs = Inr ls \<and> mset ls = M) \<longleftrightarrow> (\<exists>ls. traverse ?k ?ys = Inr ls \<and> mset ls = M)"
    by metis
  then show ?thesis by (auto simp: both)
qed

lemma Min_insert_above: "\<lbrakk>finite S; S \<noteq> {}; Min S \<le> n\<rbrakk> \<Longrightarrow> Min (insert n S) = Min S" for n :: int
  using Min_insert [of S n] by (simp only: min_absorb2 simp_thms)

text \<open>Every workspace gets its line, from a checkpoint or from the tail, and it is the line of the
  full scan.\<close>

lemma tail_line_full:
  assumes "\<And>e. \<lbrakk>e \<in> set events; is_session e; ae_target e = i\<rbrakk> \<Longrightarrow> k < instant e" and "dated events"
  shows "tail_line A pr n (groupSessions (since k events)) ws i = full_line A pr n events ws i"
proof -
  have "js_less (Some k) (date_parse (ae_at e))" if "e \<in> set (of_session i events)" for e
    using that assms(1) [of e] assms(2)
    by (cases "ae_at e") (auto simp: of_session_def dated_def list_all_iff instant_def)
  then have "of_session i (since k events) = of_session i events"
    by (simp add: since_def of_session_filter)
  then show ?thesis by (simp add: full_line_def tail_line_def)
qed

lemma lines_partition:
  fixes k :: int and rows :: "'n rollup_record list"
  assumes T: "orderly T" and ledger: "dated events" "one_creation events" "recorded events ws"
    and rows: "distinct (map row_id rows)" "covering events rows" "list_all (of_generation A T events n) rows"
    and k: "\<And>r. r \<in> set rows \<Longrightarrow> k \<le> row_at r"
  defines "born \<equiv> filter (\<lambda>i. i \<notin> set (map row_id rows)) (map fst (groupSessions (since k events)))"
  shows "mset (map (full_line A pr n events ws) (all_ids (groupSessions events) ws)) =
    mset (map (checkpoint_line A pr n (groupSessions (since k events)) ws) rows @
      map (tail_line A pr n (groupSessions (since k events)) ws) born)"
proof -
  have genE: thesis if "r \<in> set rows" "\<And>ws'. \<lbrakk>row_at r \<le> n; recorded (ledger_at (row_at r) events) ws';
      row_id r \<in> live_ids (ledger_at (row_at r) events);
      r = rollup_record_of A (row_at r) (Iso (Min (instant ` set events)))
        (groupSessions (ledger_at (row_at r) events)) ws' (row_id r)\<rbrakk> \<Longrightarrow> thesis" for r thesis
    using that rows(3) by (auto simp: list_all_iff elim!: generationE [OF _ T ledger(1)])
  have late: "k < instant e" if "e \<in> set events" "is_session e" "ae_target e \<notin> set (map row_id rows)" for e
    using that rows(2) k by (fastforce simp: covering_def list_all_iff)
  have g: "checkpoint_line A pr n (groupSessions (since k events)) ws r = full_line A pr n events ws (row_id r)"
    if "r \<in> set rows" for r
    using that checkpoint_line_full [OF k [OF that] _ ledger(2) _ _ ledger(3)] by (metis genE)
  have h: "tail_line A pr n (groupSessions (since k events)) ws i = full_line A pr n events ws i"
    if "i \<notin> set (map row_id rows)" for i
    using that late ledger(1) by (intro tail_line_full) auto
  have born: "i \<in> set born \<longleftrightarrow> i \<in> live_ids events \<and> i \<notin> set (map row_id rows)" for i
  proof -
    have "e \<in> set (since k events)" if "e \<in> set events" "is_session e" "ae_target e \<notin> set (map row_id rows)" for e
      using late [OF that] that(1) ledger(1)
      by (cases "ae_at e") (auto simp: since_def dated_def list_all_iff instant_def)
    moreover have "set (map fst (groupSessions (since k events))) = live_ids (since k events)"
      by (simp only: group_keys live_ids_def)
    moreover have "set (since k events) \<subseteq> set events" by (auto simp: since_def)
    ultimately show ?thesis unfolding born_def live_ids_def set_filter by blast
  qed
  have "row_id r \<in> live_ids events" if "r \<in> set rows" for r
    by (rule genE [OF that]) (auto simp: live_ids_def ledger_at_def)
  with born have "set (all_ids (groupSessions events) ws) = set (map row_id rows @ born)"
    by (auto simp: all_ids_live [OF ledger(3)])
  moreover have "distinct (all_ids (groupSessions events) ws)" by (simp add: all_ids_def)
  moreover have "distinct (map row_id rows @ born)" using rows(1) born by (auto simp: born_def)
  ultimately have "mset (all_ids (groupSessions events) ws) = mset (map row_id rows @ born)"
    using set_eq_iff_mset_eq_distinct by blast
  then have "mset (map (full_line A pr n events ws) (all_ids (groupSessions events) ws)) =
      image_mset (full_line A pr n events ws) (mset (map row_id rows @ born))" by (metis mset_map)
  also have "\<dots> = mset (map (\<lambda>r. full_line A pr n events ws (row_id r)) rows @ map (full_line A pr n events ws) born)"
    by (simp add: image_mset.compositionality comp_def)
  also have "map (\<lambda>r. full_line A pr n events ws (row_id r)) rows =
      map (checkpoint_line A pr n (groupSessions (since k events)) ws) rows" using g by simp
  also have "map (full_line A pr n events ws) born = map (tail_line A pr n (groupSessions (since k events)) ws) born"
    using h born by simp
  finally show ?thesis .
qed

lemma full_lines_distinct:
  assumes "traverse (full_line A pr n events ws) (all_ids m ws') = Inr ls"
  shows "distinct (map line_id ls)"
proof -
  have "map line_id ls = all_ids m ws'"
    using map_Inr_cong [OF assms [unfolded traverse_Inr], of line_id "\<lambda>i. i"] by (simp add: full_line_id)
  then show ?thesis by (simp add: all_ids_def)
qed

text \<open>The lines of the resumed report, and the start of its window.\<close>

lemma rollup_lines:
  fixes d :: "'n cost_deps"
  assumes T: "orderly T" and d: "cd_workspaces d = Inr ws"
      "cd_since d = (\<lambda>k. Inr (filter (\<lambda>e. at_after T (ae_at e) k) events))"
    and ledger: "dated events" and rows: "rows \<noteq> []" "list_all (of_generation A T events (cd_now d)) rows"
  defines "k \<equiv> Min (insert (cd_now d) (set (map row_at rows)))"
  defines "tail \<equiv> groupSessions (since k events)"
  shows "rollupReport A T d rows = Inr rep \<longleftrightarrow>
      (\<exists>as bs. traverse (checkpoint_line A (cd_pricing d) (cd_now d) tail ws) rows = Inr as \<and>
         traverse (tail_line A (cd_pricing d) (cd_now d) tail ws)
           (filter (\<lambda>i. i \<notin> set (map row_id rows)) (map fst tail)) = Inr bs \<and>
         assemble A T (cd_pricing d) (cd_now d) (earliestAt T events (Iso (cd_now d))) (as @ bs) = Inr rep)"
proof -
  let ?n = "cd_now d" and ?start = "Min (instant ` set events)"
  have genE: thesis if "r \<in> set rows" "\<lbrakk>checkpointAt (base r) = Iso (row_at r); rb_windowStart (base r) = Iso ?start;
      ?start \<le> ?n; events \<noteq> []\<rbrakk> \<Longrightarrow> thesis" for r thesis
  proof -
    have "of_generation A T events ?n r" using that(1) rows(2) by (auto simp: list_all_iff)
    then show thesis
      by (rule generationE [OF _ T ledger(1)]) (use that(2) in simp)
  qed
  obtain r0 where r0: "r0 \<in> set rows" using rows(1) by (cases rows) auto
  have ats: "map (\<lambda>r. checkpointAt (base r)) rows = map Iso (map row_at rows)" by (auto elim: genE)
  have starts: "map (\<lambda>r. rb_windowStart (base r)) rows = map Iso (map (\<lambda>_. ?start) rows)" by (auto elim: genE)
  have start: "Min (insert ?n (set (map (\<lambda>_. ?start) rows))) = ?start"
    using r0 by (subst Min_insert_above) (auto simp: image_constant_conv elim: genE)
  have full: "earliestAt T events (Iso ?n) = Iso ?start"
    unfolding earliestAt_Min [OF T ledger(1)]
    by (rule genE [OF r0]) (simp add: Min_insert_above del: Min_insert)
  show ?thesis
    unfolding rollupReport_def Let_def ats starts earliest_of_Min start k_def [symmetric] d full
    by (simp add: tail_since [OF T ledger(1)] row_id_def assemble_def d(1) tail_def split: sum.split)
qed

text \<open>
  C25. Figure equivalence. For any arithmetic of the amounts: where the rows of the checkpoint
  table are of one or several generations, at most one per workspace and none missing that
  the oldest generation had, and the ledger is well formed, the report resumed from the
  checkpoints and the tail of the ledger is the report of the full scan, equal in every
  figure and every line; and the one fails exactly if the other does.
\<close>

theorem figure_equivalence:
  assumes T: "orderly T"
    and d: "cd_all d = Inr events" "cd_workspaces d = Inr ws"
      "cd_since d = (\<lambda>k. Inr (filter (\<lambda>e. at_after T (ae_at e) k) events))"
    and ledger: "dated events" "one_creation events" "recorded events ws"
    and rows: "rows \<noteq> []" "distinct (map row_id rows)" "covering events rows"
      "list_all (of_generation A T events (cd_now d)) rows"
  shows "rollupReport A T d rows = Inr rep \<longleftrightarrow> fullScanReport A T d None = Inr rep"
proof -
  let ?n = "cd_now d" and ?pr = "cd_pricing d" and ?k = "Min (insert (cd_now d) (set (map row_at rows)))"
  let ?tail = "groupSessions (since ?k events)" and ?ids = "all_ids (groupSessions events) ws"
  let ?born = "filter (\<lambda>i. i \<notin> set (map row_id rows)) (map fst ?tail)"
  let ?f = "full_line A ?pr ?n events ws" and ?g = "checkpoint_line A ?pr ?n ?tail ws" and ?h = "tail_line A ?pr ?n ?tail ws"
  let ?put = "assemble A T ?pr ?n (earliestAt T events (Iso ?n))"
  note R = rollup_lines [OF T d(2,3) ledger(1) rows(1,4), of rep]
  have F: "fullScanReport A T d None = Inr rep \<longleftrightarrow> (\<exists>ls. traverse ?f ?ids = Inr ls \<and> ?put ls = Inr rep)"
    by (simp add: fullScan_lines [OF d(1,2)] split: sum.split)
  have same: "?put ls = ?put ms" if "traverse ?f ?ids = Inr ls" "mset ls = mset ms" for ls ms
    using assemble_perm [OF T that(2) full_lines_distinct [OF that(1)]] .
  have "?k \<le> row_at r" if "r \<in> set rows" for r using that by simp
  note both = traverse_both [OF lines_partition [OF T ledger rows(2-4) this]]
  show ?thesis
  proof
    assume "rollupReport A T d rows = Inr rep"
    with R obtain as bs where ab: "traverse ?g rows = Inr as" "traverse ?h ?born = Inr bs" "?put (as @ bs) = Inr rep"
      by blast
    with both [of ?pr "mset (as @ bs)"] obtain ls where "traverse ?f ?ids = Inr ls" "mset ls = mset (as @ bs)" by blast
    with same [of ls "as @ bs"] ab(3) F show "fullScanReport A T d None = Inr rep" by metis
  next
    assume "fullScanReport A T d None = Inr rep"
    with F obtain ls where ls: "traverse ?f ?ids = Inr ls" "?put ls = Inr rep" by blast
    with both [of ?pr "mset ls"] obtain as bs where
      "traverse ?g rows = Inr as" "traverse ?h ?born = Inr bs" "mset (as @ bs) = mset ls" by blast
    with same [of ls "as @ bs"] ls R show "rollupReport A T d rows = Inr rep" by metis
  qed
qed

section \<open>An instance\<close>

text \<open>Amounts in 1024ths, texts in the order of their characters, and a ledger with rows of two generations.\<close>

definition int_arith :: "int arith" where
  "int_arith = \<lparr>n_add = (+), n_mul = (\<lambda>a b. a * b div 1024), n_div = (\<lambda>a b. a * 1024 div b), n_less = (<),
     n_finite = (\<lambda>_. True), n_text = int_text, n_of_int = (\<lambda>i. i * 1024)\<rparr>"

definition sample_texts :: texts where
  "sample_texts = \<lparr>loc = (\<le>), at_less = (\<lambda>a b. js_less (date_parse a) (date_parse b)),
     at_after = (\<lambda>a b. js_less (date_parse b) (date_parse a)), at_text = (\<lambda>_. [])\<rparr>"

lemma sample_texts_orderly [simp]: "orderly sample_texts"
  by (auto simp: orderly_def sample_texts_def total_preorder_def)

definition sample_event :: "int \<Rightarrow> string \<Rightarrow> string \<Rightarrow> cost_event" where
  "sample_event at action target =
     \<lparr>ae_at = Iso (at * MS_PER_HOUR), ae_actor = ''alice'', ae_action = action, ae_target = target, ae_detail = [],
      ae_resources = (if action = ''session.create'' then Some (defaultResourcesForEditor Openvscode) else None)\<rparr>"

definition sample_ledger :: "cost_event list" where
  "sample_ledger = [sample_event 5 ''session.create'' ''a'', sample_event 15 ''session.create'' ''b'',
     sample_event 25 ''session.stop'' ''a'', sample_event 26 ''session.create'' ''c'']"

definition sample_deps :: "int cost_deps" where
  "sample_deps = \<lparr>cd_all = Inr sample_ledger,
     cd_since = (\<lambda>k. Inr (filter (\<lambda>e. at_after sample_texts (ae_at e) k) sample_ledger)),
     cd_workspaces = Inr [], cd_now = 30 * MS_PER_HOUR,
     cd_pricing = \<lparr>fargateVcpuHourUsd = 1024, fargateGbHourUsd = 0, ebsGbMonthUsd = 0, snapshotGbMonthUsd = 0\<rparr>,
     cd_rollups = None\<rparr>"

text \<open>One row written at hour 10, before the second workspace was born, and one written at hour 20.\<close>

definition sample_rows :: "int rollup_record list" where
  "sample_rows = [hd (rollup_records int_arith sample_texts (10 * MS_PER_HOUR) (ledger_at (10 * MS_PER_HOUR) sample_ledger) []),
     last (rollup_records int_arith sample_texts (20 * MS_PER_HOUR) (ledger_at (20 * MS_PER_HOUR) sample_ledger) [])]"

lemma sample_rows_ok:
  "sample_rows \<noteq> []" "distinct (map row_id sample_rows)" "covering sample_ledger sample_rows"
  "dated sample_ledger" "one_creation sample_ledger"
  by code_simp+

lemma sample_generations: "list_all (of_generation int_arith sample_texts sample_ledger (30 * MS_PER_HOUR)) sample_rows"
proof -
  have "of_generation int_arith sample_texts sample_ledger (30 * MS_PER_HOUR) (hd (rollup_records int_arith sample_texts (10 * MS_PER_HOUR) (ledger_at (10 * MS_PER_HOUR) sample_ledger) []))"
    unfolding of_generation_def by (rule exI [of _ "10 * MS_PER_HOUR"], rule exI [of _ "[]"]) code_simp
  moreover have "of_generation int_arith sample_texts sample_ledger (30 * MS_PER_HOUR) (last (rollup_records int_arith sample_texts (20 * MS_PER_HOUR) (ledger_at (20 * MS_PER_HOUR) sample_ledger) []))"
    unfolding of_generation_def by (rule exI [of _ "20 * MS_PER_HOUR"], rule exI [of _ "[]"]) code_simp
  ultimately show ?thesis by (simp add: sample_rows_def)
qed

theorem figure_equivalence_witness:
  "rollupReport int_arith sample_texts sample_deps sample_rows = fullScanReport int_arith sample_texts sample_deps None \<and>
   (\<exists>rep. fullScanReport int_arith sample_texts sample_deps None = Inr rep \<and>
      map (\<lambda>s. (sc_workspaceId s, totalUsd (sc_cost s))) (bySession rep) = [(''a'', 20 * 1024), (''b'', 15 * 1024), (''c'', 4 * 1024)])"
proof -
  have "map_sum (\<lambda>_. ()) (\<lambda>r. map (\<lambda>s. (sc_workspaceId s, totalUsd (sc_cost s))) (bySession r))
      (fullScanReport int_arith sample_texts sample_deps None) = Inr [(''a'', 20 * 1024), (''b'', 15 * 1024), (''c'', 4 * 1024)]"
    by code_simp
  then obtain rep where rep: "fullScanReport int_arith sample_texts sample_deps None = Inr rep"
      "map (\<lambda>s. (sc_workspaceId s, totalUsd (sc_cost s))) (bySession rep) = [(''a'', 20 * 1024), (''b'', 15 * 1024), (''c'', 4 * 1024)]"
    by (cases "fullScanReport int_arith sample_texts sample_deps None") auto
  moreover have "rollupReport int_arith sample_texts sample_deps sample_rows = Inr rep"
    using figure_equivalence [where d = sample_deps and T = sample_texts and events = sample_ledger and ws = "[]"
        and rows = sample_rows and A = int_arith and rep = rep] sample_rows_ok sample_generations rep(1)
    by (simp add: sample_deps_def recorded_def)
  ultimately show ?thesis by simp
qed

section \<open>The table\<close>

definition row_key :: "'n rollup_row \<Rightarrow> string" where
  "row_key r = rb_workspaceId (rr_base r)"

definition keyed :: "'n rollup_table \<Rightarrow> bool" where
  "keyed t \<longleftrightarrow> distinct (map fst t) \<and> list_all (\<lambda>(k, r). k = row_key r) t"

text \<open>No checkpoint a rollup writes carries the marker of an unpriced workspace as its phase.\<close>

fun markable :: "'n rollup_record \<Rightarrow> bool" where
  "markable (Checkpoint b sz t ph) \<longleftrightarrow> ph \<noteq> UNPRICED_PHASE"
| "markable (UnpricedMark b reason) \<longleftrightarrow> True"

lemma rollup_markable: "r \<in> set (rollup_records A T c events ws) \<Longrightarrow> markable r"
proof -
  have "phase_name p \<noteq> UNPRICED_PHASE" for p by (cases p) (simp_all add: UNPRICED_PHASE_def)
  then show "r \<in> set (rollup_records A T c events ws) \<Longrightarrow> markable r"
    by (auto simp: rollup_records_def rollup_record_of_def Let_def split: sum.split)
qed

lemma from_to_row: "markable r \<Longrightarrow> from_row (to_row A r) = Inr r"
  by (cases r) (simp_all add: from_row_def)

lemma from_row_id: "from_row r = Inr x \<Longrightarrow> row_id x = row_key r"
  by (auto simp: from_row_def row_id_def row_key_def split: if_splits option.splits)

lemma row_key_to_row [simp]: "row_key (to_row A r) = row_id r"
  by (cases r) (simp_all add: row_key_def row_id_def)

lemma keyed_Some: "keyed t \<Longrightarrow> map_of t k = Some r \<longleftrightarrow> (k, r) \<in> set t"
  by (simp add: keyed_def)

lemma keyed_delete [simp]: "keyed t \<Longrightarrow> keyed (AList.delete k t)"
  by (auto simp: keyed_def list_all_iff AList.delete_eq distinct_map_filter)

lemma set_update: "set (AList.update k v t) \<subseteq> insert (k, v) (set t)"
  by (induction t) auto

lemma keyed_update [simp]: "keyed t \<Longrightarrow> keyed (AList.update (row_key r) r t)"
  using set_update [of "row_key r" r t] by (auto simp: keyed_def list_all_iff AList.distinct_update)

lemma keyed_deletes [simp]: "keyed t \<Longrightarrow> keyed (fold AList.delete ks t)"
  by (induction ks arbitrary: t) simp_all

lemma keyed_puts [simp]: "keyed t \<Longrightarrow> keyed (fold (\<lambda>r. AList.update (row_key r) r) rs t)"
  by (induction rs arbitrary: t) simp_all

lemma map_of_deletes: "map_of (fold AList.delete ks t) k = (if k \<in> set ks then None else map_of t k)"
  by (induction ks arbitrary: t) auto

lemma map_of_puts:
  "distinct (map row_key rs) \<Longrightarrow> map_of (fold (\<lambda>r. AList.update (row_key r) r) rs t) k = Some x \<longleftrightarrow>
     (x \<in> set rs \<and> row_key x = k) \<or> (k \<notin> row_key ` set rs \<and> map_of t k = Some x)"
proof (induction rs arbitrary: t)
  case (Cons r rs)
  then show ?case by (cases "k = row_key r") auto
qed simp

lemma listed_ids:
  assumes "keyed t" and "rollup_list t = Inr rs"
  shows "map row_id rs = map fst t"
proof -
  have "map (\<lambda>(_, r). from_row r) t = map Inr rs"
    using assms(2) by (simp add: rollup_list_def traverse_Inr)
  then have "map row_id rs = map (\<lambda>(_, r). row_key r) t"
    by (rule map_Inr_cong) (auto simp: from_row_id)
  also have "\<dots> = map fst t" using assms(1) by (auto simp: keyed_def list_all_iff)
  finally show ?thesis .
qed

lemma listed_row: "\<lbrakk>rollup_list t = Inr rs; (k, r) \<in> set t\<rbrakk> \<Longrightarrow> \<exists>x \<in> set rs. from_row r = Inr x"
proof -
  assume "rollup_list t = Inr rs"
  then have "map (\<lambda>(_, r). from_row r) t = map Inr rs" by (simp add: rollup_list_def traverse_Inr)
  moreover assume "(k, r) \<in> set t"
  then have "from_row r \<in> set (map (\<lambda>(_, r). from_row r) t)" by force
  ultimately show ?thesis by auto
qed

lemma listed_all:
  assumes "keyed t" and "rollup_list t = Inr rs"
  shows "distinct (map row_id rs)"
    and "x \<in> set rs \<longleftrightarrow> (\<exists>r. map_of t (row_id x) = Some r \<and> from_row r = Inr x)"
proof -
  have m: "map (\<lambda>(_, r). from_row r) t = map Inr rs"
    using assms(2) by (simp add: rollup_list_def traverse_Inr)
  show "distinct (map row_id rs)" using assms(1) unfolding listed_ids [OF assms] keyed_def by simp
  have "x \<in> set rs \<longleftrightarrow> Inr x \<in> set (map (\<lambda>(_, r). from_row r) t)" by (auto simp: m)
  also have "\<dots> \<longleftrightarrow> (\<exists>k r. (k, r) \<in> set t \<and> from_row r = Inr x)" by force
  also have "\<dots> \<longleftrightarrow> (\<exists>r. map_of t (row_id x) = Some r \<and> from_row r = Inr x)"
    using assms(1) from_row_id by (fastforce simp: keyed_Some keyed_def list_all_iff)
  finally show "x \<in> set rs \<longleftrightarrow> (\<exists>r. map_of t (row_id x) = Some r \<and> from_row r = Inr x)" .
qed

text \<open>What a replacement leaves in the table, whatever its batches leave undone.\<close>

lemma batch_none [simp]: "batch_delete uD [] t = t" "batch_put uP [] t = t"
  by (simp_all add: batch_delete_def batch_put_def)

lemma assertAllProcessed_iff [simp]:
  "assertAllProcessed [] op = None" "assertAllProcessed us op = None \<longleftrightarrow> us = []"
  "(\<exists>e. assertAllProcessed us op = Some e) \<longleftrightarrow> us \<noteq> []"
  by (simp_all add: assertAllProcessed_def)

lemma replaceAll_eq:
  fixes records :: "'n rollup_record list"
  assumes "rollup_list t = Inr old"
  defines "stale \<equiv> filter (\<lambda>i. i \<notin> set (map row_id records)) (map row_id old)"
  shows "replaceAll A uD uP records t =
    (if stale \<noteq> [] \<and> uD stale \<noteq> [] then (batch_delete uD stale t, assertAllProcessed (uD stale) ''delete'')
     else (batch_put uP (map (to_row A) records) (batch_delete uD stale t),
           if records = [] then None else assertAllProcessed (uP (map row_id records)) ''put''))"
  unfolding replaceAll_def Let_def assms(1) sum.case row_id_def [abs_def, symmetric] stale_def [symmetric]
  by (auto split: option.split)

lemma map_of_batch_delete:
  "map_of (batch_delete uD ks t) k = (if k \<in> set ks \<and> k \<notin> set (uD ks) then None else map_of t k)"
  by (auto simp: batch_delete_def map_of_deletes)

lemma map_of_batch_put:
  assumes "distinct (map row_id records)"
  shows "map_of (batch_put uP (map (to_row A) records) t) k = Some x \<longleftrightarrow>
    (\<exists>r \<in> set records. row_id r = k \<and> k \<notin> set (uP (map row_id records)) \<and> x = to_row A r) \<or>
    (k \<notin> row_id ` set records - set (uP (map row_id records)) \<and> map_of t k = Some x)"
proof -
  have ids: "map row_key (map (to_row A) records) = map row_id records" by simp
  have "distinct (map row_key (filter (\<lambda>r. row_key r \<notin> set (uP (map row_id records))) (map (to_row A) records)))"
    using assms ids by (metis distinct_map_filter)
  from map_of_puts [OF this, of t k x]
  have "map_of (batch_put uP (map (to_row A) records) t) k = Some x \<longleftrightarrow>
    (x \<in> to_row A ` set records \<and> row_key x \<notin> set (uP (map row_id records)) \<and> row_key x = k) \<or>
    (k \<notin> row_key ` {x \<in> to_row A ` set records. row_key x \<notin> set (uP (map row_id records))} \<and> map_of t k = Some x)"
    unfolding batch_put_def row_key_def [abs_def, symmetric] ids by (simp add: row_key_def)
  moreover have "row_key ` {x \<in> to_row A ` set records. row_key x \<notin> set (uP (map row_id records))} =
      row_id ` set records - set (uP (map row_id records))" by force
  ultimately show ?thesis by auto
qed

lemma keyed_batch [simp]: "keyed t \<Longrightarrow> keyed (batch_delete uD ks t)" "keyed t \<Longrightarrow> keyed (batch_put uP rs t)"
  by (simp_all add: batch_delete_def batch_put_def row_key_def [symmetric])

lemma replaced:
  assumes "keyed t" and "rollup_list t = Inr old" and "distinct (map row_id records)"
    and "replaceAll A uD uP records t = (t', res)"
  shows "keyed t'"
    and "map_of t' k = Some x \<Longrightarrow> map_of t k = Some x \<or> (\<exists>r \<in> set records. row_id r = k \<and> x = to_row A r)"
    and "\<lbrakk>map_of t k \<noteq> None; k \<in> row_id ` set records\<rbrakk> \<Longrightarrow> map_of t' k \<noteq> None"
    and "res = None \<Longrightarrow> map_of t' k = Some x \<longleftrightarrow> (\<exists>r \<in> set records. row_id r = k \<and> x = to_row A r)"
proof -
  let ?stale = "filter (\<lambda>i. i \<notin> set (map row_id records)) (map row_id old)"
  let ?t1 = "batch_delete uD ?stale t"
  note eq = replaceAll_eq [OF assms(2), of A uD uP records, unfolded assms(4)]
  note put = map_of_batch_put [OF assms(3)]
  have t': "t' = ?t1 \<and> res \<noteq> None \<or> t' = batch_put uP (map (to_row A) records) ?t1 \<and>
      (res = None \<longrightarrow> (?stale \<noteq> [] \<longrightarrow> uD ?stale = []) \<and> (records \<noteq> [] \<longrightarrow> uP (map row_id records) = []))"
    using eq unfolding prod.inject if_distrib [where f = "\<lambda>p. (t', res) = p"] by (auto split: if_splits)
  then show "keyed t'" using assms(1) by auto
  show "map_of t k = Some x \<or> (\<exists>r \<in> set records. row_id r = k \<and> x = to_row A r)" if "map_of t' k = Some x"
    using that t' by (auto simp: put map_of_batch_delete split: if_splits)
  show "map_of t' k \<noteq> None" if "map_of t k \<noteq> None" "k \<in> row_id ` set records"
  proof -
    from that obtain y where "map_of ?t1 k = Some y" by (auto simp: map_of_batch_delete)
    moreover have "\<exists>x. map_of (batch_put uP (map (to_row A) records) ?t1) k = Some x"
      using that(2) calculation unfolding put by auto
    ultimately show ?thesis using t' by auto
  qed
  have old: "k \<in> set (map row_id old)" if "map_of t k = Some y" for y
  proof -
    have "(k, y) \<in> set t" using that by (rule map_of_SomeD)
    moreover have "map row_id old = map fst t" using listed_ids [OF assms(1,2)] .
    ultimately show ?thesis by force
  qed
  show "map_of t' k = Some x \<longleftrightarrow> (\<exists>r \<in> set records. row_id r = k \<and> x = to_row A r)" if "res = None"
  proof -
    have "map_of ?t1 k = None" if "k \<notin> row_id ` set records"
      using that t' \<open>res = None\<close> old by (cases "map_of t k") (auto simp: map_of_batch_delete filter_empty_conv)
    with t' \<open>res = None\<close> show ?thesis by (cases "records = []") (auto simp: put)
  qed
qed

lemma traverse_ok: "(\<And>x. x \<in> set xs \<Longrightarrow> \<exists>y. f x = Inr y) \<Longrightarrow> \<exists>ys. traverse f xs = Inr ys"
  unfolding traverse_Inr ex_map_conv by auto

text \<open>
  Replacing the checkpoints. Whatever the two batches leave undone, every row of the table
  afterwards is a row that was there or one of the new generation, no workspace has two, and
  no workspace of the new generation that had a row has lost it; and where no error is
  raised, the table holds exactly the new generation, read back as it was written.
\<close>

theorem checkpoint_table_exact:
  assumes "keyed t" and "rollup_list t = Inr old"
    and "distinct (map row_id records)" and "list_all markable records"
    and "replaceAll A uD uP records t = (t', res)"
  shows "\<exists>rows. rollup_list t' = Inr rows \<and> keyed t' \<and> distinct (map row_id rows) \<and>
    set rows \<subseteq> set old \<union> set records \<and>
    set (map row_id old) \<inter> set (map row_id records) \<subseteq> set (map row_id rows) \<and>
    (res = None \<longrightarrow> mset rows = mset records)"
proof -
  note rep = replaced [OF assms(1-3,5)]
  note was = listed_all [OF assms(1,2)]
  have reread: "from_row (to_row A r) = Inr r" if "r \<in> set records" for r
    using that assms(4) by (simp add: list_all_iff from_to_row)
  have "\<exists>y. from_row x = Inr y" if "(k, x) \<in> set t'" for k x
  proof -
    have "map_of t' k = Some x" using that rep(1) by (simp add: keyed_Some)
    then show ?thesis using rep(2) reread assms(2) listed_row [OF assms(2)] map_of_SomeD by metis
  qed
  then obtain rows where rows: "rollup_list t' = Inr rows"
    using traverse_ok [of t' "\<lambda>(_, r). from_row r"] unfolding rollup_list_def by fastforce
  note now = listed_all [OF rep(1) rows]
  have mem: "x \<in> set old \<or> x \<in> set records" if x: "x \<in> set rows" for x
  proof -
    obtain r where r: "map_of t' (row_id x) = Some r" "from_row r = Inr x" using x now(2) [of x] by auto
    from rep(2) [OF r(1)] show ?thesis
    proof
      assume "map_of t (row_id x) = Some r"
      with r(2) was(2) [of x] show ?thesis by auto
    qed (use r(2) reread in auto)
  qed
  have keep: "k \<in> set (map row_id rows)" if k: "k \<in> set (map row_id old)" "k \<in> set (map row_id records)" for k
  proof -
    obtain x where x: "map_of t k = Some x" using k(1) unfolding listed_ids [OF assms(1,2)]
      by (metis map_of_eq_None_iff not_None_eq list.set_map)
    moreover have "k \<in> row_id ` set records" using k(2) by simp
    ultimately have "map_of t' k \<noteq> None" using rep(3) by simp
    then show ?thesis unfolding listed_ids [OF rep(1) rows] by (simp add: map_of_eq_None_iff)
  qed
  have "mset rows = mset records" if "res = None"
  proof -
    have "x \<in> set rows \<longleftrightarrow> x \<in> set records" for x
      unfolding now(2) [of x] rep(4) [OF that] using reread by auto
    then have "set rows = set records" by blast
    then show ?thesis using now(1) assms(3) set_eq_iff_mset_eq_distinct distinct_map by blast
  qed
  with rows rep(1) now(1) mem keep show ?thesis by blast
qed

theorem checkpoint_table_exact_witness:
  "\<exists>rows. rollup_list (fst (replaceAll int_arith (\<lambda>_. []) (\<lambda>_. [])
       (rollup_records int_arith sample_texts (20 * MS_PER_HOUR) (ledger_at (20 * MS_PER_HOUR) sample_ledger) []) [])) = Inr rows \<and>
     mset rows = mset (rollup_records int_arith sample_texts (20 * MS_PER_HOUR) (ledger_at (20 * MS_PER_HOUR) sample_ledger) []) \<and> length rows = 2"
proof -
  let ?new = "rollup_records int_arith sample_texts (20 * MS_PER_HOUR) (ledger_at (20 * MS_PER_HOUR) sample_ledger) []"
  have "replaceAll int_arith (\<lambda>_. []) (\<lambda>_. []) ?new [] =
      (fst (replaceAll int_arith (\<lambda>_. []) (\<lambda>_. []) ?new []), None)" by code_simp
  moreover have "distinct (map row_id ?new)" by code_simp
  moreover have "list_all markable ?new" by (simp add: list_all_iff rollup_markable)
  moreover have two: "length ?new = 2" by code_simp
  moreover have "keyed ([] :: int rollup_table)" "rollup_list ([] :: int rollup_table) = Inr []"
    by (simp_all add: keyed_def rollup_list_def)
  ultimately obtain rows where "rollup_list (fst (replaceAll int_arith (\<lambda>_. []) (\<lambda>_. []) ?new [])) = Inr rows"
      "mset rows = mset ?new"
    using checkpoint_table_exact [of "[]" "[]" ?new int_arith "\<lambda>_. []" "\<lambda>_. []"] by blast
  moreover have "length rows = 2" using two mset_eq_length [OF calculation(2)] by simp
  ultimately show ?thesis by blast
qed

end
