(* ===== verification/Service_Billing.thy ===== *)
theory Service_Billing
  imports Service_Findings Cost_Service_Props
begin

text \<open>
  The workspace service and the cost service together: the ledger the one writes is the
  ledger the other prices (\<^verbatim>\<open>workspace-service.ts\<close>, the action names of the lifecycle events).
\<close>

fun action_name :: "audit_action \<Rightarrow> string" where
  "action_name SessionCreate = ''session.create''"
| "action_name SessionStart = ''session.start''"
| "action_name SessionStop = ''session.stop''"
| "action_name SessionDelete = ''session.delete''"
| "action_name SessionTerminated = ''session.terminated''"
| "action_name SessionRecover = ''session.recover''"
| "action_name SessionUndelete = ''session.undelete''"
| "action_name SessionPurged = ''session.purged''"
| "action_name SessionAccess = ''session.access''"
| "action_name SessionSettings = ''session.settings''"
| "action_name SessionRestore = ''session.restore''"
| "action_name SessionShareEnabled = ''session.share_enabled''"
| "action_name SessionShareDisabled = ''session.share_disabled''"
| "action_name SessionSnapshotLost = ''session.snapshot_lost''"
| "action_name SecurityPrivilegeAttempt = ''security.privilege_attempt''"
| "action_name SnapshotPurged = ''snapshot.purged''"

definition raw_of :: "workspace_resources \<Rightarrow> raw_resources" where
  "raw_of r = RawObject (RawNumber (cpuUnits r)) (RawNumber (memoryMiB r)) (RawNumber (volumeGiB r))"

text \<open>The row of the audit table an event is stored as.\<close>

definition stored_event :: "audit_event \<Rightarrow> audit_record" where
  "stored_event e =
     \<lparr>ar_id = ev_id e, ar_at = ev_at e, ar_actor = ev_actor e, ar_action = action_name (ev_action e),
      ar_target = ev_target e, ar_detail = ev_detail e, ar_resources = map_option raw_of (ev_resources e)\<rparr>"

text \<open>The catalog as the cost service lists it.\<close>

definition listed_workspaces :: "'p sys \<Rightarrow> js_error + workspace_dto list" where
  "listed_workspaces s = traverse (\<lambda>(_, r, _). map_sum id toWorkspaceDto (toWorkspace r)) (table s)"

definition billing_deps :: "'p sys \<Rightarrow> int \<Rightarrow> int cost_deps" where
  "billing_deps s n =
     sample_deps\<lparr>cd_all := audit_all (map stored_event (ledger s)), cd_workspaces := listed_workspaces s, cd_now := n\<rparr>"

definition lines_of :: "js_error + int fleet_cost_report \<Rightarrow> (string \<times> string \<times> int) list option" where
  "lines_of r = (case r of
     Inl _ \<Rightarrow> None
   | Inr rep \<Rightarrow> Some (map (\<lambda>s. (sc_workspaceId s, sc_state s, cb_runningMs (sc_cost s))) (bySession rep)))"

section \<open>A launch that fails\<close>

definition failed_launch :: "fake_cloud world" where
  "failed_launch = snd (launchReserved fake_deps ''ws-'' None (reserved_world\<lparr>schedule :=
     [clean_turn, \<lparr>others = (\<lambda>s. s), fault = Failing (plain_error ''Error'' ''boom'')\<rparr>]\<rparr>))"

text \<open>
  A failed launch is billed as a running session. The launch fails, the record is in the
  error state and holds no task; the failure writes no event, so the interval that the
  creation opened stays open, and ten hours later the report charges ten hours of compute.
\<close>

theorem failed_launch_is_billed:
  "(map_option (\<lambda>(r, v). (state r, taskId r)) (lookup (sys failed_launch) ''ws-''),
    map ev_action (ledger (sys failed_launch)),
    lines_of (fullScanReport int_arith sample_texts
      (billing_deps (sys failed_launch) (clockMs (sys failed_launch) + 10 * MS_PER_HOUR)) None)) =
   (Some (ErrorState, None), [SessionCreate], Some [(''ws-'', ''error'', 10 * MS_PER_HOUR)])"
  by code_simp

end
