(* ===== verification/Access.thy ===== *)
theory Access
  imports Persistence
begin

text \<open>
  Who may do what: roles, personas and abilities (\<^verbatim>\<open>packages/authz\<close>), the mapping of identity
  claims to a role (\<^verbatim>\<open>packages/auth\<close>), the paths and the access decision of the workspace
  proxy (\<^verbatim>\<open>core/domain/proxy-authz.ts\<close>), the per-workspace machine tokens
  (\<^verbatim>\<open>core/domain/machine-token.ts\<close>, \<^verbatim>\<open>apps/web/lib/machine-auth.ts\<close>) and the principal of a
  request (\<^verbatim>\<open>apps/web/lib/principal.ts\<close>).

  Parameters: \<open>casl\<close>, the check of the CASL library; \<open>hmac\<close>, the keyed hash; \<open>decode\<close>,
  \<^verbatim>\<open>decodeURIComponent\<close>, which may throw; the environment and the session that Auth.js
  decoded. A character of a text is a byte, as in the headers Node hands over.
\<close>

section \<open>Texts\<close>

fun split_on :: "char \<Rightarrow> string \<Rightarrow> string list" where
  "split_on c [] = [[]]"
| "split_on c (x # xs) =
     (if x = c then [] # split_on c xs
      else case split_on c xs of [] \<Rightarrow> [[x]] | y # ys \<Rightarrow> (x # y) # ys)"

text \<open>\<^verbatim>\<open>s.indexOf(c)\<close>, the part of a text before that index and the part after it.\<close>

definition before :: "char \<Rightarrow> string \<Rightarrow> string" where
  "before c s = takeWhile (\<lambda>x. x \<noteq> c) s"

definition after :: "char \<Rightarrow> string \<Rightarrow> string" where
  "after c s = tl (dropWhile (\<lambda>x. x \<noteq> c) s)"

definition starts_with :: "string \<Rightarrow> string \<Rightarrow> bool" where
  "starts_with p s \<longleftrightarrow> take (length p) s = p"

definition ends_with :: "string \<Rightarrow> string \<Rightarrow> bool" where
  "ends_with p s \<longleftrightarrow> starts_with (rev p) (rev s)"

fun contains_text :: "string \<Rightarrow> string \<Rightarrow> bool" where
  "contains_text p [] \<longleftrightarrow> p = []"
| "contains_text p (x # xs) \<longleftrightarrow> starts_with p (x # xs) \<or> contains_text p xs"

definition code :: "char \<Rightarrow> nat" where
  "code c = of_char c"

definition is_digit :: "char \<Rightarrow> bool" where
  "is_digit c \<longleftrightarrow> 48 \<le> code c \<and> code c \<le> 57"

definition is_lower :: "char \<Rightarrow> bool" where
  "is_lower c \<longleftrightarrow> 97 \<le> code c \<and> code c \<le> 122"

section \<open>Roles and abilities\<close>

text \<open>The roles are those a workspace records of its owner.\<close>

fun role_name :: "owner_role \<Rightarrow> string" where
  "role_name Viewer = ''viewer''"
| "role_name Developer = ''developer''"
| "role_name Admin = ''admin''"

definition ROLES :: "owner_role list" where
  "ROLES = [Viewer, Developer, Admin]"

text \<open>\<^verbatim>\<open>isRole\<close> as the role it narrows to.\<close>

definition isRole :: "string \<Rightarrow> owner_role option" where
  "isRole value = List.find (\<lambda>r. role_name r = value) ROLES"

fun ROLE_RANK :: "owner_role \<Rightarrow> nat" where
  "ROLE_RANK Viewer = 0"
| "ROLE_RANK Developer = 1"
| "ROLE_RANK Admin = 2"

definition effectiveRole :: "owner_role \<Rightarrow> string option \<Rightarrow> owner_role" where
  "effectiveRole realRole requested =
     (case Option.bind requested isRole of
        None \<Rightarrow> realRole
      | Some r \<Rightarrow> if ROLE_RANK r \<le> ROLE_RANK realRole then r else realRole)"

definition personasFor :: "owner_role \<Rightarrow> owner_role list" where
  "personasFor realRole = filter (\<lambda>r. ROLE_RANK r \<le> ROLE_RANK realRole) ROLES"

datatype action = Create | Read | Update | Delete | Manage
datatype subject = WorkspaceSubject | UserSubject | BaseImageSubject | AllSubjects

type_synonym ability = "(action list \<times> subject) list"

record principal =
  pr_id :: string
  pr_role :: owner_role
  displayName :: "string option"
  image :: "string option"
  pr_email :: "string option"
  realRole :: "owner_role option"

text \<open>The rules handed to the ability builder, in the order of the calls.\<close>

definition defineAbilityFor :: "principal \<Rightarrow> ability" where
  "defineAbilityFor p =
     [([Read], BaseImageSubject), ([Read], WorkspaceSubject)] @
     (if pr_role p = Developer \<or> pr_role p = Admin
      then [([Create, Update, Delete], WorkspaceSubject)] else []) @
     (if pr_role p = Admin then [([Manage], AllSubjects)] else [])"

text \<open>What CASL documents of a check against rules that only permit: some rule names the action or
  \<^verbatim>\<open>manage\<close>, and the subject or \<^verbatim>\<open>all\<close>.\<close>

type_synonym casl = "ability \<Rightarrow> action \<Rightarrow> subject \<Rightarrow> bool"

definition permits :: casl where
  "permits rules a s \<longleftrightarrow>
     list_ex (\<lambda>(as, t). (a \<in> set as \<or> Manage \<in> set as) \<and> (t = s \<or> t = AllSubjects)) rules"

definition casl_documented :: "casl \<Rightarrow> bool" where
  "casl_documented casl \<longleftrightarrow> (\<forall>rules a s. casl rules a s \<longleftrightarrow> permits rules a s)"

section \<open>Claims\<close>

datatype idp = Github | Entra | Shauth

record identity_claims =
  cl_idp :: idp
  cl_subject :: string
  cl_groups :: "string list"
  cl_role :: "owner_role option"

record role_mapping_config =
  adminGroups :: "string list"
  developerGroups :: "string list"
  defaultRole :: owner_role

definition mapClaimsToRole :: "identity_claims \<Rightarrow> role_mapping_config \<Rightarrow> owner_role" where
  "mapClaimsToRole claims config =
     (if cl_idp claims = Shauth \<and> cl_role claims \<noteq> None then the (cl_role claims)
      else let groups = set (map (map lower) (cl_groups claims));
               granted = (\<lambda>configured. list_ex (\<lambda>g. map lower g \<in> groups) configured)
           in if granted (adminGroups config) then Admin
              else if granted (developerGroups config) then Developer
              else defaultRole config)"

section \<open>Proxy paths\<close>

definition WORKSPACE_PATH_PREFIX :: string where
  "WORKSPACE_PATH_PREFIX = ''/w/''"

definition label_start :: "char \<Rightarrow> bool" where
  "label_start c \<longleftrightarrow> is_lower c \<or> is_digit c"

definition label_char :: "char \<Rightarrow> bool" where
  "label_char c \<longleftrightarrow> label_start c \<or> c = CHR ''-''"

text \<open>\<^verbatim>\<open>/^ws-[a-z0-9][a-z0-9-]{0,35}$/\<close>\<close>

definition WORKSPACE_LABEL_RE :: "string \<Rightarrow> bool" where
  "WORKSPACE_LABEL_RE s \<longleftrightarrow>
     starts_with ''ws-'' s \<and>
     (case drop 3 s of [] \<Rightarrow> False | c # cs \<Rightarrow> label_start c \<and> list_all label_char cs \<and> length cs \<le> 35)"

text \<open>\<^verbatim>\<open>/^\/w\/([^/?#]+)/\<close>: the longest non-empty run of other characters after the prefix.\<close>

definition workspaceIdFromPath :: "string \<Rightarrow> string option" where
  "workspaceIdFromPath pathname =
     (if \<not> starts_with WORKSPACE_PATH_PREFIX pathname then None
      else let label = takeWhile (\<lambda>c. c \<notin> {CHR ''/'', CHR ''?'', CHR ''#''})
                         (drop (length WORKSPACE_PATH_PREFIX) pathname)
           in if label = [] then None
              else if \<not> WORKSPACE_LABEL_RE label then None
              else Some label)"

definition decideWorkspaceAccessBySubject :: "string option \<Rightarrow> bool \<Rightarrow> string \<Rightarrow> bool" where
  "decideWorkspaceAccessBySubject callerSubject callerIsAdmin owner =
     (if callerIsAdmin then True
      else case callerSubject of
             None \<Rightarrow> False
           | Some s \<Rightarrow> if s = [] then False else s = owner)"

section \<open>Machine tokens\<close>

definition hex_digit :: "char \<Rightarrow> nat option" where
  "hex_digit c =
     (let n = code c in
      if 48 \<le> n \<and> n \<le> 57 then Some (n - 48)
      else if 97 \<le> n \<and> n \<le> 102 then Some (n - 87)
      else if 65 \<le> n \<and> n \<le> 70 then Some (n - 55)
      else None)"

text \<open>\<^verbatim>\<open>Buffer.from(s, "hex")\<close>: decoding stops at the first pair that is not two hex digits.\<close>

fun hex_bytes :: "string \<Rightarrow> nat list" where
  "hex_bytes (a # b # s) =
     (case (hex_digit a, hex_digit b) of
        (Some x, Some y) \<Rightarrow> (16 * x + y) # hex_bytes s
      | _ \<Rightarrow> [])"
| "hex_bytes _ = []"

text \<open>\<^verbatim>\<open>Buffer.from(s)\<close>: the UTF-8 encoding.\<close>

definition utf8_char :: "char \<Rightarrow> nat list" where
  "utf8_char c = (let n = code c in if n < 128 then [n] else [192 + n div 64, 128 + n mod 64])"

definition utf8 :: "string \<Rightarrow> nat list" where
  "utf8 s = concat (map utf8_char s)"

type_synonym hmac = "nat list \<Rightarrow> string \<Rightarrow> string"

definition deriveWorkspaceToken :: "hmac \<Rightarrow> string \<Rightarrow> string \<Rightarrow> js_error + string" where
  "deriveWorkspaceToken hmac secretHex i =
     (if secretHex = [] then Inl (plain_error ''Error'' ''deriveWorkspaceToken: empty secret'')
      else Inr (hmac (hex_bytes secretHex) i))"

text \<open>\<^verbatim>\<open>timingSafeEqual\<close> throws on buffers of different lengths.\<close>

definition timingSafeEqual :: "nat list \<Rightarrow> nat list \<Rightarrow> js_error + bool" where
  "timingSafeEqual a b =
     (if length a \<noteq> length b then Inl (plain_error ''RangeError'' ''Input buffers must have the same byte length'')
      else Inr (a = b))"

definition verifyWorkspaceToken :: "hmac \<Rightarrow> string \<Rightarrow> string \<Rightarrow> string \<Rightarrow> js_error + bool" where
  "verifyWorkspaceToken hmac secretHex i candidate =
     (if secretHex = [] then Inr False
      else case deriveWorkspaceToken hmac secretHex i of
             Inl e \<Rightarrow> Inl e
           | Inr expected \<Rightarrow>
               if length (utf8 expected) \<noteq> length (utf8 candidate) then Inr False
               else timingSafeEqual (utf8 expected) (utf8 candidate))"

datatype machine_auth = AbsentAuth | InvalidAuth | ValidAuth

text \<open>A request as far as it is read here: its headers; and the environment of the process.\<close>

type_synonym headers = "string \<Rightarrow> string option"
type_synonym environment = "string \<Rightarrow> string option"

definition checkMachineAuth ::
  "hmac \<Rightarrow> environment \<Rightarrow> headers \<Rightarrow> string \<Rightarrow> string \<Rightarrow> js_error + machine_auth" where
  "checkMachineAuth hmac env req i secretEnv =
     (case req ''authorization'' of
        None \<Rightarrow> Inr AbsentAuth
      | Some authHeader \<Rightarrow>
          (case env secretEnv of
             None \<Rightarrow> Inr InvalidAuth
           | Some secret \<Rightarrow>
               if secret = [] then Inr InvalidAuth
               else if CHR '' '' \<notin> set authHeader then Inr InvalidAuth
               else let scheme = before CHR '' '' authHeader; candidate = after CHR '' '' authHeader in
                 if map lower scheme \<noteq> ''bearer'' \<or> candidate = [] then Inr InvalidAuth
                 else map_sum id (\<lambda>ok. if ok then ValidAuth else InvalidAuth)
                        (verifyWorkspaceToken hmac secret i candidate)))"

definition checkAgentAuth :: "hmac \<Rightarrow> environment \<Rightarrow> headers \<Rightarrow> string \<Rightarrow> js_error + machine_auth" where
  "checkAgentAuth hmac env req i = checkMachineAuth hmac env req i ''EDD_AGENT_SECRET''"

definition checkGatewayAuth :: "hmac \<Rightarrow> environment \<Rightarrow> headers \<Rightarrow> string \<Rightarrow> js_error + machine_auth" where
  "checkGatewayAuth hmac env req i = checkMachineAuth hmac env req i ''EDD_GATEWAY_SECRET''"

definition checkMonitoringAuth :: "environment \<Rightarrow> headers \<Rightarrow> js_error + machine_auth" where
  "checkMonitoringAuth env req =
     (case req ''authorization'' of
        None \<Rightarrow> Inr AbsentAuth
      | Some authHeader \<Rightarrow>
          (case env ''EDD_MONITORING_TOKEN'' of
             None \<Rightarrow> Inr InvalidAuth
           | Some expected \<Rightarrow>
               if expected = [] then Inr InvalidAuth
               else if CHR '' '' \<notin> set authHeader then Inr InvalidAuth
               else if map lower (before CHR '' '' authHeader) \<noteq> ''bearer'' then Inr InvalidAuth
               else let candidate = utf8 (after CHR '' '' authHeader); secret = utf8 expected in
                 if length candidate \<noteq> length secret then Inr InvalidAuth
                 else map_sum id (\<lambda>ok. if ok then ValidAuth else InvalidAuth)
                        (timingSafeEqual candidate secret)))"

section \<open>Principals\<close>

definition PERSONA_COOKIE_SCHEMA_VERSION :: string where
  "PERSONA_COOKIE_SCHEMA_VERSION = ''1''"

definition decodePersonaCookie :: "string option \<Rightarrow> string option" where
  "decodePersonaCookie raw =
     (case raw of
        None \<Rightarrow> None
      | Some s \<Rightarrow>
          if CHR '':'' \<notin> set s then None
          else if before CHR '':'' s \<noteq> PERSONA_COOKIE_SCHEMA_VERSION then None
          else Some (after CHR '':'' s))"

definition encodePersonaCookie :: "string \<Rightarrow> string" where
  "encodePersonaCookie role = PERSONA_COOKIE_SCHEMA_VERSION @ '':'' @ role"

definition withPersona :: "principal \<Rightarrow> string option \<Rightarrow> principal" where
  "withPersona p personaCookieValue =
     (let effective = effectiveRole (pr_role p) (decodePersonaCookie personaCookieValue) in
      if effective = pr_role p then p
      else p\<lparr>pr_role := effective, realRole := Some (pr_role p)\<rparr>)"

definition mk_principal :: "string \<Rightarrow> owner_role \<Rightarrow> principal" where
  "mk_principal i r =
     \<lparr>pr_id = i, pr_role = r, displayName = None, image = None, pr_email = None, realRole = None\<rparr>"

definition devPrincipal :: "string option \<Rightarrow> string option \<Rightarrow> principal option" where
  "devPrincipal i role =
     Option.bind i (\<lambda>i. Option.bind (Option.bind role isRole) (\<lambda>r. Some (mk_principal i r)))"

text \<open>A claim of the session: absent, a text, or some other value.\<close>

datatype claim = NoClaim | Text string | OtherClaim

record auth_user =
  u_id :: claim
  u_role :: claim
  u_email :: claim
  u_name :: claim
  u_image :: claim

definition text_claim :: "claim \<Rightarrow> string option" where
  "text_claim c = (case c of Text s \<Rightarrow> if s = [] then None else Some s | _ \<Rightarrow> None)"

definition principalFromSession :: "auth_user option \<Rightarrow> js_error + principal option" where
  "principalFromSession session =
     (case session of
        None \<Rightarrow> Inr None
      | Some u \<Rightarrow>
          if u_id u = NoClaim \<or> u_role u = NoClaim then Inr None
          else case u_id u of
            Text i \<Rightarrow>
              (case u_role u of
                 Text r \<Rightarrow>
                   (case isRole r of
                      Some role \<Rightarrow>
                        Inr (Some \<lparr>pr_id = i, pr_role = role, displayName = text_claim (u_name u),
                                  image = text_claim (u_image u), pr_email = text_claim (u_email u),
                                  realRole = None\<rparr>)
                    | None \<Rightarrow> Inl (plain_error ''Error'' ''Auth.js session user role is invalid''))
               | _ \<Rightarrow> Inl (plain_error ''Error'' ''Auth.js session user role is invalid''))
          | _ \<Rightarrow> Inl (plain_error ''Error'' ''Auth.js session user id is not a string''))"

fun cookie_in :: "(string \<Rightarrow> string option) \<Rightarrow> string \<Rightarrow> string list \<Rightarrow> string option" where
  "cookie_in decode name [] = None"
| "cookie_in decode name (part # parts) =
     (if CHR ''='' \<in> set part \<and> trim (before CHR ''='' part) = name
      then let raw = trim (after CHR ''='' part) in
           Some (case decode raw of Some v \<Rightarrow> v | None \<Rightarrow> raw)
      else cookie_in decode name parts)"

definition cookieValue :: "(string \<Rightarrow> string option) \<Rightarrow> string option \<Rightarrow> string \<Rightarrow> string option" where
  "cookieValue decode cookieHeader name =
     (case cookieHeader of None \<Rightarrow> None | Some h \<Rightarrow> cookie_in decode name (split_on CHR '';'' h))"

definition devAuthEnabled :: "environment \<Rightarrow> bool" where
  "devAuthEnabled env \<longleftrightarrow> env ''EDD_DEV_AUTH'' = Some ''1''"

definition devRequestPrincipal :: "(string \<Rightarrow> string option) \<Rightarrow> headers \<Rightarrow> principal option" where
  "devRequestPrincipal decode req =
     (let cookies = req ''cookie'';
          i = (case req ''x-edd-user-id'' of Some v \<Rightarrow> Some v | None \<Rightarrow> cookieValue decode cookies ''edd-dev-user'');
          role = (case req ''x-edd-role'' of Some v \<Rightarrow> Some v | None \<Rightarrow> cookieValue decode cookies ''edd-dev-role'')
      in devPrincipal i role)"

text \<open>\<open>session\<close> is what \<^verbatim>\<open>auth()\<close> resolves to. The activity stamp the request leaves behind is not
  part of the decision.\<close>

definition realPrincipal ::
  "(string \<Rightarrow> string option) \<Rightarrow> environment \<Rightarrow> (js_error + auth_user option) \<Rightarrow> headers \<Rightarrow>
   js_error + principal option" where
  "realPrincipal decode env session req =
     (if devAuthEnabled env then Inr (devRequestPrincipal decode req)
      else case session of Inl e \<Rightarrow> Inl e | Inr s \<Rightarrow> principalFromSession s)"

definition getPrincipal ::
  "(string \<Rightarrow> string option) \<Rightarrow> environment \<Rightarrow> (js_error + auth_user option) \<Rightarrow> headers \<Rightarrow>
   js_error + principal option" where
  "getPrincipal decode env session req =
     map_sum id (map_option (\<lambda>p. withPersona p (cookieValue decode (req ''cookie'') ''edd-persona'')))
       (realPrincipal decode env session req)"

end
