(* ===== verification/Auth_Sessions.thy ===== *)
theory Auth_Sessions
  imports Access
begin

text \<open>
  The server-side session ledger (\<^verbatim>\<open>apps/web/lib/auth-sessions.ts\<close>): creating a session with
  its correlation pointers, validating the token of a cookie against the ledger, and revoking
  sessions by identifier or by a provider's logout token, which is consumed once.

  The store holds the session rows, the pointers from a provider's session or subject to our
  sessions, and the consumed logout tokens. Every write is one \<open>auth_write\<close>: creations fail on
  an existing key and patches on a missing one; \<open>fails\<close> says which writes the table refuses
  for another reason (throttling, a lost connection). Rows past their time to live are removed
  by the table. \<open>issued\<close> remembers the identifiers ever created; \<^verbatim>\<open>randomUUID\<close> returns none of
  them again.
\<close>

definition AUTH_SESSION_SCHEMA_VERSION :: int where
  "AUTH_SESSION_SCHEMA_VERSION = 3"

definition SESSION_MAX_AGE_MS :: int where
  "SESSION_MAX_AGE_MS = 4 * 60 * 60 * 1000"

record auth_row =
  as_id :: string
  schemaVersion :: int
  as_ownerId :: string
  as_role :: owner_role
  provider :: string
  providerSubject :: string
  providerSessionId :: string
  providerIdToken :: "string option"
  as_createdAt :: iso_timestamp
  refreshedAt :: iso_timestamp
  expiresAt :: iso_timestamp
  expiresAtEpochSeconds :: int
  revokedAt :: "iso_timestamp option"

datatype correlation_kind = BySession | BySubject

type_synonym correlation_key = "string \<times> correlation_kind \<times> string \<times> string"

record auth_store =
  sessionRows :: "(string \<times> auth_row) list"
  correlations :: "(correlation_key \<times> int) list"
  logoutTokens :: "((string \<times> string) \<times> int) list"
  issued :: "string list"

record valid_auth_session =
  va_id :: string
  va_ownerId :: string
  va_role :: owner_role
  expiresAtMs :: int

datatype auth_write =
    PutSession auth_row
  | PutCorrelated auth_row
  | PatchRefresh string int
  | PatchCorrelation correlation_key int
  | PatchRevoke string iso_timestamp
  | PutLogoutToken string string int

definition auth_expiresAt :: "int \<Rightarrow> iso_timestamp" where
  "auth_expiresAt nowMs = Iso (nowMs + SESSION_MAX_AGE_MS)"

definition parseExpiry :: "iso_timestamp \<Rightarrow> js_error + int" where
  "parseExpiry value =
     (case value of
        Iso ms \<Rightarrow> Inr ms
      | Malformed \<Rightarrow> Inl (plain_error ''Error'' ''invalid auth session expiresAt''))"

definition epoch_of :: "int \<Rightarrow> int" where
  "epoch_of nowMs = (nowMs + SESSION_MAX_AGE_MS) div 1000"

section \<open>Writes\<close>

definition condition_failed :: js_error where
  "condition_failed = plain_error ''ConditionalCheckFailedException'' ''The conditional request failed''"

definition pointers_of :: "auth_row \<Rightarrow> (correlation_key \<times> int) list" where
  "pointers_of r =
     [((provider r, BySession, providerSessionId r, as_id r), expiresAtEpochSeconds r),
      ((provider r, BySubject, providerSubject r, as_id r), expiresAtEpochSeconds r)]"

definition update_row :: "string \<Rightarrow> (auth_row \<Rightarrow> auth_row) \<Rightarrow> auth_store \<Rightarrow> js_error + auth_store" where
  "update_row i f st =
     (case map_of (sessionRows st) i of
        None \<Rightarrow> Inl condition_failed
      | Some r \<Rightarrow> Inr (st\<lparr>sessionRows := AList.update i (f r) (sessionRows st)\<rparr>))"

fun apply_write :: "auth_write \<Rightarrow> auth_store \<Rightarrow> js_error + auth_store" where
  "apply_write (PutSession r) st =
     (if map_of (sessionRows st) (as_id r) \<noteq> None then Inl condition_failed
      else Inr (st\<lparr>sessionRows := AList.update (as_id r) r (sessionRows st), issued := as_id r # issued st\<rparr>))"
| "apply_write (PutCorrelated r) st =
     (if map_of (sessionRows st) (as_id r) \<noteq> None \<or>
         list_ex (\<lambda>(k, _). map_of (correlations st) k \<noteq> None) (pointers_of r)
      then Inl (plain_error ''Error'' ''create Shauth session correlation transaction failed'')
      else Inr (st\<lparr>sessionRows := AList.update (as_id r) r (sessionRows st),
                   correlations := pointers_of r @ correlations st, issued := as_id r # issued st\<rparr>))"
| "apply_write (PatchRefresh i nowMs) st =
     update_row i (\<lambda>r. r\<lparr>refreshedAt := Iso nowMs, expiresAt := auth_expiresAt nowMs,
       expiresAtEpochSeconds := epoch_of nowMs\<rparr>) st"
| "apply_write (PatchCorrelation k epoch) st =
     (if map_of (correlations st) k = None then Inl condition_failed
      else Inr (st\<lparr>correlations := AList.update k epoch (correlations st)\<rparr>))"
| "apply_write (PatchRevoke i at) st = update_row i (\<lambda>r. r\<lparr>revokedAt := Some at\<rparr>) st"
| "apply_write (PutLogoutToken p t epoch) st =
     (if map_of (logoutTokens st) (p, t) \<noteq> None then Inl condition_failed
      else Inr (st\<lparr>logoutTokens := ((p, t), epoch) # logoutTokens st\<rparr>))"

type_synonym write_faults = "auth_write \<Rightarrow> js_error option"

definition run_write :: "write_faults \<Rightarrow> auth_write \<Rightarrow> auth_store \<Rightarrow> js_error option \<times> auth_store" where
  "run_write fails w st =
     (case fails w of
        Some e \<Rightarrow> (Some e, st)
      | None \<Rightarrow> (case apply_write w st of Inl e \<Rightarrow> (Some e, st) | Inr st' \<Rightarrow> (None, st')))"

text \<open>\<^verbatim>\<open>Promise.all\<close> over writes: every one is attempted, the first error is the outcome.\<close>

fun run_all :: "write_faults \<Rightarrow> auth_write list \<Rightarrow> auth_store \<Rightarrow> js_error option \<times> auth_store" where
  "run_all fails [] st = (None, st)"
| "run_all fails (w # ws) st =
     (case run_write fails w st of
        (e, st1) \<Rightarrow> (case run_all fails ws st1 of (e', st2) \<Rightarrow> (if e = None then e' else e, st2)))"

section \<open>Operations\<close>

record create_session_input =
  in_ownerId :: string
  in_role :: owner_role
  in_provider :: "string option"
  in_providerSubject :: "string option"
  in_providerSessionId :: "string option"
  in_providerIdToken :: "string option"

definition new_auth_row :: "create_session_input \<Rightarrow> string \<Rightarrow> int \<Rightarrow> auth_row" where
  "new_auth_row inp uuid nowMs =
     \<lparr>as_id = uuid, schemaVersion = AUTH_SESSION_SCHEMA_VERSION, as_ownerId = in_ownerId inp,
      as_role = in_role inp, provider = orElse (in_provider inp) ''credentials'',
      providerSubject = orElse (in_providerSubject inp) (in_ownerId inp),
      providerSessionId = orElse (in_providerSessionId inp) uuid,
      providerIdToken = in_providerIdToken inp, as_createdAt = Iso nowMs, refreshedAt = Iso nowMs,
      expiresAt = auth_expiresAt nowMs, expiresAtEpochSeconds = epoch_of nowMs, revokedAt = None\<rparr>"

definition createAuthSession ::
  "write_faults \<Rightarrow> create_session_input \<Rightarrow> string \<Rightarrow> int \<Rightarrow> auth_store \<Rightarrow>
   (js_error + valid_auth_session) \<times> auth_store" where
  "createAuthSession fails inp uuid nowMs st =
     (let r = new_auth_row inp uuid nowMs;
          w = (if provider r = ''shauth'' then PutCorrelated r else PutSession r)
      in case run_write fails w st of
           (Some e, st') \<Rightarrow> (Inl e, st')
         | (None, st') \<Rightarrow>
             (Inr \<lparr>va_id = uuid, va_ownerId = in_ownerId inp, va_role = in_role inp,
                   expiresAtMs = nowMs + SESSION_MAX_AGE_MS\<rparr>, st'))"

definition getAuthSessionLogoutContext :: "string \<Rightarrow> auth_store \<Rightarrow> (string \<times> string) option" where
  "getAuthSessionLogoutContext i st =
     (case map_of (sessionRows st) i of
        None \<Rightarrow> None
      | Some r \<Rightarrow>
          if revokedAt r \<noteq> None then None
          else map_option (\<lambda>t. (provider r, t)) (providerIdToken r))"

definition active_sessions :: "string \<Rightarrow> correlation_kind \<Rightarrow> string \<Rightarrow> auth_store \<Rightarrow> auth_row list" where
  "active_sessions p kind value st =
     (let pointers = filter (\<lambda>((p', k, v, _), _). p' = p \<and> k = kind \<and> v = value) (correlations st);
          loaded = List.map_filter (\<lambda>((_, _, _, i), _). map_of (sessionRows st) i) pointers
      in filter (\<lambda>r. provider r = p \<and> revokedAt r = None) loaded)"

definition revokeAuthSessionsByCorrelation ::
  "write_faults \<Rightarrow> string \<Rightarrow> correlation_kind \<Rightarrow> string \<Rightarrow> int \<Rightarrow> auth_store \<Rightarrow>
   (js_error + nat) \<times> auth_store" where
  "revokeAuthSessionsByCorrelation fails p kind value nowMs st =
     (let active = active_sessions p kind value st in
      case run_all fails (map (\<lambda>r. PatchRevoke (as_id r) (Iso nowMs)) active) st of
        (Some e, st') \<Rightarrow> (Inl e, st')
      | (None, st') \<Rightarrow> (Inr (length active), st'))"

record provider_logout_token =
  lt_tokenId :: string
  lt_expiresAtEpochSeconds :: int
  lt_providerSessionId :: "string option"
  lt_providerSubject :: "string option"

definition consumeProviderLogoutToken ::
  "write_faults \<Rightarrow> string \<Rightarrow> provider_logout_token \<Rightarrow> int \<Rightarrow> auth_store \<Rightarrow>
   (js_error + nat) \<times> auth_store" where
  "consumeProviderLogoutToken fails p tok nowMs st =
     (if lt_providerSessionId tok = None \<and> lt_providerSubject tok = None
      then (Inl (plain_error ''Error'' ''provider logout token did not contain sid or sub''), st)
      else if lt_expiresAtEpochSeconds tok \<le> nowMs div 1000
      then (Inl (plain_error ''Error'' ''provider logout token expiry is invalid''), st)
      else case run_write fails (PutLogoutToken p (lt_tokenId tok) (lt_expiresAtEpochSeconds tok)) st of
        (Some e, st') \<Rightarrow> (Inl e, st')
      | (None, st') \<Rightarrow>
          (case lt_providerSessionId tok of
             Some sid \<Rightarrow> revokeAuthSessionsByCorrelation fails p BySession sid nowMs st'
           | None \<Rightarrow>
               revokeAuthSessionsByCorrelation fails p BySubject (the (lt_providerSubject tok)) nowMs st'))"

text \<open>The claims of a cookie's token that are compared with the row.\<close>

record session_token =
  tk_authSessionVersion :: "int option"
  tk_authSessionId :: claim
  tk_uid :: claim
  tk_role :: claim

definition session_row :: "session_token \<Rightarrow> auth_store \<Rightarrow> auth_row option" where
  "session_row tok st =
     (case tk_authSessionId tok of
        Text i \<Rightarrow> if i = [] then None else map_of (sessionRows st) i
      | _ \<Rightarrow> None)"

definition validateAuthSessionToken ::
  "session_token \<Rightarrow> int \<Rightarrow> auth_store \<Rightarrow> js_error + valid_auth_session option" where
  "validateAuthSessionToken tok nowMs st =
     (if tk_authSessionVersion tok \<noteq> Some AUTH_SESSION_SCHEMA_VERSION then Inr None
      else case session_row tok st of
        None \<Rightarrow> Inr None
      | Some r \<Rightarrow>
          if schemaVersion r \<noteq> AUTH_SESSION_SCHEMA_VERSION then Inr None
          else if revokedAt r \<noteq> None then Inr None
          else case parseExpiry (expiresAt r) of
            Inl e \<Rightarrow> Inl e
          | Inr expires \<Rightarrow>
              if expires \<le> nowMs then Inr None
              else if Text (as_ownerId r) \<noteq> tk_uid tok then Inr None
              else if Text (role_name (as_role r)) \<noteq> tk_role tok then Inr None
              else Inr (Some \<lparr>va_id = as_id r, va_ownerId = as_ownerId r, va_role = as_role r,
                              expiresAtMs = expires\<rparr>))"

text \<open>The writes a successful validation sends without waiting for them; each may land later or not
  at all.\<close>

definition refresh_writes :: "auth_row \<Rightarrow> int \<Rightarrow> auth_write list" where
  "refresh_writes r nowMs =
     PatchRefresh (as_id r) nowMs #
     (if provider r = ''shauth''
      then map (\<lambda>(k, _). PatchCorrelation k (epoch_of nowMs)) (pointers_of r) else [])"

definition revokeAuthSession :: "write_faults \<Rightarrow> string \<Rightarrow> int \<Rightarrow> auth_store \<Rightarrow> js_error option \<times> auth_store" where
  "revokeAuthSession fails i nowMs st =
     (case map_of (sessionRows st) i of
        None \<Rightarrow> (None, st)
      | Some r \<Rightarrow> run_write fails (PatchRevoke i (Iso nowMs)) st)"

section \<open>Runs\<close>

text \<open>One step of the ledger: a write lands, of a new session only under an identifier never issued;
  or the table removes what its time to live has passed.\<close>

fun fresh_write :: "auth_write \<Rightarrow> auth_store \<Rightarrow> bool" where
  "fresh_write (PutSession r) st \<longleftrightarrow> as_id r \<notin> set (issued st)"
| "fresh_write (PutCorrelated r) st \<longleftrightarrow> as_id r \<notin> set (issued st)"
| "fresh_write _ st \<longleftrightarrow> True"

inductive auth_step :: "auth_store \<Rightarrow> auth_store \<Rightarrow> bool" where
  land: "\<lbrakk>fresh_write w st; apply_write w st = Inr st'\<rbrakk> \<Longrightarrow> auth_step st st'"
| drop_session: "auth_step st (st\<lparr>sessionRows := AList.delete i (sessionRows st)\<rparr>)"
| drop_pointer: "auth_step st (st\<lparr>correlations := AList.delete k (correlations st)\<rparr>)"
| drop_token: "auth_step st (st\<lparr>logoutTokens := AList.delete k (logoutTokens st)\<rparr>)"

end
