(* ===== verification/Proxy.thy ===== *)
theory Proxy
  imports Auth_Sessions
begin

text \<open>
  The workspace proxy (\<^verbatim>\<open>apps/web/lib/workspace-proxy.ts\<close>, \<^verbatim>\<open>apps/web/server.ts\<close>): authorizing a
  request against the session ledger and the workspace's owner, what is forwarded to a
  workspace and what is held back, and how the server routes a request.

  Parameters: \<open>getToken\<close>, which decrypts the session cookie (Auth.js); \<open>inspect\<close> and \<open>connect\<close>,
  the control plane's answers for the workspace, each read at its own moment; \<open>parse\<close>, the
  platform's URL parser (the path and the query of a target, or nothing where it throws);
  \<open>encode\<close> (\<^verbatim>\<open>encodeURIComponent\<close>), \<open>sha256\<close> and \<open>base64\<close>.
\<close>

section \<open>Cookies\<close>

definition SESSION_COOKIE_STEM :: string where
  "SESSION_COOKIE_STEM = ''authjs.session-token''"

definition isSessionCookie :: "string \<Rightarrow> bool" where
  "isSessionCookie name \<longleftrightarrow>
     name = SESSION_COOKIE_STEM \<or> ends_with SESSION_COOKIE_STEM name \<or>
     contains_text (SESSION_COOKIE_STEM @ ''.'') name"

definition cookie_name :: "string \<Rightarrow> string" where
  "cookie_name p = (if CHR ''='' \<in> set p then trim (before CHR ''='' p) else p)"

definition stripSessionCookie :: "string option \<Rightarrow> string option" where
  "stripSessionCookie cookieHeader =
     (case cookieHeader of
        None \<Rightarrow> None
      | Some h \<Rightarrow>
          (let kept = filter (\<lambda>p. p \<noteq> [] \<and> \<not> isSessionCookie (cookie_name p)) (map trim (split_on CHR '';'' h))
           in if kept \<noteq> [] then Some (join_with ''; '' kept) else None))"

definition tokenCookieMatches :: "string option \<Rightarrow> string \<Rightarrow> string \<Rightarrow> bool" where
  "tokenCookieMatches cookieHeader name expectedValue =
     (case cookieHeader of
        None \<Rightarrow> False
      | Some h \<Rightarrow>
          list_ex (\<lambda>part. CHR ''='' \<in> set part \<and> trim (before CHR ''='' part) = name \<and>
            trim (after CHR ''='' part) = expectedValue) (split_on CHR '';'' h))"

section \<open>Authorization\<close>

record jwt = session_token +
  tk_exp :: "int option"

datatype workspace_authz =
    Allow (sessionExpiresAtMs: int) (allow_subject: string) (allow_editor: editor_kind) (ready: bool)
      (allow_state: workspace_state)
  | Unauthenticated
  | Forbidden "string option" string

definition FALLBACK_PRESENCE_GRANT_MS :: int where
  "FALLBACK_PRESENCE_GRANT_MS = 30 * 60 * 1000"

type_synonym get_token = "string \<Rightarrow> bool \<Rightarrow> jwt option"

definition liveSessionToken ::
  "environment \<Rightarrow> get_token \<Rightarrow> auth_store \<Rightarrow> int \<Rightarrow> string \<Rightarrow> string \<Rightarrow>
   js_error + (jwt \<times> valid_auth_session) option" where
  "liveSessionToken env getToken st now cookieHeader purpose =
     (case env ''AUTH_SECRET'' of
        None \<Rightarrow> Inl (plain_error ''Error'' (''AUTH_SECRET is required to authorize '' @ purpose @ '' requests''))
      | Some secret \<Rightarrow>
          if secret = [] then
            Inl (plain_error ''Error'' (''AUTH_SECRET is required to authorize '' @ purpose @ '' requests''))
          else case getToken cookieHeader (contains_text (''__Secure-'' @ SESSION_COOKIE_STEM) cookieHeader) of
            None \<Rightarrow> Inr None
          | Some token \<Rightarrow>
              (case validateAuthSessionToken (session_token.truncate token) now st of
                 Inl e \<Rightarrow> Inl e
               | Inr None \<Rightarrow> Inr None
               | Inr (Some v) \<Rightarrow> Inr (Some (token, v))))"

definition subject_of :: "jwt \<Rightarrow> string option" where
  "subject_of token = (case tk_uid token of Text s \<Rightarrow> Some s | _ \<Rightarrow> None)"

definition authorizeWorkspace ::
  "environment \<Rightarrow> get_token \<Rightarrow> auth_store \<Rightarrow> int \<Rightarrow> (string \<Rightarrow> js_error + workspace option) \<Rightarrow>
   string option \<Rightarrow> string \<Rightarrow> js_error + workspace_authz" where
  "authorizeWorkspace env getToken st now inspect cookie i =
     (case liveSessionToken env getToken st now (or_empty cookie) ''workspace-proxy'' of
        Inl e \<Rightarrow> Inl e
      | Inr None \<Rightarrow> Inr Unauthenticated
      | Inr (Some (token, v)) \<Rightarrow>
          (case inspect i of
             Inl e \<Rightarrow> Inl e
           | Inr None \<Rightarrow> Inr (Forbidden (subject_of token) ''workspace not found'')
           | Inr (Some ws) \<Rightarrow>
               if \<not> decideWorkspaceAccessBySubject (subject_of token) (tk_role token = Text ''admin'') (ownerId ws)
               then Inr (Forbidden (subject_of token)
                      (''not owner and not admin (role='' @
                       (case tk_role token of Text r \<Rightarrow> r | _ \<Rightarrow> ''(none)'') @ '', owner='' @ ownerId ws @ '')''))
               else Inr (Allow
                 (case tk_exp token of
                    Some e \<Rightarrow> min (e * 1000) (expiresAtMs v)
                  | None \<Rightarrow> min (now + FALLBACK_PRESENCE_GRANT_MS) (expiresAtMs v))
                 (case subject_of token of Some s \<Rightarrow> s | None \<Rightarrow> ''(no uid)'')
                 (orElse (editor ws) Openvscode)
                 (state ws = Running \<and> functional ws = Some Healthy) (state ws))))"

datatype spectate_role = Publish | Subscribe
datatype spectate_authz = SpectateAllow spectate_role | SpectateForbidden | SpectateUnauthenticated

definition authorizeSpectate ::
  "environment \<Rightarrow> get_token \<Rightarrow> auth_store \<Rightarrow> int \<Rightarrow> (string \<Rightarrow> js_error + workspace option) \<Rightarrow>
   string option \<Rightarrow> string \<Rightarrow> spectate_role \<Rightarrow> js_error + spectate_authz" where
  "authorizeSpectate env getToken st now inspect cookie i role =
     (case liveSessionToken env getToken st now (or_empty cookie) ''spectate'' of
        Inl e \<Rightarrow> Inl e
      | Inr None \<Rightarrow> Inr SpectateUnauthenticated
      | Inr (Some (token, v)) \<Rightarrow>
          (case inspect i of
             Inl e \<Rightarrow> Inl e
           | Inr None \<Rightarrow> Inr SpectateForbidden
           | Inr (Some ws) \<Rightarrow>
               if shareEnabled ws \<noteq> Some True then Inr SpectateForbidden
               else case role of
                 Publish \<Rightarrow>
                   Inr (if tk_uid token = Text (ownerId ws) then SpectateAllow role else SpectateForbidden)
               | Subscribe \<Rightarrow>
                   Inr (case tk_role token of
                          Text r \<Rightarrow> if r \<noteq> [] then SpectateAllow role else SpectateForbidden
                        | _ \<Rightarrow> SpectateForbidden)))"

section \<open>What is forwarded\<close>

definition upper :: "char \<Rightarrow> char" where
  "upper c = (if is_lower c then char_of (code c - 32) else c)"

text \<open>A parsed target: its path, its query (with the question mark) and the value of a parameter.\<close>

record url =
  pathname :: string
  search :: string
  param :: "string \<Rightarrow> string option"
  with_param :: "string \<Rightarrow> string \<Rightarrow> string"

type_synonym url_parser = "string \<Rightarrow> url option"

definition workspace_prefix :: "string \<Rightarrow> string" where
  "workspace_prefix i = ''/w/'' @ i"

definition isWorkspaceRootPath :: "string \<Rightarrow> string \<Rightarrow> bool" where
  "isWorkspaceRootPath path i \<longleftrightarrow> path = workspace_prefix i \<or> path = workspace_prefix i @ ''/''"

fun tokenCookieForEditor :: "editor_kind \<Rightarrow> string" where
  "tokenCookieForEditor Openvscode = ''vscode-tkn''"
| "tokenCookieForEditor Monaco = ''edd-editor-token''"
| "tokenCookieForEditor Terminal = ''edd-editor-token''"
| "tokenCookieForEditor Opencode = ''vscode-tkn''"

definition isDocumentNavigation :: "headers \<Rightarrow> bool" where
  "isDocumentNavigation h \<longleftrightarrow>
     h ''sec-fetch-dest'' = Some ''document'' \<or>
     (h ''sec-fetch-dest'' = None \<and> contains_text ''text/html'' (or_empty (h ''accept'')))"

record http_request =
  rq_method :: "string option"
  rq_url :: "string option"
  rq_headers :: headers

definition isWorkspaceDocumentNavigation :: "url_parser \<Rightarrow> http_request \<Rightarrow> string \<Rightarrow> bool" where
  "isWorkspaceDocumentNavigation parse req i \<longleftrightarrow>
     isDocumentNavigation (rq_headers req) \<or>
     (case rq_url req of
        None \<Rightarrow> False
      | Some u \<Rightarrow> (case parse u of None \<Rightarrow> False | Some url \<Rightarrow> isWorkspaceRootPath (pathname url) i))"

definition editorTokenRedirect ::
  "hmac \<Rightarrow> environment \<Rightarrow> url_parser \<Rightarrow> http_request \<Rightarrow> string \<Rightarrow> editor_kind \<Rightarrow> js_error + string option" where
  "editorTokenRedirect hmac env parse req i ed =
     (let secret = or_empty (env ''EDD_CONNECTION_SECRET'') in
      if ed = Opencode \<or> secret = [] \<or> (rq_method req \<noteq> None \<and> map upper (the (rq_method req)) \<noteq> ''GET'')
      then Inr None
      else case rq_url req of
        None \<Rightarrow> Inr None
      | Some u \<Rightarrow>
          (case parse u of
             None \<Rightarrow> Inr None
           | Some url \<Rightarrow>
               if \<not> isDocumentNavigation (rq_headers req) \<and> \<not> isWorkspaceRootPath (pathname url) i then Inr None
               else case deriveWorkspaceToken hmac secret i of
                 Inl e \<Rightarrow> Inl e
               | Inr expected \<Rightarrow>
                   if param url ''tkn'' = Some expected then Inr None
                   else if tokenCookieMatches (rq_headers req ''cookie'') (tokenCookieForEditor ed) expected then Inr None
                   else Inr (Some (pathname url @ with_param url ''tkn'' expected))))"

definition WORKSPACE_TERMINAL_OVERLAY_SEGMENT :: string where
  "WORKSPACE_TERMINAL_OVERLAY_SEGMENT = ''__edd_term''"

definition isTerminalOverlayRequest :: "url_parser \<Rightarrow> editor_kind \<Rightarrow> string \<Rightarrow> string option \<Rightarrow> bool" where
  "isTerminalOverlayRequest parse ed i reqUrl \<longleftrightarrow>
     ed = Opencode \<and>
     (case reqUrl of
        None \<Rightarrow> False
      | Some u \<Rightarrow>
          (case parse u of
             None \<Rightarrow> False
           | Some url \<Rightarrow>
               (let prefix = workspace_prefix i @ ''/'' @ WORKSPACE_TERMINAL_OVERLAY_SEGMENT
                in pathname url = prefix \<or> starts_with (prefix @ ''/'') (pathname url))))"

definition workspaceProxyRequestPath ::
  "url_parser \<Rightarrow> editor_kind \<Rightarrow> string \<Rightarrow> string option \<Rightarrow> js_error + string option" where
  "workspaceProxyRequestPath parse ed i reqUrl =
     (case reqUrl of
        None \<Rightarrow> Inr None
      | Some u \<Rightarrow>
          if ed \<noteq> Opencode then Inr (Some u)
          else case parse u of
            None \<Rightarrow> Inl (plain_error ''TypeError'' ''Invalid URL'')
          | Some url \<Rightarrow>
              (let prefix = workspace_prefix i in
               if pathname url = prefix \<or> pathname url = prefix @ ''/'' then Inr (Some (''/'' @ search url))
               else if starts_with (prefix @ ''/'') (pathname url)
               then Inr (Some (drop (length prefix) (pathname url) @ search url))
               else Inl (plain_error ''Error''
                 (''opencode proxy path is outside workspace prefix: '' @ pathname url))))"

definition opencodeProxyAuthorization ::
  "hmac \<Rightarrow> (string \<Rightarrow> string) \<Rightarrow> string \<Rightarrow> string \<Rightarrow> js_error + string" where
  "opencodeProxyAuthorization hmac base64 secret i =
     (if secret = [] then
        Inl (plain_error ''Error'' ''EDD_CONNECTION_SECRET is required to proxy opencode workspaces'')
      else map_sum id (\<lambda>token. ''Basic '' @ base64 (''opencode:'' @ token)) (deriveWorkspaceToken hmac secret i))"

definition upstream_headers ::
  "hmac \<Rightarrow> (string \<Rightarrow> string) \<Rightarrow> environment \<Rightarrow> string \<Rightarrow> headers \<Rightarrow> (string \<times> editor_kind) option \<Rightarrow>
   js_error + headers" where
  "upstream_headers hmac base64 env host h context =
     (let h1 = h(''host'' := Some host, ''cookie'' := stripSessionCookie (h ''cookie'')) in
      map_sum id
        (\<lambda>h2. if map_option snd context \<in> {Some Opencode, Some Openvscode}
              then h2(''accept-encoding'' := None) else h2)
        (case context of
           Some (i, Opencode) \<Rightarrow>
             map_sum id (\<lambda>a. h1(''authorization'' := Some a))
               (opencodeProxyAuthorization hmac base64 (or_empty (env ''EDD_CONNECTION_SECRET'')) i)
         | _ \<Rightarrow> Inr (h1(''authorization'' := None))))"

definition ABSENT_OPENVSCODE_ASSETS :: "string list" where
  "ABSENT_OPENVSCODE_ASSETS =
     [''/node_modules/vsda/rust/web/vsda.js'', ''/node_modules/vsda/rust/web/vsda_bg.wasm'']"

definition isAbsentEditorAsset :: "string \<Rightarrow> editor_kind \<Rightarrow> bool" where
  "isAbsentEditorAsset path ed \<longleftrightarrow>
     ed = Openvscode \<and> list_ex (\<lambda>asset. ends_with asset path) ABSENT_OPENVSCODE_ASSETS"

section \<open>Content security policies\<close>

definition directives :: "string \<Rightarrow> string list" where
  "directives csp = filter (\<lambda>d. d \<noteq> []) (map trim (split_on CHR '';'' csp))"

definition directive_name :: "string \<Rightarrow> string" where
  "directive_name d = map lower (takeWhile (\<lambda>c. \<not> is_space c) d)"

definition is_script_directive :: "string \<Rightarrow> bool" where
  "is_script_directive d \<longleftrightarrow> directive_name d = ''script-src'' \<or> directive_name d = ''script-src-elem''"

definition cspAllowingInlineScript :: "(string \<Rightarrow> string) \<Rightarrow> string \<Rightarrow> string \<Rightarrow> string" where
  "cspAllowingInlineScript sha256 csp scriptSource =
     (let hash = quoted (''sha256-'' @ sha256 scriptSource); ds = directives csp in
      if \<not> list_ex is_script_directive ds then csp
      else join_with ''; ''
        (map (\<lambda>d. if is_script_directive d \<and> \<not> contains_text hash d then d @ '' '' @ hash else d) ds))"

text \<open>\<^verbatim>\<open>/(^|\s)'self'(\s|$)/\<close>: one of the tokens between white space is the source.\<close>

definition is_frame_directive :: "string \<Rightarrow> bool" where
  "is_frame_directive d \<longleftrightarrow> directive_name d = ''frame-src''"

fun words_of :: "string \<Rightarrow> string \<Rightarrow> string list" where
  "words_of acc [] = [acc]"
| "words_of acc (c # s) = (if is_space c then acc # words_of [] s else words_of (acc @ [c]) s)"

definition cspAllowingSelfFrame :: "string \<Rightarrow> string" where
  "cspAllowingSelfFrame csp =
     (let ds = directives csp in
      if \<not> list_ex is_frame_directive ds then csp
      else join_with ''; ''
        (map (\<lambda>d. if is_frame_directive d \<and> quoted ''self'' \<notin> set (words_of [] d)
                 then d @ '' '' @ quoted ''self'' else d) ds))"

section \<open>Requests to the workspace\<close>

definition DEFAULT_WORKSPACE_PORT :: string where
  "DEFAULT_WORKSPACE_PORT = ''3000''"

definition DEFAULT_WORKSPACE_TERMINAL_PORT :: string where
  "DEFAULT_WORKSPACE_TERMINAL_PORT = ''3001''"

text \<open>Waking answers the kind of a typed failure, if any; the second read may find another record.\<close>

type_synonym connect = "string \<Rightarrow> js_error + string option"
type_synonym inspect = "string \<Rightarrow> js_error + workspace option"

definition resolveWorkspaceUpstreamOnPort :: "connect \<Rightarrow> inspect \<Rightarrow> string \<Rightarrow> string \<Rightarrow> js_error + string" where
  "resolveWorkspaceUpstreamOnPort connect inspect i port =
     (case connect i of
        Inl e \<Rightarrow> Inl e
      | Inr (Some kind) \<Rightarrow> Inl (plain_error ''Error'' (''wake failed: '' @ kind))
      | Inr None \<Rightarrow>
          (case inspect i of
             Inl e \<Rightarrow> Inl e
           | Inr ws \<Rightarrow>
               (case Option.bind ws sshHost of
                  None \<Rightarrow> Inl (plain_error ''Error'' ''workspace host not yet assigned'')
                | Some host \<Rightarrow>
                    if host = [] then Inl (plain_error ''Error'' ''workspace host not yet assigned'')
                    else Inr (host @ '':'' @ port))))"

definition resolveWorkspaceUpstream :: "connect \<Rightarrow> inspect \<Rightarrow> string \<Rightarrow> js_error + string" where
  "resolveWorkspaceUpstream connect inspect i =
     resolveWorkspaceUpstreamOnPort connect inspect i DEFAULT_WORKSPACE_PORT"

definition resolveWorkspaceTerminalUpstream :: "connect \<Rightarrow> inspect \<Rightarrow> string \<Rightarrow> js_error + string" where
  "resolveWorkspaceTerminalUpstream connect inspect i =
     resolveWorkspaceUpstreamOnPort connect inspect i DEFAULT_WORKSPACE_TERMINAL_PORT"

record upstream_request =
  up_host :: string
  up_method :: "string option"
  up_path :: "string option"
  up_headers :: headers

definition upstreamOptions ::
  "hmac \<Rightarrow> (string \<Rightarrow> string) \<Rightarrow> environment \<Rightarrow> url_parser \<Rightarrow> string \<Rightarrow> http_request \<Rightarrow> string \<Rightarrow> editor_kind \<Rightarrow>
   js_error + upstream_request" where
  "upstreamOptions hmac base64 env parse host req i ed =
     (case upstream_headers hmac base64 env host (rq_headers req) (Some (i, ed)) of
        Inl e \<Rightarrow> Inl e
      | Inr hs \<Rightarrow>
          map_sum id (\<lambda>p. \<lparr>up_host = host, up_method = rq_method req, up_path = p, up_headers = hs\<rparr>)
            (workspaceProxyRequestPath parse ed i (rq_url req)))"

text \<open>The resolution and the proxying stand in one \<^verbatim>\<open>try\<close>, whatever either throws.\<close>

definition forward_to ::
  "hmac \<Rightarrow> (string \<Rightarrow> string) \<Rightarrow> environment \<Rightarrow> url_parser \<Rightarrow> (js_error + string) \<Rightarrow> http_request \<Rightarrow> string \<Rightarrow>
   editor_kind \<Rightarrow> upstream_request option" where
  "forward_to hmac base64 env parse resolved req i ed =
     (case resolved of
        Inl e \<Rightarrow> None
      | Inr host \<Rightarrow>
          (case upstreamOptions hmac base64 env parse host req i ed of Inl e \<Rightarrow> None | Inr r \<Rightarrow> Some r))"

section \<open>Responses from the workspace\<close>

definition WORKSPACE_PROXY_MAX_REWRITE_BYTES :: nat where
  "WORKSPACE_PROXY_MAX_REWRITE_BYTES = 16 * 1024 * 1024"

definition mentions :: "string \<Rightarrow> string option \<Rightarrow> bool" where
  "mentions t contentType \<longleftrightarrow> (case contentType of None \<Rightarrow> False | Some c \<Rightarrow> contains_text t (map lower c))"

definition responseCanBeRewritten :: "string option \<Rightarrow> bool" where
  "responseCanBeRewritten contentType \<longleftrightarrow> mentions ''text/html'' contentType \<or> mentions ''text/css'' contentType"

definition responseIsHtml :: "string option \<Rightarrow> bool" where
  "responseIsHtml contentType \<longleftrightarrow> mentions ''text/html'' contentType"

definition responseIsJavaScript :: "string option \<Rightarrow> bool" where
  "responseIsJavaScript contentType \<longleftrightarrow> mentions ''javascript'' contentType"

text \<open>Whether a response is held in memory to be rewritten, rather than streamed.\<close>

definition buffers_response :: "editor_kind \<Rightarrow> string option \<Rightarrow> bool" where
  "buffers_response ed contentType \<longleftrightarrow>
     \<not> (ed \<noteq> Opencode \<and> \<not> (ed = Openvscode \<and> responseIsHtml contentType)) \<and>
     (if ed = Opencode then responseCanBeRewritten contentType \<or> responseIsJavaScript contentType
      else responseCanBeRewritten contentType)"

record rewrite_buffer =
  rb_chunks :: "nat list list"
  rb_bytes :: nat
  overCap :: bool

definition empty_buffer :: rewrite_buffer where
  "empty_buffer = \<lparr>rb_chunks = [], rb_bytes = 0, overCap = False\<rparr>"

definition on_data :: "nat list \<Rightarrow> rewrite_buffer \<Rightarrow> rewrite_buffer" where
  "on_data buf b =
     (if overCap b then b
      else let n = rb_bytes b + length buf in
        if WORKSPACE_PROXY_MAX_REWRITE_BYTES < n
        then b\<lparr>rb_bytes := n, overCap := True, rb_chunks := []\<rparr>
        else b\<lparr>rb_bytes := n, rb_chunks := rb_chunks b @ [buf]\<rparr>)"

definition on_end :: "rewrite_buffer \<Rightarrow> nat list option" where
  "on_end b = (if overCap b then None else Some (concat (rb_chunks b)))"

section \<open>The server\<close>

datatype http_reply =
    NextApp
  | Redirect string
  | Status nat
  | ProxyTo string upstream_request
  | Crash js_error

text \<open>
  The request handler up to the point where bytes flow. A rejection outside a \<^verbatim>\<open>try\<close> leaves the
  request unanswered (\<^term>\<open>Crash\<close>).
\<close>

definition handle_request ::
  "hmac \<Rightarrow> (string \<Rightarrow> string) \<Rightarrow> environment \<Rightarrow> get_token \<Rightarrow> url_parser \<Rightarrow> (string \<Rightarrow> string) \<Rightarrow> auth_store \<Rightarrow> int \<Rightarrow>
   inspect \<Rightarrow> connect \<Rightarrow> inspect \<Rightarrow> http_request \<Rightarrow> http_reply" where
  "handle_request hmac base64 env getToken parse encode st now inspect connect reinspect req =
     (case workspaceIdFromPath (or_empty (rq_url req)) of
        None \<Rightarrow> NextApp
      | Some i \<Rightarrow>
          (case authorizeWorkspace env getToken st now inspect (rq_headers req ''cookie'') i of
             Inl e \<Rightarrow> Crash e
           | Inr Unauthenticated \<Rightarrow> Redirect (''/login?callbackUrl='' @ encode (orElse (rq_url req) ''/''))
           | Inr (Forbidden s r) \<Rightarrow> Status 403
           | Inr (Allow expires who ed rdy ste) \<Rightarrow>
               if \<not> rdy \<and> isWorkspaceDocumentNavigation parse req i
               then Redirect (''/workspaces/'' @ i @ ''?autoopen=1'')
               else if isTerminalOverlayRequest parse ed i (rq_url req)
               then (case forward_to hmac base64 env parse (resolveWorkspaceTerminalUpstream connect reinspect i) req i Terminal of
                       Some r \<Rightarrow> ProxyTo i r | None \<Rightarrow> Status 502)
               else case editorTokenRedirect hmac env parse req i ed of
                 Inl e \<Rightarrow> Crash e
               | Inr (Some target) \<Rightarrow> Redirect target
               | Inr None \<Rightarrow>
                   (case parse (orElse (rq_url req) ''/'') of
                      None \<Rightarrow> Crash (plain_error ''TypeError'' ''Invalid URL'')
                    | Some url \<Rightarrow>
                        if isAbsentEditorAsset (pathname url) ed then Status 404
                        else (case forward_to hmac base64 env parse (resolveWorkspaceUpstream connect reinspect i) req i ed of
                                Some r \<Rightarrow> ProxyTo i r | None \<Rightarrow> Status 502))))"

end
