(* ===== verification/Access_Props.thy ===== *)
theory Access_Props
  imports Access
begin

text \<open>
  Properties of the access decisions: a persona never gains anything, a proxied path names a
  well-formed workspace or none, and a machine token is good for one workspace only.
\<close>

section \<open>Personas\<close>

lemma isRole_name [simp]: "isRole (role_name r) = Some r"
  by (cases r) (simp_all add: isRole_def ROLES_def)

lemma isRole_Some: "isRole s = Some r \<longleftrightarrow> s = role_name r"
proof
  show "isRole s = Some r \<Longrightarrow> s = role_name r"
    by (auto simp: isRole_def find_Some_iff)
qed simp

lemma effectiveRole_rank: "ROLE_RANK (effectiveRole r q) \<le> ROLE_RANK r"
  by (simp add: effectiveRole_def split: option.split)

lemma personas_exact: "r \<in> set (personasFor real) \<longleftrightarrow> (\<exists>q. effectiveRole real q = r)"
proof
  assume "r \<in> set (personasFor real)"
  then have "effectiveRole real (Some (role_name r)) = r"
    by (auto simp: personasFor_def effectiveRole_def)
  then show "\<exists>q. effectiveRole real q = r" ..
next
  assume "\<exists>q. effectiveRole real q = r"
  then have "ROLE_RANK r \<le> ROLE_RANK real" using effectiveRole_rank by auto
  then show "r \<in> set (personasFor real)" by (cases r) (simp_all add: personasFor_def ROLES_def)
qed

lemma ability_mono:
  "\<lbrakk>ROLE_RANK (pr_role p) \<le> ROLE_RANK (pr_role q); permits (defineAbilityFor p) a s\<rbrakk> \<Longrightarrow>
   permits (defineAbilityFor q) a s"
  by (cases "pr_role p"; cases "pr_role q") (auto simp: defineAbilityFor_def permits_def)

lemma before_after: "c \<in> set s \<Longrightarrow> s = before c s @ c # after c s"
  by (induction s) (auto simp: before_def after_def)

lemma before_append [simp]: "c \<notin> set p \<Longrightarrow> before c (p @ c # s) = p"
  by (simp add: before_def takeWhile_append)

lemma after_append [simp]: "c \<notin> set p \<Longrightarrow> after c (p @ c # s) = s"
  by (simp add: after_def dropWhile_append)

lemma persona_cookie_roundtrip: "decodePersonaCookie (Some (encodePersonaCookie r)) = Some r"
  using before_append [of "CHR '':''" "''1''" r] after_append [of "CHR '':''" "''1''" r]
  by (simp add: decodePersonaCookie_def encodePersonaCookie_def PERSONA_COOKIE_SCHEMA_VERSION_def)

text \<open>
  C28. A persona never escalates. Whatever cookie a request carries, the principal it acts as
  has the identity of the real one, a role that ranks no higher, and no ability the real
  one lacks; and each role the real one may switch to is one it can reach by its cookie.
\<close>

theorem persona_never_escalates:
  assumes "casl_documented casl" and "getPrincipal decode env session req = Inr (Some p)"
  shows "\<exists>q. realPrincipal decode env session req = Inr (Some q) \<and> pr_id p = pr_id q \<and>
    pr_email p = pr_email q \<and> pr_role p \<in> set (personasFor (pr_role q)) \<and>
    (\<forall>a s. casl (defineAbilityFor p) a s \<longrightarrow> casl (defineAbilityFor q) a s)"
proof -
  obtain q where q: "realPrincipal decode env session req = Inr (Some q)"
      and p: "p = withPersona q (cookieValue decode (req ''cookie'') ''edd-persona'')"
    using assms(2) by (auto simp: getPrincipal_def map_sum_def split: sum.splits)
  have "ROLE_RANK (pr_role p) \<le> ROLE_RANK (pr_role q)" "pr_role p \<in> set (personasFor (pr_role q))"
    using effectiveRole_rank unfolding p withPersona_def Let_def personas_exact
    by (auto intro: exI [of _ None] simp: effectiveRole_def split: option.split)
  with q assms(1) ability_mono [of p q] show ?thesis
    by (auto simp: p withPersona_def Let_def casl_documented_def)
qed

definition dev_env :: environment where
  "dev_env n = (if n = ''EDD_DEV_AUTH'' then Some ''1'' else None)"

definition dev_request :: headers where
  "dev_request n =
     (if n = ''x-edd-user-id'' then Some ''u1'' else if n = ''x-edd-role'' then Some ''admin''
      else if n = ''cookie'' then Some ''a=b; edd-persona=1:viewer'' else None)"

theorem persona_never_escalates_witness:
  "\<exists>p q. getPrincipal Some dev_env (Inr None) dev_request = Inr (Some p) \<and> pr_role p = Viewer \<and>
     realPrincipal Some dev_env (Inr None) dev_request = Inr (Some q) \<and> pr_role q = Admin \<and>
     (permits (defineAbilityFor p) Delete WorkspaceSubject \<longrightarrow> permits (defineAbilityFor q) Delete WorkspaceSubject)"
proof -
  have "getPrincipal Some dev_env (Inr None) dev_request =
      Inr (Some ((mk_principal ''u1'' Viewer)\<lparr>realRole := Some Admin\<rparr>))"
    "realPrincipal Some dev_env (Inr None) dev_request = Inr (Some (mk_principal ''u1'' Admin))" by code_simp+
  moreover have "casl_documented permits" by (simp add: casl_documented_def)
  ultimately show ?thesis
    using persona_never_escalates [of permits Some dev_env "Inr None" dev_request] by (auto simp: mk_principal_def)
qed

section \<open>Paths\<close>

lemma starts_with_iff: "starts_with p s \<longleftrightarrow> (\<exists>t. s = p @ t)"
  by (metis starts_with_def append_eq_conv_conj append_take_drop_id)

lemma label_iff:
  "WORKSPACE_LABEL_RE i \<longleftrightarrow> starts_with ''ws-'' i \<and> 4 \<le> length i \<and> length i \<le> 39 \<and>
     list_all (\<lambda>c. is_lower c \<or> is_digit c \<or> c = CHR ''-'') i \<and> i ! 3 \<noteq> CHR ''-''"
proof (cases "starts_with ''ws-'' i")
  case True
  then obtain t where i: "i = ''ws-'' @ t" by (auto simp: starts_with_iff)
  have "is_lower CHR ''w''" "is_lower CHR ''s''" by code_simp+
  moreover have "\<not> is_lower CHR ''-''" "\<not> is_digit CHR ''-''" by code_simp+
  ultimately show ?thesis
    unfolding i by (cases t) (auto simp: WORKSPACE_LABEL_RE_def label_start_def label_char_def starts_with_def list_all_iff)
qed (simp add: WORKSPACE_LABEL_RE_def)

lemma takeWhile_run:
  "takeWhile P s = u \<longleftrightarrow> list_all P u \<and> (\<exists>t. s = u @ t \<and> (t = [] \<or> \<not> P (hd t)))"
proof
  assume "takeWhile P s = u"
  then show "list_all P u \<and> (\<exists>t. s = u @ t \<and> (t = [] \<or> \<not> P (hd t)))"
    by (metis list_all_iff set_takeWhileD takeWhile_dropWhile_id hd_dropWhile)
next
  assume "list_all P u \<and> (\<exists>t. s = u @ t \<and> (t = [] \<or> \<not> P (hd t)))"
  then obtain t where "\<forall>x \<in> set u. P x" "s = u @ t" "t = [] \<or> \<not> P (hd t)" by (auto simp: list_all_iff)
  then show "takeWhile P s = u" by (cases t) (simp_all add: takeWhile_append2)
qed

text \<open>
  C30. A proxied path names a well-formed workspace or none. The identifier is taken from a
  path exactly if the path is the prefix, a label and then nothing or a separator; it has
  the prefix of an identifier, four to thirty-nine lower-case letters, digits and dashes,
  and so no slash, dot, percent sign or blank.
\<close>

theorem proxy_path_type:
  "(workspaceIdFromPath p = Some i \<longleftrightarrow>
     WORKSPACE_LABEL_RE i \<and> (\<exists>t. p = ''/w/'' @ i @ t \<and> (t = [] \<or> hd t \<in> {CHR ''/'', CHR ''?'', CHR ''#''}))) \<and>
   (WORKSPACE_LABEL_RE i \<longleftrightarrow> starts_with ''ws-'' i \<and> 4 \<le> length i \<and> length i \<le> 39 \<and>
     list_all (\<lambda>c. is_lower c \<or> is_digit c \<or> c = CHR ''-'') i \<and> i ! 3 \<noteq> CHR ''-'')"
proof -
  let ?P = "\<lambda>c. c \<notin> {CHR ''/'', CHR ''?'', CHR ''#''}"
  have lab: "list_all ?P i" "i \<noteq> []" if "WORKSPACE_LABEL_RE i"
  proof -
    have "?P c" if "is_lower c \<or> is_digit c \<or> c = CHR ''-''" for c
      using that by (auto simp: is_lower_def is_digit_def code_def)
    then show "list_all ?P i" using that by (auto simp: label_iff list_all_iff)
    show "i \<noteq> []" using that by (auto simp: label_iff)
  qed
  have "workspaceIdFromPath p = Some i \<longleftrightarrow>
      (\<exists>s. p = ''/w/'' @ s \<and> takeWhile ?P s = i) \<and> WORKSPACE_LABEL_RE i"
    using lab(2) by (auto simp: workspaceIdFromPath_def WORKSPACE_PATH_PREFIX_def starts_with_iff Let_def)
  then show ?thesis
    using lab(1) by (auto simp: takeWhile_run label_iff)
qed

section \<open>Machine tokens\<close>

lemma utf8_char_inj: "utf8_char c @ s = utf8_char d @ t \<longleftrightarrow> c = d \<and> s = t"
proof -
  have b: "code c < 256" "code d < 256" by (simp_all add: code_def)
  have "code c = code d" if "utf8_char c @ s = utf8_char d @ t"
    using that b by (auto simp: utf8_char_def Let_def split: if_splits) (metis div_mult_mod_eq)
  then show ?thesis by (auto simp: code_def)
qed

lemma utf8_inj [simp]: "utf8 s = utf8 t \<longleftrightarrow> s = t"
proof (induction s arbitrary: t)
  case Nil
  then show ?case by (cases t) (auto simp: utf8_def utf8_char_def Let_def)
next
  case (Cons c s)
  then show ?case
    by (cases t) (auto simp: utf8_def utf8_char_inj, auto simp: utf8_char_def Let_def split: if_splits)
qed

lemma verify_exact: "verifyWorkspaceToken hmac secret i candidate = Inr (secret \<noteq> [] \<and> candidate = hmac (hex_bytes secret) i)"
  by (auto simp: verifyWorkspaceToken_def deriveWorkspaceToken_def timingSafeEqual_def)

lemma header_parts:
  "CHR '' '' \<in> set h \<and> Q (before CHR '' '' h) (after CHR '' '' h) \<longleftrightarrow>
     (\<exists>a b. h = a @ '' '' @ b \<and> CHR '' '' \<notin> set a \<and> Q a b)"
proof
  assume h: "CHR '' '' \<in> set h \<and> Q (before CHR '' '' h) (after CHR '' '' h)"
  moreover have "CHR '' '' \<notin> set (before CHR '' '' h)" by (auto simp: before_def dest: set_takeWhileD)
  moreover have "h = before CHR '' '' h @ '' '' @ after CHR '' '' h" using h before_after [of "CHR '' ''" h] by simp
  ultimately show "\<exists>a b. h = a @ '' '' @ b \<and> CHR '' '' \<notin> set a \<and> Q a b" by blast
qed auto

lemma derive_iff:
  "secret \<noteq> [] \<Longrightarrow> deriveWorkspaceToken hmac secret i = Inr token \<longleftrightarrow> token = hmac (hex_bytes secret) i"
  by (auto simp: deriveWorkspaceToken_def)

lemma bearer_token: 
  "(\<exists>h secret. R = Some h \<and> E = Some secret \<and> secret \<noteq> [] \<and>
      (\<exists>a b. h = a @ '' '' @ b \<and> CHR '' '' \<notin> set a \<and> B a \<and> b \<noteq> [] \<and> b = hmac (hex_bytes secret) i)) \<longleftrightarrow>
   (\<exists>secret scheme token. E = Some secret \<and> secret \<noteq> [] \<and> token \<noteq> [] \<and>
      CHR '' '' \<notin> set scheme \<and> R = Some (scheme @ '' '' @ token) \<and> B scheme \<and>
      deriveWorkspaceToken hmac secret i = Inr token)" (is "?l = ?r")
proof
  assume ?l
  then obtain secret a b where "E = Some secret" "secret \<noteq> []" "R = Some (a @ '' '' @ b)"
      "CHR '' '' \<notin> set a" "B a" "b \<noteq> []" "b = hmac (hex_bytes secret) i"
    by blast
  then show ?r by (intro exI [of _ secret] exI [of _ a] exI [of _ b]) (simp add: derive_iff)
next
  assume ?r
  then obtain secret a b where "E = Some secret" "secret \<noteq> []" "R = Some (a @ '' '' @ b)"
      "CHR '' '' \<notin> set a" "B a" "b \<noteq> []" "deriveWorkspaceToken hmac secret i = Inr b"
    by blast
  then show ?l by (intro exI [of _ secret] exI [of _ a] exI [of _ b] exI [of _ "a @ '' '' @ b"]) (simp add: derive_iff)
qed
lemma machine_auth_cases:
  "checkMachineAuth hmac env req i secretEnv =
     Inr (case req ''authorization'' of
        None \<Rightarrow> AbsentAuth
      | Some h \<Rightarrow>
          if \<exists>secret. env secretEnv = Some secret \<and> secret \<noteq> [] \<and> CHR '' '' \<in> set h \<and>
              map lower (before CHR '' '' h) = ''bearer'' \<and> after CHR '' '' h \<noteq> [] \<and>
              after CHR '' '' h = hmac (hex_bytes secret) i
          then ValidAuth else InvalidAuth)"
  by (auto simp: checkMachineAuth_def Let_def verify_exact split: option.split)

text \<open>
  C29. Machine tokens are scoped. Checking a token never throws, whatever bytes a request
  carries; it accepts exactly a bearer header that carries the token derived for the
  workspace from a configured secret; and where the keyed hash has no collision on workspace labels, the token
  derived for one workspace is refused for every other.
\<close>

theorem machine_tokens_scoped:
  "(\<exists>r. checkMachineAuth hmac env req i secretEnv = Inr r) \<and>
   (checkMachineAuth hmac env req i secretEnv = Inr ValidAuth \<longleftrightarrow>
     (\<exists>secret scheme token. env secretEnv = Some secret \<and> secret \<noteq> [] \<and> token \<noteq> [] \<and> CHR '' '' \<notin> set scheme \<and>
        req ''authorization'' = Some (scheme @ '' '' @ token) \<and> map lower scheme = ''bearer'' \<and>
        deriveWorkspaceToken hmac secret i = Inr token)) \<and>
   (inj_on (hmac (hex_bytes secret)) (Collect WORKSPACE_LABEL_RE) \<and> WORKSPACE_LABEL_RE i \<and> WORKSPACE_LABEL_RE j \<and>
       i \<noteq> j \<and> deriveWorkspaceToken hmac secret j = Inr t \<longrightarrow>
     verifyWorkspaceToken hmac secret i t = Inr False)"
proof -
  let ?v = "checkMachineAuth hmac env req i secretEnv"
  have "?v = Inr ValidAuth \<longleftrightarrow> (\<exists>h secret. req ''authorization'' = Some h \<and> env secretEnv = Some secret \<and> secret \<noteq> [] \<and>
      CHR '' '' \<in> set h \<and> (map lower (before CHR '' '' h) = ''bearer'' \<and> after CHR '' '' h \<noteq> [] \<and>
        after CHR '' '' h = hmac (hex_bytes secret) i))"
    by (auto simp: machine_auth_cases split: option.split)
  note valid = this [unfolded header_parts [where Q = "\<lambda>a b. map lower a = ''bearer'' \<and> b \<noteq> [] \<and> b = hmac (hex_bytes s) i" for s]
      bearer_token [where B = "\<lambda>a. map lower a = ''bearer''"]]
  have "\<exists>r. ?v = Inr r" by (simp add: machine_auth_cases)
  moreover have "verifyWorkspaceToken hmac secret i t = Inr False"
    if "inj_on (hmac (hex_bytes secret)) (Collect WORKSPACE_LABEL_RE)" "WORKSPACE_LABEL_RE i" "WORKSPACE_LABEL_RE j"
      "i \<noteq> j" "deriveWorkspaceToken hmac secret j = Inr t"
    using that by (auto simp: verify_exact deriveWorkspaceToken_def dest: inj_onD split: if_splits)
  ultimately show ?thesis using valid by blast
qed

theorem machine_tokens_scoped_witness:
  "verifyWorkspaceToken (\<lambda>k m. CHR ''x'' # m) ''ab'' ''ws-a'' ''xws-b'' = Inr False \<and>
   checkMachineAuth (\<lambda>k m. CHR ''x'' # m) (\<lambda>_. Some ''ab'') (\<lambda>_. Some ''Bearer xws-a'') ''ws-a'' ''EDD_AGENT_SECRET'' =
     Inr ValidAuth"
proof -
  have "checkMachineAuth (\<lambda>k m. CHR ''x'' # m) (\<lambda>_. Some ''ab'') (\<lambda>_. Some ''Bearer xws-a'') ''ws-a'' ''EDD_AGENT_SECRET'' =
     Inr ValidAuth" by code_simp
  moreover have "inj_on (\<lambda>m. CHR ''x'' # m) (Collect WORKSPACE_LABEL_RE)" by (simp add: inj_on_def)
  moreover have "WORKSPACE_LABEL_RE ''ws-a''" "WORKSPACE_LABEL_RE ''ws-b''" by code_simp+
  ultimately show ?thesis
    using machine_tokens_scoped [where hmac = "\<lambda>k m. CHR ''x'' # m" and secret = "''ab''" and i = "''ws-a''"
        and j = "''ws-b''" and t = "''xws-b''"] by (auto simp: deriveWorkspaceToken_def)
qed

text \<open>
  A secret that is not hexadecimal is no secret. Decoding stops at the first pair that is
  not two hex digits, so a configured secret that begins otherwise passes the check that it
  is not empty and yet keys the hash with no byte at all: the token every caller can compute
  from the workspace's identifier alone is accepted.
\<close>

theorem non_hex_secret_is_no_secret:
  assumes "secret \<noteq> []" and "hex_digit (hd secret) = None"
  shows "deriveWorkspaceToken hmac secret i = Inr (hmac [] i) \<and> verifyWorkspaceToken hmac secret i (hmac [] i) = Inr True"
proof -
  have "hex_bytes secret = []" using assms by (cases secret rule: hex_bytes.cases) auto
  then show ?thesis using assms(1) by (simp add: verify_exact deriveWorkspaceToken_def)
qed

theorem non_hex_secret_is_no_secret_witness:
  "verifyWorkspaceToken (\<lambda>k m. m @ map char_of k) ''my-long-secret-passphrase'' ''ws-a'' ''ws-a'' = Inr True"
  using non_hex_secret_is_no_secret [of "''my-long-secret-passphrase''" "\<lambda>k m. m @ map char_of k" "''ws-a''"]
  by (simp add: hex_digit_def code_def)

end
