(* ===== verification/Auth_Sessions_Props.thy ===== *)
theory Auth_Sessions_Props
  imports Auth_Sessions Access_Props
begin

text \<open>
  Properties of the session ledger: a revoked session never authorizes again, a logout token
  ends exactly the sessions it names and only once, and a validated token has a live row.
\<close>

section \<open>Well-formed ledgers\<close>

definition names_pointer :: "correlation_key \<Rightarrow> auth_row \<Rightarrow> bool" where
  "names_pointer k r \<longleftrightarrow> (case k of (p, kind, v, i) \<Rightarrow>
     p = provider r \<and> v = (case kind of BySession \<Rightarrow> providerSessionId r | BySubject \<Rightarrow> providerSubject r))"

definition wf_auth :: "auth_store \<Rightarrow> bool" where
  "wf_auth st \<longleftrightarrow>
     (\<forall>i r. map_of (sessionRows st) i = Some r \<longrightarrow> as_id r = i \<and> i \<in> set (issued st)) \<and>
     (\<forall>p kind v i y. map_of (correlations st) (p, kind, v, i) = Some y \<longrightarrow> i \<in> set (issued st)) \<and>
     (\<forall>p kind v i y r. map_of (correlations st) (p, kind, v, i) = Some y \<longrightarrow>
        map_of (sessionRows st) i = Some r \<longrightarrow> names_pointer (p, kind, v, i) r)"

lemma wf_auth_row: "\<lbrakk>wf_auth st; map_of (sessionRows st) i = Some r\<rbrakk> \<Longrightarrow> as_id r = i \<and> i \<in> set (issued st)"
  by (simp add: wf_auth_def)

lemma wf_auth_pointer:
  "\<lbrakk>wf_auth st; map_of (correlations st) (p, kind, v, i) = Some y; map_of (sessionRows st) i = Some r\<rbrakk> \<Longrightarrow>
   names_pointer (p, kind, v, i) r"
  by (auto simp: wf_auth_def)

lemma wf_update_row:
  assumes "update_row i f st = Inr st'" and "wf_auth st"
    and "\<And>r. as_id (f r) = as_id r" and "\<And>k r. names_pointer k (f r) = names_pointer k r"
  shows "wf_auth st'"
  using assms by (fastforce simp: wf_auth_def update_row_def split: if_splits option.splits)

lemma wf_auth_step:
  assumes "auth_step st st'" and "wf_auth st"
  shows "wf_auth st'"
  using assms
proof (induction rule: auth_step.induct)
  case (land w st st')
  show ?case
  proof (cases w)
    case (PutSession r)
    with land show ?thesis by (fastforce simp: wf_auth_def split: if_splits)
  next
    case (PutCorrelated r)
    with land show ?thesis
      by (fastforce simp: wf_auth_def pointers_of_def names_pointer_def split: if_splits)
  next
    case (PatchRefresh i n)
    with land have "update_row i (\<lambda>r. r\<lparr>refreshedAt := Iso n, expiresAt := auth_expiresAt n,
        expiresAtEpochSeconds := epoch_of n\<rparr>) st = Inr st'" by simp
    then show ?thesis using land.prems by (rule wf_update_row) (simp_all add: names_pointer_def split: prod.split correlation_kind.split)
  next
    case (PatchRevoke i a)
    with land have "update_row i (\<lambda>r. r\<lparr>revokedAt := Some a\<rparr>) st = Inr st'" by simp
    then show ?thesis using land.prems by (rule wf_update_row) (simp_all add: names_pointer_def split: prod.split correlation_kind.split)
  next
    case (PatchCorrelation k e)
    with land show ?thesis by (fastforce simp: wf_auth_def split: if_splits)
  next
    case (PutLogoutToken p t e)
    with land show ?thesis by (fastforce simp: wf_auth_def split: if_splits)
  qed
qed (fastforce simp: wf_auth_def split: if_splits)+

section \<open>Revocation\<close>

definition ended :: "string \<Rightarrow> auth_store \<Rightarrow> bool" where
  "ended i st \<longleftrightarrow> i \<in> set (issued st) \<and>
     (case map_of (sessionRows st) i of None \<Rightarrow> True | Some r \<Rightarrow> revokedAt r \<noteq> None)"

lemma ended_step:
  assumes "auth_step st st'" and "ended i st"
  shows "ended i st'"
  using assms
proof (induction rule: auth_step.induct)
  case (land w st st')
  then show ?case
    by (cases w) (auto simp: ended_def update_row_def split: if_splits option.splits)
qed (auto simp: ended_def split: if_splits option.splits)

lemma ended_steps: "\<lbrakk>auth_step\<^sup>*\<^sup>* st st'; ended i st\<rbrakk> \<Longrightarrow> ended i st'"
  by (induction rule: rtranclp_induct) (auto intro: ended_step)

text \<open>
  C11. Revocation is final. From any well-formed ledger in which a session is revoked, after
  any sequence of steps, whatever writes land in whatever order, refreshes sent before the
  revocation included, and whatever rows expire, no token that names the session validates.
\<close>

theorem revocation_is_final:
  assumes "wf_auth st" and "map_of (sessionRows st) i = Some r" and "revokedAt r \<noteq> None"
    and "auth_step\<^sup>*\<^sup>* st st'" and "tk_authSessionId tok = Text i"
  shows "validateAuthSessionToken tok now st' = Inr None"
proof -
  have "ended i st" using assms(1-3) by (auto simp: ended_def wf_auth_def)
  then have "ended i st'" using assms(4) ended_steps by blast
  then show ?thesis
    using assms(5) by (auto simp: validateAuthSessionToken_def session_row_def ended_def split: option.splits)
qed

text \<open>What a validated token stands for: a row of the current version, neither revoked nor
  expired, of the owner and the role the token claims.\<close>

lemma validate_iff:
  "validateAuthSessionToken tok now st = Inr (Some v) \<longleftrightarrow>
     (\<exists>i r. tk_authSessionVersion tok = Some AUTH_SESSION_SCHEMA_VERSION \<and> tk_authSessionId tok = Text i \<and> i \<noteq> [] \<and>
        map_of (sessionRows st) i = Some r \<and> schemaVersion r = AUTH_SESSION_SCHEMA_VERSION \<and> revokedAt r = None \<and>
        expiresAt r = Iso (expiresAtMs v) \<and> now < expiresAtMs v \<and>
        tk_uid tok = Text (va_ownerId v) \<and> va_ownerId v = as_ownerId r \<and>
        tk_role tok = Text (role_name (va_role v)) \<and> va_role v = as_role r \<and> va_id v = as_id r)"
  by (cases v)
    (auto simp: validateAuthSessionToken_def session_row_def parseExpiry_def
      split: claim.splits option.splits iso_timestamp.splits if_splits)

section \<open>Logout\<close>

definition revoke_row :: "int \<Rightarrow> auth_row \<Rightarrow> auth_row" where
  "revoke_row now r = r\<lparr>revokedAt := Some (Iso now)\<rparr>"

lemma run_write_None:
  "run_write fails w st = (None, st') \<longleftrightarrow> fails w = None \<and> apply_write w st = Inr st'"
  by (auto simp: run_write_def split: option.split sum.split)

lemma run_all_Cons_None:
  "run_all fails (w # ws) st = (None, st') \<longleftrightarrow>
     (\<exists>st1. run_write fails w st = (None, st1) \<and> run_all fails ws st1 = (None, st'))"
  by (auto split: prod.splits if_splits)

lemma run_revokes:
  assumes "run_all fails (map (\<lambda>i. PatchRevoke i (Iso now)) is) st = (None, st')"
  shows "map_of (sessionRows st') i =
      (if i \<in> set is then map_option (revoke_row now) (map_of (sessionRows st) i) else map_of (sessionRows st) i) \<and>
    logoutTokens st' = logoutTokens st \<and> correlations st' = correlations st"
  using assms
proof (induction "is" arbitrary: st)
  case (Cons j js)
  then obtain st1 where st1: "apply_write (PatchRevoke j (Iso now)) st = Inr st1"
      "run_all fails (map (\<lambda>i. PatchRevoke i (Iso now)) js) st1 = (None, st')"
    unfolding list.map run_all_Cons_None run_write_None by blast
  with Cons.IH [OF st1(2)] show ?case
    by (auto simp: update_row_def revoke_row_def [abs_def] split: option.splits if_splits)
qed simp

lemma mem_map_filter: "y \<in> set (List.map_filter f xs) \<longleftrightarrow> (\<exists>x \<in> set xs. f x = Some y)"
  by (induction xs) (auto simp: map_filter_simps split: option.splits)

lemma mem_keys: "map_of xs k \<noteq> None \<longleftrightarrow> (\<exists>y. (k, y) \<in> set xs)"
  by (induction xs) auto

lemma active_iff:
  "r \<in> set (active_sessions p kind v st) \<longleftrightarrow>
     (\<exists>j. map_of (correlations st) (p, kind, v, j) \<noteq> None \<and> map_of (sessionRows st) j = Some r) \<and>
     provider r = p \<and> revokedAt r = None"
  unfolding active_sessions_def Let_def set_filter mem_Collect_eq mem_map_filter mem_keys by fastforce

lemma active_ids:
  assumes "wf_auth st"
  shows "i \<in> as_id ` set (active_sessions p kind v st) \<longleftrightarrow>
    map_of (correlations st) (p, kind, v, i) \<noteq> None \<and> map_option revokedAt (map_of (sessionRows st) i) = Some None"
    (is "?l = ?r")
proof
  assume ?l
  then obtain r j where "i = as_id r" "map_of (correlations st) (p, kind, v, j) \<noteq> None"
      "map_of (sessionRows st) j = Some r" "revokedAt r = None" by (metis active_iff image_iff)
  moreover have "as_id r = j" using wf_auth_row [OF assms calculation(3)] by simp
  ultimately show ?r by simp
next
  assume r: ?r
  then obtain x where x: "map_of (sessionRows st) i = Some x" "revokedAt x = None" by auto
  obtain y where y: "map_of (correlations st) (p, kind, v, i) = Some y" using r by auto
  have "provider x = p" "as_id x = i"
    using wf_auth_pointer [OF assms y x(1)] wf_auth_row [OF assms x(1)] by (auto simp: names_pointer_def)
  with x y have "x \<in> set (active_sessions p kind v st)" by (auto simp: active_iff)
  with \<open>as_id x = i\<close> show ?l by blast
qed

text \<open>
  A logout token ends exactly the sessions it names, once. Where a token with a provider
  session is consumed without an error, a row is revoked exactly if a pointer from that
  provider session leads to it and it was not revoked already, every other row is as it was,
  of the same account too, and the rows it revokes are of that provider session; and
  presenting the token again, while its identifier is remembered, is an error that changes
  nothing.
\<close>

theorem logout_token_exact:
  assumes "wf_auth st" and "lt_providerSessionId tok = Some sid"
    and "consumeProviderLogoutToken fails p tok now st = (Inr n, st')"
  shows "(\<forall>i. map_of (sessionRows st') i =
      (if map_of (correlations st) (p, BySession, sid, i) \<noteq> None \<and>
          map_option revokedAt (map_of (sessionRows st) i) = Some None
       then map_option (revoke_row now) (map_of (sessionRows st) i) else map_of (sessionRows st) i)) \<and>
    (\<forall>i r. map_of (sessionRows st) i = Some r \<and> map_of (sessionRows st') i \<noteq> Some r \<longrightarrow>
       provider r = p \<and> providerSessionId r = sid) \<and>
    (\<exists>e. consumeProviderLogoutToken fails' p tok later st' = (Inl e, st'))"
proof -
  let ?revokes = "\<lambda>st1. map (\<lambda>i. PatchRevoke i (Iso now)) (map as_id (active_sessions p BySession sid st1))"
  obtain st1 where st1: "apply_write (PutLogoutToken p (lt_tokenId tok) (lt_expiresAtEpochSeconds tok)) st = Inr st1"
      and run: "run_all fails (?revokes st1) st1 = (None, st')"
    using assms(2,3)
    by (auto simp: consumeProviderLogoutToken_def revokeAuthSessionsByCorrelation_def Let_def comp_def run_write_None
        split: if_splits prod.splits option.splits)
  have same: "sessionRows st1 = sessionRows st" "correlations st1 = correlations st"
    using st1 by (auto split: if_splits)
  have "wf_auth st1" using wf_auth_step [OF auth_step.land [OF _ st1] assms(1)] by simp
  note rows = run_revokes [OF run, unfolded set_map active_ids [OF this] same]
  have "map_of (logoutTokens st') (p, lt_tokenId tok) \<noteq> None"
    using rows st1 by (auto split: if_splits)
  then have again: "\<exists>e. consumeProviderLogoutToken fails' p tok later st' = (Inl e, st')"
    by (auto simp: consumeProviderLogoutToken_def run_write_def split: option.split)
  have "provider r = p \<and> providerSessionId r = sid"
    if r: "map_of (sessionRows st) i = Some r" "map_of (sessionRows st') i \<noteq> Some r" for i r
  proof -
    obtain y where "map_of (correlations st) (p, BySession, sid, i) = Some y"
      using r rows [of i] by (auto split: if_splits)
    from wf_auth_pointer [OF assms(1) this r(1)] show ?thesis by (simp add: names_pointer_def)
  qed
  with rows again show ?thesis by blast
qed

section \<open>Instances\<close>

definition shauth_input :: "string \<Rightarrow> create_session_input" where
  "shauth_input sid =
     \<lparr>in_ownerId = ''alice'', in_role = Developer, in_provider = Some ''shauth'', in_providerSubject = Some ''sub-1'',
      in_providerSessionId = Some sid, in_providerIdToken = None\<rparr>"

definition empty_auth :: auth_store where
  "empty_auth = \<lparr>sessionRows = [], correlations = [], logoutTokens = [], issued = []\<rparr>"

text \<open>Two sessions of one account, of two sessions at the provider.\<close>

definition two_sessions :: auth_store where
  "two_sessions = snd (createAuthSession (\<lambda>_. None) (shauth_input ''sid-2'') ''s2'' 1000
     (snd (createAuthSession (\<lambda>_. None) (shauth_input ''sid-1'') ''s1'' 0 empty_auth)))"

definition logout_one :: provider_logout_token where
  "logout_one = \<lparr>lt_tokenId = ''jti-1'', lt_expiresAtEpochSeconds = 60, lt_providerSessionId = Some ''sid-1'',
     lt_providerSubject = Some ''sub-1''\<rparr>"

definition token_for :: "string \<Rightarrow> session_token" where
  "token_for i = \<lparr>tk_authSessionVersion = Some 3, tk_authSessionId = Text i, tk_uid = Text ''alice'',
     tk_role = Text ''developer''\<rparr>"

lemma run_write_steps: "fresh_write w st \<Longrightarrow> auth_step\<^sup>*\<^sup>* st (snd (run_write fails w st))"
  by (auto simp: run_write_def intro: auth_step.land split: option.split sum.split)

lemma wf_auth_steps: "\<lbrakk>auth_step\<^sup>*\<^sup>* st st'; wf_auth st\<rbrakk> \<Longrightarrow> wf_auth st'"
  by (induction rule: rtranclp_induct) (auto intro: wf_auth_step)

lemma create_wf:
  assumes "wf_auth st" and "uuid \<notin> set (issued st)"
  shows "wf_auth (snd (createAuthSession fails inp uuid now st))"
proof -
  have "snd (createAuthSession fails inp uuid now st) = snd (run_write fails
      (if provider (new_auth_row inp uuid now) = ''shauth'' then PutCorrelated (new_auth_row inp uuid now)
       else PutSession (new_auth_row inp uuid now)) st)"
    by (simp add: createAuthSession_def Let_def split: prod.split option.split)
  also have "auth_step\<^sup>*\<^sup>* st \<dots>" using assms(2) by (intro run_write_steps) (simp add: new_auth_row_def)
  finally show ?thesis using assms(1) by (rule wf_auth_steps)
qed

lemma two_sessions_wf: "wf_auth two_sessions"
proof -
  have "wf_auth empty_auth" by (simp add: wf_auth_def empty_auth_def)
  moreover have "''s1'' \<notin> set (issued empty_auth)"
    "''s2'' \<notin> set (issued (snd (createAuthSession (\<lambda>_. None) (shauth_input ''sid-1'') ''s1'' 0 empty_auth)))" by code_simp+
  ultimately show ?thesis unfolding two_sessions_def by (intro create_wf)
qed

theorem revocation_is_final_witness:
  "validateAuthSessionToken (token_for ''s1'') 2000 two_sessions \<noteq> Inr None \<and>
   validateAuthSessionToken (token_for ''s1'') 3000
     (snd (run_write (\<lambda>_. None) (PatchRefresh ''s1'' 2000) (snd (revokeAuthSession (\<lambda>_. None) ''s1'' 2500 two_sessions)))) = Inr None"
proof -
  let ?st = "snd (revokeAuthSession (\<lambda>_. None) ''s1'' 2500 two_sessions)"
  have "snd (revokeAuthSession (\<lambda>_. None) ''s1'' 2500 two_sessions) =
      snd (run_write (\<lambda>_. None) (PatchRevoke ''s1'' (Iso 2500)) two_sessions)" by code_simp
  then have "wf_auth ?st" using wf_auth_steps [OF run_write_steps two_sessions_wf] by simp
  moreover have "map_option revokedAt (map_of (sessionRows ?st) ''s1'') = Some (Some (Iso 2500))" by code_simp
  moreover have "validateAuthSessionToken (token_for ''s1'') 2000 two_sessions \<noteq> Inr None" by code_simp
  ultimately show ?thesis
    using revocation_is_final [of ?st "''s1''" _ "snd (run_write (\<lambda>_. None) (PatchRefresh ''s1'' 2000) ?st)" "token_for ''s1''" 3000]
      run_write_steps [of "PatchRefresh ''s1'' 2000" ?st "\<lambda>_. None"]
    by (auto simp: token_for_def)
qed

theorem logout_token_exact_witness:
  "\<exists>st'. consumeProviderLogoutToken (\<lambda>_. None) ''shauth'' logout_one 5000 two_sessions = (Inr 1, st') \<and>
     map_option revokedAt (map_of (sessionRows st') ''s1'') = Some (Some (Iso 5000)) \<and>
     map_of (sessionRows st') ''s2'' = map_of (sessionRows two_sessions) ''s2''"
proof -
  obtain st' where st': "consumeProviderLogoutToken (\<lambda>_. None) ''shauth'' logout_one 5000 two_sessions = (Inr 1, st')"
  proof -
    have "fst (consumeProviderLogoutToken (\<lambda>_. None) ''shauth'' logout_one 5000 two_sessions) = Inr 1" by code_simp
    then show thesis using that by (metis prod.collapse)
  qed
  have "map_of (correlations two_sessions) (''shauth'', BySession, ''sid-1'', ''s1'') \<noteq> None"
    "map_of (correlations two_sessions) (''shauth'', BySession, ''sid-1'', ''s2'') = None"
    "map_option revokedAt (map_of (sessionRows two_sessions) ''s1'') = Some None" by code_simp+
  moreover have "map_option (revokedAt \<circ> revoke_row 5000) (map_of (sessionRows two_sessions) ''s1'') = Some (Some (Iso 5000))"
    by code_simp
  ultimately show ?thesis
    using st' logout_token_exact [OF two_sessions_wf _ st', of "''sid-1''"]
    by (auto simp: logout_one_def option.map_comp)
qed

section \<open>A logout that is lost\<close>

definition throttled :: write_faults where
  "throttled w = (case w of PatchRevoke _ _ \<Rightarrow> Some (plain_error ''ThrottlingException'' ''slow down'') | _ \<Rightarrow> None)"

text \<open>
  A logout is lost where revoking fails once. The token is marked consumed before the
  sessions it names are revoked, so where a revocation is refused (a throttled write), the
  request fails, the session stays valid, and every later delivery of the same token, with
  nothing failing, is refused as a replay and leaves the session valid.
\<close>

theorem lost_logout:
  "(let first = consumeProviderLogoutToken throttled ''shauth'' logout_one 5000 two_sessions;
        again = consumeProviderLogoutToken (\<lambda>_. None) ''shauth'' logout_one 6000 (snd first)
    in (isl (fst first), isl (fst again),
        map_sum id (map_option va_id) (validateAuthSessionToken (token_for ''s1'') 7000 (snd again)))) =
   (True, True, Inr (Some ''s1''))"
  by code_simp

end
