(* ===== verification/Proxy_Props.thy ===== *)
theory Proxy_Props
  imports Proxy Auth_Sessions_Props
begin

text \<open>
  Properties of the proxy: nothing reaches a workspace but the requests of its owner or an
  administrator with a live session, and nothing of the portal's session reaches it at all.
\<close>

section \<open>Splitting and joining\<close>

lemma split_on_nonempty [simp]: "split_on c s \<noteq> []"
  by (induction s) (auto split: list.split)

lemma split_on_none: "c \<notin> set s \<Longrightarrow> split_on c s = [s]"
  by (induction s) auto

lemma split_on_append: "c \<notin> set s \<Longrightarrow> split_on c (s @ c # t) = s # split_on c t"
  by (induction s) auto

lemma split_on_parts: "p \<in> set (split_on c s) \<Longrightarrow> c \<notin> set p"
  by (induction s arbitrary: p) (auto split: if_splits list.splits)

lemma trim_set: "set (trim s) \<subseteq> set s"
  unfolding trim_def using set_dropWhileD by (metis set_rev subsetI)

lemma dropWhile_id: "dropWhile P xs = xs \<longleftrightarrow> xs = [] \<or> \<not> P (hd xs)"
proof (cases xs)
  case (Cons x ys)
  have "length (dropWhile P ys) \<le> length ys" by (rule length_dropWhile_le)
  then have "dropWhile P ys \<noteq> x # ys" by (metis impossible_Cons)
  then show ?thesis using Cons by auto
qed simp

lemma trim_idem [simp]: "trim (trim s) = trim s"
proof -
  define u where "u = dropWhile is_space s"
  define t where "t = dropWhile is_space (rev u)"
  have "dropWhile is_space (rev t) = rev t"
  proof (cases "t = []")
    case False
    then have "u \<noteq> []" by (auto simp: t_def)
    have "last t = last (rev u)"
      using False takeWhile_dropWhile_id [of is_space "rev u"] unfolding t_def by (metis last_appendR)
    then have "hd (rev t) = hd u" using False \<open>u \<noteq> []\<close> by (simp add: hd_rev last_rev)
    then show ?thesis using \<open>u \<noteq> []\<close> hd_dropWhile [of is_space s] by (simp add: dropWhile_id u_def)
  qed simp
  moreover have "dropWhile is_space t = t" by (simp add: t_def)
  ultimately show ?thesis by (simp add: trim_def flip: u_def t_def)
qed

lemma trim_space [simp]: "trim (CHR '' '' # s) = trim s"
  by (simp add: trim_def is_space_def)

definition parts_of :: "string \<Rightarrow> string list" where
  "parts_of h = filter (\<lambda>p. p \<noteq> []) (map trim (split_on CHR '';'' h))"

lemma parts_join:
  "\<lbrakk>list_all (\<lambda>p. p \<noteq> [] \<and> trim p = p \<and> CHR '';'' \<notin> set p) ps\<rbrakk> \<Longrightarrow> parts_of (join_with ''; '' ps) = ps"
proof (induction "''; ''" ps rule: join_with.induct)
  case (3 x y ys)
  have sp: "parts_of (CHR '' '' # s) = parts_of s" for s
  proof (cases "split_on CHR '';'' s")
    case (Cons a as)
    then show ?thesis by (simp add: parts_of_def)
  qed simp
  have "parts_of (x @ ''; '' @ t) = x # parts_of (CHR '' '' # t)" for t
    using 3(2) split_on_append [of "CHR '';''" x "CHR '' '' # t"] by (simp add: parts_of_def del: split_on.simps)
  then show ?case using 3 sp by simp
qed (simp_all add: parts_of_def split_on_none trim_def)

lemma strip_parts:
  "map_option parts_of (stripSessionCookie c) =
     (let kept = filter (\<lambda>p. \<not> isSessionCookie (cookie_name p)) (parts_of (or_empty c))
      in if kept = [] then None else Some kept)"
proof (cases c)
  case None
  then show ?thesis by (simp add: stripSessionCookie_def parts_of_def or_empty_def trim_def)
next
  case (Some h)
  let ?kept = "filter (\<lambda>p. \<not> isSessionCookie (cookie_name p)) (parts_of h)"
  have kept: "filter (\<lambda>p. p \<noteq> [] \<and> \<not> isSessionCookie (cookie_name p)) (map trim (split_on CHR '';'' h)) = ?kept"
    by (simp add: parts_of_def conj_commute)
  have "list_all (\<lambda>p. p \<noteq> [] \<and> trim p = p \<and> CHR '';'' \<notin> set p) ?kept"
    using split_on_parts trim_set by (fastforce simp: list_all_iff parts_of_def)
  then have "parts_of (join_with ''; '' ?kept) = ?kept" by (rule parts_join)
  then show ?thesis using kept Some by (simp add: stripSessionCookie_def or_empty_def Let_def)
qed

lemma upstream_headersE:
  assumes "upstream_headers hmac base64 env host h context = Inr h'"
  obtains a where "h' = (if map_option snd context \<in> {Some Opencode, Some Openvscode}
      then h(''host'' := Some host, ''cookie'' := stripSessionCookie (h ''cookie''), ''authorization'' := a, ''accept-encoding'' := None)
      else h(''host'' := Some host, ''cookie'' := stripSessionCookie (h ''cookie''), ''authorization'' := a))"
    and "a = None \<and> (\<nexists>i. context = Some (i, Opencode)) \<or>
      (\<exists>i token. context = Some (i, Opencode) \<and> a = Some (''Basic '' @ base64 (''opencode:'' @ token)) \<and>
        deriveWorkspaceToken hmac (or_empty (env ''EDD_CONNECTION_SECRET'')) i = Inr token)"
proof (cases "\<exists>i. context = Some (i, Opencode)")
  case True
  then obtain i where i: "context = Some (i, Opencode)" by blast
  then obtain token where "deriveWorkspaceToken hmac (or_empty (env ''EDD_CONNECTION_SECRET'')) i = Inr token"
    using assms by (cases "deriveWorkspaceToken hmac (or_empty (env ''EDD_CONNECTION_SECRET'')) i")
      (auto simp: upstream_headers_def opencodeProxyAuthorization_def Let_def split: if_splits)
  then show thesis using assms i that [of "Some (''Basic '' @ base64 (''opencode:'' @ token))"]
    by (auto simp: upstream_headers_def opencodeProxyAuthorization_def Let_def split: if_splits)
next
  case False
  then show thesis using assms that [of None]
    by (auto simp: upstream_headers_def Let_def split: if_splits option.splits prod.splits editor_kind.splits)
qed

text \<open>
  C27. The portal's session never enters a workspace. The cookies forwarded are exactly the
  cookies received, in their order, less those that carry the session token; the
  authorization header of the caller is never forwarded, and where one is sent it is the
  workspace's own connection token, for opencode alone; every other header but the host and
  the accepted encodings is forwarded as received.
\<close>

theorem session_cookie_is_withheld:
  assumes "upstream_headers hmac base64 env host h context = Inr h'"
  shows "map_option parts_of (h' ''cookie'') =
      (let kept = filter (\<lambda>p. \<not> isSessionCookie (cookie_name p)) (parts_of (or_empty (h ''cookie'')))
       in if kept = [] then None else Some kept) \<and>
    (h' ''authorization'' = None \<and> (\<nexists>i. context = Some (i, Opencode)) \<or>
     (\<exists>i token. context = Some (i, Opencode) \<and> h' ''authorization'' = Some (''Basic '' @ base64 (''opencode:'' @ token)) \<and>
        deriveWorkspaceToken hmac (or_empty (env ''EDD_CONNECTION_SECRET'')) i = Inr token)) \<and>
    (\<forall>k. k \<notin> {''cookie'', ''authorization'', ''host'', ''accept-encoding''} \<longrightarrow> h' k = h k)"
proof -
  from assms obtain a where h': "h' = (if map_option snd context \<in> {Some Opencode, Some Openvscode}
      then h(''host'' := Some host, ''cookie'' := stripSessionCookie (h ''cookie''), ''authorization'' := a, ''accept-encoding'' := None)
      else h(''host'' := Some host, ''cookie'' := stripSessionCookie (h ''cookie''), ''authorization'' := a))"
    and a: "a = None \<and> (\<nexists>i. context = Some (i, Opencode)) \<or>
      (\<exists>i token. context = Some (i, Opencode) \<and> a = Some (''Basic '' @ base64 (''opencode:'' @ token)) \<and>
        deriveWorkspaceToken hmac (or_empty (env ''EDD_CONNECTION_SECRET'')) i = Inr token)"
    by (rule upstream_headersE)
  have "h' ''cookie'' = stripSessionCookie (h ''cookie'')" "h' ''authorization'' = a"
    "\<forall>k. k \<notin> {''cookie'', ''authorization'', ''host'', ''accept-encoding''} \<longrightarrow> h' k = h k"
    by (simp_all add: h')
  then show ?thesis using a by (simp add: strip_parts)
qed

section \<open>Who is let through\<close>

lemma live_session:
  assumes "liveSessionToken env getToken st now c purpose = Inr (Some (token, v))"
  obtains secure i r where "getToken c secure = Some token" and "tk_authSessionId token = Text i"
    and "map_of (sessionRows st) i = Some r" and "revokedAt r = None" and "expiresAt r = Iso (expiresAtMs v)"
    and "now < expiresAtMs v" and "tk_uid token = Text (as_ownerId r)" and "tk_role token = Text (role_name (as_role r))"
proof -
  obtain secure where "getToken c secure = Some token"
    and "validateAuthSessionToken (session_token.truncate token) now st = Inr (Some v)"
    using assms by (auto simp: liveSessionToken_def split: option.splits if_splits sum.splits)
  then show thesis using that by (auto simp: validate_iff session_token.defs)
qed

lemma authorizeWorkspace_allow:
  assumes "authorizeWorkspace env getToken st now inspect cookie i = Inr (Allow x who ed rdy ste)"
  shows "\<exists>token v ws. liveSessionToken env getToken st now (or_empty cookie) ''workspace-proxy'' = Inr (Some (token, v)) \<and>
    inspect i = Inr (Some ws) \<and>
    decideWorkspaceAccessBySubject (subject_of token) (tk_role token = Text ''admin'') (ownerId ws) \<and>
    x \<le> expiresAtMs v \<and> who = (case subject_of token of Some s \<Rightarrow> s | None \<Rightarrow> ''(no uid)'') \<and>
    (rdy \<longleftrightarrow> state ws = Running \<and> functional ws = Some Healthy)"
proof -
  obtain token v where live: "liveSessionToken env getToken st now (or_empty cookie) ''workspace-proxy'' = Inr (Some (token, v))"
    using assms by (auto simp: authorizeWorkspace_def split: sum.splits option.splits)
  then obtain ws where ws: "inspect i = Inr (Some ws)"
    using assms by (auto simp: authorizeWorkspace_def split: sum.splits option.splits)
  have "x \<le> expiresAtMs v"
    using assms live ws by (auto simp: authorizeWorkspace_def split: if_splits option.splits)
  moreover have "decideWorkspaceAccessBySubject (subject_of token) (tk_role token = Text ''admin'') (ownerId ws) \<and>
      who = (case subject_of token of Some s \<Rightarrow> s | None \<Rightarrow> ''(no uid)'') \<and>
      (rdy \<longleftrightarrow> state ws = Running \<and> functional ws = Some Healthy)"
    using assms live ws by (simp add: authorizeWorkspace_def split: if_splits, blast)
  ultimately show ?thesis using live ws by blast
qed

lemma role_name_admin: "role_name r = ''admin'' \<longleftrightarrow> r = Admin"
  by (cases r) simp_all

lemma allow_row:
  assumes "authorizeWorkspace env getToken st now inspect cookie i = Inr (Allow x who ed rdy ste)"
  obtains s ws e where "s \<in> ran (map_of (sessionRows st))" and "revokedAt s = None" and "expiresAt s = Iso e"
    and "now < e" and "inspect i = Inr (Some ws)" and "as_role s = Admin \<or> as_ownerId s = ownerId ws" and "x \<le> e"
    and "rdy \<longleftrightarrow> state ws = Running \<and> functional ws = Some Healthy"
proof -
  obtain token v ws where live: "liveSessionToken env getToken st now (or_empty cookie) ''workspace-proxy'' =
        Inr (Some (token, v))" and ws: "inspect i = Inr (Some ws)"
      and dec: "decideWorkspaceAccessBySubject (subject_of token) (tk_role token = Text ''admin'') (ownerId ws)"
      and x: "x \<le> expiresAtMs v" and rdy: "rdy \<longleftrightarrow> state ws = Running \<and> functional ws = Some Healthy"
    using authorizeWorkspace_allow [OF assms] by blast
  from live obtain secure sid s where s: "map_of (sessionRows st) sid = Some s" "revokedAt s = None"
      "expiresAt s = Iso (expiresAtMs v)" "now < expiresAtMs v" "tk_uid token = Text (as_ownerId s)"
      "tk_role token = Text (role_name (as_role s))" by (rule live_session)
  have "as_role s = Admin \<or> as_ownerId s = ownerId ws"
    using dec s(5,6) by (auto simp: decideWorkspaceAccessBySubject_def subject_of_def role_name_admin split: if_splits)
  moreover have "s \<in> ran (map_of (sessionRows st))" using s(1) by (rule ranI)
  ultimately show thesis using that ws rdy x s(2-4) by blast
qed

lemma parts_of_empty [simp]: "parts_of [] = []"
  by (simp add: parts_of_def trim_def)

lemma forward_headers:
  assumes "forward_to hmac base64 env parse resolved req i ed = Some r"
  shows "up_headers r ''cookie'' = stripSessionCookie (rq_headers req ''cookie'') \<and>
    up_headers r ''authorization'' \<in> {None} \<union> {Some (''Basic '' @ base64 (''opencode:'' @ t)) | t.
      ed = Opencode \<and> deriveWorkspaceToken hmac (or_empty (env ''EDD_CONNECTION_SECRET'')) i = Inr t}"
proof -
  obtain host where "upstream_headers hmac base64 env host (rq_headers req) (Some (i, ed)) = Inr (up_headers r)"
    using assms by (auto simp: forward_to_def upstreamOptions_def map_sum_def split: sum.splits)
  then show ?thesis by (rule upstream_headersE) auto
qed

lemma proxied_requestE:
  assumes "handle_request hmac base64 env getToken parse encode st now inspect connect reinspect req = ProxyTo i r"
  obtains x who ed rdy ste resolved ed' where "workspaceIdFromPath (or_empty (rq_url req)) = Some i"
    and "authorizeWorkspace env getToken st now inspect (rq_headers req ''cookie'') i = Inr (Allow x who ed rdy ste)"
    and "isWorkspaceDocumentNavigation parse req i \<longrightarrow> rdy"
    and "forward_to hmac base64 env parse resolved req i ed' = Some r"
  using assms by (auto simp: handle_request_def split: option.splits sum.splits workspace_authz.splits if_splits)


text \<open>
  Who may spectate. A stream is published only by a live session of the workspace's owner,
  administrators not excepted, and watched only by a live session; both only while the
  workspace is shared.
\<close>

theorem spectating_needs_sharing:
  assumes "authorizeSpectate env getToken st now inspect cookie i role = Inr (SpectateAllow role')"
  shows "role' = role \<and> (\<exists>r e ws. r \<in> ran (map_of (sessionRows st)) \<and> revokedAt r = None \<and> expiresAt r = Iso e \<and> now < e \<and>
    inspect i = Inr (Some ws) \<and> shareEnabled ws = Some True \<and> (role = Publish \<longrightarrow> as_ownerId r = ownerId ws))"
proof -
  obtain token v ws where live: "liveSessionToken env getToken st now (or_empty cookie) ''spectate'' = Inr (Some (token, v))"
      and ws: "inspect i = Inr (Some ws)" "shareEnabled ws = Some True" and role: "role' = role"
      and own: "role = Publish \<longrightarrow> tk_uid token = Text (ownerId ws)"
    using assms by (auto simp: authorizeSpectate_def split: option.splits sum.splits if_splits spectate_role.splits claim.splits)
  from live obtain secure sid r where r: "map_of (sessionRows st) sid = Some r" "revokedAt r = None"
      "expiresAt r = Iso (expiresAtMs v)" "now < expiresAtMs v" "tk_uid token = Text (as_ownerId r)"
    by (rule live_session)
  then show ?thesis using ws role own ranI [of "map_of (sessionRows st)" sid r] by auto
qed

section \<open>The memory of a rewrite\<close>

text \<open>
  The memory a response takes. However an upstream cuts its response into chunks, what is
  held for rewriting never exceeds the cap; the body is refused exactly if the response
  exceeds it, and is otherwise the response, byte for byte.
\<close>

theorem rewrite_memory_bounded:
  "length (concat (rb_chunks (fold on_data chunks empty_buffer))) \<le> WORKSPACE_PROXY_MAX_REWRITE_BYTES \<and>
   on_end (fold on_data chunks empty_buffer) =
     (if length (concat chunks) \<le> WORKSPACE_PROXY_MAX_REWRITE_BYTES then Some (concat chunks) else None)"
proof -
  have "(if length (concat chunks) \<le> WORKSPACE_PROXY_MAX_REWRITE_BYTES
        then fold on_data chunks empty_buffer = \<lparr>rb_chunks = chunks, rb_bytes = length (concat chunks), overCap = False\<rparr>
        else overCap (fold on_data chunks empty_buffer) \<and> rb_chunks (fold on_data chunks empty_buffer) = [])"
  proof (induction chunks rule: rev_induct)
    case (snoc x xs)
    show ?case
      using snoc by (cases "length (concat xs) \<le> WORKSPACE_PROXY_MAX_REWRITE_BYTES")
        (simp_all add: on_data_def [of x] Let_def)
  qed (simp add: empty_buffer_def)
  then show ?thesis by (auto simp: on_end_def split: if_splits)
qed

section \<open>Instances\<close>

text \<open>A shared, running workspace of the account of the sample sessions, and a page load of its owner.\<close>

definition proxied_ws :: workspace where
  "proxied_ws = sample_ws\<lparr>ownerId := ''alice'', state := Running, functional := Some Healthy, shareEnabled := Some True,
     sshHost := Some ''10.0.0.1''\<rparr>"

definition owner_jwt :: jwt where
  "owner_jwt = \<lparr>tk_authSessionVersion = Some 3, tk_authSessionId = Text ''s1'', tk_uid = Text ''alice'',
     tk_role = Text ''developer'', tk_exp = Some 100\<rparr>"

definition plain_url :: "string \<Rightarrow> url" where
  "plain_url u = \<lparr>pathname = u, search = [], param = (\<lambda>_. None), with_param = (\<lambda>k v. ''?'' @ k @ ''='' @ v)\<rparr>"

definition owner_request :: http_request where
  "owner_request = \<lparr>rq_method = Some ''GET'', rq_url = Some ''/w/ws-1/'',
     rq_headers = [''cookie'' \<mapsto> ''authjs.session-token=x; theme=dark'', ''accept'' \<mapsto> ''text/html'']\<rparr>"

definition proxy_env :: environment where
  "proxy_env = [''AUTH_SECRET'' \<mapsto> ''s'']"

theorem session_cookie_is_withheld_witness:
  "\<exists>h'. upstream_headers (\<lambda>k m. m) id proxy_env ''10.0.0.1'' (rq_headers owner_request) (Some (''ws-1'', Monaco)) = Inr h' \<and>
     map_option parts_of (h' ''cookie'') = Some [''theme=dark''] \<and> h' ''authorization'' = None"
proof -
  let ?h = "rq_headers owner_request"
  obtain h' where h': "upstream_headers (\<lambda>k m. m) id proxy_env ''10.0.0.1'' ?h (Some (''ws-1'', Monaco)) = Inr h'"
    by (simp add: upstream_headers_def Let_def)
  have "filter (\<lambda>p. \<not> isSessionCookie (cookie_name p)) (parts_of (or_empty (?h ''cookie''))) = [''theme=dark'']"
    by code_simp
  with session_cookie_is_withheld [OF h'] h' show ?thesis by auto
qed


theorem spectating_needs_sharing_witness:
  "\<exists>r (ws :: workspace). r \<in> ran (map_of (sessionRows two_sessions)) \<and> revokedAt r = None \<and> shareEnabled ws = Some True \<and>
     as_ownerId r = ownerId ws"
proof -
  have "authorizeSpectate proxy_env (\<lambda>_ _. Some owner_jwt) two_sessions 1000 (\<lambda>_. Inr (Some proxied_ws))
      (Some ''authjs.session-token=x'') ''ws-1'' Publish = Inr (SpectateAllow Publish)" by code_simp
  from spectating_needs_sharing [OF this] show ?thesis by blast
qed

end
