(* ===== verification/Live.thy ===== *)
theory Live
  imports Proxy_Props Reconciler_Props Cost_Service
begin

text \<open>
  Live connections of one replica of the control plane: the presence registry and its sweep
  (\<^verbatim>\<open>apps/web/lib/workspace-presence.ts\<close>), the spectate relay (\<^verbatim>\<open>apps/web/lib/spectate-relay.ts\<close>)
  and the upgrade handler of the server (\<^verbatim>\<open>apps/web/server.ts\<close>), which connects both with the
  authorization of theory \<open>Proxy\<close> and the heartbeat of the service.

  Maps and sets of JavaScript keep insertion order and are lists here. Sockets are numbers;
  \<open>throws\<close> says which of them throw when written to. \<open>frame_type\<close> is the outcome of reading the
  type of a frame: nothing where \<^verbatim>\<open>JSON.parse\<close> or the access throws, otherwise the string in
  its field \<^verbatim>\<open>t\<close>, if it is one.
\<close>

section \<open>Presence\<close>

record tracked_connection =
  tc_wsId :: string
  tc_sessionExpiresAtMs :: int

record presence_registry =
  pr_nextId :: nat
  pr_conns :: "(nat \<times> tracked_connection) list"

definition empty_presence :: presence_registry where
  "empty_presence = \<lparr>pr_nextId = 1, pr_conns = []\<rparr>"

definition presence_track :: "string \<Rightarrow> int \<Rightarrow> presence_registry \<Rightarrow> nat \<times> presence_registry" where
  "presence_track i expires p =
     (pr_nextId p, \<lparr>pr_nextId = pr_nextId p + 1,
        pr_conns = pr_conns p @ [(pr_nextId p, \<lparr>tc_wsId = i, tc_sessionExpiresAtMs = expires\<rparr>)]\<rparr>)"

definition presence_untrack :: "nat \<Rightarrow> presence_registry \<Rightarrow> presence_registry" where
  "presence_untrack n p = p\<lparr>pr_conns := filter (\<lambda>(k, _). k \<noteq> n) (pr_conns p)\<rparr>"

definition loadedWorkspaces :: "int \<Rightarrow> presence_registry \<Rightarrow> string list \<times> presence_registry" where
  "loadedWorkspaces nowMs p =
     (let live = filter (\<lambda>(_, c). \<not> tc_sessionExpiresAtMs c \<le> nowMs) (pr_conns p)
      in (js_set (map (tc_wsId \<circ> snd) live), p\<lparr>pr_conns := live\<rparr>))"

definition presence_size :: "presence_registry \<Rightarrow> nat" where
  "presence_size p = length (pr_conns p)"

definition PRESENCE_SWEEP_MS :: int where
  "PRESENCE_SWEEP_MS = 60 * 1000"

definition PRESENT :: heartbeat_report where
  "PRESENT = \<lparr>hr_functional = None, hr_active = Some True, hr_sessions = None\<rparr>"

fun presence_beats :: "'p deps \<Rightarrow> string list \<Rightarrow> ('p, unit) act" where
  "presence_beats d [] = ret ()"
| "presence_beats d (i # is) =
     bindM (tryM (discard (svc_heartbeat d i PRESENT)) (\<lambda>e. ret ())) (\<lambda>_. presence_beats d is)"

definition sweepPresence ::
  "'p deps \<Rightarrow> presence_registry \<Rightarrow> int \<Rightarrow> presence_registry \<times> ('p, unit) act" where
  "sweepPresence d registry nowMs =
     (let (loaded, registry') = loadedWorkspaces nowMs registry in (registry', presence_beats d loaded))"

section \<open>The spectate relay\<close>

definition SNAPSHOT_TYPES :: "string list" where
  "SNAPSHOT_TYPES = [''file'', ''cursor'', ''focus'', ''tabs'', ''mouse'']"

definition NO_PUBLISHER_CODE :: nat where
  "NO_PUBLISHER_CODE = 4404"

definition SHARING_ENDED_CODE :: nat where
  "SHARING_ENDED_CODE = 4410"

record channel =
  publisher :: nat
  subscribers :: "nat list"
  ch_snapshot :: "(string \<times> string) list"

type_synonym spectate_relay = "(string \<times> channel) list"

datatype relay_effect =
    SendFrame nat string
  | CloseSocket nat nat

definition relay_publish :: "string \<Rightarrow> nat \<Rightarrow> spectate_relay \<Rightarrow> relay_effect list \<times> spectate_relay" where
  "relay_publish i sock r =
     (case map_of r i of
        Some ch \<Rightarrow>
          ([CloseSocket (publisher ch) 1000], AList.update i (ch\<lparr>publisher := sock, ch_snapshot := []\<rparr>) r)
      | None \<Rightarrow> ([], AList.update i \<lparr>publisher = sock, subscribers = [], ch_snapshot = []\<rparr> r))"

definition relay_unpublish :: "string \<Rightarrow> nat \<Rightarrow> spectate_relay \<Rightarrow> relay_effect list \<times> spectate_relay" where
  "relay_unpublish i sock r =
     (case map_of r i of
        None \<Rightarrow> ([], r)
      | Some ch \<Rightarrow>
          if publisher ch \<noteq> sock then ([], r)
          else (map (\<lambda>s. CloseSocket s SHARING_ENDED_CODE) (subscribers ch), AList.delete i r))"

type_synonym frame_type = "string \<Rightarrow> string option option"

definition cache_frame :: "frame_type \<Rightarrow> string \<Rightarrow> channel \<Rightarrow> channel" where
  "cache_frame frame_type frame ch =
     (case frame_type frame of
        Some (Some t) \<Rightarrow>
          if t \<in> set SNAPSHOT_TYPES then ch\<lparr>ch_snapshot := AList.update t frame (ch_snapshot ch)\<rparr> else ch
      | _ \<Rightarrow> ch)"

definition relay_forward ::
  "frame_type \<Rightarrow> (nat \<Rightarrow> bool) \<Rightarrow> string \<Rightarrow> string \<Rightarrow> spectate_relay \<Rightarrow> relay_effect list \<times> spectate_relay" where
  "relay_forward frame_type throws i frame r =
     (case map_of r i of
        None \<Rightarrow> ([], r)
      | Some ch \<Rightarrow>
          if frame_type frame = None then ([], r)
          else let reached = filter (\<lambda>s. \<not> throws s) (subscribers ch) in
            (map (\<lambda>s. SendFrame s frame) reached,
             AList.update i ((cache_frame frame_type frame ch)\<lparr>subscribers := reached\<rparr>) r))"

text \<open>The answer is whether the replica has a publisher; the replay may throw after the socket was
  added.\<close>

definition relay_subscribe ::
  "(nat \<Rightarrow> bool) \<Rightarrow> string \<Rightarrow> nat \<Rightarrow> spectate_relay \<Rightarrow> (js_error + bool) \<times> relay_effect list \<times> spectate_relay" where
  "relay_subscribe throws i sock r =
     (case map_of r i of
        None \<Rightarrow> (Inr False, [], r)
      | Some ch \<Rightarrow>
          let r' = AList.update i (ch\<lparr>subscribers := js_set (subscribers ch @ [sock])\<rparr>) r in
          if throws sock \<and> ch_snapshot ch \<noteq> []
          then (Inl (plain_error ''Error'' ''WebSocket is not open''), [], r')
          else (Inr True, map (\<lambda>(_, frame). SendFrame sock frame) (ch_snapshot ch), r'))"

definition relay_unsubscribe :: "string \<Rightarrow> nat \<Rightarrow> spectate_relay \<Rightarrow> spectate_relay" where
  "relay_unsubscribe i sock r =
     (case map_of r i of
        None \<Rightarrow> r
      | Some ch \<Rightarrow> AList.update i (ch\<lparr>subscribers := filter (\<lambda>s. s \<noteq> sock) (subscribers ch)\<rparr>) r)"

definition hasPublisher :: "string \<Rightarrow> spectate_relay \<Rightarrow> bool" where
  "hasPublisher i r \<longleftrightarrow> map_of r i \<noteq> None"

definition subscriberCount :: "string \<Rightarrow> spectate_relay \<Rightarrow> nat" where
  "subscriberCount i r = (case map_of r i of None \<Rightarrow> 0 | Some ch \<Rightarrow> length (subscribers ch))"

section \<open>Upgrades\<close>

definition path_word :: "char \<Rightarrow> bool" where
  "path_word c \<longleftrightarrow> is_digit c \<or> is_lower (lower c) \<or> c = CHR ''_'' \<or> c = CHR ''-''"

definition role_of_path :: "string \<Rightarrow> spectate_role option" where
  "role_of_path s = (if s = ''publish'' then Some Publish else if s = ''subscribe'' then Some Subscribe else None)"

definition SPECTATE_PREFIX :: string where
  "SPECTATE_PREFIX = ''/api/spectate/''"

definition spectatePathParts :: "string \<Rightarrow> (string \<times> spectate_role) option" where
  "spectatePathParts u =
     (let path = hd (split_on CHR ''?'' u) in
      if \<not> starts_with SPECTATE_PREFIX path then None
      else case split_on CHR ''/'' (drop (length SPECTATE_PREFIX) path) of
        [i, role] \<Rightarrow>
          if i \<noteq> [] \<and> list_all path_word i then map_option (Pair i) (role_of_path role) else None
      | _ \<Rightarrow> None)"

datatype upgrade_reply =
    NextUpgrade
  | RefuseUpgrade nat
  | JoinRelay string spectate_role
  | Tunnel string upstream_request
  | UpgradeCrash js_error

text \<open>
  An upgrade is answered by joining the relay, by a tunnel to the workspace or by a refusal.
  The connection is tracked before its upstream is resolved; the socket's close, which a
  refusal brings about, takes it out of the registry again.
\<close>

definition handle_upgrade ::
  "hmac \<Rightarrow> (string \<Rightarrow> string) \<Rightarrow> environment \<Rightarrow> get_token \<Rightarrow> url_parser \<Rightarrow> auth_store \<Rightarrow> int \<Rightarrow>
   inspect \<Rightarrow> connect \<Rightarrow> inspect \<Rightarrow> http_request \<Rightarrow> presence_registry \<Rightarrow> upgrade_reply \<times> presence_registry" where
  "handle_upgrade hmac base64 env getToken parse st nowMs inspect connect reinspect req p =
     (case spectatePathParts (or_empty (rq_url req)) of
        Some (i, role) \<Rightarrow>
          (case authorizeSpectate env getToken st nowMs inspect (rq_headers req ''cookie'') i role of
             Inl e \<Rightarrow> (UpgradeCrash e, p)
           | Inr (SpectateAllow r) \<Rightarrow> (JoinRelay i role, p)
           | Inr _ \<Rightarrow> (RefuseUpgrade 403, p))
      | None \<Rightarrow>
          (case workspaceIdFromPath (or_empty (rq_url req)) of
             None \<Rightarrow> (NextUpgrade, p)
           | Some i \<Rightarrow>
               (case authorizeWorkspace env getToken st nowMs inspect (rq_headers req ''cookie'') i of
                  Inl e \<Rightarrow> (UpgradeCrash e, p)
                | Inr (Allow expires who ed rdy ste) \<Rightarrow>
                    (let p' = snd (presence_track i expires p);
                         overlay = isTerminalOverlayRequest parse ed i (rq_url req);
                         resolved = (if overlay then resolveWorkspaceTerminalUpstream connect reinspect i
                                     else resolveWorkspaceUpstream connect reinspect i)
                     in case forward_to hmac base64 env parse resolved req i (if overlay then Terminal else ed) of
                          Some r \<Rightarrow> (Tunnel i r, p')
                        | None \<Rightarrow> (RefuseUpgrade 502, p'))
                | Inr _ \<Rightarrow> (RefuseUpgrade 403, p))))"

end
