(* ===== verification/Live_Props.thy ===== *)
theory Live_Props
  imports Live
begin

text \<open>
  Properties of the live connections: what presence counts and for how long, that a sweep
  keeps the workspaces with an open tab out of the idle selection, and the relay as a
  function of its history.
\<close>

section \<open>Presence\<close>

text \<open>What happens to the registry of a replica: a connection is tracked, the \<open>n\<close>-th one closes, a sweep runs.\<close>

datatype presence_event = PTrack string int | PClose nat | PSweep int

fun presence_step :: "presence_event \<Rightarrow> presence_registry \<Rightarrow> presence_registry" where
  "presence_step (PTrack i e) p = snd (presence_track i e p)"
| "presence_step (PClose n) p = presence_untrack n p"
| "presence_step (PSweep t) p = snd (loadedWorkspaces t p)"

definition registry_after :: "presence_event list \<Rightarrow> presence_registry" where
  "registry_after evs = fold presence_step evs empty_presence"

definition tracks :: "presence_event list \<Rightarrow> nat" where
  "tracks evs = length (filter (\<lambda>e. case e of PTrack _ _ \<Rightarrow> True | _ \<Rightarrow> False) evs)"

text \<open>The connection opened by the event at \<open>k\<close> is still open: no later event closes it.\<close>

definition still_open :: "presence_event list \<Rightarrow> nat \<Rightarrow> string \<Rightarrow> int \<Rightarrow> bool" where
  "still_open evs k i e \<longleftrightarrow>
     k < length evs \<and> evs ! k = PTrack i e \<and> PClose (tracks (take (Suc k) evs)) \<notin> set (drop (Suc k) evs)"

lemma tracks_simps [simp]:
  "tracks [] = 0" "tracks (evs @ [PTrack i e]) = Suc (tracks evs)"
  "tracks (evs @ [PClose n]) = tracks evs" "tracks (evs @ [PSweep t]) = tracks evs"
  by (simp_all add: tracks_def)

lemma registry_after_simps [simp]:
  "registry_after [] = empty_presence"
  "registry_after (evs @ [ev]) = presence_step ev (registry_after evs)"
  by (simp_all add: registry_after_def)

lemma next_id: "pr_nextId (registry_after evs) = Suc (tracks evs)"
proof (induction evs rule: rev_induct)
  case (snoc ev evs)
  then show ?case
    by (cases ev) (simp_all add: presence_track_def presence_untrack_def loadedWorkspaces_def Let_def)
qed (simp add: empty_presence_def)

lemma tracks_take: "tracks (take k evs) \<le> tracks evs"
  by (metis append_take_drop_id filter_append le_add1 length_append tracks_def)

lemma open_snoc:
  "still_open (evs @ [ev]) k i e \<longleftrightarrow>
     (still_open evs k i e \<and> ev \<noteq> PClose (tracks (take (Suc k) evs))) \<or> (k = length evs \<and> ev = PTrack i e)"
  by (auto simp: still_open_def nth_append less_Suc_eq)

lemma registered:
  assumes "\<And>t. PSweep t \<in> set evs \<Longrightarrow> t \<le> nowMs" and "nowMs < e"
  shows "(n, \<lparr>tc_wsId = i, tc_sessionExpiresAtMs = e\<rparr>) \<in> set (pr_conns (registry_after evs)) \<longleftrightarrow>
    (\<exists>k. still_open evs k i e \<and> n = tracks (take (Suc k) evs))"
  using assms(1)
proof (induction evs rule: rev_induct)
  case Nil
  then show ?case by (simp add: empty_presence_def still_open_def)
next
  case (snoc ev evs)
  note IH = snoc.IH [OF snoc.prems, simplified]
  show ?case
  proof (cases ev)
    case (PTrack j x)
    then show ?thesis using IH next_id [of evs]
      by (auto simp: presence_track_def open_snoc) (auto simp: still_open_def)
  next
    case (PClose m)
    then show ?thesis using IH by (auto simp: presence_untrack_def open_snoc) (auto simp: still_open_def)
  next
    case (PSweep t)
    then show ?thesis using IH snoc.prems [of t] assms(2)
      by (auto simp: loadedWorkspaces_def Let_def open_snoc) (auto simp: still_open_def)
  qed
qed

lemma js_set_set [simp]: "set (js_set xs) = set xs" "distinct (js_set xs)"
  by (simp_all add: js_set_def)

lemma loaded_iff:
  "i \<in> set (fst (loadedWorkspaces t p)) \<longleftrightarrow>
     (\<exists>n e. (n, \<lparr>tc_wsId = i, tc_sessionExpiresAtMs = e\<rparr>) \<in> set (pr_conns p) \<and> t < e)"
proof
  assume "i \<in> set (fst (loadedWorkspaces t p))"
  then obtain n c where "(n, c) \<in> set (pr_conns p)" "t < tc_sessionExpiresAtMs c" "i = tc_wsId c"
    by (auto simp: loadedWorkspaces_def Let_def not_le)
  then show "\<exists>n e. (n, \<lparr>tc_wsId = i, tc_sessionExpiresAtMs = e\<rparr>) \<in> set (pr_conns p) \<and> t < e" by (cases c) auto
qed (force simp: loadedWorkspaces_def Let_def not_le)

text \<open>
  What presence counts. After any sequence of connections, closes and sweeps up to some
  moment, a replica counts exactly the workspaces with a connection that it tracked, that
  has not closed and whose session has not expired, each once: sweeping forgets no
  connection that still counts.
\<close>

theorem presence_exact:
  assumes "\<And>t. PSweep t \<in> set evs \<Longrightarrow> t \<le> nowMs"
  shows "(i \<in> set (fst (loadedWorkspaces nowMs (registry_after evs))) \<longleftrightarrow> (\<exists>k e. still_open evs k i e \<and> nowMs < e)) \<and>
    distinct (fst (loadedWorkspaces nowMs (registry_after evs)))"
  using registered [OF assms] unfolding loaded_iff
  by (auto simp: loadedWorkspaces_def Let_def) metis+

theorem presence_exact_witness:
  "''a'' \<in> set (fst (loadedWorkspaces 50 (registry_after [PTrack ''a'' 100, PTrack ''b'' 30, PSweep 40, PTrack ''a'' 60, PClose 3]))) \<and>
   ''b'' \<notin> set (fst (loadedWorkspaces 50 (registry_after [PTrack ''a'' 100, PTrack ''b'' 30, PSweep 40, PTrack ''a'' 60, PClose 3])))"
proof -
  let ?evs = "[PTrack ''a'' 100, PTrack ''b'' 30, PSweep 40, PTrack ''a'' 60, PClose 3]"
  have "still_open ?evs 0 ''a'' 100" by code_simp
  moreover have "\<not> (still_open ?evs k ''b'' e \<and> 50 < e)" for k e
    by (auto simp: still_open_def nth_Cons split: nat.splits)
  ultimately show ?thesis using presence_exact [of ?evs 50 "''a''"] presence_exact [of ?evs 50 "''b''"] by fastforce
qed

text \<open>
  A parked tab ends with its session. The connection an upgrade adds to the registry is of
  a session that the ledger holds unrevoked, of the workspace's owner or an administrator;
  from the moment that session expires, as it was stored at the upgrade, it no longer counts,
  however long the socket stays open.
\<close>

theorem parked_tab_ends_with_session:
  assumes "handle_upgrade hmac base64 env getToken parse st nowMs inspect connect reinspect req p = (reply, p')"
    and "pr_conns p' \<noteq> pr_conns p"
  shows "\<exists>s e ws i x n. s \<in> ran (map_of (sessionRows st)) \<and> revokedAt s = None \<and> expiresAt s = Iso e \<and> nowMs < e \<and>
    inspect i = Inr (Some ws) \<and> (as_role s = Admin \<or> as_ownerId s = ownerId ws) \<and> x \<le> e \<and>
    pr_conns p' = pr_conns p @ [(n, \<lparr>tc_wsId = i, tc_sessionExpiresAtMs = x\<rparr>)] \<and>
    (\<forall>t \<ge> e. loadedWorkspaces t p' = (fst (loadedWorkspaces t p), p'\<lparr>pr_conns := pr_conns (snd (loadedWorkspaces t p))\<rparr>))"
proof -
  obtain i x who ed rdy ste where
      allow: "authorizeWorkspace env getToken st nowMs inspect (rq_headers req ''cookie'') i = Inr (Allow x who ed rdy ste)"
      and p': "p' = snd (presence_track i x p)"
    using assms by (auto simp: handle_upgrade_def Let_def split: option.splits sum.splits spectate_authz.splits
        workspace_authz.splits)
  from allow obtain s ws e where "s \<in> ran (map_of (sessionRows st))" "revokedAt s = None" "expiresAt s = Iso e"
      "nowMs < e" "inspect i = Inr (Some ws)" "as_role s = Admin \<or> as_ownerId s = ownerId ws" "x \<le> e"
    by (rule allow_row)
  then show ?thesis by (auto simp: p' presence_track_def loadedWorkspaces_def Let_def intro!: exI)
qed

definition owner_upgrade :: http_request where
  "owner_upgrade = owner_request\<lparr>rq_url := Some ''/w/ws-1/socket''\<rparr>"

theorem parked_tab_ends_with_session_witness:
  "\<exists>p' e. pr_conns p' \<noteq> [] \<and> (\<forall>t \<ge> e. fst (loadedWorkspaces t p') = [])"
proof -
  let ?up = "handle_upgrade (\<lambda>k m. m) id proxy_env (\<lambda>_ _. Some owner_jwt) (Some \<circ> plain_url) two_sessions 1000
      (\<lambda>_. Inr (Some proxied_ws)) (\<lambda>_. Inr None) (\<lambda>_. Inr (Some proxied_ws)) owner_upgrade empty_presence"
  have "pr_conns (snd ?up) \<noteq> pr_conns empty_presence" by code_simp
  with parked_tab_ends_with_session [of _ _ _ _ _ _ _ _ _ _ _ _ "fst ?up" "snd ?up"]
  obtain e where "\<forall>t \<ge> e. fst (loadedWorkspaces t (snd ?up)) = fst (loadedWorkspaces t empty_presence)" by fastforce
  then show ?thesis using \<open>pr_conns (snd ?up) \<noteq> pr_conns empty_presence\<close>
    by (auto simp: empty_presence_def loadedWorkspaces_def js_set_def)
qed

section \<open>The sweep and the idle selection\<close>

lemma safe_presence_beats: "safeT d P (presence_beats d is)"
proof (induction "is" arbitrary: P)
  case (Cons i "is")
  show ?case
    unfolding presence_beats.simps
    by (rule safeT_pre) (rule Cons.IH safe_first safe_intros | assumption)+
qed (auto intro: safe_intros)

lemma quiet_persist_plain:
  assumes q: "quiet w" and l: "lookup (sys w) i = Some (r, v)" and ok: "rec_ok i r"
    and r: "toWorkspace r = Inr ws" and legal: "legal_write ws ws'"
    and schema: "schemaError d (transition_attrs ws') = None"
  shows "\<exists>w'. persistTransition d ws' v None w = (Ret (), w') \<and> quiet w' \<and>
     sys w' = put_record i (transition_attrs ws') (v + 1) (sys w)"
proof -
  have i: "wsId ws' = i"
    using ok r legal toWorkspace_state [OF r] by (simp add: rec_ok_def legal_write_def same_identity_def)
  have "patch_record TRANSITION_CLEARABLE (transition_attrs ws') r = transition_attrs ws'"
    by (rule patch_transition [OF r]) (use ok legal in \<open>auto simp: rec_ok_def legal_write_def\<close>)
  with i q l schema show ?thesis
    by (simp add: persistTransition_def Let_def bindM_def validate_def ret_def writeOne_def quiet_io
        record_call_def quiet_def commit_items_def)
qed

text \<open>A heartbeat with nothing in its way: it answers, changes one record at most, and a running
  workspace was active just now.\<close>

lemma quiet_heartbeat:
  assumes q: "quiet w" and wf: "wf_sys d (sys w)" and schema: "\<And>a. schemaError d a = None"
  shows "\<exists>x w'. svc_heartbeat d j PRESENT w = (Ret x, w') \<and> quiet w' \<and> clockMs (sys w') = clockMs (sys w) \<and>
     (\<forall>i. i \<noteq> j \<longrightarrow> lookup (sys w') i = lookup (sys w) i) \<and>
     (\<forall>r v. lookup (sys w) j = Some (r, v) \<and> state r \<in> {Running, Idle} \<longrightarrow>
        (\<exists>r'. lookup (sys w') j = Some (r', v + 1) \<and> state r' = Running \<and> lastActivity r' = Iso (clockMs (sys w)) \<and>
           idleStopMs r' = idleStopMs r \<and> alwaysOn r' = alwaysOn r))"
proof (cases "lookup (sys w) j")
  case None
  then have "\<exists>w'. svc_find d j w = (Ret None, w') \<and> quiet w' \<and> sys w' = sys w"
    using q by (simp add: svc_find_def bindM_def quiet_io reading_def record_call_def ret_def quiet_def)
  then show ?thesis using None
    by (auto simp: svc_heartbeat_def heartbeat_loop.simps bindR_def svc_require_def bindM_def ret_def onOk_def)
next
  case (Some rv)
  obtain r v where rv: "rv = (r, v)" by (cases rv)
  have ok: "rec_ok j r" using wf Some rv by (simp add: wf_sys_def)
  then obtain ws where ws: "toWorkspace r = Inr ws" "state ws = state r" by (rule toWorkspace_read)
  obtain w1 where w1: "svc_require d j w = (Ret (Ok (ws, v)), w1)" "quiet w1" "sys w1 = sys w"
    using quiet_require [OF q] Some rv ws(1) by blast
  show ?thesis
  proof (cases "state ws \<in> {Provisioning, Running, Idle}")
    case False
    then show ?thesis using w1 Some rv ws(2)
      by (auto simp: svc_heartbeat_def heartbeat_loop.simps bindR_def bindM_def onOk_def now_def ret_def)
  next
    case True
    let ?at = "Iso (clockMs (sys w))"
    obtain nxt where nx: "beat_activity PRESENT ?at ws = Ok nxt"
      "state ws \<in> {Running, Idle} \<longrightarrow> state nxt = Running \<and> lastActivity nxt = ?at"
      "idleStopMs nxt = idleStopMs ws" "alwaysOn nxt = alwaysOn ws"
      using True by (auto simp: beat_activity_def PRESENT_def markActivity_def TRANSITIONS_event_simps)
    have fold: "fold_report PRESENT ?at nxt = nxt" by (simp add: fold_report_def PRESENT_def)
    have legal: "legal_write ws nxt" using legal_beat [OF nx(1)] fold by simp
    obtain w2 where w2: "persistTransition d nxt v None w1 = (Ret (), w2)" "quiet w2"
      "sys w2 = put_record j (transition_attrs nxt) (v + 1) (sys w)"
      using quiet_persist_plain [OF w1(2) _ ok ws(1) legal schema] Some rv w1(3) by auto
    have "svc_heartbeat d j PRESENT w = (Ret (Ok (toWorkspaceDto nxt)), w2)"
      using w1 w2(1) nx(1) True
      by (auto simp: svc_heartbeat_def heartbeat_loop.simps bindR_def bindM_def onOk_def now_def ret_def fold
          quiet_persist_or Let_def)
    moreover have "idleStopMs ws = idleStopMs r" "alwaysOn ws = alwaysOn r"
      using ws(1) by (auto simp: toWorkspace_def map_fields_def split: sum.splits option.splits)
    ultimately show ?thesis using w2(2,3) nx(2-4) ws(2) Some rv
      by (auto simp: put_record_def log_move_def lookup_def transition_attrs_def map_fields_def toWorkspaceDetail_eq update_conv)
  qed
qed

lemma wf_heartbeat: "\<lbrakk>quiet w; wf_sys d (sys w)\<rbrakk> \<Longrightarrow> wf_sys d (sys (snd (svc_heartbeat d j rep w)))"
  using safe_heartbeat [of d "\<lambda>_. True" j rep] by (simp add: safe_def ok_world_def quiet_def)

definition active_at :: "'p sys \<Rightarrow> string \<Rightarrow> stored_fields \<Rightarrow> int \<Rightarrow> bool" where
  "active_at s i r t \<longleftrightarrow>
     (\<exists>r' u. lookup s i = Some (r', u) \<and> state r' = Running \<and> lastActivity r' = Iso t \<and>
        idleStopMs r' = idleStopMs r \<and> alwaysOn r' = alwaysOn r)"

lemma quiet_beats:
  assumes "quiet w" and "wf_sys d (sys w)" and schema: "\<And>a. schemaError d a = None"
  shows "\<exists>w'. presence_beats d is w = (Ret (), w') \<and>
     (\<forall>i r v. lookup (sys w) i = Some (r, v) \<and> i \<notin> set is \<longrightarrow> lookup (sys w') i = Some (r, v)) \<and>
     (\<forall>i r v. lookup (sys w) i = Some (r, v) \<and> i \<in> set is \<and> state r \<in> {Running, Idle} \<longrightarrow>
        active_at (sys w') i r (clockMs (sys w)))"
  using assms(1,2)
proof (induction "is" arbitrary: w)
  case (Cons j "is")
  from quiet_heartbeat [OF Cons.prems schema, of j] obtain x w1 where
    w1: "svc_heartbeat d j PRESENT w = (Ret x, w1)" "quiet w1" "clockMs (sys w1) = clockMs (sys w)"
      "\<And>i. i \<noteq> j \<Longrightarrow> lookup (sys w1) i = lookup (sys w) i"
    and j: "\<And>r v. \<lbrakk>lookup (sys w) j = Some (r, v); state r \<in> {Running, Idle}\<rbrakk> \<Longrightarrow>
        \<exists>r'. lookup (sys w1) j = Some (r', v + 1) \<and> state r' = Running \<and> lastActivity r' = Iso (clockMs (sys w)) \<and>
           idleStopMs r' = idleStopMs r \<and> alwaysOn r' = alwaysOn r" by blast
  have "wf_sys d (sys w1)" using wf_heartbeat [OF Cons.prems, of j PRESENT] w1(1) by simp
  from Cons.IH [OF w1(2) this] obtain w2 where w2: "presence_beats d is w1 = (Ret (), w2)"
    and out: "\<And>i r v. \<lbrakk>lookup (sys w1) i = Some (r, v); i \<notin> set is\<rbrakk> \<Longrightarrow> lookup (sys w2) i = Some (r, v)"
    and "in": "\<And>i r v. \<lbrakk>lookup (sys w1) i = Some (r, v); i \<in> set is; state r \<in> {Running, Idle}\<rbrakk> \<Longrightarrow>
        active_at (sys w2) i r (clockMs (sys w))" using w1(3) by force
  have "active_at (sys w2) i r (clockMs (sys w))"
    if i: "lookup (sys w) i = Some (r, v)" "i \<in> set (j # is)" "state r \<in> {Running, Idle}" for i r v
  proof (cases "i = j")
    case True
    from j [of r v] i True obtain r' where r': "lookup (sys w1) i = Some (r', v + 1)" "state r' = Running"
      "lastActivity r' = Iso (clockMs (sys w))" "idleStopMs r' = idleStopMs r" "alwaysOn r' = alwaysOn r" by blast
    show ?thesis
    proof (cases "i \<in> set is")
      case True
      from "in" [OF r'(1) True] r' show ?thesis by (simp add: active_at_def)
    qed (use out [OF r'(1)] r' in \<open>simp add: active_at_def\<close>)
  qed (use i "in" w1(4) in auto)
  moreover have "lookup (sys w2) i = Some (r, v)" if "lookup (sys w) i = Some (r, v)" "i \<notin> set (j # is)" for i r v
    using that out [of i r v] w1(4) by auto
  moreover have "presence_beats d (j # is) w = (Ret (), w2)"
    using w1(1) w2 by (simp add: bindM_def tryM_def discard_def ret_def)
  ultimately show ?case by blast
qed (simp add: ret_def)

text \<open>
  C32. An open tab keeps its workspace. Where nothing interferes, a presence sweep returns and
  leaves every stored workspace that has a counted connection and is running or idle in
  running, active as of the sweep, so that no idle selection within the idle window of the
  workspace takes it; every workspace without a counted connection it leaves as it was.
\<close>

theorem open_tab_keeps_workspace:
  assumes "schedule w = []" and "wf_sys d (sys w)" and "\<And>a. schemaError d a = None"
  shows "\<exists>w'. snd (sweepPresence d p nowMs) w = (Ret (), w') \<and>
    (\<forall>i r v. lookup (sys w) i = Some (r, v) \<longrightarrow>
       (if i \<notin> set (fst (loadedWorkspaces nowMs p)) then lookup (sys w') i = Some (r, v)
        else state r \<in> {Running, Idle} \<longrightarrow>
          (\<exists>r' u. lookup (sys w') i = Some (r', u) \<and> state r' = Running \<and> lastActivity r' = Iso (clockMs (sys w)) \<and>
            (\<forall>t. t < clockMs (sys w) + orElse (idleStopMs r) ms \<longrightarrow>
               i \<notin> set (selectIdle [\<lparr>aw_id = i, aw_lastActivity = lastActivity r', aw_idleStopMs = idleStopMs r',
                                     aw_alwaysOn = alwaysOn r'\<rparr>] (Iso t) ms)))))"
proof -
  have "quiet w" using assms(1) by (simp add: quiet_def)
  from quiet_beats [OF this assms(2,3), of "fst (loadedWorkspaces nowMs p)"] obtain w' where
    w': "presence_beats d (fst (loadedWorkspaces nowMs p)) w = (Ret (), w')"
    "\<And>i r v. \<lbrakk>lookup (sys w) i = Some (r, v); i \<notin> set (fst (loadedWorkspaces nowMs p))\<rbrakk> \<Longrightarrow> lookup (sys w') i = Some (r, v)"
    "\<And>i r v. \<lbrakk>lookup (sys w) i = Some (r, v); i \<in> set (fst (loadedWorkspaces nowMs p)); state r \<in> {Running, Idle}\<rbrakk> \<Longrightarrow>
        active_at (sys w') i r (clockMs (sys w))" by blast
  have "i \<notin> set (selectIdle [\<lparr>aw_id = i, aw_lastActivity = Iso s, aw_idleStopMs = k, aw_alwaysOn = b\<rparr>] (Iso t) ms)"
    if "t < s + orElse k ms" for i s k b t
    using that by (simp add: selectIdle_def)
  with w'(3) have "\<exists>r' u. lookup (sys w') i = Some (r', u) \<and> state r' = Running \<and> lastActivity r' = Iso (clockMs (sys w)) \<and>
            (\<forall>t. t < clockMs (sys w) + orElse (idleStopMs r) ms \<longrightarrow>
               i \<notin> set (selectIdle [\<lparr>aw_id = i, aw_lastActivity = lastActivity r', aw_idleStopMs = idleStopMs r',
                                     aw_alwaysOn = alwaysOn r'\<rparr>] (Iso t) ms))"
    if "lookup (sys w) i = Some (r, v)" "i \<in> set (fst (loadedWorkspaces nowMs p))" "state r \<in> {Running, Idle}" for i r v
    using that unfolding active_at_def by (metis (no_types, lifting))
  with w'(1,2) show ?thesis by (auto simp: sweepPresence_def split_beta)
qed

theorem open_tab_keeps_workspace_witness:
  "\<exists>w' r' u. snd (sweepPresence fake_deps (registry_after [PTrack ''ws-'' 100]) 50) created_world = (Ret (), w') \<and>
     lookup (sys w') ''ws-'' = Some (r', u) \<and> state r' = Running \<and>
     lastActivity r' = Iso (clockMs (sys created_world))"
proof -
  have "map_option (state \<circ> fst) (lookup (sys created_world) ''ws-'') = Some Running" by code_simp
  then obtain r v where r: "lookup (sys created_world) ''ws-'' = Some (r, v)" "state r = Running" by auto
  have "''ws-'' \<in> set (fst (loadedWorkspaces 50 (registry_after [PTrack ''ws-'' 100])))" by code_simp
  with open_tab_keeps_workspace [OF created_quiet, of fake_deps "registry_after [PTrack ''ws-'' 100]" 50] r created_ok
  show ?thesis by (fastforce simp: ok_world_def)
qed

section \<open>The relay and its history\<close>

datatype relay_event =
    EvPublish string nat | EvUnpublish string nat | EvFrame string string
  | EvSubscribe string nat | EvUnsubscribe string nat

fun relay_step ::
  "frame_type \<Rightarrow> (nat \<Rightarrow> bool) \<Rightarrow> relay_event \<Rightarrow> spectate_relay \<Rightarrow> relay_effect list \<times> spectate_relay" where
  "relay_step ft throws (EvPublish i s) r = relay_publish i s r"
| "relay_step ft throws (EvUnpublish i s) r = relay_unpublish i s r"
| "relay_step ft throws (EvFrame i f) r = relay_forward ft throws i f r"
| "relay_step ft throws (EvSubscribe i s) r = snd (relay_subscribe throws i s r)"
| "relay_step ft throws (EvUnsubscribe i s) r = ([], relay_unsubscribe i s r)"

text \<open>Histories are newest first.\<close>

definition relay_after :: "frame_type \<Rightarrow> (nat \<Rightarrow> bool) \<Rightarrow> relay_event list \<Rightarrow> spectate_relay" where
  "relay_after ft throws hist = foldr (\<lambda>e r. snd (relay_step ft throws e r)) hist []"

text \<open>The specification: who publishes, what a late joiner is shown, and who is watching.\<close>

fun publishing :: "string \<Rightarrow> relay_event list \<Rightarrow> nat option" where
  "publishing i [] = None"
| "publishing i (EvPublish j s # h) = (if j = i then Some s else publishing i h)"
| "publishing i (EvUnpublish j s # h) =
     (if j = i \<and> publishing i h = Some s then None else publishing i h)"
| "publishing i (_ # h) = publishing i h"

fun shown :: "frame_type \<Rightarrow> string \<Rightarrow> string \<Rightarrow> relay_event list \<Rightarrow> string option" where
  "shown ft i t [] = None"
| "shown ft i t (EvPublish j s # h) = (if j = i then None else shown ft i t h)"
| "shown ft i t (EvUnpublish j s # h) = (if j = i \<and> publishing i h = Some s then None else shown ft i t h)"
| "shown ft i t (EvFrame j f # h) =
     (if j = i \<and> publishing i h \<noteq> None \<and> ft f = Some (Some t) \<and> t \<in> set SNAPSHOT_TYPES then Some f else shown ft i t h)"
| "shown ft i t (_ # h) = shown ft i t h"

fun watching :: "frame_type \<Rightarrow> (nat \<Rightarrow> bool) \<Rightarrow> string \<Rightarrow> relay_event list \<Rightarrow> nat set" where
  "watching ft throws i [] = {}"
| "watching ft throws i (EvUnpublish j s # h) =
     (if j = i \<and> publishing i h = Some s then {} else watching ft throws i h)"
| "watching ft throws i (EvFrame j f # h) =
     (if j = i \<and> ft f \<noteq> None then {s \<in> watching ft throws i h. \<not> throws s} else watching ft throws i h)"
| "watching ft throws i (EvSubscribe j s # h) =
     (if j = i \<and> publishing i h \<noteq> None then insert s (watching ft throws i h) else watching ft throws i h)"
| "watching ft throws i (EvUnsubscribe j s # h) =
     (if j = i then watching ft throws i h - {s} else watching ft throws i h)"
| "watching ft throws i (_ # h) = watching ft throws i h"

definition channel_spec :: "frame_type \<Rightarrow> (nat \<Rightarrow> bool) \<Rightarrow> string \<Rightarrow> relay_event list \<Rightarrow> channel option \<Rightarrow> bool" where
  "channel_spec ft throws i h c \<longleftrightarrow>
     map_option publisher c = publishing i h \<and>
     (case c of
        None \<Rightarrow> watching ft throws i h = {} \<and> (\<forall>t. shown ft i t h = None)
      | Some ch \<Rightarrow> set (subscribers ch) = watching ft throws i h \<and> map_of (ch_snapshot ch) = (\<lambda>t. shown ft i t h) \<and>
          distinct (map fst (ch_snapshot ch)))"

lemma relay_after_simps [simp]:
  "relay_after ft throws [] = []"
  "relay_after ft throws (e # h) = snd (relay_step ft throws e (relay_after ft throws h))"
  by (simp_all add: relay_after_def)

fun channel_of :: "relay_event \<Rightarrow> string" where
  "channel_of (EvPublish i s) = i"
| "channel_of (EvUnpublish i s) = i"
| "channel_of (EvFrame i f) = i"
| "channel_of (EvSubscribe i s) = i"
| "channel_of (EvUnsubscribe i s) = i"

lemma other_channel_step:
  "channel_of e \<noteq> i \<Longrightarrow> map_of (snd (relay_step ft throws e r)) i = map_of r i"
  by (cases e) (simp_all add: relay_publish_def relay_unpublish_def relay_forward_def relay_subscribe_def relay_unsubscribe_def
      update_conv delete_conv Let_def split: option.split)

lemma other_channel_spec:
  assumes "channel_of e \<noteq> i"
  shows "channel_spec ft throws i (e # h) c = channel_spec ft throws i h c"
proof -
  have "publishing i (e # h) = publishing i h" "watching ft throws i (e # h) = watching ft throws i h"
    "\<And>t. shown ft i t (e # h) = shown ft i t h"
    using assms by (cases e; simp)+
  then show ?thesis by (simp only: channel_spec_def)
qed

lemma own_channel:
  assumes "channel_spec ft throws i h (map_of r i)" and "channel_of e = i"
  shows "channel_spec ft throws i (e # h) (map_of (snd (relay_step ft throws e r)) i)"
proof (cases "map_of r i")
  case None
  have spec: "publishing i h = None" "watching ft throws i h = {}" "\<And>t. shown ft i t h = None"
    using assms(1) None by (simp_all add: channel_spec_def)
  show ?thesis using assms(2) None spec
    by (cases e) (simp_all add: channel_spec_def relay_publish_def relay_unpublish_def relay_forward_def
        relay_subscribe_def relay_unsubscribe_def update_conv fun_eq_iff)
next
  case (Some ch)
  have spec: "publishing i h = Some (publisher ch)" "watching ft throws i h = set (subscribers ch)"
    "\<And>t. shown ft i t h = map_of (ch_snapshot ch) t" "distinct (map fst (ch_snapshot ch))"
    using assms(1) Some by (simp_all add: channel_spec_def)
  show ?thesis
  proof (cases e)
    case (EvFrame j f)
    then show ?thesis using assms(2) Some spec
      by (cases "ft f") (auto simp: channel_spec_def relay_forward_def cache_frame_def update_conv distinct_update fun_eq_iff
          Let_def split: option.split)
  qed (use assms(2) Some spec in \<open>auto simp: channel_spec_def relay_publish_def relay_unpublish_def
        relay_subscribe_def relay_unsubscribe_def update_conv delete_conv fun_eq_iff Let_def\<close>)
qed

lemma relay_meets_spec: "channel_spec ft throws i h (map_of (relay_after ft throws h) i)"
proof (induction h)
  case (Cons e h)
  then show ?case using own_channel [OF Cons] other_channel_step other_channel_spec by (cases "channel_of e = i") simp_all
qed (simp add: channel_spec_def)

text \<open>
  C31. The relay is a function of its history. Whatever is published, forwarded, subscribed and
  closed in whatever order, a socket's late close after it was replaced included: a frame
  goes to exactly those who are watching the workspace it was published for, and to no one
  if it does not parse or nobody publishes; a socket that joins is shown exactly the latest
  frame of each snapshot type since the current publisher began, never terminal output, and
  is refused exactly if nobody publishes; and the end of the publisher, of no one else,
  closes exactly those watching.
\<close>

theorem relay_refines_history:
  "let r = relay_after ft throws h in
    set (fst (relay_forward ft throws i f r)) =
      (if publishing i h = None \<or> ft f = None then {} else (\<lambda>s. SendFrame s f) ` {s \<in> watching ft throws i h. \<not> throws s}) \<and>
    (case relay_subscribe throws i s r of (answer, sent, _) \<Rightarrow>
      (answer = Inr False \<longleftrightarrow> publishing i h = None) \<and>
      (answer = Inr True \<longrightarrow> set sent = SendFrame s ` {f. \<exists>t \<in> set SNAPSHOT_TYPES. shown ft i t h = Some f})) \<and>
    set (fst (relay_unpublish i s r)) =
      (if publishing i h = Some s then (\<lambda>x. CloseSocket x SHARING_ENDED_CODE) ` watching ft throws i h else {})"
proof -
  let ?r = "relay_after ft throws h"
  have types: "shown ft i t h = Some f \<Longrightarrow> t \<in> set SNAPSHOT_TYPES" for t f
  proof (induction h)
    case (Cons e h)
    then show ?case by (cases e) (auto split: if_splits)
  qed simp
  note spec = relay_meets_spec [of ft throws i h, unfolded channel_spec_def]
  show ?thesis
  proof (cases "map_of ?r i")
    case None
    then show ?thesis using spec by (simp add: Let_def relay_forward_def relay_subscribe_def relay_unpublish_def)
  next
    case (Some ch)
    have w: "publishing i h = Some (publisher ch)" "watching ft throws i h = set (subscribers ch)"
      "\<And>t. shown ft i t h = map_of (ch_snapshot ch) t" "distinct (map fst (ch_snapshot ch))"
      using spec Some by simp_all
    have "snd ` set (ch_snapshot ch) = {f. \<exists>t \<in> set SNAPSHOT_TYPES. shown ft i t h = Some f}"
      using types w(3,4) by (force simp: image_iff dest: map_of_SomeD)
    then have "SendFrame s ` snd ` set (ch_snapshot ch) = SendFrame s ` {f. \<exists>t \<in> set SNAPSHOT_TYPES. shown ft i t h = Some f}"
      by simp
    then show ?thesis using Some w(1,2)
      by (auto simp: relay_forward_def relay_subscribe_def relay_unpublish_def Let_def image_image split_beta)
  qed
qed

theorem relay_refines_history_witness:
  "let ft = (\<lambda>f. Some (Some (takeWhile (\<lambda>c. c \<noteq> CHR '':'') f)));
       r = relay_after ft (\<lambda>_. False) [EvFrame ''w'' ''file:b'', EvFrame ''w'' ''term:x'', EvFrame ''w'' ''file:a'', EvPublish ''w'' 1] in
   set (fst (snd (relay_subscribe (\<lambda>_. False) ''w'' 2 r))) = {SendFrame 2 ''file:b''}"
proof -
  let ?ft = "\<lambda>f. Some (Some (takeWhile (\<lambda>c. c \<noteq> CHR '':'') f))"
  let ?h = "[EvFrame ''w'' ''file:b'', EvFrame ''w'' ''term:x'', EvFrame ''w'' ''file:a'', EvPublish ''w'' 1]"
  have "{f. \<exists>t \<in> set SNAPSHOT_TYPES. shown ?ft ''w'' t ?h = Some f} = {''file:b''}" by (auto simp: SNAPSHOT_TYPES_def)
  moreover have "fst (relay_subscribe (\<lambda>_. False) ''w'' 2 (relay_after ?ft (\<lambda>_. False) ?h)) = Inr True" by code_simp
  ultimately show ?thesis using relay_refines_history [of ?ft "\<lambda>_. False" ?h "''w''" _ 2]
    by (simp add: Let_def split_beta del: relay_after_simps shown.simps)
qed

section \<open>Sharing and its streams\<close>

text \<open>
  Switching sharing off does not end a stream. A viewer is let in while the workspace is
  shared; once it is no longer shared (nobody new is let in), and after the viewer's session
  was revoked too, the relay still delivers to the viewer every frame the owner's tab sends,
  until that tab closes its socket.
\<close>

theorem stream_outlives_sharing:
  "(let join = (\<lambda>shared st. authorizeSpectate proxy_env (\<lambda>_ _. Some owner_jwt) st 1000
                  (\<lambda>_. Inr (Some (proxied_ws\<lparr>shareEnabled := Some shared\<rparr>))) None ''ws-1'' Subscribe);
        ft = (\<lambda>f. Some (Some ''term''));
        relay = relay_after ft (\<lambda>_. False) [EvSubscribe ''ws-1'' 2, EvPublish ''ws-1'' 1]
    in (join True two_sessions, join False two_sessions,
        join True (snd (revokeAuthSession (\<lambda>_. None) ''s1'' 900 two_sessions)),
        fst (relay_forward ft (\<lambda>_. False) ''ws-1'' ''secret'' relay))) =
   (Inr (SpectateAllow Subscribe), Inr SpectateForbidden, Inr SpectateUnauthenticated, [SendFrame 2 ''secret''])"
  by code_simp

end
