(* ===== verification/Git_Remote.thy ===== *)
theory Git_Remote
  imports Access
begin

text \<open>
  Decisions about the git remote of a session (\<^verbatim>\<open>packages/core/src/domain/git-remote.ts\<close>): what
  a clone URL names, what a ref advertisement lists, and how a failed probe is explained.

  \<open>parse\<close> stands for the platform's URL parser. Texts are characters of one byte, as a ref
  advertisement is on the wire.
\<close>

section \<open>Clone URLs\<close>

datatype git_remote =
    Https (remote_url: string) (remote_host: string) (remote_path: string)
  | Ssh (remote_url: string) (remote_host: string) (ssh_port: int) (ssh_user: string) (remote_path: string)

definition DEFAULT_SSH_PORT :: int where
  "DEFAULT_SSH_PORT = 22"

definition DEFAULT_SSH_USER :: string where
  "DEFAULT_SSH_USER = ''git''"

definition scp_char :: "char \<Rightarrow> bool" where
  "scp_char c \<longleftrightarrow> c \<noteq> CHR ''@'' \<and> c \<noteq> CHR ''/'' \<and> c \<noteq> CHR '':'' \<and> \<not> is_space c"

text \<open>\<^verbatim>\<open>([^@/:\s]+):(?!\/\/)([^\s]+)$\<close>: the host and the path.\<close>

definition scp_host_path :: "string \<Rightarrow> (string \<times> string) option" where
  "scp_host_path s =
     (let host = takeWhile scp_char s in
      case drop (length host) s of
        c # path \<Rightarrow>
          if c = CHR '':'' \<and> host \<noteq> [] \<and> path \<noteq> [] \<and> list_all (\<lambda>c. \<not> is_space c) path \<and> \<not> starts_with ''//'' path
          then Some (host, path) else None
      | [] \<Rightarrow> None)"

definition SCP_LIKE_PATTERN :: "string \<Rightarrow> (string option \<times> string \<times> string) option" where
  "SCP_LIKE_PATTERN s =
     (let user = takeWhile scp_char s in
      case drop (length user) s of
        c # rest \<Rightarrow>
          if c = CHR ''@'' \<and> user \<noteq> [] then map_option (\<lambda>(h, p). (Some user, h, p)) (scp_host_path rest)
          else map_option (\<lambda>(h, p). (None, h, p)) (scp_host_path s)
      | [] \<Rightarrow> None)"

definition trimPath :: "string \<Rightarrow> string option" where
  "trimPath path =
     (let cleaned = rev (dropWhile (\<lambda>c. c = CHR ''/'') (rev (dropWhile (\<lambda>c. c = CHR ''/'') path)))
      in if cleaned = [] then None else Some cleaned)"

text \<open>A parsed URL; \<open>gu_with_path\<close> is its text once query and fragment are cleared and the path set.\<close>

record git_url =
  gu_protocol :: string
  gu_hostname :: string
  gu_pathname :: string
  gu_username :: string
  gu_port :: "int option"
  gu_with_path :: "string \<Rightarrow> string"

definition parseGitRemote :: "(string \<Rightarrow> git_url option) \<Rightarrow> string \<Rightarrow> git_remote option" where
  "parseGitRemote parse inp =
     (let s = trim inp in
      if s = [] then None
      else case (if contains_text ''://'' s then None else SCP_LIKE_PATTERN s) of
        Some (u, host, path) \<Rightarrow>
          (let user = orElse u DEFAULT_SSH_USER in
           map_option (\<lambda>p. Ssh (''ssh://'' @ user @ ''@'' @ host @ ''/'' @ p) host DEFAULT_SSH_PORT user p) (trimPath path))
      | None \<Rightarrow>
          (case parse s of
             None \<Rightarrow> None
           | Some url \<Rightarrow>
               if gu_hostname url = [] then None
               else case trimPath (gu_pathname url) of
                 None \<Rightarrow> None
               | Some path \<Rightarrow>
                   if gu_protocol url = ''https:''
                   then Some (Https (gu_with_path url (''/'' @ path)) (gu_hostname url) path)
                   else if gu_protocol url = ''ssh:''
                   then (let user = (if gu_username url \<noteq> [] then gu_username url else DEFAULT_SSH_USER);
                             port = orElse (gu_port url) DEFAULT_SSH_PORT;
                             portPart = (if port = DEFAULT_SSH_PORT then [] else '':'' @ int_text port)
                         in if port \<le> 0 then None
                            else Some (Ssh (''ssh://'' @ user @ ''@'' @ gu_hostname url @ portPart @ ''/'' @ path)
                                   (gu_hostname url) port user path))
                   else None))"

definition strip_suffix :: "string \<Rightarrow> string \<Rightarrow> string" where
  "strip_suffix suffix s = (if ends_with suffix s then take (length s - length suffix) s else s)"

definition repoRef :: "git_remote option \<Rightarrow> (string \<times> string) option" where
  "repoRef remote =
     (case remote of
        None \<Rightarrow> None
      | Some r \<Rightarrow>
          (case filter (\<lambda>s. s \<noteq> []) (split_on CHR ''/'' (remote_path r)) of
             owner # repo # _ \<Rightarrow>
               (let name = strip_suffix ''.git'' repo in if name = [] then None else Some (owner, name))
           | _ \<Rightarrow> None))"

section \<open>Ref advertisements\<close>

datatype git_remote_probe = Reachable "string list" | RepoUnavailable string | Unreachable string

definition hex_value :: "string \<Rightarrow> nat option" where
  "hex_value s =
     (if list_all (\<lambda>c. hex_digit c \<noteq> None) s then Some (foldl (\<lambda>n c. 16 * n + the (hex_digit c)) 0 s) else None)"

definition strip_newline :: "string \<Rightarrow> string" where
  "strip_newline s = strip_suffix [CHR 0x0A] s"

definition ref_of_payload :: "string \<Rightarrow> string option" where
  "ref_of_payload payload =
     (if starts_with ''#'' payload then None
      else let line = strip_newline (takeWhile (\<lambda>c. c \<noteq> CHR 0x00) payload) in
        if CHR '' '' \<notin> set line then None
        else let ref = after CHR '' '' line in if ref = [] then None else Some ref)"

function parseRefAdvertisement :: "string \<Rightarrow> string list" where
  "parseRefAdvertisement body =
     (if length body < 4 then []
      else case hex_value (take 4 body) of
        None \<Rightarrow> []
      | Some n \<Rightarrow>
          if take 4 body = ''0000'' then parseRefAdvertisement (drop 4 body)
          else if n < 4 \<or> length body < n then []
          else (case ref_of_payload (drop 4 (take n body)) of Some r \<Rightarrow> [r] | None \<Rightarrow> []) @
               parseRefAdvertisement (drop n body))"
  by pat_completeness auto

termination
  by (relation "measure length") auto

declare parseRefAdvertisement.simps [simp del]

definition is_full_sha :: "string \<Rightarrow> bool" where
  "is_full_sha s \<longleftrightarrow> length s = 40 \<and> list_all (\<lambda>c. hex_digit c \<noteq> None) s"

definition refIsAdvertised :: "string list \<Rightarrow> string \<Rightarrow> bool" where
  "refIsAdvertised refs ref \<longleftrightarrow>
     is_full_sha ref \<or> (''refs/heads/'' @ ref) \<in> set refs \<or> (''refs/tags/'' @ ref) \<in> set refs"

datatype offered_credential = NoCredential | TokenCredential | SshKeys

fun unavailableProblem :: "string \<Rightarrow> string \<Rightarrow> offered_credential \<Rightarrow> string" where
  "unavailableProblem url detail TokenCredential =
     url @ '' was not found, or your connected Git account cannot read it. '' @
     ''Check the URL and the repository'' @ [CHR 0x27] @ ''s access.''"
| "unavailableProblem url detail SshKeys =
     url @ '' was not found, or none of your GitHub SSH keys can read it ('' @ detail @ ''). '' @
     ''Check the URL, and that the key'' @ [CHR 0x27] @ ''s public half is added to GitHub.''"
| "unavailableProblem url detail NoCredential =
     url @ '' was not found, or it is private. '' @
     ''Check the URL, or connect your Git account to use a private repository.''"

definition repositoryProblem ::
  "git_remote_probe \<Rightarrow> string \<Rightarrow> string option \<Rightarrow> offered_credential \<Rightarrow> string option" where
  "repositoryProblem probe url ref offered =
     (case probe of
        Reachable refs \<Rightarrow>
          (case ref of
             None \<Rightarrow> None
           | Some r \<Rightarrow>
               if refIsAdvertised refs r then None
               else Some (url @ '' has no branch or tag named '' @ quoted r @ ''.''))
      | RepoUnavailable detail \<Rightarrow> Some (unavailableProblem url detail offered)
      | Unreachable detail \<Rightarrow> Some (url @ '' could not be reached: '' @ detail))"

section \<open>The wire format\<close>

text \<open>What a host sends: packet lines of four hexadecimal digits and a payload, and flushes.\<close>

definition hex_char :: "nat \<Rightarrow> char" where
  "hex_char n = (if n < 10 then char_of (48 + n) else char_of (87 + n))"

definition hex4 :: "nat \<Rightarrow> string" where
  "hex4 n = map hex_char [n div 4096 mod 16, n div 256 mod 16, n div 16 mod 16, n mod 16]"

definition pkt_line :: "string \<Rightarrow> string" where
  "pkt_line payload = hex4 (length payload + 4) @ payload"

datatype pkt = Flush | Line string

fun wire :: "pkt \<Rightarrow> string" where
  "wire Flush = ''0000''"
| "wire (Line payload) = pkt_line payload"

lemma hex_digit_char: "n < 16 \<Longrightarrow> hex_digit (hex_char n) = Some n"
  by (auto simp: hex_digit_def hex_char_def code_def Let_def)

lemma hex_value_hex4: "n < 65536 \<Longrightarrow> hex_value (hex4 n) = Some n"
proof -
  assume "n < 65536"
  then have "n div 4096 mod 16 = n div 16 div 16 div 16" by (simp add: div_mult2_eq [symmetric])
  moreover have "n div 256 = n div 16 div 16" by (simp add: div_mult2_eq [symmetric])
  ultimately have "16 * (16 * (16 * (n div 4096 mod 16) + n div 256 mod 16) + n div 16 mod 16) + n mod 16 = n"
    by (simp only: mult_div_mod_eq)
  moreover have "n div 4096 mod 16 = n div 4096" "n div 4096 < 16" using \<open>n < 65536\<close> by simp_all
  ultimately show ?thesis by (simp add: hex_value_def hex4_def hex_digit_char)
qed

lemma hex4_zero:
  assumes "n < 65536" and "hex4 n = ''0000''"
  shows "n = 0"
proof -
  have "hex_value ''0000'' = Some n" using hex_value_hex4 [OF assms(1)] assms(2) by simp
  then show ?thesis by (simp add: hex_value_def hex_digit_def code_def)
qed

lemma line_digits: "length payload < 65532 \<Longrightarrow> hex4 (length payload + 4) \<noteq> ''0000''"
  using hex4_zero [of "length payload + 4"] by auto

lemma hex4_length [simp]: "length (hex4 n) = 4"
  by (simp add: hex4_def)

lemma parse_short: "length b < 4 \<Longrightarrow> parseRefAdvertisement b = []"
  by (simp add: parseRefAdvertisement.simps [of b])

lemma parse_flush: "parseRefAdvertisement (''0000'' @ b) = parseRefAdvertisement b"
  by (subst parseRefAdvertisement.simps) (simp add: hex_value_def hex_digit_def code_def)

lemma parse_line:
  assumes "length payload < 65532"
  shows "parseRefAdvertisement (pkt_line payload @ b) =
    (case ref_of_payload payload of Some r \<Rightarrow> [r] | None \<Rightarrow> []) @ parseRefAdvertisement b"
  using assms hex_value_hex4 [of "length payload + 4"] line_digits [of payload]
  by (subst parseRefAdvertisement.simps) (simp add: pkt_line_def)

lemma parse_cut:
  assumes "length payload < 65532" and "n < length (pkt_line payload)"
  shows "parseRefAdvertisement (take n (pkt_line payload @ b)) = []"
proof (cases "n < 4")
  case False
  then have "take 4 (take n (pkt_line payload @ b)) = hex4 (length payload + 4)" by (simp add: pkt_line_def min_def)
  then show ?thesis
    using assms False hex_value_hex4 [of "length payload + 4"] line_digits [of payload]
    by (subst parseRefAdvertisement.simps) (simp add: pkt_line_def)
qed (simp add: parse_short)

definition refs_of :: "pkt list \<Rightarrow> string list" where
  "refs_of ps = List.map_filter (\<lambda>p. case p of Flush \<Rightarrow> None | Line s \<Rightarrow> ref_of_payload s) ps"



end
