(* ===== verification/Catalog.thy ===== *)
theory Catalog
  imports Access
begin

text \<open>
  The catalog of base images: the pure functions (\<^verbatim>\<open>packages/core/src/domain/base-image-catalog.ts\<close>)
  and the service over them (\<^verbatim>\<open>packages/control-plane/src/catalog-service.ts\<close>).

  The table is a list of rows with their versions. An edit reads a row and writes it back on
  the condition that its version is the one it read; \<open>others\<close> is what the rest of the system
  does to the table in between. The catalog index lists the rows in the table's order.
\<close>

section \<open>Entries\<close>

record base_image_entry =
  bi_id :: string
  bi_name :: string
  bi_image :: string
  bi_description :: string
  bi_tags :: "string list"
  bi_tools :: "string list"
  bi_enabled :: bool
  bi_editor :: editor_kind
  bi_createdAt :: iso_timestamp

record base_image_patch =
  bp_name :: "string option"
  bp_image :: "string option"
  bp_description :: "string option"
  bp_tags :: "string list option"
  bp_tools :: "string list option"
  bp_enabled :: "bool option"
  bp_editor :: "editor_kind option"

fun normalize_from :: "string list \<Rightarrow> string list \<Rightarrow> string list" where
  "normalize_from seen [] = []"
| "normalize_from seen (label # labels) =
     (let trimmed = trim label in
      if trimmed = [] \<or> trimmed \<in> set seen then normalize_from seen labels
      else trimmed # normalize_from (trimmed # seen) labels)"

definition normalizeLabels :: "string list option \<Rightarrow> string list" where
  "normalizeLabels labels = normalize_from [] (orElse labels [])"

text \<open>The parameters of a new entry are a patch with a name and an image.\<close>

definition provisionBaseImage :: "string \<Rightarrow> base_image_patch \<Rightarrow> iso_timestamp \<Rightarrow> js_error + base_image_entry" where
  "provisionBaseImage i p at =
     (if trim (or_empty (bp_name p)) = [] then Inl (plain_error ''Error'' ''base image name is required'')
      else if trim (or_empty (bp_image p)) = [] then Inl (plain_error ''Error'' ''base image reference is required'')
      else Inr \<lparr>bi_id = i, bi_name = trim (or_empty (bp_name p)), bi_image = or_empty (bp_image p),
                bi_description = orElse (bp_description p) [], bi_tags = normalizeLabels (bp_tags p),
                bi_tools = normalizeLabels (bp_tools p), bi_enabled = orElse (bp_enabled p) True,
                bi_editor = orElse (bp_editor p) DEFAULT_EDITOR, bi_createdAt = at\<rparr>)"

definition applyBaseImagePatch :: "base_image_entry \<Rightarrow> base_image_patch \<Rightarrow> js_error + base_image_entry" where
  "applyBaseImagePatch entry p =
     (if map_option trim (bp_name p) = Some [] then Inl (plain_error ''Error'' ''base image name cannot be blank'')
      else if map_option trim (bp_image p) = Some [] then Inl (plain_error ''Error'' ''base image reference cannot be blank'')
      else Inr (entry\<lparr>
        bi_name := (case bp_name p of None \<Rightarrow> bi_name entry | Some n \<Rightarrow> trim n),
        bi_image := orElse (bp_image p) (bi_image entry),
        bi_description := orElse (bp_description p) (bi_description entry),
        bi_tags := (case bp_tags p of None \<Rightarrow> bi_tags entry | Some ls \<Rightarrow> normalizeLabels (Some ls)),
        bi_tools := (case bp_tools p of None \<Rightarrow> bi_tools entry | Some ls \<Rightarrow> normalizeLabels (Some ls)),
        bi_enabled := orElse (bp_enabled p) (bi_enabled entry),
        bi_editor := orElse (bp_editor p) (bi_editor entry)\<rparr>))"

definition findEnabledImage :: "base_image_entry list \<Rightarrow> string \<Rightarrow> base_image_entry option" where
  "findEnabledImage catalog img = find (\<lambda>entry. bi_enabled entry \<and> bi_image entry = img) catalog"

section \<open>The table\<close>

record base_image_record =
  br_id :: string
  br_name :: string
  br_image :: string
  br_description :: string
  br_tags :: "string list option"
  br_tools :: "string list option"
  br_enabled :: bool
  br_editor :: "string option"
  br_createdAt :: iso_timestamp
  br_version :: "int option"

type_synonym catalog = "(string \<times> base_image_record) list"

definition toEntry :: "base_image_record \<Rightarrow> js_error + base_image_entry" where
  "toEntry r =
     map_sum id (\<lambda>ed. \<lparr>bi_id = br_id r, bi_name = br_name r, bi_image = br_image r,
         bi_description = br_description r, bi_tags = orElse (br_tags r) [], bi_tools = orElse (br_tools r) [],
         bi_enabled = br_enabled r, bi_editor = ed, bi_createdAt = br_createdAt r\<rparr>)
       (asEditorKind (br_editor r))"

definition fromEntry :: "base_image_entry \<Rightarrow> int \<Rightarrow> base_image_record" where
  "fromEntry e v =
     \<lparr>br_id = bi_id e, br_name = bi_name e, br_image = bi_image e, br_description = bi_description e,
      br_tags = Some (bi_tags e), br_tools = Some (bi_tools e), br_enabled = bi_enabled e,
      br_editor = Some (editor_name (bi_editor e)), br_createdAt = bi_createdAt e, br_version = Some v\<rparr>"

definition requiredVersion :: "base_image_record \<Rightarrow> js_error + int" where
  "requiredVersion r =
     (case br_version r of
        Some v \<Rightarrow> Inr v
      | None \<Rightarrow> Inl (plain_error ''Error'' (''base image '' @ br_id r @ '' is missing required catalog version'')))"

definition loaded :: "base_image_record \<Rightarrow> js_error + base_image_entry \<times> int" where
  "loaded r =
     (case toEntry r of Inl e \<Rightarrow> Inl e | Inr entry \<Rightarrow> map_sum id (Pair entry) (requiredVersion r))"

fun load_all :: "base_image_record list \<Rightarrow> js_error + (base_image_entry \<times> int) list" where
  "load_all [] = Inr []"
| "load_all (r # rs) =
     (case loaded r of Inl e \<Rightarrow> Inl e | Inr x \<Rightarrow> map_sum id (Cons x) (load_all rs))"

definition allLoaded :: "catalog \<Rightarrow> js_error + (base_image_entry \<times> int) list" where
  "allLoaded s = load_all (map snd s)"

definition find_entry :: "string \<Rightarrow> catalog \<Rightarrow> js_error + (base_image_entry \<times> int) option" where
  "find_entry i s =
     (case map_of s i of None \<Rightarrow> Inr None | Some r \<Rightarrow> map_sum id Some (loaded r))"

section \<open>The service\<close>

type_synonym catalog_answer = "js_error + (base_image_entry, domain_error) result"

definition catalog_list :: "catalog \<Rightarrow> js_error + base_image_entry list" where
  "catalog_list s = map_sum id (map fst) (allLoaded s)"

definition catalog_get :: "string \<Rightarrow> catalog \<Rightarrow> js_error + base_image_entry option" where
  "catalog_get i s = map_sum id (map_option fst) (find_entry i s)"

definition persist_new :: "base_image_entry \<Rightarrow> catalog \<Rightarrow> (js_error + unit) \<times> catalog" where
  "persist_new entry s =
     (if map_of s (bi_id entry) \<noteq> None
      then (Inl (plain_error ''ConditionalCheckFailedException'' ''The conditional request failed''), s)
      else (Inr (), s @ [(bi_id entry, fromEntry entry 0)]))"

definition catalog_create ::
  "string \<Rightarrow> base_image_patch \<Rightarrow> iso_timestamp \<Rightarrow> catalog \<Rightarrow> (js_error + base_image_entry) \<times> catalog" where
  "catalog_create i p at s =
     (case provisionBaseImage i p at of
        Inl e \<Rightarrow> (Inl e, s)
      | Inr entry \<Rightarrow> (case persist_new entry s of (Inl e, s') \<Rightarrow> (Inl e, s') | (Inr _, s') \<Rightarrow> (Inr entry, s')))"

text \<open>The conditioned write sets every attribute but the creation time; whether it was applied.\<close>

definition persistUpdate :: "base_image_entry \<Rightarrow> int \<Rightarrow> catalog \<Rightarrow> bool \<times> catalog" where
  "persistUpdate entry observed s =
     (case map_of s (bi_id entry) of
        None \<Rightarrow> (False, s)
      | Some r \<Rightarrow>
          if br_version r = Some observed
          then (True, AList.update (bi_id entry)
                 ((fromEntry entry (observed + 1))\<lparr>br_createdAt := br_createdAt r\<rparr>) s)
          else (False, s))"

definition catalog_update ::
  "(catalog \<Rightarrow> catalog) \<Rightarrow> string \<Rightarrow> base_image_patch \<Rightarrow> catalog \<Rightarrow> catalog_answer \<times> catalog" where
  "catalog_update others i p s =
     (case find_entry i s of
        Inl e \<Rightarrow> (Inl e, s)
      | Inr None \<Rightarrow> (Inr (Err (NotFound ''base image'' i)), s)
      | Inr (Some (entry, v)) \<Rightarrow>
          (case applyBaseImagePatch entry p of
             Inl e \<Rightarrow> (Inl e, s)
           | Inr nxt \<Rightarrow>
               (case persistUpdate nxt v (others s) of
                  (True, s') \<Rightarrow> (Inr (Ok nxt), s')
                | (False, s') \<Rightarrow> (Inr (Err (Conflict (''update of '' @ i @ '' lost a concurrent update''))), s'))))"

definition catalog_remove ::
  "(catalog \<Rightarrow> catalog) \<Rightarrow> string \<Rightarrow> catalog \<Rightarrow> (js_error + (unit, domain_error) result) \<times> catalog" where
  "catalog_remove others i s =
     (case find_entry i s of
        Inl e \<Rightarrow> (Inl e, s)
      | Inr None \<Rightarrow> (Inr (Err (NotFound ''base image'' i)), s)
      | Inr (Some (entry, v)) \<Rightarrow>
          (let t = others s in
           if map_option br_version (map_of t i) = Some (Some v) then (Inr (Ok ()), AList.delete i t)
           else (Inr (Err (Conflict (''remove of '' @ i @ '' lost a concurrent update''))), t)))"

text \<open>The position after the last occurrence of a character, zero where there is none.\<close>

definition after_last :: "char \<Rightarrow> string \<Rightarrow> nat" where
  "after_last c s = length (dropWhile (\<lambda>x. x \<noteq> c) (rev s))"

definition imageRefWithoutTag :: "string \<Rightarrow> js_error + string" where
  "imageRefWithoutTag ref =
     (if after_last CHR '':'' ref \<le> after_last CHR ''/'' ref
      then Inl (plain_error ''Error'' (''catalog image reference has no tag: '' @ ref))
      else Inr (take (after_last CHR '':'' ref - 1) ref))"

definition imageRefMatchesRepo :: "string \<Rightarrow> string \<Rightarrow> js_error + bool" where
  "imageRefMatchesRepo img repo =
     map_sum id (\<lambda>withoutTag. withoutTag = repo \<or> ends_with (''/'' @ repo) withoutTag) (imageRefWithoutTag img)"

definition replaceImageTag :: "string \<Rightarrow> string \<Rightarrow> js_error + string" where
  "replaceImageTag img tag =
     (if trim tag = [] then Inl (plain_error ''Error'' ''image tag is required'')
      else map_sum id (\<lambda>r. r @ '':'' @ tag) (imageRefWithoutTag img))"

fun matching :: "string \<Rightarrow> (base_image_entry \<times> int) list \<Rightarrow> js_error + (base_image_entry \<times> int) list" where
  "matching repo [] = Inr []"
| "matching repo (x # xs) =
     (case imageRefMatchesRepo (bi_image (fst x)) repo of
        Inl e \<Rightarrow> Inl e
      | Inr b \<Rightarrow> map_sum id (\<lambda>ys. if b then x # ys else ys) (matching repo xs))"

definition image_patch :: "string \<Rightarrow> base_image_patch" where
  "image_patch img =
     \<lparr>bp_name = None, bp_image = Some img, bp_description = None, bp_tags = None, bp_tools = None,
      bp_enabled = None, bp_editor = None\<rparr>"

definition rollImageTag ::
  "(catalog \<Rightarrow> catalog) \<Rightarrow> string \<Rightarrow> string \<Rightarrow> catalog \<Rightarrow> catalog_answer \<times> catalog" where
  "rollImageTag others repo tag s =
     (case allLoaded s of
        Inl e \<Rightarrow> (Inl e, s)
      | Inr all \<Rightarrow>
          (case matching repo all of
             Inl e \<Rightarrow> (Inl e, s)
           | Inr [] \<Rightarrow> (Inr (Err (Conflict (''no catalog entry points at image repo '' @ repo))), s)
           | Inr [(entry, v)] \<Rightarrow>
               (case replaceImageTag (bi_image entry) tag of
                  Inl e \<Rightarrow> (Inl e, s)
                | Inr img \<Rightarrow>
                    (case applyBaseImagePatch entry (image_patch img) of
                       Inl e \<Rightarrow> (Inl e, s)
                     | Inr nxt \<Rightarrow>
                         (case persistUpdate nxt v (others s) of
                            (True, s') \<Rightarrow> (Inr (Ok nxt), s')
                          | (False, s') \<Rightarrow>
                              (Inr (Err (Conflict (''rollout of '' @ repo @ '' lost a concurrent update''))), s'))))
           | Inr _ \<Rightarrow> (Inr (Err (Conflict (''multiple catalog entries point at image repo '' @ repo))), s)))"

definition assertEnabled :: "string \<Rightarrow> catalog \<Rightarrow> js_error + (unit, domain_error) result" where
  "assertEnabled img s =
     map_sum id (\<lambda>all. if findEnabledImage all img = None
                      then Err (Conflict (''base image is not in the catalog: '' @ img)) else Ok ()) (catalog_list s)"

definition editorForImage :: "string \<Rightarrow> catalog \<Rightarrow> js_error + editor_kind" where
  "editorForImage img s =
     map_sum id (\<lambda>all. case findEnabledImage all img of None \<Rightarrow> DEFAULT_EDITOR | Some e \<Rightarrow> bi_editor e) (catalog_list s)"

section \<open>Properties\<close>

lemma loaded_fromEntry: "loaded (fromEntry e v) = Inr (e, v)"
  by (simp add: loaded_def toEntry_def fromEntry_def requiredVersion_def orElse_def)

lemma patch_id: "applyBaseImagePatch entry p = Inr nxt \<Longrightarrow> bi_id nxt = bi_id entry \<and> bi_createdAt nxt = bi_createdAt entry"
  by (auto simp: applyBaseImagePatch_def split: if_splits)

text \<open>Rows are filed under their own identifier, and a version stands for one content of a row.\<close>

definition filed :: "catalog \<Rightarrow> bool" where
  "filed s \<longleftrightarrow> (\<forall>i r. map_of s i = Some r \<longrightarrow> br_id r = i)"

definition versions_agree :: "catalog \<Rightarrow> catalog \<Rightarrow> bool" where
  "versions_agree s t \<longleftrightarrow>
     (\<forall>i r q. map_of s i = Some r \<and> map_of t i = Some q \<and> br_version r = br_version q \<longrightarrow> r = q)"

lemma loaded_id: "loaded r = Inr (e, v) \<Longrightarrow> bi_id e = br_id r \<and> br_version r = Some v"
  by (auto simp: loaded_def toEntry_def requiredVersion_def map_sum_def split: sum.splits option.splits)


definition sample_image :: base_image_entry where
  "sample_image = \<lparr>bi_id = ''img-1'', bi_name = ''Node'', bi_image = ''ecr/node:1'', bi_description = [], bi_tags = [],
     bi_tools = [], bi_enabled = True, bi_editor = Openvscode, bi_createdAt = Iso 0\<rparr>"


end
