(* ===== verification/Api.thy ===== *)
theory Api
  imports Service_Trace Access_Props Git_Remote Catalog
begin

text \<open>
  The API routes over workspaces: the guards of \<^verbatim>\<open>apps/web/lib/api.ts\<close> and
  \<^verbatim>\<open>workspace-broker.ts\<close>, the quota of a role (\<^verbatim>\<open>quota.ts\<close>), the owner's address
  (\<^verbatim>\<open>owner-email.ts\<close>), and the handlers under \<^verbatim>\<open>apps/web/app/api/workspaces\<close> and
  \<^verbatim>\<open>apps/web/app/api/admin\<close> as actions on the world of the service.

  Parameters. \<open>api\<close> holds what is not under \<^verbatim>\<open>src/\<close>: the providers behind the service, the
  check of CASL, the keyed hash, URL decoding and the environment of the process. A request
  carries its headers and what \<^verbatim>\<open>auth()\<close> resolves to for it. A body arrives as the outcome
  of its schema. An exception that a handler does not catch stays raised; the server answers
  it with 500. Request metrics and logs are not modelled.
\<close>

section \<open>Responses\<close>

datatype api_body =
    ErrorBody string
  | WorkspaceBody workspace_dto
  | WorkspacesBody "(workspace_dto \<times> base_image_entry option \<times> string option) list"
  | DetailBody "workspace \<times> timeline_event list"
  | SnapshotsBody "workspace_snapshot_view list"
  | AdminSnapshotsBody "admin_snapshot_view list"
  | PurgedBody "string list"
  | HostBody string int
  | SshBody "string option"
  | CredentialBody string
  | KeysBody "string list"
  | NoBody

record api_response =
  status :: nat
  body :: api_body

definition json :: "nat \<Rightarrow> api_body \<Rightarrow> api_response" where
  "json s b = \<lparr>status = s, body = b\<rparr>"

definition unauthorized :: api_response where
  "unauthorized = json 401 (ErrorBody ''unauthorized'')"

definition forbidden :: api_response where
  "forbidden = json 403 (ErrorBody ''forbidden'')"

definition notFound :: api_response where
  "notFound = json 404 (ErrorBody ''not found'')"

definition badRequest :: "string \<Rightarrow> api_response" where
  "badRequest message = json 400 (ErrorBody message)"

definition conflict :: "string \<Rightarrow> api_response" where
  "conflict message = json 409 (ErrorBody message)"

definition unprocessable :: "string \<Rightarrow> api_response" where
  "unprocessable message = json 422 (ErrorBody message)"

fun DOMAIN_ERROR_STATUS :: "domain_error \<Rightarrow> nat" where
  "DOMAIN_ERROR_STATUS (NotFound _ _) = 404"
| "DOMAIN_ERROR_STATUS (Conflict _) = 409"
| "DOMAIN_ERROR_STATUS (Invalid _) = 400"
| "DOMAIN_ERROR_STATUS (Unavailable _) = 503"

definition domainErrorResponse :: "domain_error \<Rightarrow> api_response" where
  "domainErrorResponse e = json (DOMAIN_ERROR_STATUS e) (ErrorBody (domainErrorMessage e))"

definition invalid_request :: string where
  "invalid_request = ''invalid request''"

text \<open>What a handler learns of a request's body.\<close>

datatype 'a request_body = NotJson | Rejected | Accepted 'a

section \<open>Requests\<close>

record 'p api =
  a_deps :: "'p deps"
  a_casl :: casl
  a_hmac :: hmac
  a_decode :: "string \<Rightarrow> string option"
  a_env :: environment

record api_request =
  ar_headers :: headers
  ar_session :: "js_error + auth_user option"

definition principal_of :: "'p api \<Rightarrow> api_request \<Rightarrow> js_error + principal option" where
  "principal_of a req = getPrincipal (a_decode a) (a_env a) (ar_session req) (ar_headers req)"

definition can :: "'p api \<Rightarrow> principal \<Rightarrow> action \<Rightarrow> bool" where
  "can a p act = a_casl a (defineAbilityFor p) act WorkspaceSubject"

text \<open>A guard answers a response that ends the handler, or what it resolved.\<close>

definition orReply ::
  "('p, api_response + 'a) act \<Rightarrow> ('a \<Rightarrow> ('p, api_response) act) \<Rightarrow> ('p, api_response) act" where
  "orReply m f = bindM m (\<lambda>g. case g of Inl response \<Rightarrow> ret response | Inr x \<Rightarrow> f x)"

definition authenticate :: "'p api \<Rightarrow> api_request \<Rightarrow> ('p, api_response + principal) act" where
  "authenticate a req =
     bindM (liftE (principal_of a req)) (\<lambda>p.
       ret (case p of None \<Rightarrow> Inl unauthorized | Some p \<Rightarrow> Inr p))"

definition requireAdmin :: "'p api \<Rightarrow> api_request \<Rightarrow> ('p, api_response + principal) act" where
  "requireAdmin a req =
     bindM (authenticate a req) (\<lambda>g. ret (case g of
         Inl response \<Rightarrow> Inl response
       | Inr p \<Rightarrow> if pr_role p \<noteq> Admin then Inl forbidden else Inr p))"

definition ownsOrAdmin :: "principal \<Rightarrow> string \<Rightarrow> bool" where
  "ownsOrAdmin p owner \<longleftrightarrow> pr_role p = Admin \<or> pr_id p = owner"

record owned_workspace =
  ow_ws :: workspace_dto
  ow_principal :: "principal option"

definition loadOwnedWorkspace ::
  "'p api \<Rightarrow> api_request \<Rightarrow> string \<Rightarrow> action \<Rightarrow> ('p, api_response + owned_workspace) act" where
  "loadOwnedWorkspace a req i act =
     bindM (authenticate a req) (\<lambda>g. case g of
         Inl response \<Rightarrow> ret (Inl response)
       | Inr p \<Rightarrow>
           if \<not> can a p act then ret (Inl forbidden)
           else bindM (svc_get (a_deps a) i) (\<lambda>found. ret (case found of
                  None \<Rightarrow> Inl notFound
                | Some ws \<Rightarrow>
                    if \<not> ownsOrAdmin p (ownerId (fst ws)) then Inl forbidden
                    else Inr \<lparr>ow_ws = ws, ow_principal = Some p\<rparr>)))"

definition loadOwnedWorkspaceDetail ::
  "'p api \<Rightarrow> api_request \<Rightarrow> string \<Rightarrow>
   ('p, api_response + owned_workspace \<times> workspace \<times> timeline_event list) act" where
  "loadOwnedWorkspaceDetail a req i =
     bindM (loadOwnedWorkspace a req i Read) (\<lambda>g. case g of
         Inl response \<Rightarrow> ret (Inl response)
       | Inr ctx \<Rightarrow>
           bindM (svc_inspect (a_deps a) i) (\<lambda>detail.
             ret (case detail of None \<Rightarrow> Inl notFound | Some x \<Rightarrow> Inr (ctx, x))))"

definition loadConnectableWorkspace ::
  "'p api \<Rightarrow> api_request \<Rightarrow> string \<Rightarrow> action \<Rightarrow> ('p, api_response + owned_workspace) act" where
  "loadConnectableWorkspace a req i act =
     bindM (liftE (checkGatewayAuth (a_hmac a) (a_env a) (ar_headers req) i)) (\<lambda>gateway.
       case gateway of
         InvalidAuth \<Rightarrow> ret (Inl unauthorized)
       | ValidAuth \<Rightarrow>
           bindM (svc_get (a_deps a) i) (\<lambda>found. ret (case found of
             None \<Rightarrow> Inl notFound | Some ws \<Rightarrow> Inr \<lparr>ow_ws = ws, ow_principal = None\<rparr>))
       | AbsentAuth \<Rightarrow> loadOwnedWorkspace a req i act)"

definition loadBrokeredWorkspace ::
  "'p api \<Rightarrow> api_request \<Rightarrow> string \<Rightarrow> ('p, api_response + workspace_dto) act" where
  "loadBrokeredWorkspace a req i =
     bindM (liftE (checkAgentAuth (a_hmac a) (a_env a) (ar_headers req) i)) (\<lambda>agent.
       if agent \<noteq> ValidAuth then ret (Inl unauthorized)
       else bindM (svc_get (a_deps a) i) (\<lambda>found. ret (case found of
              None \<Rightarrow> Inl notFound
            | Some ws \<Rightarrow>
                if state (fst ws) = Deleting \<or> state (fst ws) = Terminated then Inl notFound
                else Inr ws)))"

definition auditActor :: "principal \<Rightarrow> string" where
  "auditActor p = orElse (pr_email p) (pr_id p)"

text \<open>\<^verbatim>\<open>ctx.principal === undefined ? undefined : auditActor(...)\<close>; the service's default is the
  system.\<close>

definition actor_of :: "owned_workspace \<Rightarrow> string" where
  "actor_of ctx = (case ow_principal ctx of None \<Rightarrow> SYSTEM_ACTOR | Some p \<Rightarrow> auditActor p)"

definition reply :: "('p, (workspace_dto, domain_error) result) act \<Rightarrow> ('p, api_response) act" where
  "reply m = bindM m (\<lambda>r. ret (case r of
     Ok ws \<Rightarrow> json 200 (WorkspaceBody ws) | Err e \<Rightarrow> domainErrorResponse e))"

definition accept :: "('p, (unit, domain_error) result) act \<Rightarrow> ('p, api_response) act" where
  "accept m = bindM m (\<lambda>r. ret (case r of Ok _ \<Rightarrow> json 202 NoBody | Err e \<Rightarrow> domainErrorResponse e))"

definition ownedLifecycleAction ::
  "'p api \<Rightarrow> api_request \<Rightarrow> string \<Rightarrow>
   (owned_workspace \<Rightarrow> ('p, (workspace_dto, domain_error) result) act) \<Rightarrow> ('p, api_response) act" where
  "ownedLifecycleAction a req i run =
     orReply (loadOwnedWorkspace a req i Update) (\<lambda>ctx. reply (run ctx))"

definition lifecyclePOSTWithBody ::
  "'p api \<Rightarrow> api_request \<Rightarrow> string \<Rightarrow> 'b request_body \<Rightarrow>
   (owned_workspace \<Rightarrow> 'b \<Rightarrow> ('p, (workspace_dto, domain_error) result) act) \<Rightarrow> ('p, api_response) act" where
  "lifecyclePOSTWithBody a req i b run =
     (case b of
        Accepted x \<Rightarrow> ownedLifecycleAction a req i (\<lambda>ctx. run ctx x)
      | _ \<Rightarrow> ret (badRequest invalid_request))"

section \<open>Quotas and addresses\<close>

fun DEFAULT_WORKSPACE_QUOTAS :: "owner_role \<Rightarrow> int option" where
  "DEFAULT_WORKSPACE_QUOTAS Viewer = Some 0"
| "DEFAULT_WORKSPACE_QUOTAS Developer = Some 5"
| "DEFAULT_WORKSPACE_QUOTAS Admin = None"

fun quota_env :: "owner_role \<Rightarrow> string" where
  "quota_env Viewer = ''EDD_QUOTA_VIEWER''"
| "quota_env Developer = ''EDD_QUOTA_DEVELOPER''"
| "quota_env Admin = ''EDD_QUOTA_ADMIN''"

definition decimal_digit :: "char \<Rightarrow> bool" where
  "decimal_digit c \<longleftrightarrow> 48 \<le> (of_char c :: nat) \<and> (of_char c :: nat) \<le> 57"

definition decimal :: "string \<Rightarrow> int" where
  "decimal s = foldl (\<lambda>n c. 10 * n + (of_char c - 48)) 0 s"

definition workspaceLimit :: "environment \<Rightarrow> owner_role \<Rightarrow> js_error + int option" where
  "workspaceLimit env role =
     (case env (quota_env role) of
        Some (c # cs) \<Rightarrow>
          if list_all decimal_digit (c # cs) then Inr (Some (decimal (c # cs)))
          else Inl (plain_error ''Error'' (''invalid '' @ quota_env role @ ''='' @ [CHR 0x22] @ (c # cs) @ [CHR 0x22] @
                 '': expected a non-negative integer''))
      | _ \<Rightarrow> Inr (DEFAULT_WORKSPACE_QUOTAS role))"

definition resolveOwnerEmail :: "string option \<Rightarrow> bool \<Rightarrow> string + string option" where
  "resolveOwnerEmail raw devAuth =
     (case raw of
        Some m \<Rightarrow>
          (case email m of
             Inr e \<Rightarrow> Inr (Some e)
           | Inl _ \<Rightarrow> Inl (''your account'' @ [CHR 0x27] @ ''s email address is malformed''))
      | None \<Rightarrow>
          if \<not> devAuth
          then Inl ''your account has no email address; a workspace requires one to be reachable''
          else Inr None)"

section \<open>Handlers of one workspace\<close>

definition start_POST :: "'p api \<Rightarrow> api_request \<Rightarrow> string \<Rightarrow> ('p, api_response) act" where
  "start_POST a req i = ownedLifecycleAction a req i (\<lambda>ctx. svc_start (a_deps a) i (actor_of ctx))"

definition stop_POST :: "'p api \<Rightarrow> api_request \<Rightarrow> string \<Rightarrow> ('p, api_response) act" where
  "stop_POST a req i = ownedLifecycleAction a req i (\<lambda>ctx. requestStop (a_deps a) i (actor_of ctx))"

definition cancelStop_POST :: "'p api \<Rightarrow> api_request \<Rightarrow> string \<Rightarrow> ('p, api_response) act" where
  "cancelStop_POST a req i = ownedLifecycleAction a req i (\<lambda>ctx. cancelStop (a_deps a) i (actor_of ctx))"

definition retry_POST :: "'p api \<Rightarrow> api_request \<Rightarrow> string \<Rightarrow> ('p, api_response) act" where
  "retry_POST a req i = ownedLifecycleAction a req i (\<lambda>ctx. svc_retry (a_deps a) i)"

definition snapshot_POST :: "'p api \<Rightarrow> api_request \<Rightarrow> string \<Rightarrow> ('p, api_response) act" where
  "snapshot_POST a req i = ownedLifecycleAction a req i (\<lambda>ctx. svc_snapshot (a_deps a) i)"

definition undelete_POST :: "'p api \<Rightarrow> api_request \<Rightarrow> string \<Rightarrow> ('p, api_response) act" where
  "undelete_POST a req i =
     ownedLifecycleAction a req i (\<lambda>ctx.
       bindM (case ow_principal ctx of
                None \<Rightarrow> ret None | Some p \<Rightarrow> liftE (workspaceLimit (a_env a) (pr_role p))) (\<lambda>limit.
       svc_undelete (a_deps a) i
         \<lparr>uo_quotaLimit = limit, uo_actor = map_option auditActor (ow_principal ctx),
          uo_retentionMs = None\<rparr>))"

definition restore_POST ::
  "'p api \<Rightarrow> api_request \<Rightarrow> string \<Rightarrow> string request_body \<Rightarrow> ('p, api_response) act" where
  "restore_POST a req i b =
     lifecyclePOSTWithBody a req i b (\<lambda>ctx snap. restoreSnapshot (a_deps a) i snap (actor_of ctx))"

definition share_POST ::
  "'p api \<Rightarrow> api_request \<Rightarrow> string \<Rightarrow> bool request_body \<Rightarrow> ('p, api_response) act" where
  "share_POST a req i b =
     orReply (loadOwnedWorkspace a req i Update) (\<lambda>ctx. case b of
         Accepted enabled \<Rightarrow>
           reply (svc_setShare (a_deps a) i enabled (map_option auditActor (ow_principal ctx)))
       | _ \<Rightarrow> ret (badRequest ''body must be {enabled: boolean}''))"

definition purge_POST :: "'p api \<Rightarrow> api_request \<Rightarrow> string \<Rightarrow> ('p, api_response) act" where
  "purge_POST a req i =
     orReply (loadOwnedWorkspace a req i Delete) (\<lambda>ctx. accept (purgeNow (a_deps a) i (actor_of ctx)))"

definition workspace_DELETE :: "'p api \<Rightarrow> api_request \<Rightarrow> string \<Rightarrow> ('p, api_response) act" where
  "workspace_DELETE a req i =
     orReply (loadOwnedWorkspace a req i Delete) (\<lambda>ctx. accept (svc_remove (a_deps a) i (actor_of ctx)))"

definition workspace_PATCH ::
  "'p api \<Rightarrow> api_request \<Rightarrow> string \<Rightarrow> settings_patch request_body \<Rightarrow> ('p, api_response) act" where
  "workspace_PATCH a req i b =
     orReply (loadOwnedWorkspace a req i Update) (\<lambda>ctx. case b of
         Accepted patch \<Rightarrow>
           (case ow_principal ctx of
              None \<Rightarrow> ret forbidden
            | Some p \<Rightarrow> reply (updateSettings (a_deps a) i patch (auditActor p)))
       | _ \<Rightarrow> ret (badRequest invalid_request))"

definition snapshots_GET :: "'p api \<Rightarrow> api_request \<Rightarrow> string \<Rightarrow> ('p, api_response) act" where
  "snapshots_GET a req i =
     orReply (loadOwnedWorkspace a req i Read) (\<lambda>ctx.
       bindM (listWorkspaceSnapshots (a_deps a) i) (\<lambda>r. ret (case r of
         Ok views \<Rightarrow> json 200 (SnapshotsBody views) | Err e \<Rightarrow> domainErrorResponse e)))"

subsection \<open>With the gateway's token\<close>

definition workspace_GET :: "'p api \<Rightarrow> api_request \<Rightarrow> string \<Rightarrow> ('p, api_response) act" where
  "workspace_GET a req i =
     orReply (loadConnectableWorkspace a req i Read) (\<lambda>ctx. ret (json 200 (WorkspaceBody (ow_ws ctx))))"

definition connect_POST :: "'p api \<Rightarrow> api_request \<Rightarrow> string \<Rightarrow> ('p, api_response) act" where
  "connect_POST a req i =
     orReply (loadConnectableWorkspace a req i Update)
       (\<lambda>ctx. reply (svc_connect (a_deps a) i (actor_of ctx)))"

definition SSH_PORT :: int where
  "SSH_PORT = 22"

definition connectInfo_GET :: "'p api \<Rightarrow> api_request \<Rightarrow> string \<Rightarrow> ('p, api_response) act" where
  "connectInfo_GET a req i =
     orReply (loadConnectableWorkspace a req i Read) (\<lambda>ctx.
       if state (fst (ow_ws ctx)) \<noteq> Running \<and> state (fst (ow_ws ctx)) \<noteq> Idle
       then ret (conflict (''workspace '' @ i @ '' is '' @ state_name (state (fst (ow_ws ctx))) @
              '' -- call POST /connect to wake it first''))
       else bindM (svc_inspect (a_deps a) i) (\<lambda>detail. ret (case detail of
              None \<Rightarrow> notFound
            | Some (ws, _) \<Rightarrow>
                (case sshHost ws of
                   Some (c # cs) \<Rightarrow> json 200 (HostBody (c # cs) SSH_PORT)
                 | _ \<Rightarrow> conflict (''workspace '' @ i @ '' host not yet assigned -- retry shortly'')))))"

subsection \<open>With the agent's token\<close>

definition report_of :: "heartbeat_report request_body \<Rightarrow> heartbeat_report" where
  "report_of b = (case b of Accepted r \<Rightarrow> r | _ \<Rightarrow> NO_REPORT)"

definition heartbeat_POST ::
  "'p api \<Rightarrow> api_request \<Rightarrow> string \<Rightarrow> heartbeat_report request_body \<Rightarrow> ('p, api_response) act" where
  "heartbeat_POST a req i b =
     bindM (liftE (checkAgentAuth (a_hmac a) (a_env a) (ar_headers req) i)) (\<lambda>agent.
       case agent of
         InvalidAuth \<Rightarrow> ret unauthorized
       | ValidAuth \<Rightarrow>
           bindM (svc_get (a_deps a) i) (\<lambda>found. case found of
             None \<Rightarrow> ret notFound
           | Some _ \<Rightarrow> reply (svc_heartbeat (a_deps a) i (report_of b)))
       | AbsentAuth \<Rightarrow>
           orReply (loadOwnedWorkspace a req i Update)
             (\<lambda>ctx. reply (svc_heartbeat (a_deps a) i (report_of b))))"

definition securityEvent_POST ::
  "'p api \<Rightarrow> api_request \<Rightarrow> string \<Rightarrow> string request_body \<Rightarrow> ('p, api_response) act" where
  "securityEvent_POST a req i b =
     bindM (liftE (checkAgentAuth (a_hmac a) (a_env a) (ar_headers req) i)) (\<lambda>agent.
       if agent \<noteq> ValidAuth then ret unauthorized
       else case b of
         Accepted tool \<Rightarrow>
           bindM (svc_get (a_deps a) i) (\<lambda>found. case found of
             None \<Rightarrow> ret notFound
           | Some _ \<Rightarrow> accept (recordSecurityEvent (a_deps a) i tool))
       | _ \<Rightarrow> ret (badRequest invalid_request))"

text \<open>\<open>owner_of_key\<close> is the registry's answer for the presented key; \<open>issue\<close> what the schema says
  of a body it rejects.\<close>

definition isWorkspaceLabel :: "string \<Rightarrow> bool" where
  "isWorkspaceLabel v = WORKSPACE_LABEL_RE v"

definition workspacePrincipal :: "string \<Rightarrow> js_error + string" where
  "workspacePrincipal i =
     (if \<not> isWorkspaceLabel i then Inl (plain_error ''Error'' (''invalid workspaceId for SSH principal: '' @ i))
      else Inr (''dev-'' @ i))"

definition workspaceSshHost :: "string \<Rightarrow> string \<Rightarrow> js_error + string" where
  "workspaceSshHost i baseDomain =
     (if \<not> isWorkspaceLabel i then Inl (plain_error ''Error'' (''invalid workspaceId for SSH host: '' @ i))
      else if trim baseDomain = [] then Inl (plain_error ''Error'' ''baseDomain is required for the workspace SSH host'')
      else Inr (i @ ''.'' @ baseDomain))"

definition sshAuthorize_POST ::
  "'p api \<Rightarrow> (string \<Rightarrow> js_error + string option) \<Rightarrow> string option \<Rightarrow> api_request \<Rightarrow> string \<Rightarrow>
   string request_body \<Rightarrow> ('p, api_response) act" where
  "sshAuthorize_POST a owner_of_key issue req i b =
     bindM (liftE (checkGatewayAuth (a_hmac a) (a_env a) (ar_headers req) i)) (\<lambda>gateway.
     bindM (if gateway = ValidAuth then ret True
            else bindM (liftE (checkAgentAuth (a_hmac a) (a_env a) (ar_headers req) i))
                   (\<lambda>agent. ret (agent = ValidAuth))) (\<lambda>authed.
       if \<not> authed then ret unauthorized
       else case b of
         NotJson \<Rightarrow> ret (badRequest invalid_request)
       | Rejected \<Rightarrow> ret (badRequest (orElse issue invalid_request))
       | Accepted key \<Rightarrow>
           bindM (svc_get (a_deps a) i) (\<lambda>found. case found of
             None \<Rightarrow> ret notFound
           | Some ws \<Rightarrow>
               bindM (liftE (owner_of_key key)) (\<lambda>owner.
                 if owner = Some (ownerId (fst ws))
                 then bindM (liftE (workspacePrincipal i)) (\<lambda>user. ret (json 200 (SshBody (Some user))))
                 else ret (json 200 (SshBody None))))))"

section \<open>Brokers of the owner's git secrets\<close>

text \<open>
  The git side of a deployment: the provider of an owner, which looks up the credential for a
  repository, the owner's keys, the host's known keys, the probes of a remote over both
  transports, and the contracts on the bodies handed to the workspace.
\<close>

record git_io =
  gi_parse :: "string \<Rightarrow> git_url option"
  gi_provider :: "string \<Rightarrow> js_error + ((string \<times> string) option \<Rightarrow> js_error + string option) option"
  gi_sshKeys :: bool
  gi_materials :: "string \<Rightarrow> js_error + string list"
  gi_knownHosts :: "js_error + string list"
  gi_https :: "git_remote \<Rightarrow> string option \<Rightarrow> js_error + git_remote_probe"
  gi_ssh :: "git_remote \<Rightarrow> string list \<Rightarrow> string list \<Rightarrow> js_error + git_remote_probe"
  gi_credentialContract :: "string \<Rightarrow> js_error + string"
  gi_keysContract :: "string list \<Rightarrow> string list \<Rightarrow> js_error + string list"

definition credential_for ::
  "git_io \<Rightarrow> string \<Rightarrow> git_remote option \<Rightarrow> ('p, string option) act" where
  "credential_for g owner remote =
     bindM (liftE (gi_provider g owner)) (\<lambda>provider. case provider of
       None \<Rightarrow> ret None | Some gitCredential \<Rightarrow> liftE (gitCredential (repoRef remote)))"

definition gitCredential_GET ::
  "'p api \<Rightarrow> git_io \<Rightarrow> api_request \<Rightarrow> string \<Rightarrow> ('p, api_response) act" where
  "gitCredential_GET a g req i =
     orReply (loadBrokeredWorkspace a req i) (\<lambda>ws.
       bindM (credential_for g (ownerId (fst ws)) (Option.bind (repoUrl (fst ws)) (parseGitRemote (gi_parse g))))
         (\<lambda>credential. case credential of
            None \<Rightarrow> ret (json 204 NoBody)
          | Some token \<Rightarrow>
              bindM (liftE (gi_credentialContract g token)) (\<lambda>b. ret (json 200 (CredentialBody b)))))"

definition gitSshKeys_GET ::
  "'p api \<Rightarrow> git_io \<Rightarrow> api_request \<Rightarrow> string \<Rightarrow> ('p, api_response) act" where
  "gitSshKeys_GET a g req i =
     orReply (loadBrokeredWorkspace a req i) (\<lambda>ws.
       if \<not> gi_sshKeys g then ret (json 204 NoBody)
       else bindM (liftE (gi_materials g (ownerId (fst ws)))) (\<lambda>materials.
         if materials = [] then ret (json 204 NoBody)
         else bindM (liftE (gi_knownHosts g)) (\<lambda>hosts.
              bindM (liftE (gi_keysContract g hosts materials)) (\<lambda>b. ret (json 200 (KeysBody b))))))"

section \<open>Lists and administration\<close>

definition catalogByImage :: "base_image_entry list \<Rightarrow> (string \<times> base_image_entry) list" where
  "catalogByImage entries = rev (map (\<lambda>e. (bi_image e, e)) entries)"

definition enrichWorkspace ::
  "string \<Rightarrow> workspace_dto \<Rightarrow> (string \<times> base_image_entry) list \<Rightarrow>
   js_error + workspace_dto \<times> base_image_entry option \<times> string option" where
  "enrichWorkspace domain ws by_image =
     (let i = wsId (fst ws); entry = map_of by_image (baseImage (fst ws)) in
      if domain \<noteq> [] \<and> isWorkspaceLabel i
      then case workspacePrincipal i of
             Inl e \<Rightarrow> Inl e
           | Inr user \<Rightarrow>
               map_sum id (\<lambda>host. (ws, entry, Some (''ssh '' @ user @ ''@'' @ host))) (workspaceSshHost i domain)
      else Inr (ws, entry, None))"

definition ssh_domain :: "environment \<Rightarrow> string" where
  "ssh_domain env = orElse (env ''EDD_SSH_BASE_DOMAIN'') []"

fun enrich_all ::
  "string \<Rightarrow> (string \<times> base_image_entry) list \<Rightarrow> workspace_dto list \<Rightarrow>
   js_error + (workspace_dto \<times> base_image_entry option \<times> string option) list" where
  "enrich_all domain by_image [] = Inr []"
| "enrich_all domain by_image (ws # wss) =
     (case enrichWorkspace domain ws by_image of
        Inl e \<Rightarrow> Inl e
      | Inr x \<Rightarrow> map_sum id (Cons x) (enrich_all domain by_image wss))"

text \<open>\<open>entries\<close> is the cached list of the catalog, which a failing read leaves as its error.\<close>

definition workspaces_GET ::
  "'p api \<Rightarrow> js_error + base_image_entry list \<Rightarrow> api_request \<Rightarrow> ('p, api_response) act" where
  "workspaces_GET a entries req =
     orReply (authenticate a req) (\<lambda>p.
       bindM (svc_list (a_deps a) (if pr_role p = Admin then None else Some (pr_id p))) (\<lambda>wss.
       bindM (liftE entries) (\<lambda>es.
       bindM (liftE (enrich_all (ssh_domain (a_env a)) (catalogByImage es) wss))
         (\<lambda>enriched. ret (json 200 (WorkspacesBody enriched))))))"

definition adminWorkspaces_GET ::
  "'p api \<Rightarrow> js_error + base_image_entry list \<Rightarrow> api_request \<Rightarrow> ('p, api_response) act" where
  "adminWorkspaces_GET a entries req =
     orReply (requireAdmin a req) (\<lambda>p.
       bindM (liftE entries) (\<lambda>es.
       bindM (svc_list (a_deps a) None) (\<lambda>wss.
       bindM (liftE (enrich_all (ssh_domain (a_env a)) (catalogByImage es) wss))
         (\<lambda>enriched. ret (json 200 (WorkspacesBody enriched))))))"

definition adminWorkspace_GET :: "'p api \<Rightarrow> api_request \<Rightarrow> string \<Rightarrow> ('p, api_response) act" where
  "adminWorkspace_GET a req i =
     orReply (requireAdmin a req) (\<lambda>p.
       bindM (svc_inspect (a_deps a) i) (\<lambda>inspection. ret (case inspection of
         None \<Rightarrow> notFound | Some x \<Rightarrow> json 200 (DetailBody x))))"

definition adminSnapshots_GET :: "'p api \<Rightarrow> api_request \<Rightarrow> ('p, api_response) act" where
  "adminSnapshots_GET a req =
     orReply (requireAdmin a req) (\<lambda>p.
       bindM (listSnapshotsForAdmin (a_deps a)) (\<lambda>views. ret (json 200 (AdminSnapshotsBody views))))"

definition adminSnapshot_DELETE :: "'p api \<Rightarrow> api_request \<Rightarrow> string \<Rightarrow> ('p, api_response) act" where
  "adminSnapshot_DELETE a req snap =
     orReply (requireAdmin a req) (\<lambda>p.
       bindM (deleteSnapshotById (a_deps a) snap (auditActor p)) (\<lambda>r. ret (case r of
         Ok _ \<Rightarrow> json 200 (PurgedBody [snap]) | Err e \<Rightarrow> domainErrorResponse e)))"

definition purgeUnreferenced_POST :: "'p api \<Rightarrow> api_request \<Rightarrow> ('p, api_response) act" where
  "purgeUnreferenced_POST a req =
     orReply (requireAdmin a req) (\<lambda>p.
       bindM (purgeUnreferencedSnapshots (a_deps a) (auditActor p))
         (\<lambda>purged. ret (json 200 (PurgedBody purged))))"

section \<open>Create\<close>

record create_request =
  cr_baseImage :: string
  cr_editor :: "editor_kind option"
  cr_repoUrl :: "string option"
  cr_repoRef :: "string option"
  cr_snapshotIntervalMs :: "int option"
  cr_idleStopMs :: "int option"
  cr_alwaysOn :: "bool option"
  cr_resources :: "workspace_resources option"

text \<open>Ask the host for its refs the way \<^verbatim>\<open>git clone\<close> does, with what the workspace will present.\<close>

definition probe_remote ::
  "git_io \<Rightarrow> string \<Rightarrow> git_remote \<Rightarrow> ('p, git_remote_probe \<times> offered_credential) act" where
  "probe_remote g owner remote =
     (case remote of
        Https _ _ _ \<Rightarrow>
          bindM (credential_for g owner (Some remote)) (\<lambda>credential.
          bindM (liftE (gi_https g remote credential)) (\<lambda>probe.
            ret (probe, if credential = None then NoCredential else TokenCredential)))
      | Ssh _ _ _ _ _ \<Rightarrow>
          bindM (if gi_sshKeys g then liftE (gi_materials g owner) else ret []) (\<lambda>identities.
          bindM (liftE (gi_knownHosts g)) (\<lambda>hosts.
          bindM (liftE (gi_ssh g remote identities hosts)) (\<lambda>probe. ret (probe, SshKeys)))))"

text \<open>The response that refuses the repository, if any.\<close>

definition check_repository ::
  "git_io \<Rightarrow> string \<Rightarrow> create_request \<Rightarrow> ('p, api_response + unit) act" where
  "check_repository g owner cr =
     (case cr_repoUrl cr of
        None \<Rightarrow> ret (Inr ())
      | Some u \<Rightarrow>
          (case parseGitRemote (gi_parse g) u of
             None \<Rightarrow> ret (Inl (badRequest ''repoUrl is not a clone URL''))
           | Some remote \<Rightarrow>
               bindM (probe_remote g owner remote) (\<lambda>(probe, offered).
                 ret (case repositoryProblem probe (remote_url remote) (cr_repoRef cr) offered of
                        Some problem \<Rightarrow> Inl (unprocessable problem)
                      | None \<Rightarrow> Inr ()))))"

definition reserve_input ::
  "principal \<Rightarrow> string option \<Rightarrow> editor_kind \<Rightarrow> int option \<Rightarrow> create_request \<Rightarrow> create_input" where
  "reserve_input p address ed limit cr =
     \<lparr>ci_ownerId = pr_id p, ci_ownerEmail = address, ci_ownerRole = Some (pr_role p),
      ci_baseImage = cr_baseImage cr, ci_editor = Some ed, ci_resources = cr_resources cr,
      ci_snapshotIntervalMs = cr_snapshotIntervalMs cr, ci_idleStopMs = cr_idleStopMs cr,
      ci_alwaysOn = cr_alwaysOn cr, ci_repoUrl = cr_repoUrl cr, ci_repoRef = None,
      ci_quotaLimit = limit\<rparr>"

text \<open>
  The handler answers as soon as the record is reserved and leaves the launch running; its
  second result names that launch. The catalog is read twice, once for the allow-list and
  once for the default editor.
\<close>

type_synonym created = "api_response \<times> (string \<times> string option) option"

definition reserve_and_answer :: "'p api \<Rightarrow> create_input \<Rightarrow> string option \<Rightarrow> ('p, created) act" where
  "reserve_and_answer a inp ref =
     tryM (bindM (reserveWorkspace (a_deps a) inp) (\<lambda>ws.
             ret (json 201 (WorkspaceBody ws), Some (wsId (fst ws), ref))))
       (\<lambda>e. if err_name e = ''ComputeUnavailableError''
            then ret (domainErrorResponse (Unavailable (err_message e)), None)
            else if isQuotaExceeded e then ret (conflict (err_message e), None)
            else raise e)"

definition orRefuse :: "('p, api_response + 'x) act \<Rightarrow> ('x \<Rightarrow> ('p, created) act) \<Rightarrow> ('p, created) act" where
  "orRefuse m f = bindM m (\<lambda>g. case g of Inl response \<Rightarrow> ret (response, None) | Inr x \<Rightarrow> f x)"

definition enabled_editor ::
  "catalog \<Rightarrow> catalog \<Rightarrow> create_request \<Rightarrow> ('p, api_response + editor_kind) act" where
  "enabled_editor c1 c2 cr =
     bindM (liftE (assertEnabled (cr_baseImage cr) c1)) (\<lambda>enabled. case enabled of
       Err e \<Rightarrow> ret (Inl (domainErrorResponse e))
     | Ok _ \<Rightarrow>
         (case cr_editor cr of
            Some ed \<Rightarrow> ret (Inr ed)
          | None \<Rightarrow> bindM (liftE (editorForImage (cr_baseImage cr) c2)) (\<lambda>ed. ret (Inr ed))))"

definition quota_gate :: "'p api \<Rightarrow> principal \<Rightarrow> ('p, api_response + int option) act" where
  "quota_gate a p =
     bindM (svc_list (a_deps a) (Some (pr_id p))) (\<lambda>owned.
       let live = int (length (filter (\<lambda>ws. state (fst ws) \<noteq> Terminated) owned)) in
       bindM (liftE (workspaceLimit (a_env a) (pr_role p))) (\<lambda>limit.
         ret (if withinWorkspaceQuota live limit then Inr limit
              else Inl (conflict (''workspace quota reached ('' @ int_text live @ '')'')))))"

definition may_create :: "'p api \<Rightarrow> api_request \<Rightarrow> ('p, api_response + principal) act" where
  "may_create a req =
     bindM (authenticate a req) (\<lambda>g. ret (case g of
         Inl response \<Rightarrow> Inl response
       | Inr p \<Rightarrow> if \<not> can a p Create then Inl forbidden else Inr p))"

definition workspaces_POST ::
  "'p api \<Rightarrow> catalog \<Rightarrow> catalog \<Rightarrow> git_io \<Rightarrow> api_request \<Rightarrow> create_request request_body \<Rightarrow> ('p, created) act" where
  "workspaces_POST a c1 c2 g req b =
     orRefuse (may_create a req) (\<lambda>p.
       case b of
         Accepted cr \<Rightarrow>
           orRefuse (enabled_editor c1 c2 cr) (\<lambda>ed.
           orRefuse (quota_gate a p) (\<lambda>limit.
           orRefuse (check_repository g (pr_id p) cr) (\<lambda>_.
             case resolveOwnerEmail (pr_email p) (devAuthEnabled (a_env a)) of
               Inl reason \<Rightarrow> ret (badRequest reason, None)
             | Inr address \<Rightarrow> reserve_and_answer a (reserve_input p address ed limit cr) (cr_repoRef cr))))
       | _ \<Rightarrow> ret (badRequest invalid_request, None))"

end
