(* ===== verification/Traffic_Filter.thy ===== *)
theory Traffic_Filter
  imports Api
begin

text \<open>
  The admin's traffic filter: the policy, its validation and its compilation into ordered rules
  (\<^verbatim>\<open>packages/core/src/system/traffic-filter.ts\<close>), the service that stores a policy and applies it
  (\<^verbatim>\<open>packages/control-plane/src/traffic-filter-service.ts\<close>) and the routes over it
  (\<^verbatim>\<open>apps/web/app/api/admin/traffic\<close>).

  Parameters. The web ACL is a value of its own type that \<open>apply\<close> changes or fails to change;
  the store and the audit log may fail at each call.
\<close>

section \<open>Policies\<close>

datatype filter_mode = AllowMode | BlockMode

record traffic_filter_policy =
  tf_mode :: filter_mode
  tf_cidrs :: "string list"
  tf_countries :: "string list"
  tf_asns :: "int list"
  tf_presets :: "string list"
  tf_blockAnonymous :: bool

definition EMPTY_TRAFFIC_FILTER_POLICY :: traffic_filter_policy where
  "EMPTY_TRAFFIC_FILTER_POLICY =
     \<lparr>tf_mode = BlockMode, tf_cidrs = [], tf_countries = [], tf_asns = [], tf_presets = [], tf_blockAnonymous = False\<rparr>"

definition NETWORK_PRESET_ASNS :: "(string \<times> int list) list" where
  "NETWORK_PRESET_ASNS =
     [(''aws'', [16509, 14618, 8987, 39111]), (''gcp'', [15169, 396982, 19527]),
      (''azure'', [8075, 8068, 8069, 12076]), (''oracle'', [31898, 7160]), (''digitalocean'', [14061]),
      (''linode'', [63949, 48429]), (''ovh'', [16276]), (''hetzner'', [24940, 213230]), (''vultr'', [20473]),
      (''cloudflare'', [13335])]"

definition NETWORK_PRESETS :: "string list" where
  "NETWORK_PRESETS = map fst NETWORK_PRESET_ASNS"

text \<open>The names that \<^verbatim>\<open>in\<close> finds on every object, since it looks along the prototype chain.\<close>

definition OBJECT_PROTOTYPE :: "string list" where
  "OBJECT_PROTOTYPE =
     [''constructor'', ''__defineGetter__'', ''__defineSetter__'', ''hasOwnProperty'', ''__lookupGetter__'',
      ''__lookupSetter__'', ''isPrototypeOf'', ''propertyIsEnumerable'', ''toString'', ''valueOf'', ''__proto__'',
      ''toLocaleString'']"

definition in_presets :: "string \<Rightarrow> bool" where
  "in_presets p \<longleftrightarrow> p \<in> set NETWORK_PRESETS \<or> p \<in> set OBJECT_PROTOTYPE"

definition within :: "nat \<Rightarrow> nat \<Rightarrow> char \<Rightarrow> bool" where
  "within a b c \<longleftrightarrow> 48 + a \<le> (of_char c :: nat) \<and> (of_char c :: nat) \<le> 48 + b"

fun IPV4_OCTET :: "string \<Rightarrow> bool" where
  "IPV4_OCTET [a] \<longleftrightarrow> within 0 9 a"
| "IPV4_OCTET [a, b] \<longleftrightarrow> within 1 9 a \<and> within 0 9 b"
| "IPV4_OCTET [a, b, c] \<longleftrightarrow>
     (within 1 1 a \<and> within 0 9 b \<and> within 0 9 c) \<or> (within 2 2 a \<and> within 0 4 b \<and> within 0 9 c) \<or>
     (within 2 2 a \<and> within 5 5 b \<and> within 0 5 c)"
| "IPV4_OCTET _ \<longleftrightarrow> False"

fun cidr_prefix :: "string \<Rightarrow> bool" where
  "cidr_prefix [a] \<longleftrightarrow> within 0 9 a"
| "cidr_prefix [a, b] \<longleftrightarrow> (within 3 3 a \<and> within 0 2 b) \<or> (within 1 2 a \<and> within 0 9 b)"
| "cidr_prefix _ \<longleftrightarrow> False"

text \<open>The pattern's parts contain neither a dot nor a slash, so it matches by splitting.\<close>

definition CIDR_RE :: "string \<Rightarrow> bool" where
  "CIDR_RE s \<longleftrightarrow>
     (case split_on CHR ''/'' s of
        [address, prefix] \<Rightarrow>
          length (split_on CHR ''.'' address) = 4 \<and> list_all IPV4_OCTET (split_on CHR ''.'' address) \<and> cidr_prefix prefix
      | _ \<Rightarrow> False)"

definition COUNTRY_RE :: "string \<Rightarrow> bool" where
  "COUNTRY_RE s \<longleftrightarrow> length s = 2 \<and> list_all (\<lambda>c. 65 \<le> (of_char c :: nat) \<and> (of_char c :: nat) \<le> 90) s"

definition ASN_MAX :: int where
  "ASN_MAX = 4294967295"

record policy_issue =
  pi_field :: string
  pi_value :: string
  pi_reason :: string

definition issue :: "string \<Rightarrow> string \<Rightarrow> string \<Rightarrow> policy_issue" where
  "issue f v r = \<lparr>pi_field = f, pi_value = v, pi_reason = r\<rparr>"

definition validateTrafficFilterPolicy :: "traffic_filter_policy \<Rightarrow> policy_issue list" where
  "validateTrafficFilterPolicy p =
     map (\<lambda>c. issue ''cidrs'' c (if CHR '':'' \<in> set c then ''IPv6 is not supported yet (IPv4 CIDRs only)'' else ''not an IPv4 CIDR''))
       (filter (\<lambda>c. \<not> CIDR_RE c) (tf_cidrs p)) @
     map (\<lambda>c. issue ''countries'' c ''not an ISO alpha-2 code'') (filter (\<lambda>c. \<not> COUNTRY_RE c) (tf_countries p)) @
     map (\<lambda>n. issue ''asns'' (int_text n) ''not a valid AS number'') (filter (\<lambda>n. n \<le> 0 \<or> ASN_MAX < n) (tf_asns p)) @
     map (\<lambda>n. issue ''presets'' n ''unknown network preset'') (filter (\<lambda>n. \<not> in_presets n) (tf_presets p)) @
     (if tf_mode p = AllowMode \<and> tf_cidrs p = [] \<and> tf_countries p = [] \<and> tf_asns p = [] \<and> tf_presets p = []
      then [issue ''mode'' ''allow'' ''allow-mode policy admits no sources (would block all traffic)''] else [])"

text \<open>A name found on the prototype is no list of numbers: iterating over it throws.\<close>

fun preset_asns :: "string list \<Rightarrow> js_error + int list" where
  "preset_asns [] = Inr []"
| "preset_asns (n # ns) =
     (case map_of NETWORK_PRESET_ASNS n of
        Some asns \<Rightarrow> map_sum id (\<lambda>rest. asns @ rest) (preset_asns ns)
      | None \<Rightarrow>
          if n \<in> set OBJECT_PROTOTYPE then Inl (plain_error ''TypeError'' ''object is not iterable'')
          else preset_asns ns)"

definition effectiveAsns :: "traffic_filter_policy \<Rightarrow> js_error + int list" where
  "effectiveAsns p = map_sum id (\<lambda>more. sort (remdups (tf_asns p @ more))) (preset_asns (tf_presets p))"

datatype filter_action = Allow | Block

datatype compiled_rule =
    IpRule filter_action "string list"
  | GeoRule filter_action "string list"
  | AsnRule filter_action "int list"
  | AnonymousRule

record compiled_traffic_filter =
  cf_default :: filter_action
  cf_rules :: "compiled_rule list"

definition issue_text :: "policy_issue \<Rightarrow> string" where
  "issue_text x = pi_field x @ ''='' @ pi_value x @ '' ('' @ pi_reason x @ '')''"

definition compileTrafficFilter :: "traffic_filter_policy \<Rightarrow> js_error + compiled_traffic_filter" where
  "compileTrafficFilter p =
     (let issues = validateTrafficFilterPolicy p in
      if issues \<noteq> []
      then Inl (plain_error ''Error'' (''invalid traffic-filter policy: '' @ join_with '', '' (map issue_text issues)))
      else map_sum id (\<lambda>asns.
        let act = (if tf_mode p = AllowMode then Allow else Block) in
        \<lparr>cf_default = (if tf_mode p = AllowMode then Block else Allow),
         cf_rules = (if tf_blockAnonymous p then [AnonymousRule] else []) @
           (if tf_cidrs p \<noteq> [] then [IpRule act (tf_cidrs p)] else []) @
           (if tf_countries p \<noteq> [] then [GeoRule act (tf_countries p)] else []) @
           (if asns \<noteq> [] then [AsnRule act asns] else [])\<rparr>) (effectiveAsns p))"

section \<open>The service\<close>

definition TRAFFIC_FILTER_SCHEMA_VERSION :: int where
  "TRAFFIC_FILTER_SCHEMA_VERSION = 1"

record filter_row =
  fr_schemaVersion :: int
  fr_policy :: traffic_filter_policy
  fr_appliedAt :: "iso_timestamp option"
  fr_appliedError :: "string option"
  fr_updatedAt :: iso_timestamp

record filter_audit =
  fa_actor :: string
  fa_action :: string
  fa_detail :: string

record 'w filter_state =
  fs_row :: "filter_row option"
  fs_waf :: 'w
  fs_audit :: "filter_audit list"

text \<open>What fails: the \<open>n\<close>-th write of the store, the web ACL, the audit log.\<close>

record 'w filter_io =
  fi_put :: "nat \<Rightarrow> js_error option"
  fi_apply :: "compiled_traffic_filter \<Rightarrow> 'w \<Rightarrow> js_error option \<times> 'w"
  fi_record :: "js_error option"

record traffic_filter_state =
  ts_policy :: traffic_filter_policy
  ts_default :: filter_action
  ts_compiled :: "compiled_rule list"
  ts_appliedAt :: "iso_timestamp option"
  ts_appliedError :: "string option"

definition filter_load :: "filter_row option \<Rightarrow> traffic_filter_policy \<times> iso_timestamp option \<times> string option" where
  "filter_load row =
     (case row of
        Some d \<Rightarrow>
          if fr_schemaVersion d \<noteq> TRAFFIC_FILTER_SCHEMA_VERSION then (EMPTY_TRAFFIC_FILTER_POLICY, None, None)
          else (fr_policy d, fr_appliedAt d, fr_appliedError d)
      | None \<Rightarrow> (EMPTY_TRAFFIC_FILTER_POLICY, None, None))"

definition getState :: "'w filter_state \<Rightarrow> js_error + traffic_filter_state" where
  "getState st =
     (case filter_load (fs_row st) of (p, at, err) \<Rightarrow>
        map_sum id (\<lambda>c. \<lparr>ts_policy = p, ts_default = cf_default c, ts_compiled = cf_rules c, ts_appliedAt = at,
                       ts_appliedError = err\<rparr>) (compileTrafficFilter p))"

definition filter_persist ::
  "traffic_filter_policy \<Rightarrow> iso_timestamp \<Rightarrow> iso_timestamp option \<Rightarrow> string option \<Rightarrow> 'w filter_state \<Rightarrow> 'w filter_state" where
  "filter_persist p updatedAt at err st =
     st\<lparr>fs_row := Some \<lparr>fr_schemaVersion = TRAFFIC_FILTER_SCHEMA_VERSION, fr_policy = p, fr_appliedAt = at,
                     fr_appliedError = err, fr_updatedAt = updatedAt\<rparr>\<rparr>"

definition mode_text :: "filter_mode \<Rightarrow> string" where
  "mode_text m = (case m of AllowMode \<Rightarrow> ''allow'' | BlockMode \<Rightarrow> ''block'')"

definition action_text :: "filter_action \<Rightarrow> string" where
  "action_text a = (case a of Allow \<Rightarrow> ''allow'' | Block \<Rightarrow> ''block'')"

definition describePolicy :: "traffic_filter_policy \<Rightarrow> compiled_traffic_filter \<Rightarrow> string" where
  "describePolicy p c =
     ''mode='' @ mode_text (tf_mode p) @ ''; default='' @ action_text (cf_default c) @ ''; '' @
     int_text (int (length (cf_rules c))) @ '' compiled rule'' @ (if length (cf_rules c) = 1 then [] else ''s'') @
     '' applied to WAF''"

text \<open>Two writes and a call of the web ACL in between; the third write is the second one of
  the branch that is taken.\<close>

definition audited :: "'w filter_io \<Rightarrow> filter_audit \<Rightarrow> 'w filter_state \<Rightarrow> js_error option \<times> 'w filter_state" where
  "audited fio e st =
     (case fi_record fio of Some err \<Rightarrow> (Some err, st) | None \<Rightarrow> (None, st\<lparr>fs_audit := fs_audit st @ [e]\<rparr>))"

definition updatePolicy ::
  "'w filter_io \<Rightarrow> iso_timestamp \<Rightarrow> iso_timestamp \<Rightarrow> traffic_filter_policy \<Rightarrow> string \<Rightarrow> 'w filter_state \<Rightarrow>
   (js_error + traffic_filter_state) \<times> 'w filter_state" where
  "updatePolicy fio updatedAt appliedAt p actor st =
     (case compileTrafficFilter p of
        Inl e \<Rightarrow> (Inl e, st)
      | Inr compiled \<Rightarrow>
          (case fi_put fio 0 of
             Some e \<Rightarrow> (Inl e, st)
           | None \<Rightarrow>
               (let st1 = filter_persist p updatedAt None None st;
                    (failure, w) = fi_apply fio compiled (fs_waf st1);
                    st2 = st1\<lparr>fs_waf := w\<rparr> in
                case failure of
                  Some e \<Rightarrow>
                    (case fi_put fio 1 of
                       Some e' \<Rightarrow> (Inl e', st2)
                     | None \<Rightarrow>
                         (case audited fio \<lparr>fa_actor = actor, fa_action = ''traffic-filter.apply-failed'',
                                  fa_detail = ''mode='' @ mode_text (tf_mode p) @ ''; WAF apply failed: '' @ err_message e\<rparr>
                                (filter_persist p updatedAt None (Some (err_message e)) st2) of
                            (Some e', st3) \<Rightarrow> (Inl e', st3)
                          | (None, st3) \<Rightarrow>
                              (Inl (plain_error ''WafApplyError'' (''traffic-filter WAF apply failed: '' @ err_message e)), st3)))
                | None \<Rightarrow>
                    (case fi_put fio 1 of
                       Some e' \<Rightarrow> (Inl e', st2)
                     | None \<Rightarrow>
                         (case audited fio \<lparr>fa_actor = actor, fa_action = ''traffic-filter.updated'',
                                  fa_detail = describePolicy p compiled\<rparr>
                                (filter_persist p updatedAt (Some appliedAt) None st2) of
                            (Some e', st3) \<Rightarrow> (Inl e', st3)
                          | (None, st3) \<Rightarrow> (getState st3, st3))))))"

section \<open>The routes\<close>

definition traffic_GET ::
  "'p api \<Rightarrow> api_request \<Rightarrow> 'w filter_state \<Rightarrow> js_error + (api_response + traffic_filter_state)" where
  "traffic_GET a req st =
     (case principal_of a req of
        Inl e \<Rightarrow> Inl e
      | Inr None \<Rightarrow> Inr (Inl unauthorized)
      | Inr (Some p) \<Rightarrow> if pr_role p \<noteq> Admin then Inr (Inl forbidden) else map_sum id Inr (getState st))"

definition traffic_PUT ::
  "'p api \<Rightarrow> 'w filter_io \<Rightarrow> iso_timestamp \<Rightarrow> iso_timestamp \<Rightarrow> api_request \<Rightarrow>
   traffic_filter_policy request_body \<Rightarrow> 'w filter_state \<Rightarrow>
   (js_error + (api_response + traffic_filter_state)) \<times> 'w filter_state" where
  "traffic_PUT a fio updatedAt appliedAt req b st =
     (case principal_of a req of
        Inl e \<Rightarrow> (Inl e, st)
      | Inr None \<Rightarrow> (Inr (Inl unauthorized), st)
      | Inr (Some p) \<Rightarrow>
          if pr_role p \<noteq> Admin then (Inr (Inl forbidden), st)
          else case b of
            Accepted pol \<Rightarrow>
              (case updatePolicy fio updatedAt appliedAt pol (pr_id p) st of
                 (Inr s, st') \<Rightarrow> (Inr (Inr s), st')
               | (Inl e, st') \<Rightarrow>
                   (if starts_with ''invalid traffic-filter policy'' (err_message e) then Inr (Inl (badRequest (err_message e)))
                    else if err_name e = ''WafApplyError'' then Inr (Inl (json 500 (ErrorBody (err_message e))))
                    else Inl e, st'))
          | _ \<Rightarrow> (Inr (Inl (badRequest ''invalid traffic-filter policy'')), st))"

section \<open>What a compiled filter decides\<close>

text \<open>
  A source as the web ACL sees it, and the documented evaluation of rules: in the order of
  their priority, the first that matches decides, and the default action if none does.
\<close>

record source =
  in_cidr :: "string \<Rightarrow> bool"
  country :: string
  asn :: int
  anonymous :: bool

fun rule_action :: "source \<Rightarrow> compiled_rule \<Rightarrow> filter_action option" where
  "rule_action s (IpRule act cidrs) = (if list_ex (in_cidr s) cidrs then Some act else None)"
| "rule_action s (GeoRule act cs) = (if country s \<in> set cs then Some act else None)"
| "rule_action s (AsnRule act ns) = (if asn s \<in> set ns then Some act else None)"
| "rule_action s AnonymousRule = (if anonymous s then Some Block else None)"

definition decision :: "compiled_traffic_filter \<Rightarrow> source \<Rightarrow> filter_action" where
  "decision f s = (case List.map_filter (rule_action s) (cf_rules f) of [] \<Rightarrow> cf_default f | act # _ \<Rightarrow> act)"

text \<open>What the policy says: is the source on one of its lists?\<close>

definition preset_lists :: "string \<Rightarrow> int \<Rightarrow> bool" where
  "preset_lists n k \<longleftrightarrow> (case map_of NETWORK_PRESET_ASNS n of None \<Rightarrow> False | Some ns \<Rightarrow> k \<in> set ns)"

definition listed_source :: "traffic_filter_policy \<Rightarrow> source \<Rightarrow> bool" where
  "listed_source p s \<longleftrightarrow>
     (\<exists>c \<in> set (tf_cidrs p). in_cidr s c) \<or> country s \<in> set (tf_countries p) \<or> asn s \<in> set (tf_asns p) \<or>
     (\<exists>n \<in> set (tf_presets p). preset_lists n (asn s))"

definition policy_decision :: "traffic_filter_policy \<Rightarrow> source \<Rightarrow> filter_action" where
  "policy_decision p s =
     (if tf_blockAnonymous p \<and> anonymous s then Block
      else if listed_source p s = (tf_mode p = AllowMode) then Allow else Block)"

lemma preset_asns_set:
  "preset_asns ns = Inr ks \<Longrightarrow> k \<in> set ks \<longleftrightarrow> (\<exists>n \<in> set ns. preset_lists n k)"
  by (induction ns arbitrary: ks) (auto simp: preset_lists_def map_sum_def split: option.splits sum.splits if_splits)

lemma effective_asns:
  "effectiveAsns p = Inr ks \<Longrightarrow> k \<in> set ks \<longleftrightarrow> k \<in> set (tf_asns p) \<or> (\<exists>n \<in> set (tf_presets p). preset_lists n k)"
  by (auto simp: effectiveAsns_def map_sum_def preset_asns_set split: sum.splits)

text \<open>
  C39. The compiled rules decide as the policy says, for every source: an anonymous source is
  blocked where the policy blocks those, whatever else lists it; of the others, an allow
  policy admits exactly the listed ones and a block policy exactly those not listed, whether
  by address, country, network or preset. And an allow policy that compiles admits somebody.
\<close>

theorem compiled_filter_decides:
  assumes "compileTrafficFilter p = Inr f"
  shows "decision f s = policy_decision p s \<and>
    (tf_mode p = AllowMode \<longrightarrow> tf_cidrs p \<noteq> [] \<or> tf_countries p \<noteq> [] \<or> tf_asns p \<noteq> [] \<or> tf_presets p \<noteq> [])"
proof -
  have valid: "validateTrafficFilterPolicy p = []"
    using assms by (auto simp: compileTrafficFilter_def Let_def split: if_splits)
  then obtain ks where ks: "effectiveAsns p = Inr ks"
    using assms by (auto simp: compileTrafficFilter_def Let_def map_sum_def split: if_splits sum.splits)
  have cidrs: "list_ex (in_cidr s) cs \<longleftrightarrow> (\<exists>c \<in> set cs. in_cidr s c)" for cs by (simp add: list_ex_iff)
  have "decision f s = policy_decision p s"
    using assms valid effective_asns [OF ks, of "asn s"]
    by (cases "tf_mode p") (auto simp: compileTrafficFilter_def Let_def ks decision_def policy_decision_def
        listed_source_def cidrs map_filter_simps)
  moreover have "tf_mode p = AllowMode \<longrightarrow> tf_cidrs p \<noteq> [] \<or> tf_countries p \<noteq> [] \<or> tf_asns p \<noteq> [] \<or> tf_presets p \<noteq> []"
    using valid by (auto simp: validateTrafficFilterPolicy_def split: if_splits)
  ultimately show ?thesis by blast
qed

section \<open>What an update leaves behind\<close>

text \<open>
  C40. On every branch of an update: a policy that does not compile touches nothing; the web ACL
  is called at most once, with the rules of this policy, and only when the policy has been
  stored; where the update answers a state, the web ACL took the rules and the row holds the
  policy as applied; where the web ACL failed and that could be stored, the row holds the
  policy with the failure and no time of application.
\<close>

theorem update_outcome:
  assumes "updatePolicy fio t1 t2 p actor st = (answer, st')"
  shows "case compileTrafficFilter p of
      Inl e \<Rightarrow> answer = Inl e \<and> st' = st
    | Inr c \<Rightarrow>
        (if fi_put fio 0 \<noteq> None then st' = st else
           fs_waf st' = snd (fi_apply fio c (fs_waf st)) \<and>
           map_option fr_policy (fs_row st') = Some p) \<and>
        (\<forall>s. answer = Inr s \<longrightarrow> fst (fi_apply fio c (fs_waf st)) = None \<and> ts_policy s = p \<and>
           ts_appliedAt s = Some t2 \<and> ts_appliedError s = None \<and> ts_compiled s = cf_rules c) \<and>
        (\<forall>e. fi_put fio 0 = None \<and> fi_put fio 1 = None \<and> fst (fi_apply fio c (fs_waf st)) = Some e \<longrightarrow>
           (\<exists>err. answer = Inl err) \<and> map_option fr_appliedError (fs_row st') = Some (Some (err_message e)) \<and>
           map_option fr_appliedAt (fs_row st') = Some None)"
proof (cases "compileTrafficFilter p")
  case (Inr c)
  then show ?thesis using assms
    by (auto simp: updatePolicy_def Let_def filter_persist_def audited_def getState_def filter_load_def
        map_sum_def split: option.splits prod.splits sum.splits)
qed (use assms in \<open>simp add: updatePolicy_def\<close>)

definition office_policy :: traffic_filter_policy where
  "office_policy = EMPTY_TRAFFIC_FILTER_POLICY\<lparr>tf_mode := AllowMode, tf_cidrs := [''203.0.113.0/24''], tf_blockAnonymous := True\<rparr>"

definition cloud_policy :: traffic_filter_policy where
  "cloud_policy = EMPTY_TRAFFIC_FILTER_POLICY\<lparr>tf_presets := [''ovh'']\<rparr>"

definition visitor :: source where
  "visitor = \<lparr>in_cidr = (\<lambda>c. c = ''203.0.113.0/24''), country = ''DE'', asn = 3320, anonymous = False\<rparr>"

theorem compiled_filter_decides_witness:
  "\<exists>f. compileTrafficFilter office_policy = Inr f \<and> decision f visitor = Allow \<and>
     decision f (visitor\<lparr>anonymous := True\<rparr>) = Block \<and> decision f (visitor\<lparr>in_cidr := (\<lambda>_. False)\<rparr>) = Block"
proof -
  have "case compileTrafficFilter office_policy of Inl _ \<Rightarrow> False | Inr _ \<Rightarrow> True" by code_simp
  then obtain f where f: "compileTrafficFilter office_policy = Inr f" by (auto split: sum.splits)
  show ?thesis
    using f compiled_filter_decides [OF f, of visitor] compiled_filter_decides [OF f, of "visitor\<lparr>anonymous := True\<rparr>"]
      compiled_filter_decides [OF f, of "visitor\<lparr>in_cidr := (\<lambda>_. False)\<rparr>"]
    by (auto simp: policy_decision_def listed_source_def office_policy_def EMPTY_TRAFFIC_FILTER_POLICY_def visitor_def)
qed

text \<open>A web ACL that takes every rule set, and one that takes none.\<close>

definition willing :: "compiled_traffic_filter option filter_io" where
  "willing = \<lparr>fi_put = (\<lambda>_. None), fi_apply = (\<lambda>c _. (None, Some c)), fi_record = None\<rparr>"

definition throttled :: "compiled_traffic_filter option filter_io" where
  "throttled = willing\<lparr>fi_apply := (\<lambda>_ w. (Some (plain_error ''Error'' ''throttled''), w))\<rparr>"

definition no_filter :: "compiled_traffic_filter option filter_state" where
  "no_filter = \<lparr>fs_row = None, fs_waf = None, fs_audit = []\<rparr>"

theorem update_outcome_witness:
  "\<exists>answer st'. updatePolicy throttled (Iso 1) (Iso 2) cloud_policy ''admin'' no_filter = (answer, st') \<and>
     (\<exists>err. answer = Inl err) \<and> map_option fr_appliedError (fs_row st') = Some (Some ''throttled'')"
proof -
  obtain answer st' where u: "updatePolicy throttled (Iso 1) (Iso 2) cloud_policy ''admin'' no_filter = (answer, st')" by fastforce
  have c: "compileTrafficFilter cloud_policy = Inr \<lparr>cf_default = Allow, cf_rules = [AsnRule Block [16276]]\<rparr>" by code_simp
  show ?thesis using update_outcome [OF u] u
    by (auto simp: c throttled_def willing_def no_filter_def plain_error_def)
qed

text \<open>
  Two administrators at once. Each update stores its policy, applies it and stores the outcome,
  and nothing orders the steps of the one against those of the other: here the row ends up
  saying that the second policy is applied while the web ACL enforces the first.
\<close>

definition apply_step :: "'w filter_io \<Rightarrow> traffic_filter_policy \<Rightarrow> 'w filter_state \<Rightarrow> 'w filter_state" where
  "apply_step fio p st =
     (case compileTrafficFilter p of Inl _ \<Rightarrow> st | Inr c \<Rightarrow> st\<lparr>fs_waf := snd (fi_apply fio c (fs_waf st))\<rparr>)"

theorem interleaved_updates_disagree:
  "let st = (filter_persist office_policy (Iso 2) (Some (Iso 3)) None \<circ> filter_persist cloud_policy (Iso 1) (Some (Iso 3)) None \<circ>
       apply_step willing cloud_policy \<circ> apply_step willing office_policy \<circ>
       filter_persist office_policy (Iso 2) None None \<circ> filter_persist cloud_policy (Iso 1) None None) no_filter
   in map_option fr_policy (fs_row st) = Some office_policy \<and> map_option fr_appliedAt (fs_row st) = Some (Some (Iso 3)) \<and>
      map_option cf_default (fs_waf st) = Some Allow \<and> map_sum id cf_default (compileTrafficFilter office_policy) = Inr Block"
  by code_simp

text \<open>
  Validation asks whether a preset's name is \<^verbatim>\<open>in\<close> the table, which holds of every name on the
  prototype of objects; such a policy passes validation and its compilation then fails with a
  type error, which the route does not answer as a bad request.
\<close>

theorem prototype_name_is_a_preset:
  "validateTrafficFilterPolicy (EMPTY_TRAFFIC_FILTER_POLICY\<lparr>tf_presets := [''toString'']\<rparr>) = [] \<and>
   compileTrafficFilter (EMPTY_TRAFFIC_FILTER_POLICY\<lparr>tf_presets := [''toString'']\<rparr>) =
     Inl (plain_error ''TypeError'' ''object is not iterable'')"
  by code_simp

end
