(* ===== verification/Api_Props.thy ===== *)
theory Api_Props
  imports Api
begin

text \<open>
  What the API promises: a request that is not entitled to a workspace changes nothing and is
  refused; session routes are deaf to machine tokens; every call keeps the guarantee of the
  service; a workspace is created only through every gate; git secrets reach only the
  workspace of their owner.
\<close>

section \<open>Reads of a guard\<close>

text \<open>The state the next call of an action sees.\<close>

definition in_view :: "'p world \<Rightarrow> 'p sys" where
  "in_view w = (case schedule w of [] \<Rightarrow> sys w | t # _ \<Rightarrow> others t (sys w))"

lemma io_reading_run:
  "sys (snd (io c (reading f) w)) = in_view w" "schedule (snd (io c (reading f) w)) = tl (schedule w)"
  "fst (io c (reading f) w) = Ret x \<Longrightarrow> x = f (in_view w)"
  by (auto simp: io_def perform_def record_call_def reading_def in_view_def Let_def deliver.simps
      split: list.splits fault.splits)

lemma bindM_run: "bindM m f w = (case fst (m w) of Ret x \<Rightarrow> f x (snd (m w)) | Raise e \<Rightarrow> (Raise e, snd (m w)))"
  by (simp add: bindM_def split: prod.split outcome.split)

lemma toWorkspace_keeps:
  assumes "toWorkspace r = Inr ws"
  shows "ownerId ws = ownerId r" "state ws = state r" "repoUrl ws = repoUrl r"
  using assms by (auto simp: toWorkspace_def map_fields_def Let_def split: option.splits sum.splits)

lemma get_run:
  "sys (snd (svc_get d i w)) = in_view w"
  "fst (svc_get d i w) = Ret (Some dto) \<Longrightarrow>
     \<exists>r v. lookup (in_view w) i = Some (r, v) \<and> ownerId (fst dto) = ownerId r \<and> state (fst dto) = state r \<and>
       repoUrl (fst dto) = repoUrl r"
proof -
  let ?io = "io (CGet i) (reading (\<lambda>s. lookup s i)) w"
  show "sys (snd (svc_get d i w)) = in_view w"
    using io_reading_run(1) [of "CGet i" "\<lambda>s. lookup s i" w]
    by (auto simp: svc_get_def svc_find_def bindM_run liftE_def ret_def raise_def split: outcome.split option.split sum.split)
  assume "fst (svc_get d i w) = Ret (Some dto)"
  then obtain r v ws where "fst ?io = Ret (Some (r, v))" "toWorkspace r = Inr ws" "dto = toWorkspaceDto ws"
    by (auto simp: svc_get_def svc_find_def bindM_run liftE_def ret_def raise_def
        split: outcome.splits option.splits sum.splits)
  then show "\<exists>r v. lookup (in_view w) i = Some (r, v) \<and> ownerId (fst dto) = ownerId r \<and> state (fst dto) = state r \<and>
       repoUrl (fst dto) = repoUrl r"
    using io_reading_run(3) [of "CGet i" "\<lambda>s. lookup s i" w "Some (r, v)"] toWorkspace_keeps [of r ws]
    by (intro exI [of _ r] exI [of _ v]) (simp add: toWorkspaceDto_def)
qed

section \<open>Entitlement\<close>

datatype workspace_route =
    RtStart | RtStop | RtCancelStop | RtRetry | RtSnapshot | RtUndelete | RtPurge | RtDelete | RtSnapshots
  | RtRestore "string request_body" | RtShare "bool request_body" | RtPatch "settings_patch request_body"
  | RtGet | RtConnect | RtConnectInfo
  | RtHeartbeat "heartbeat_report request_body" | RtSecurityEvent "string request_body"

fun handle :: "'p api \<Rightarrow> workspace_route \<Rightarrow> api_request \<Rightarrow> string \<Rightarrow> ('p, api_response) act" where
  "handle a RtStart req i = start_POST a req i"
| "handle a RtStop req i = stop_POST a req i"
| "handle a RtCancelStop req i = cancelStop_POST a req i"
| "handle a RtRetry req i = retry_POST a req i"
| "handle a RtSnapshot req i = snapshot_POST a req i"
| "handle a RtUndelete req i = undelete_POST a req i"
| "handle a RtPurge req i = purge_POST a req i"
| "handle a RtDelete req i = workspace_DELETE a req i"
| "handle a RtSnapshots req i = snapshots_GET a req i"
| "handle a (RtRestore b) req i = restore_POST a req i b"
| "handle a (RtShare b) req i = share_POST a req i b"
| "handle a (RtPatch b) req i = workspace_PATCH a req i b"
| "handle a RtGet req i = workspace_GET a req i"
| "handle a RtConnect req i = connect_POST a req i"
| "handle a RtConnectInfo req i = connectInfo_GET a req i"
| "handle a (RtHeartbeat b) req i = heartbeat_POST a req i b"
| "handle a (RtSecurityEvent b) req i = securityEvent_POST a req i b"

fun needs :: "workspace_route \<Rightarrow> action" where
  "needs RtSnapshots = Read"
| "needs RtGet = Read"
| "needs RtConnectInfo = Read"
| "needs RtPurge = Delete"
| "needs RtDelete = Delete"
| "needs _ = Update"

fun gateway_route :: "workspace_route \<Rightarrow> bool" where
  "gateway_route RtGet \<longleftrightarrow> True"
| "gateway_route RtConnect \<longleftrightarrow> True"
| "gateway_route RtConnectInfo \<longleftrightarrow> True"
| "gateway_route _ \<longleftrightarrow> False"

fun agent_route :: "workspace_route \<Rightarrow> bool" where
  "agent_route (RtHeartbeat _) \<longleftrightarrow> True"
| "agent_route (RtSecurityEvent _) \<longleftrightarrow> True"
| "agent_route _ \<longleftrightarrow> False"

fun session_route :: "workspace_route \<Rightarrow> bool" where
  "session_route (RtSecurityEvent _) \<longleftrightarrow> False"
| "session_route _ \<longleftrightarrow> True"

text \<open>A signed-in caller whose role has the ability, on a workspace of their own unless they are
  an administrator.\<close>

definition session_entitled :: "'p api \<Rightarrow> action \<Rightarrow> api_request \<Rightarrow> string \<Rightarrow> 'p sys \<Rightarrow> bool" where
  "session_entitled a act req i s \<longleftrightarrow>
     (\<exists>p r v. principal_of a req = Inr (Some p) \<and> can a p act \<and> lookup s i = Some (r, v) \<and>
        (pr_role p = Admin \<or> pr_id p = ownerId r))"

definition entitled :: "'p api \<Rightarrow> workspace_route \<Rightarrow> api_request \<Rightarrow> string \<Rightarrow> 'p sys \<Rightarrow> bool" where
  "entitled a rt req i s \<longleftrightarrow>
     (gateway_route rt \<and> checkGatewayAuth (a_hmac a) (a_env a) (ar_headers req) i = Inr ValidAuth) \<or>
     (agent_route rt \<and> checkAgentAuth (a_hmac a) (a_env a) (ar_headers req) i = Inr ValidAuth) \<or>
     (session_route rt \<and> session_entitled a (needs rt) req i s)"

definition refusal :: "api_response \<Rightarrow> bool" where
  "refusal r \<longleftrightarrow> status r \<in> {400, 401, 403, 404} \<and> (\<exists>m. body r = ErrorBody m)"

lemma refusals [simp]: "refusal unauthorized" "refusal forbidden" "refusal notFound" "refusal (badRequest m)"
  by (simp_all add: refusal_def unauthorized_def forbidden_def notFound_def badRequest_def json_def)

text \<open>Refused: at most one read was made, and the answer is a refusal or an exception.\<close>

definition refused :: "'p world \<Rightarrow> api_response outcome \<times> 'p world \<Rightarrow> bool" where
  "refused w out \<longleftrightarrow> sys (snd out) \<in> {sys w, in_view w} \<and> (\<forall>r. fst out = Ret r \<longrightarrow> refusal r)"

text \<open>
  The contract of a guard: it reads the record at most, what it answers itself is a refusal, and
  it lets a request pass only if the request is entitled by the record as it was read. A
  handler behind a guard refuses whoever is not.
\<close>

locale route_guard =
  fixes gate :: "('p, api_response + 'a) act" and entitles :: "'p sys \<Rightarrow> bool"
  assumes reads_only: "sys (snd (gate w)) \<in> {sys w, in_view w}"
    and refuses: "fst (gate w) = Ret (Inl r) \<Longrightarrow> refusal r"
    and admits: "fst (gate w) = Ret (Inr x) \<Longrightarrow> entitles (in_view w)"
begin

lemma handler_refuses: "\<not> entitles (in_view w) \<Longrightarrow> refused w (orReply gate f w)"
  using reads_only [of w] refuses [of w] admits [of w]
  unfolding refused_def orReply_def bindM_run by (auto simp: ret_def split: outcome.split sum.split)

lemma handler_passes:
  "\<lbrakk>orReply gate f w = (Ret resp, w'); \<not> refusal resp\<rbrakk> \<Longrightarrow> entitles (in_view w)"
  using handler_refuses [of w f] by (auto simp: refused_def)

end

lemma authenticate_run: "authenticate a req w =
    (case principal_of a req of
       Inl e \<Rightarrow> (Raise e, w) | Inr None \<Rightarrow> (Ret (Inl unauthorized), w) | Inr (Some p) \<Rightarrow> (Ret (Inr p), w))"
  by (simp add: authenticate_def bindM_run liftE_def ret_def raise_def split: sum.split option.split)

lemma owned_admits:
  assumes "fst (loadOwnedWorkspace a req i act w) = Ret (Inr x)"
  shows "session_entitled a act req i (in_view w)"
proof -
  from assms obtain p dto where "principal_of a req = Inr (Some p)" "can a p act"
      and dto: "fst (svc_get (a_deps a) i w) = Ret (Some dto)" "ownsOrAdmin p (ownerId (fst dto))"
    by (auto simp: loadOwnedWorkspace_def bindM_run authenticate_run ret_def
        split: outcome.splits sum.splits option.splits if_splits)
  with get_run(2) [OF dto(1)] show ?thesis by (auto simp: session_entitled_def ownsOrAdmin_def)
qed

interpretation owned: route_guard "loadOwnedWorkspace a req i act" "session_entitled a act req i" for a req i act
proof unfold_locales
  fix w r
  show "sys (snd (loadOwnedWorkspace a req i act w)) \<in> {sys w, in_view w}"
    by (auto simp: loadOwnedWorkspace_def bindM_run authenticate_run ret_def get_run(1)
        split: outcome.split sum.split option.split)
  show "refusal r" if "fst (loadOwnedWorkspace a req i act w) = Ret (Inl r)"
    using that by (auto simp: loadOwnedWorkspace_def bindM_run authenticate_run ret_def
        split: outcome.splits sum.splits option.splits if_splits)
qed (rule owned_admits)

definition connectable_entitled :: "'p api \<Rightarrow> action \<Rightarrow> api_request \<Rightarrow> string \<Rightarrow> 'p sys \<Rightarrow> bool" where
  "connectable_entitled a act req i s \<longleftrightarrow>
     checkGatewayAuth (a_hmac a) (a_env a) (ar_headers req) i = Inr ValidAuth \<or> session_entitled a act req i s"

interpretation connectable: route_guard "loadConnectableWorkspace a req i act" "connectable_entitled a act req i" for a req i act
  using owned.reads_only [of a req i act] owned.refuses [of a req i act] owned.admits [of a req i act]
  by unfold_locales
    (auto simp: connectable_entitled_def loadConnectableWorkspace_def bindM_run liftE_def ret_def raise_def get_run(1)
      split: sum.splits machine_auth.splits outcome.splits option.splits)

definition broker_entitled :: "'p api \<Rightarrow> api_request \<Rightarrow> string \<Rightarrow> 'p sys \<Rightarrow> bool" where
  "broker_entitled a req i s \<longleftrightarrow>
     checkAgentAuth (a_hmac a) (a_env a) (ar_headers req) i = Inr ValidAuth \<and>
     (\<exists>r v. lookup s i = Some (r, v) \<and> state r \<notin> {Deleting, Terminated})"

interpretation broker: route_guard "loadBrokeredWorkspace a req i" "broker_entitled a req i" for a req i
  using get_run(2) [of "a_deps a" i]
  by unfold_locales
    (fastforce simp: broker_entitled_def loadBrokeredWorkspace_def bindM_run liftE_def ret_def raise_def get_run(1)
      split: sum.splits outcome.splits option.splits if_splits)+

interpretation administration: route_guard "requireAdmin a req" "\<lambda>_. \<exists>p. principal_of a req = Inr (Some p) \<and> pr_role p = Admin" for a req
  by unfold_locales
    (auto simp: requireAdmin_def bindM_run authenticate_run ret_def split: sum.splits outcome.splits option.splits if_splits)

lemma refused_ret: "refusal r \<Longrightarrow> refused w (ret r w)"
  by (simp add: refused_def ret_def)

lemma refused_raise: "refused w (raise e w)"
  by (simp add: refused_def raise_def)

lemma refused_liftE: "(\<And>x. y = Inr x \<Longrightarrow> refused w (f x w)) \<Longrightarrow> refused w (bindM (liftE y) f w)"
  by (cases y) (auto simp: liftE_def bindM_run ret_def raise_def refused_def)

text \<open>
  C4. Only the entitled act. A request on a workspace by whoever is not entitled to it, judged
  by the record as the handler reads it (no session, a role without the ability, a stranger
  to the workspace, or no valid machine token where the route takes one), makes no change:
  the handler reads the record at most, and its answer is a refusal or an exception.
\<close>

theorem only_the_entitled_act:
  assumes "\<not> entitled a rt req i (in_view w)"
  shows "let out = handle a rt req i w in
    sys (snd out) \<in> {sys w, in_view w} \<and>
    (\<forall>r. fst out = Ret r \<longrightarrow> status r \<in> {400, 401, 403, 404} \<and> (\<exists>m. body r = ErrorBody m))"
proof -
  have "refused w (handle a rt req i w)"
    using assms
    by (cases rt) (auto simp: entitled_def connectable_entitled_def start_POST_def stop_POST_def cancelStop_POST_def retry_POST_def
        snapshot_POST_def undelete_POST_def purge_POST_def workspace_DELETE_def snapshots_GET_def
        restore_POST_def share_POST_def workspace_PATCH_def lifecyclePOSTWithBody_def
        ownedLifecycleAction_def workspace_GET_def connect_POST_def connectInfo_GET_def
        heartbeat_POST_def securityEvent_POST_def
        intro!: owned.handler_refuses connectable.handler_refuses refused_ret refused_liftE
        split: request_body.split machine_auth.split)
  then show ?thesis by (simp add: refused_def refusal_def)
qed

lemma principal_deaf:
  "principal_of a (req\<lparr>ar_headers := (ar_headers req)(''authorization'' := h)\<rparr>) = principal_of a req"
  by (simp add: principal_of_def getPrincipal_def realPrincipal_def devRequestPrincipal_def)

text \<open>
  A machine token opens no session route: to the routes that are neither the gateway's nor
  the agent's, a request with any authorization header whatever is the same request.
\<close>

theorem session_routes_ignore_tokens:
  assumes "\<not> gateway_route rt" and "\<not> agent_route rt"
  shows "handle a rt (req\<lparr>ar_headers := (ar_headers req)(''authorization'' := h)\<rparr>) i = handle a rt req i"
proof -
  have "loadOwnedWorkspace a (req\<lparr>ar_headers := (ar_headers req)(''authorization'' := h)\<rparr>) i act =
      loadOwnedWorkspace a req i act" for act
    by (simp add: loadOwnedWorkspace_def authenticate_def principal_deaf)
  then show ?thesis using assms
    by (cases rt) (simp_all add: start_POST_def stop_POST_def cancelStop_POST_def retry_POST_def
        snapshot_POST_def undelete_POST_def purge_POST_def workspace_DELETE_def snapshots_GET_def
        restore_POST_def share_POST_def workspace_PATCH_def lifecyclePOSTWithBody_def
        ownedLifecycleAction_def split: request_body.split)
qed

section \<open>The guarantee of the service\<close>

datatype api_call =
    OnWorkspace workspace_route string
  | ListWorkspaces "js_error + base_image_entry list"
  | AdminWorkspaces "js_error + base_image_entry list"
  | AdminWorkspace string
  | AdminSnapshots
  | AdminDeleteSnapshot string
  | AdminPurgeUnreferenced
  | SshAuthorize "string \<Rightarrow> js_error + string option" "string option" string "string request_body"
  | GitCredential git_io string
  | GitSshKeys git_io string
  | CreateWorkspace catalog catalog git_io "create_request request_body"

fun answer_call :: "'p api \<Rightarrow> api_call \<Rightarrow> api_request \<Rightarrow> ('p, unit) act" where
  "answer_call a (OnWorkspace rt i) req = discard (handle a rt req i)"
| "answer_call a (ListWorkspaces es) req = discard (workspaces_GET a es req)"
| "answer_call a (AdminWorkspaces es) req = discard (adminWorkspaces_GET a es req)"
| "answer_call a (AdminWorkspace i) req = discard (adminWorkspace_GET a req i)"
| "answer_call a AdminSnapshots req = discard (adminSnapshots_GET a req)"
| "answer_call a (AdminDeleteSnapshot snap) req = discard (adminSnapshot_DELETE a req snap)"
| "answer_call a AdminPurgeUnreferenced req = discard (purgeUnreferenced_POST a req)"
| "answer_call a (SshAuthorize f issue i b) req = discard (sshAuthorize_POST a f issue req i b)"
| "answer_call a (GitCredential g i) req = discard (gitCredential_GET a g req i)"
| "answer_call a (GitSshKeys g i) req = discard (gitSshKeys_GET a g req i)"
| "answer_call a (CreateWorkspace c1 c2 g b) req = discard (workspaces_POST a c1 c2 g req b)"

fun creates :: "api_call \<Rightarrow> bool" where
  "creates (CreateWorkspace _ _ _ _) \<longleftrightarrow> True"
| "creates _ \<longleftrightarrow> False"

lemma safe_body_cases [safe_intros]:
  "\<lbrakk>\<And>x. safeT d (\<lambda>_. True) (f x); safeT d (\<lambda>_. True) m; safeT d (\<lambda>_. True) n\<rbrakk> \<Longrightarrow>
     safeT d (\<lambda>_. True) (case b of NotJson \<Rightarrow> m | Rejected \<Rightarrow> n | Accepted x \<Rightarrow> f x)"
  "\<lbrakk>safeT d (\<lambda>_. True) m; safeT d (\<lambda>_. True) n; safeT d (\<lambda>_. True) k\<rbrakk> \<Longrightarrow>
     safeT d (\<lambda>_. True) (case v of AbsentAuth \<Rightarrow> m | InvalidAuth \<Rightarrow> n | ValidAuth \<Rightarrow> k)"
  by (simp_all split: request_body.split machine_auth.split)

lemma safe_orReply [safe_intros]:
  "\<lbrakk>safeT d (\<lambda>_. True) m; \<And>x. safeT d (\<lambda>_. True) (f x)\<rbrakk> \<Longrightarrow> safeT d (\<lambda>_. True) (orReply m f)"
  unfolding orReply_def by (intro safe_intros)

lemma safe_answers [safe_intros]:
  "safeT d (\<lambda>_. True) m \<Longrightarrow> safeT d (\<lambda>_. True) (reply m)" "safeT d (\<lambda>_. True) n \<Longrightarrow> safeT d (\<lambda>_. True) (accept n)"
  unfolding reply_def accept_def by (intro safe_intros; assumption)+

lemma safe_guards [safe_intros]:
  "safeT d (\<lambda>_. True) (authenticate a req)" "safeT d (\<lambda>_. True) (requireAdmin a req)"
  "safeT (a_deps a) (\<lambda>_. True) (loadOwnedWorkspace a req i act)" "safeT (a_deps a) (\<lambda>_. True) (loadConnectableWorkspace a req i act)"
  "safeT (a_deps a) (\<lambda>_. True) (loadBrokeredWorkspace a req i)"
  unfolding requireAdmin_def loadConnectableWorkspace_def loadOwnedWorkspace_def loadBrokeredWorkspace_def authenticate_def
  by (intro safe_intros)+

lemma safe_owned [safe_intros]:
  "(\<And>ctx. safeT (a_deps a) (\<lambda>_. True) (run ctx)) \<Longrightarrow> safeT (a_deps a) (\<lambda>_. True) (ownedLifecycleAction a req i run)"
  unfolding ownedLifecycleAction_def by (intro safe_intros)

lemma safe_handle [safe_intros]: "safeT (a_deps a) (\<lambda>_. True) (handle a rt req i)"
  by (cases rt) (simp_all add: start_POST_def stop_POST_def cancelStop_POST_def retry_POST_def
      snapshot_POST_def undelete_POST_def purge_POST_def workspace_DELETE_def snapshots_GET_def
      restore_POST_def share_POST_def workspace_PATCH_def lifecyclePOSTWithBody_def
      workspace_GET_def connect_POST_def connectInfo_GET_def
      heartbeat_POST_def securityEvent_POST_def safe_intros)

lemma safe_other_handlers [safe_intros]:
  "safeT (a_deps a) (\<lambda>_. True) (workspaces_GET a es req)" "safeT (a_deps a) (\<lambda>_. True) (adminWorkspaces_GET a es req)"
  "safeT (a_deps a) (\<lambda>_. True) (adminWorkspace_GET a req i)" "safeT (a_deps a) (\<lambda>_. True) (adminSnapshots_GET a req)"
  "safeT (a_deps a) (\<lambda>_. True) (adminSnapshot_DELETE a req snap)" "safeT (a_deps a) (\<lambda>_. True) (purgeUnreferenced_POST a req)"
  "safeT (a_deps a) (\<lambda>_. True) (sshAuthorize_POST a f issue req i b)"
  "safeT (a_deps a) (\<lambda>_. True) (gitCredential_GET a g req i)" "safeT (a_deps a) (\<lambda>_. True) (gitSshKeys_GET a g req i)"
  unfolding workspaces_GET_def adminWorkspaces_GET_def adminWorkspace_GET_def adminSnapshots_GET_def
    adminSnapshot_DELETE_def purgeUnreferenced_POST_def sshAuthorize_POST_def gitCredential_GET_def
    gitSshKeys_GET_def credential_for_def
  by (intro safe_intros)+

subsection \<open>The run of a creation\<close>

lemma email_normal:
  assumes "email m = Inr e"
  shows "email e = Inr e"
proof -
  have e: "e = map lower (trim m)" "\<not> hasControlChar e" "email_shape e"
    using assms by (auto simp: email_def Let_def split: if_splits)
  have keep: "dropWhile is_space xs = xs" if "\<forall>c \<in> set xs. \<not> is_space c" for xs using that by (cases xs) auto
  have "\<forall>c \<in> set e. \<not> is_space c" using e(3) by (simp add: email_shape_def)
  then have "trim e = e" using keep [of e] keep [of "rev e"] by (simp add: trim_def)
  moreover have "map lower e = e"
    using e(1) by (simp add: lower_def Let_def)
  ultimately show ?thesis using e(2,3) by (simp add: email_def Let_def)
qed

lemma resolved_address: "resolveOwnerEmail m dev = Inr e \<Longrightarrow> normal_email e"
  by (auto simp: resolveOwnerEmail_def normal_email_def email_normal split: option.splits sum.splits if_splits)

lemma orRefuse_run:
  "orRefuse m f w = (case fst (m w) of
     Ret (Inr x) \<Rightarrow> f x (snd (m w)) | Ret (Inl r) \<Rightarrow> (Ret (r, None), snd (m w)) | Raise e \<Rightarrow> (Raise e, snd (m w)))"
  by (auto simp: orRefuse_def bindM_run ret_def split: outcome.split sum.split)

text \<open>Guards that make no call leave the world as it is.\<close>

lemma liftE_stays: "snd (liftE y w) = w"
  by (simp add: liftE_def ret_def raise_def split: sum.split)

lemma still_bind: "\<lbrakk>\<And>w. snd (m w) = w; \<And>x w. snd (f x w) = w\<rbrakk> \<Longrightarrow> snd (bindM m f w) = w"
  by (simp add: bindM_run split: outcome.split)

lemma still_gates:
  "snd (may_create a req w) = w" "snd (enabled_editor c1 c2 cr w) = w" "snd (check_repository g owner cr w) = w"
proof -
  have "snd (credential_for g owner remote w) = w" for remote and w :: "'x world"
    unfolding credential_for_def by (rule still_bind) (auto simp: liftE_stays ret_def split: option.split)
  then have "snd (probe_remote g owner remote w) = w" for remote and w :: "'x world"
    unfolding probe_remote_def
    by (cases remote) (auto intro!: still_bind simp: liftE_stays ret_def)
  then show "snd (check_repository g owner cr w) = w"
    unfolding check_repository_def
    by (auto intro!: still_bind simp: ret_def split: option.split)
  show "snd (may_create a req w) = w"
    unfolding may_create_def authenticate_def by (intro still_bind) (auto simp: liftE_stays ret_def)
  show "snd (enabled_editor c1 c2 cr w) = w"
    unfolding enabled_editor_def
    by (intro still_bind) (auto intro!: still_bind simp: liftE_stays ret_def split: result.split option.split)
qed

lemma list_owner_run:
  fixes owner d w
  defines "mine s \<equiv> filter (\<lambda>r. ownerId (fst r) = owner) (map snd (table s))"
  shows "sys (snd (svc_list d (Some owner) w)) = in_view w" "schedule (snd (svc_list d (Some owner) w)) = tl (schedule w)"
    "fst (svc_list d (Some owner) w) = Ret wss \<Longrightarrow> \<exists>all. toWorkspaces (mine (in_view w)) = Inr all \<and> wss = map toWorkspaceDto all"
proof -
  obtain r w1 where q: "io (CQueryOwner owner) (reading mine) w = (r, w1)" by fastforce
  note run = io_reading_run [of "CQueryOwner owner" mine w, unfolded q fst_conv snd_conv]
  have list: "svc_list d (Some owner) w = (case r of Raise e \<Rightarrow> (Raise e, w1)
      | Ret rs \<Rightarrow> (case toWorkspaces rs of Inl e \<Rightarrow> (Raise e, w1) | Inr all \<Rightarrow> (Ret (map toWorkspaceDto all), w1)))"
    using q unfolding svc_list_def option.case mine_def [symmetric]
    by (simp add: bindM_def liftE_def ret_def raise_def split: outcome.split sum.split)
  show "sys (snd (svc_list d (Some owner) w)) = in_view w" "schedule (snd (svc_list d (Some owner) w)) = tl (schedule w)"
    using run(1,2) unfolding list by (simp_all split: outcome.split sum.split)
  show "\<exists>all. toWorkspaces (mine (in_view w)) = Inr all \<and> wss = map toWorkspaceDto all"
    if "fst (svc_list d (Some owner) w) = Ret wss"
    using that run(3) unfolding list by (auto split: outcome.splits sum.splits)
qed

lemma quota_gate_run:
  "sys (snd (quota_gate a p w)) = in_view w" "schedule (snd (quota_gate a p w)) = tl (schedule w)"
  "fst (quota_gate a p w) = Ret (Inr limit) \<Longrightarrow> workspaceLimit (a_env a) (pr_role p) = Inr limit"
  using list_owner_run [of "a_deps a" "pr_id p" w]
  by (auto simp: quota_gate_def bindM_run liftE_def ret_def raise_def Let_def split: outcome.splits sum.splits if_splits)

text \<open>What must hold for a creation to reach the reservation, and with what it gets there.\<close>

definition gates_passed ::
  "'p api \<Rightarrow> catalog \<Rightarrow> api_request \<Rightarrow> create_request request_body \<Rightarrow> create_input \<Rightarrow> bool" where
  "gates_passed a c1 req b inp \<longleftrightarrow>
     (\<exists>p cr. principal_of a req = Inr (Some p) \<and> can a p Create \<and> b = Accepted cr \<and>
        assertEnabled (cr_baseImage cr) c1 = Inr (Ok ()) \<and> ci_baseImage inp = cr_baseImage cr \<and>
        ci_ownerId inp = pr_id p \<and> ci_ownerRole inp = Some (pr_role p) \<and>
        workspaceLimit (a_env a) (pr_role p) = Inr (ci_quotaLimit inp) \<and>
        resolveOwnerEmail (pr_email p) (devAuthEnabled (a_env a)) = Inr (ci_ownerEmail inp))"

text \<open>A run that ends without a launch in a world of the first kind, or else is of the second kind.\<close>

definition launches :: "created outcome \<Rightarrow> bool" where
  "launches out \<longleftrightarrow> (\<exists>r l. out = Ret (r, Some l))"

definition settled ::
  "('p world \<Rightarrow> bool) \<Rightarrow> (created outcome \<times> 'p world \<Rightarrow> bool) \<Rightarrow> created outcome \<times> 'p world \<Rightarrow> bool" where
  "settled P Q out \<longleftrightarrow> (\<not> launches (fst out) \<and> P (snd out)) \<or> Q out"

lemma settled_orRefuse:
  assumes "P (snd (m w))" and "\<And>x. fst (m w) = Ret (Inr x) \<Longrightarrow> settled P Q (f x (snd (m w)))"
  shows "settled P Q (orRefuse m f w)"
proof (cases "\<exists>x. fst (m w) = Ret (Inr x)")
  case True
  with assms(2) show ?thesis by (auto simp: orRefuse_run)
next
  case False
  with assms(1) show ?thesis
    by (auto simp: orRefuse_run settled_def launches_def split: outcome.split sum.split)
qed

lemma settled_ret: "P w \<Longrightarrow> settled P Q (ret (r, None) w)"
  by (simp add: settled_def launches_def ret_def)

lemma create_run:
  "settled (\<lambda>w'. w' = w \<or> (\<exists>p. w' = snd (quota_gate a p w)))
     (\<lambda>out. \<exists>p inp ref. gates_passed a c1 req b inp \<and> out = reserve_and_answer a inp ref (snd (quota_gate a p w)))
     (workspaces_POST a c1 c2 g req b w)"
  unfolding workspaces_POST_def
proof (rule settled_orRefuse, goal_cases)
  case 1
  show ?case by (simp add: still_gates)
next
  case (2 p)
  then have may: "principal_of a req = Inr (Some p)" "can a p Create"
    by (auto simp: may_create_def authenticate_run bindM_run ret_def split: sum.splits option.splits if_splits outcome.splits)
  show ?case
  proof (cases b)
    case (Accepted cr)
    have on: "assertEnabled (cr_baseImage cr) c1 = Inr (Ok ())" if "fst (enabled_editor c1 c2 cr w) = Ret (Inr ed)" for ed
      using that by (auto simp: enabled_editor_def bindM_run liftE_def ret_def raise_def split: sum.splits result.splits)
    have passed: "gates_passed a c1 req b (reserve_input p address ed limit cr)"
      if "fst (enabled_editor c1 c2 cr w) = Ret (Inr ed)" "fst (quota_gate a p w) = Ret (Inr limit)"
        "resolveOwnerEmail (pr_email p) (devAuthEnabled (a_env a)) = Inr address" for ed limit address
      using may Accepted on [OF that(1)] quota_gate_run(3) [OF that(2)] that(3)
      by (auto simp: gates_passed_def reserve_input_def)
    let ?P = "\<lambda>w'. w' = w \<or> (\<exists>p. w' = snd (quota_gate a p w))"
      and ?Q = "\<lambda>out. \<exists>p inp ref. gates_passed a c1 req b inp \<and> out = reserve_and_answer a inp ref (snd (quota_gate a p w))"
    have last: "settled ?P ?Q ((case resolveOwnerEmail (pr_email p) (devAuthEnabled (a_env a)) of
          Inl reason \<Rightarrow> ret (badRequest reason, None)
        | Inr address \<Rightarrow> reserve_and_answer a (reserve_input p address ed limit cr) (cr_repoRef cr))
        (snd (quota_gate a p w)))"
      if "fst (enabled_editor c1 c2 cr w) = Ret (Inr ed)" "fst (quota_gate a p w) = Ret (Inr limit)" for ed limit
    proof (cases "resolveOwnerEmail (pr_email p) (devAuthEnabled (a_env a))")
      case (Inr address)
      from passed [OF that Inr] show ?thesis by (auto simp: Inr settled_def)
    qed (auto intro!: settled_ret)
    show ?thesis
      unfolding still_gates Accepted request_body.case
      by (intro settled_orRefuse; (simp only: still_gates)?) (use last Accepted in auto)
  qed (auto simp: still_gates intro!: settled_ret)
qed

text \<open>The other actors of the schedule create no record under an identifier this process draws.\<close>

definition own_ids :: "'p deps \<Rightarrow> 'p world \<Rightarrow> bool" where
  "own_ids d w \<longleftrightarrow>
     inj (uuidOf d) \<and>
     (\<forall>t \<in> set (schedule w). \<forall>n s. wf_sys d s \<longrightarrow> unused d n s \<longrightarrow> unused d n (others t s))"

lemma own_ids_tl:
  "\<lbrakk>own_ids d w; schedule w' = tl (schedule w)\<rbrakk> \<Longrightarrow> own_id d w'"
  using list.set_sel(2) [of "schedule w"] by (cases "schedule w") (auto simp: own_ids_def own_id_def)

lemma kept_create_route:
  assumes w: "ok_world (a_deps a) w" and own: "own_ids (a_deps a) w"
  shows "kept (a_deps a) w (snd (workspaces_POST a c1 c2 g req b w))"
proof -
  let ?d = "a_deps a"
  have gate: "kept ?d w (snd (quota_gate a p w))" for p
  proof -
    have "safeT ?d (\<lambda>_. True) (quota_gate a p)"
      unfolding quota_gate_def Let_def by (intro safe_intros)
    then show ?thesis using w by (simp add: safe_def)
  qed
  have res: "kept ?d w (snd (reserve_and_answer a inp ref (snd (quota_gate a p w))))"
    if "gates_passed a c1 req b inp" for inp ref p
  proof -
    let ?w = "snd (quota_gate a p w)"
    have "kept ?d ?w (snd (reserveWorkspace ?d inp ?w))"
      using kept_reserveWorkspace [of ?d ?w inp] gate [of p] own_ids_tl [OF own quota_gate_run(2) [of a p w]] that
      by (auto simp: gates_passed_def dest: resolved_address)
    then have "kept ?d ?w (snd (reserve_and_answer a inp ref ?w))"
      by (auto simp: reserve_and_answer_def tryM_def bindM_def ret_def raise_def split: prod.splits outcome.splits)
    with gate [of p] show ?thesis using guar_trans [of ?d "sys w" "sys ?w"] w by (auto simp: ok_world_def)
  qed
  have "kept ?d w w" using w guar_refl by (auto simp: ok_world_def)
  with create_run [of w a c1 req b c2 g] gate res show ?thesis
    by (auto simp: settled_def)
qed

text \<open>
  C3. The API keeps the guarantee of the service. Whatever is called, by whomever, with
  whatever body, while other actors interfere and calls fail or lose their answers: the
  system stays well formed, and the call only moves workspaces along the lifecycle, appends
  to the history and the ledger, and leaves owners, creation times and removed workspaces
  alone. Of the caller nothing is assumed; a creation relies on its identifiers being its own.
\<close>

theorem api_guarantee:
  assumes "ok_world (a_deps a) w" and "creates c \<Longrightarrow> own_ids (a_deps a) w"
  shows "wf_sys (a_deps a) (sys (snd (answer_call a c req w))) \<and> guar (sys w) (sys (snd (answer_call a c req w)))"
proof (cases "creates c")
  case True
  then obtain c1 c2 g b where "c = CreateWorkspace c1 c2 g b" by (cases c) auto
  with kept_discard [of _ _ "workspaces_POST a c1 c2 g req b", OF assms(1) kept_create_route [OF assms(1)]] assms(2)
  show ?thesis by (auto simp: ok_world_def)
next
  case False
  then have "safeT (a_deps a) (\<lambda>_. True) (answer_call a c req)" by (cases c) (simp_all add: safe_intros)
  then show ?thesis using assms(1) by (auto simp: safe_def ok_world_def)
qed

section \<open>Creation\<close>

lemma committed_create:
  assumes "commit_items sub (TxCreate r # rest) s = (None, s')" and "\<forall>y \<in> set rest. (\<exists>e. y = TxEvent e) \<or> (\<exists>o' l. y = TxAddCount o' l)"
  shows "lookup s' (wsId r) = Some (r, 0)"
proof -
  have "lookup (fold tx_apply ys t) j = lookup t j"
    if "\<forall>y \<in> set ys. (\<exists>e. y = TxEvent e) \<or> (\<exists>o' l. y = TxAddCount o' l)" for ys :: "tx_item list" and t :: "'a sys" and j
    using that by (induction ys arbitrary: t) (auto simp: add_count_def lookup_def)
  with assms show ?thesis by (auto simp: commit_items_def Let_def split: if_splits)
qed

lemma write_created:
  assumes "\<forall>y \<in> set rest. (\<exists>e. y = TxEvent e) \<or> (\<exists>o' l. y = TxAddCount o' l)"
  shows "writeTransaction d (TxCreate r # rest) w = (Ret None, w') \<Longrightarrow> lookup (sys w') (wsId r) = Some (r, 0)"
    and "writeOne d (TxCreate r) w = (Ret (), w') \<Longrightarrow> lookup (sys w') (wsId r) = Some (r, 0)"
  using committed_create [OF _ assms] committed_create [of _ r "[]"]
  by (auto simp: writeTransaction_def writeOne_def io_def perform_def record_call_def Let_def
      split: list.splits fault.splits prod.splits option.splits)

lemma write_counted:
  assumes "writeTransaction d [TxCreate r, TxEvent e, TxAddCount owner (Some l)] w = (Ret None, w')"
  shows "\<exists>c. map_of (ownerCounts (sys w')) owner = Some c \<and> (c \<le> l \<or> c = 1)"
proof -
  have "\<exists>c. map_of (ownerCounts s') owner = Some c \<and> (c \<le> l \<or> c = 1)"
    if "commit_items sub [TxCreate r, TxEvent e, TxAddCount owner (Some l)] s = (None, s')" for sub and s s' :: "'a sys"
    using that by (auto simp: commit_items_def Let_def add_count_def put_record_def log_move_def update_conv orElse_def
        split: if_splits option.splits)
  with assms show ?thesis
    by (auto simp: writeTransaction_def perform_def record_call_def Let_def
        split: list.splits fault.splits prod.splits)
qed

lemma persisted_count:
  assumes "persistNew d ws audit (Some l) w = (Ret u, w')" and "hasAudit d" and "hasOwnerCounts d"
  shows "\<exists>c. map_of (ownerCounts (sys w')) (ownerId ws) = Some c \<and> (c \<le> l \<or> c = 1)"
  using assms write_counted [where w' = w' and owner = "ownerId ws" and l = l]
  by (auto simp: persistNew_def auditItem_def Let_def bindM_def ret_def raise_def
      split: prod.splits outcome.splits option.splits if_splits)

lemma persisted_new:
  assumes "persistNew d ws audit limit w = (Ret u, w')"
  shows "lookup (sys w') (wsId ws) = Some (spread_attrs ws, 0)"
proof -
  have i: "wsId (spread_attrs ws) = wsId ws" by (simp add: spread_attrs_def map_fields_def)
  show ?thesis using assms
    by (auto simp: persistNew_def Let_def bindM_def ret_def raise_def
        split: prod.splits outcome.splits option.splits if_splits
        dest!: write_created(1) [rotated] write_created(2) [rotated, of _ _ _ _ "[]"] simp: i)
qed

lemma reserved_record:
  assumes "reserveWorkspace d inp w = (Ret dto, w')"
  shows "\<exists>r. lookup (sys w') (wsId (fst dto)) = Some (r, 0) \<and> ownerId r = ci_ownerId inp \<and> state r = Provisioning \<and>
    baseImage r = ci_baseImage inp \<and> ownerEmail r = ci_ownerEmail inp"
    and "\<lbrakk>ci_quotaLimit inp = Some l; hasAudit d; hasOwnerCounts d\<rbrakk> \<Longrightarrow>
      \<exists>c. map_of (ownerCounts (sys w')) (ci_ownerId inp) = Some c \<and> (c \<le> l \<or> c = 1)"
proof -
  obtain ws j at audit w1 where r: "reserve (provision_of inp j at) = Inr ws"
      "persistNew d ws audit (ci_quotaLimit inp) w1 = (Ret (), w')" "dto = toWorkspaceDto ws"
    using assms by (auto simp: reserveWorkspace_def bindM_def ret_def raise_def liftE_def
        split: prod.splits outcome.splits sum.splits)
  have owner: "ownerId ws = ci_ownerId inp" using r(1) by (auto simp: reserve_def provision_of_def split: sum.splits)
  show "\<lbrakk>ci_quotaLimit inp = Some l; hasAudit d; hasOwnerCounts d\<rbrakk> \<Longrightarrow>
      \<exists>c. map_of (ownerCounts (sys w')) (ci_ownerId inp) = Some c \<and> (c \<le> l \<or> c = 1)"
    using persisted_count [of d ws audit l w1 "()" w'] r(2) owner by auto
  show "\<exists>r. lookup (sys w') (wsId (fst dto)) = Some (r, 0) \<and> ownerId r = ci_ownerId inp \<and> state r = Provisioning \<and>
    baseImage r = ci_baseImage inp \<and> ownerEmail r = ci_ownerEmail inp"
    using r persisted_new [OF r(2)]
    by (auto simp: toWorkspaceDto_def toWorkspaceDetail_def spread_attrs_def map_fields_def reserve_def provision_of_def split: sum.splits)
qed


section \<open>Secrets and administration\<close>

text \<open>
  C36. Git secrets stay with their owner. A broker hands out a credential only to a request with the
  agent's token of that very workspace, while the workspace exists and is not being deleted;
  the credential is the one the provider of the workspace's owner has for its repository.
\<close>

theorem secrets_stay_with_owner:
  assumes "gitCredential_GET a g req i w = (Ret resp, w')" and "body resp = CredentialBody secret"
  shows "checkAgentAuth (a_hmac a) (a_env a) (ar_headers req) i = Inr ValidAuth \<and>
    (\<exists>r v gitCredential token. lookup (in_view w) i = Some (r, v) \<and> state r \<notin> {Deleting, Terminated} \<and>
       gi_provider g (ownerId r) = Inr (Some gitCredential) \<and>
       gitCredential (repoRef (Option.bind (repoUrl r) (parseGitRemote (gi_parse g)))) = Inr (Some token) \<and>
       gi_credentialContract g token = Inr secret)"
proof -
  have load: "checkAgentAuth (a_hmac a) (a_env a) (ar_headers req) i = Inr ValidAuth \<and>
      fst (svc_get (a_deps a) i w) = Ret (Some ws) \<and> state (fst ws) \<notin> {Deleting, Terminated}"
    if "loadBrokeredWorkspace a req i w = (Ret (Inr ws), w1)" for ws w1
    using that by (auto simp: loadBrokeredWorkspace_def bindM_run liftE_def ret_def raise_def
        split: sum.splits option.splits if_splits outcome.splits)
  have no_secret: "loadBrokeredWorkspace a req i w \<noteq> (Ret (Inl resp), w1)" for w1
    using assms(2) by (auto simp: loadBrokeredWorkspace_def bindM_run liftE_def ret_def raise_def json_def
        unauthorized_def notFound_def split: sum.splits option.splits if_splits outcome.splits)
  obtain ws w1 where ws: "loadBrokeredWorkspace a req i w = (Ret (Inr ws), w1)"
    and rest: "bindM (credential_for g (ownerId (fst ws)) (Option.bind (repoUrl (fst ws)) (parseGitRemote (gi_parse g))))
      (\<lambda>credential. case credential of None \<Rightarrow> ret (json 204 NoBody)
         | Some token \<Rightarrow> bindM (liftE (gi_credentialContract g token)) (\<lambda>b. ret (json 200 (CredentialBody b)))) w1 = (Ret resp, w')"
    using assms(1) no_secret
    by (auto simp: gitCredential_GET_def orReply_def bindM_def [of "loadBrokeredWorkspace a req i"] ret_def
        split: prod.splits outcome.splits sum.splits)
  note l = load [OF ws]
  from get_run(2) [of "a_deps a" i w ws] l obtain r v where
    "lookup (in_view w) i = Some (r, v)" "ownerId (fst ws) = ownerId r" "state (fst ws) = state r" "repoUrl (fst ws) = repoUrl r" by blast
  with l rest assms(2) show ?thesis
    by (auto simp: credential_for_def bindM_def liftE_def ret_def raise_def json_def
        split: prod.splits outcome.splits sum.splits option.splits)
qed

text \<open>The administration routes serve administrators only, and administrators that do not view as
  another persona: anyone else is refused.\<close>

theorem administration_needs_admin:
  assumes "\<nexists>p. principal_of a req = Inr (Some p) \<and> pr_role p = Admin"
  shows "refused w (adminWorkspaces_GET a es req w)" "refused w (adminWorkspace_GET a req i w)"
    "refused w (adminSnapshots_GET a req w)" "refused w (adminSnapshot_DELETE a req snap w)"
    "refused w (purgeUnreferenced_POST a req w)"
  using administration.handler_refuses [of a req w] assms
  unfolding adminWorkspaces_GET_def adminWorkspace_GET_def adminSnapshots_GET_def adminSnapshot_DELETE_def
    purgeUnreferenced_POST_def by blast+

lemma toWorkspaces_ids:
  "toWorkspaces rs = Inr wss \<Longrightarrow> map wsId wss = map (wsId \<circ> fst) rs \<and> map ownerId wss = map (ownerId \<circ> fst) rs"
  by (induction rs arbitrary: wss)
    (auto simp: toWorkspace_def map_fields_def map_sum_def Let_def split: sum.splits option.splits)

lemma enrich_all_keeps: "enrich_all domain m wss = Inr xs \<Longrightarrow> map fst xs = wss"
  by (induction wss arbitrary: xs)
    (auto simp: enrichWorkspace_def map_sum_def Let_def split: sum.splits if_splits)

text \<open>
  A list shows a caller exactly their own workspaces: for anyone but an administrator, the
  identifiers answered are those of the records the caller owns, in the table's order.
\<close>

theorem list_is_scoped:
  assumes "principal_of a req = Inr (Some p)" and "pr_role p \<noteq> Admin"
    and "workspaces_GET a entries req w = (Ret resp, w')" and "body resp = WorkspacesBody xs"
  shows "map (\<lambda>x. wsId (fst (fst x))) xs =
    map wsId (filter (\<lambda>r. ownerId r = pr_id p) (map (fst \<circ> snd) (table (in_view w))))"
proof -
  let ?rs = "filter (\<lambda>r. ownerId (fst r) = pr_id p) (map snd (table (in_view w)))"
  obtain dtos m domain where l: "fst (svc_list (a_deps a) (Some (pr_id p)) w) = Ret dtos" and e: "enrich_all domain m dtos = Inr xs"
    using assms by (auto simp: workspaces_GET_def orReply_def bindM_run authenticate_run liftE_def ret_def raise_def json_def
        split: outcome.splits sum.splits)
  obtain wss where q: "toWorkspaces ?rs = Inr wss" "dtos = map toWorkspaceDto wss" using list_owner_run(3) [OF l] by blast
  have "map (\<lambda>x. wsId (fst (fst x))) xs = map (\<lambda>y. wsId (fst y)) (map toWorkspaceDto wss)"
    using enrich_all_keeps [OF e] q(2) by (metis (no_types, lifting) map_map comp_apply map_eq_conv)
  also have "\<dots> = map wsId wss" by (simp add: toWorkspaceDto_def)
  also have "\<dots> = map (wsId \<circ> fst) ?rs" using toWorkspaces_ids [OF q(1)] by blast
  finally show ?thesis by (simp add: filter_map comp_def)
qed

section \<open>Witnesses\<close>

definition dev_api :: "fake_cloud api" where
  "dev_api =
     \<lparr>a_deps = fake_deps, a_casl = permits, a_hmac = (\<lambda>k m. CHR ''x'' # m), a_decode = Some,
      a_env = (\<lambda>v. if v = ''EDD_DEV_AUTH'' then Some ''1'' else if v = ''EDD_AGENT_SECRET'' then Some ''ab'' else None)\<rparr>"

definition dev_user :: "string \<Rightarrow> string \<Rightarrow> api_request" where
  "dev_user u role =
     \<lparr>ar_headers = (\<lambda>h. if h = ''x-edd-user-id'' then Some u else if h = ''x-edd-role'' then Some role else None),
      ar_session = Inr None\<rparr>"

text \<open>One running workspace of the user \<^verbatim>\<open>o-1\<close>.\<close>

definition served_world :: "fake_cloud world" where
  "served_world =
     \<lparr>sys = empty_sys\<lparr>table := [(''ws-1'', spread_attrs (sample_ws\<lparr>state := Running\<rparr>), 1)]\<rparr>, schedule = [], trace = []\<rparr>"

theorem only_the_entitled_act_witness:
  "principal_of dev_api (dev_user ''u2'' ''developer'') = Inr (Some (mk_principal ''u2'' Developer)) \<and>
   map_option (ownerId \<circ> fst) (lookup (sys served_world) ''ws-1'') = Some ''o-1'' \<and>
   sys (snd (handle dev_api RtDelete (dev_user ''u2'' ''developer'') ''ws-1'' served_world)) = sys served_world"
proof -
  have p: "principal_of dev_api (dev_user ''u2'' ''developer'') = Inr (Some (mk_principal ''u2'' Developer))" by code_simp
  have o: "map_option (ownerId \<circ> fst) (lookup (sys served_world) ''ws-1'') = Some ''o-1''" by code_simp
  have v: "in_view served_world = sys served_world" by (simp add: in_view_def served_world_def)
  have "\<not> entitled dev_api RtDelete (dev_user ''u2'' ''developer'') ''ws-1'' (in_view served_world)"
    using p o by (auto simp: entitled_def session_entitled_def v mk_principal_def)
  from only_the_entitled_act [OF this] show ?thesis using p o by (auto simp: v Let_def)
qed

theorem session_routes_ignore_tokens_witness:
  "handle dev_api RtDelete ((dev_user ''u2'' ''developer'')\<lparr>ar_headers :=
      (ar_headers (dev_user ''u2'' ''developer''))(''authorization'' := Some ''Bearer xws-1'')\<rparr>) ''ws-1'' =
   handle dev_api RtDelete (dev_user ''u2'' ''developer'') ''ws-1''"
  by (rule session_routes_ignore_tokens) simp_all

definition sample_catalog :: catalog where
  "sample_catalog = [(''img-1'', fromEntry sample_image 0)]"

definition sample_git :: git_io where
  "sample_git =
     \<lparr>gi_parse = (\<lambda>_. None), gi_provider = (\<lambda>u. Inr (Some (\<lambda>_. Inr (Some (''token-of-'' @ u))))), gi_sshKeys = False,
      gi_materials = (\<lambda>_. Inr []), gi_knownHosts = Inr [], gi_https = (\<lambda>_ _. Inr (Reachable [])),
      gi_ssh = (\<lambda>_ _ _. Inr (Reachable [])), gi_credentialContract = Inr, gi_keysContract = (\<lambda>_ ks. Inr ks)\<rparr>"

definition sample_create :: "create_request request_body" where
  "sample_create = Accepted
     \<lparr>cr_baseImage = ''ecr/node:1'', cr_editor = None, cr_repoUrl = None, cr_repoRef = None,
      cr_snapshotIntervalMs = None, cr_idleStopMs = None, cr_alwaysOn = None, cr_resources = None\<rparr>"

abbreviation sample_creation :: "created outcome \<times> fake_cloud world" where
  "sample_creation \<equiv> workspaces_POST dev_api sample_catalog sample_catalog sample_git (dev_user ''o-1'' ''developer'')
     sample_create sample_world"

lemma dev_deps [simp]: "a_deps dev_api = fake_deps"
  by (simp add: dev_api_def)

theorem api_guarantee_witness:
  "wf_sys fake_deps (sys (snd (answer_call dev_api (CreateWorkspace sample_catalog sample_catalog sample_git sample_create)
     (dev_user ''o-1'' ''developer'') sample_world)))"
proof -
  have "own_ids fake_deps sample_world" by (simp add: own_ids_def sample_world_def fake_deps_def)
  with api_guarantee [of dev_api sample_world] show ?thesis by (simp del: answer_call.simps)
qed


definition agent_request :: api_request where
  "agent_request =
     \<lparr>ar_headers = (\<lambda>h. if h = ''authorization'' then Some ''Bearer xws-1'' else None), ar_session = Inr None\<rparr>"

theorem secrets_stay_with_owner_witness:
  "\<exists>resp w'. gitCredential_GET dev_api sample_git agent_request ''ws-1'' served_world = (Ret resp, w') \<and>
     body resp = CredentialBody ''token-of-o-1'' \<and>
     checkAgentAuth (a_hmac dev_api) (a_env dev_api) (ar_headers agent_request) ''ws-1'' = Inr ValidAuth"
proof -
  let ?run = "gitCredential_GET dev_api sample_git agent_request ''ws-1'' served_world"
  have "(case fst ?run of Ret resp \<Rightarrow> body resp = CredentialBody ''token-of-o-1'' | Raise _ \<Rightarrow> False)" by code_simp
  then obtain resp where run: "?run = (Ret resp, snd ?run)" "body resp = CredentialBody ''token-of-o-1''"
    by (auto simp: prod_eq_iff split: outcome.splits)
  from secrets_stay_with_owner [OF run] run show ?thesis by blast
qed

theorem list_is_scoped_witness:
  "\<exists>resp w' xs. workspaces_GET dev_api (Inr []) (dev_user ''o-1'' ''developer'') served_world = (Ret resp, w') \<and>
     body resp = WorkspacesBody xs \<and> map (\<lambda>x. wsId (fst (fst x))) xs =
     map wsId (filter (\<lambda>r. ownerId r = ''o-1'') (map (fst \<circ> snd) (table (sys served_world))))"
proof -
  let ?run = "workspaces_GET dev_api (Inr []) (dev_user ''o-1'' ''developer'') served_world"
  have "(case fst ?run of Ret resp \<Rightarrow> (case body resp of WorkspacesBody _ \<Rightarrow> True | _ \<Rightarrow> False) | Raise _ \<Rightarrow> False)" by code_simp
  then obtain resp xs where run: "?run = (Ret resp, snd ?run)" "body resp = WorkspacesBody xs"
    by (auto simp: prod_eq_iff split: outcome.splits api_body.splits)
  have p: "principal_of dev_api (dev_user ''o-1'' ''developer'') = Inr (Some (mk_principal ''o-1'' Developer))" by code_simp
  from list_is_scoped [OF p _ run] run show ?thesis by (auto simp: mk_principal_def in_view_def served_world_def)
qed

text \<open>
  The share route's comment reserves sharing to the owner; the guard it uses lets an
  administrator switch it on for the session of somebody else.
\<close>

theorem admin_shares_foreign_session:
  "map_option (ownerId \<circ> fst) (lookup (sys served_world) ''ws-1'') = Some ''o-1'' \<and>
   map_option (shareEnabled \<circ> fst) (lookup (sys (snd (handle dev_api (RtShare (Accepted True))
     (dev_user ''root'' ''admin'') ''ws-1'' served_world))) ''ws-1'') = Some (Some True)"
  by code_simp

end
