(* ===== verification/Ssh_Keys.thy ===== *)
theory Ssh_Keys
  imports Api_Props
begin

text \<open>
  Account-level SSH keys: fingerprints (\<^verbatim>\<open>packages/core/src/domain/ssh.ts\<close>), the registry
  (\<^verbatim>\<open>packages/control-plane/src/ssh-key-service.ts\<close>) over the table of keys and the table of
  fingerprint claims, the routes over it (\<^verbatim>\<open>apps/web/app/api/ssh-keys\<close>), and what an SSH
  connection is authorized by.

  A registration is one transaction; a removal is a read and then a transaction, between
  which between may act. The base64 codec and the digest are parameters, as are the
  identifiers and times drawn.
\<close>

section \<open>Keys\<close>

fun key_fields :: "string \<Rightarrow> string \<Rightarrow> string list" where
  "key_fields acc [] = (if acc = [] then [] else [acc])"
| "key_fields acc (c # s) =
     (if is_space c then (if acc = [] then key_fields [] s else acc # key_fields [] s) else key_fields (acc @ [c]) s)"

definition sshKeyType :: "string \<Rightarrow> js_error + string" where
  "sshKeyType publicKey =
     (case key_fields [] (trim publicKey) of
        [] \<Rightarrow> Inl (plain_error ''Error'' ''ssh public key has no type field'')
      | t # _ \<Rightarrow> Inr t)"

record codec =
  base64_decode :: "string \<Rightarrow> nat list"
  base64_encode :: "nat list \<Rightarrow> string"
  sha256_base64 :: "nat list \<Rightarrow> string"

definition unpadded :: "string \<Rightarrow> string" where
  "unpadded s = rev (dropWhile (\<lambda>c. c = CHR ''='') (rev s))"

definition fingerprintPublicKey :: "codec \<Rightarrow> string \<Rightarrow> js_error + string" where
  "fingerprintPublicKey k publicKey =
     (case key_fields [] (trim publicKey) of
        _ # blob # _ \<Rightarrow>
          (let raw = base64_decode k blob in
           if raw = [] then Inl (plain_error ''Error'' ''ssh public key blob did not decode to any bytes'')
           else if unpadded (base64_encode k raw) \<noteq> unpadded blob
           then Inl (plain_error ''Error'' ''ssh public key blob is not valid base64'')
           else Inr (''SHA256:'' @ unpadded (sha256_base64 k raw)))
      | _ \<Rightarrow> Inl (plain_error ''Error'' ''ssh public key has no key material to fingerprint''))"

section \<open>The registry\<close>

record ssh_key_record =
  sk_id :: string
  sk_ownerId :: string
  sk_label :: string
  sk_keyType :: string
  sk_fingerprint :: string
  sk_publicKey :: string
  sk_createdAt :: iso_timestamp

record ssh_store =
  ss_keys :: "((string \<times> string) \<times> ssh_key_record) list"
  ss_claims :: "(string \<times> string \<times> string) list"

definition defaultLabel :: "string \<Rightarrow> string \<Rightarrow> string \<Rightarrow> string" where
  "defaultLabel publicKey keyType fingerprint =
     (let comment = join_with '' '' (drop 2 (key_fields [] (trim publicKey))) in
      if comment \<noteq> [] then comment
      else keyType @ '' ...'' @ drop (length fingerprint - 8) fingerprint)"

datatype register_answer = Registered ssh_key_record | KeyConflict bool | RegisterFailed js_error

definition key_record ::
  "codec \<Rightarrow> string \<Rightarrow> iso_timestamp \<Rightarrow> string \<Rightarrow> string \<Rightarrow> string option \<Rightarrow> js_error + ssh_key_record" where
  "key_record k i at owner publicKey label =
     (let normalized = trim publicKey in
      case fingerprintPublicKey k normalized of
        Inl e \<Rightarrow> Inl e
      | Inr fp \<Rightarrow>
          map_sum id (\<lambda>keyType.
            \<lparr>sk_id = i, sk_ownerId = owner,
             sk_label = (if trim (orElse label []) \<noteq> [] then trim (orElse label []) else defaultLabel normalized keyType fp),
             sk_keyType = keyType, sk_fingerprint = fp, sk_publicKey = normalized, sk_createdAt = at\<rparr>)
            (sshKeyType normalized))"

text \<open>\<open>between\<close> acts between a cancelled transaction and the read that explains it.\<close>

definition ssh_register ::
  "codec \<Rightarrow> (ssh_store \<Rightarrow> ssh_store) \<Rightarrow> string \<Rightarrow> iso_timestamp \<Rightarrow> string \<Rightarrow> string \<Rightarrow> string option \<Rightarrow> ssh_store \<Rightarrow>
   register_answer \<times> ssh_store" where
  "ssh_register k between i at owner publicKey label st =
     (case key_record k i at owner publicKey label of
        Inl e \<Rightarrow> (RegisterFailed e, st)
      | Inr r \<Rightarrow>
          if map_of (ss_claims st) (sk_fingerprint r) = None
          then (Registered r,
                st\<lparr>ss_claims := AList.update (sk_fingerprint r) (owner, i) (ss_claims st),
                   ss_keys := AList.update (owner, i) r (ss_keys st)\<rparr>)
          else (KeyConflict (map_option fst (map_of (ss_claims (between st)) (sk_fingerprint r)) = Some owner), between st))"

definition ssh_list :: "string \<Rightarrow> ssh_store \<Rightarrow> ssh_key_record list" where
  "ssh_list owner st =
     sort_key (\<lambda>r. - orElse (date_parse (sk_createdAt r)) 0)
       (map snd (filter (\<lambda>(key, _). fst key = owner) (ss_keys st)))"

text \<open>The transaction of a removal, with the record that was read.\<close>

definition remove_tx :: "string \<Rightarrow> string \<Rightarrow> ssh_key_record \<Rightarrow> ssh_store \<Rightarrow> ssh_store" where
  "remove_tx owner i r st =
     st\<lparr>ss_keys := AList.delete (owner, i) (ss_keys st), ss_claims := AList.delete (sk_fingerprint r) (ss_claims st)\<rparr>"

definition ssh_remove :: "(ssh_store \<Rightarrow> ssh_store) \<Rightarrow> string \<Rightarrow> string \<Rightarrow> ssh_store \<Rightarrow> bool \<times> ssh_store" where
  "ssh_remove between owner i st =
     (case map_of (ss_keys st) (owner, i) of
        None \<Rightarrow> (False, st)
      | Some r \<Rightarrow> (True, remove_tx owner i r (between st)))"

definition findByFingerprint :: "string \<Rightarrow> ssh_store \<Rightarrow> ssh_key_record option" where
  "findByFingerprint fp st = find (\<lambda>r. sk_fingerprint r = fp) (map snd (ss_keys st))"

definition ownerForKey :: "codec \<Rightarrow> ssh_store \<Rightarrow> string \<Rightarrow> js_error + (string \<times> string) option" where
  "ownerForKey k st publicKey =
     map_sum id (\<lambda>fp. map_option (\<lambda>r. (sk_ownerId r, sk_id r)) (findByFingerprint fp st))
       (fingerprintPublicKey k (trim publicKey))"

section \<open>The routes\<close>

datatype keys_answer = KeysRefused api_response | KeysListed "ssh_key_record list" | KeyCreated ssh_key_record | KeyDeleted

definition sshKeys_GET :: "'p api \<Rightarrow> api_request \<Rightarrow> ssh_store \<Rightarrow> js_error + keys_answer" where
  "sshKeys_GET a req st =
     map_sum id (\<lambda>p. case p of
       None \<Rightarrow> KeysRefused unauthorized | Some p \<Rightarrow> KeysListed (ssh_list (pr_id p) st)) (principal_of a req)"

definition sshKeys_POST ::
  "'p api \<Rightarrow> codec \<Rightarrow> (ssh_store \<Rightarrow> ssh_store) \<Rightarrow> string \<Rightarrow> iso_timestamp \<Rightarrow> string option \<Rightarrow> api_request \<Rightarrow>
   (string \<times> string option) request_body \<Rightarrow> ssh_store \<Rightarrow> (js_error + keys_answer) \<times> ssh_store" where
  "sshKeys_POST a k between i at issue req b st =
     (case principal_of a req of
        Inl e \<Rightarrow> (Inl e, st)
      | Inr None \<Rightarrow> (Inr (KeysRefused unauthorized), st)
      | Inr (Some p) \<Rightarrow>
          (case b of
             NotJson \<Rightarrow> (Inr (KeysRefused (badRequest invalid_request)), st)
           | Rejected \<Rightarrow> (Inr (KeysRefused (badRequest (orElse issue invalid_request))), st)
           | Accepted (key, label) \<Rightarrow>
               (case ssh_register k between i at (pr_id p) key label st of
                  (Registered r, st') \<Rightarrow> (Inr (KeyCreated r), st')
                | (KeyConflict own, st') \<Rightarrow>
                    (Inr (KeysRefused (conflict
                       (if own then ''this SSH key is already registered to your account''
                        else ''this SSH key is already registered to another account''))), st')
                | (RegisterFailed e, st') \<Rightarrow> (Inl e, st'))))"

definition sshKey_DELETE ::
  "'p api \<Rightarrow> (ssh_store \<Rightarrow> ssh_store) \<Rightarrow> api_request \<Rightarrow> string \<Rightarrow> ssh_store \<Rightarrow> (js_error + keys_answer) \<times> ssh_store" where
  "sshKey_DELETE a between req i st =
     (case principal_of a req of
        Inl e \<Rightarrow> (Inl e, st)
      | Inr None \<Rightarrow> (Inr (KeysRefused unauthorized), st)
      | Inr (Some p) \<Rightarrow>
          (case ssh_remove between (pr_id p) i st of
             (gone, st') \<Rightarrow> (Inr (if gone then KeyDeleted else KeysRefused notFound), st')))"

section \<open>One owner per key\<close>

text \<open>Every key holds the claim on its fingerprint, and every claim is held by its key.\<close>

definition ssh_inv :: "ssh_store \<Rightarrow> bool" where
  "ssh_inv st \<longleftrightarrow>
     distinct (map fst (ss_keys st)) \<and>
     (\<forall>o' i r. map_of (ss_keys st) (o', i) = Some r \<longrightarrow>
        sk_ownerId r = o' \<and> sk_id r = i \<and> map_of (ss_claims st) (sk_fingerprint r) = Some (o', i)) \<and>
     (\<forall>fp o' i. map_of (ss_claims st) fp = Some (o', i) \<longrightarrow>
        (\<exists>r. map_of (ss_keys st) (o', i) = Some r \<and> sk_fingerprint r = fp))"

text \<open>
  A history of the registry: transactions of registrations under unused identifiers, and of
  removals, whose record was read at some earlier time, as long as the fingerprint of that
  record has not been claimed for another key since.
\<close>

inductive ssh_reached :: "codec \<Rightarrow> ssh_store \<Rightarrow> bool" for k where
  empty: "ssh_reached k \<lparr>ss_keys = [], ss_claims = []\<rparr>"
| register: "\<lbrakk>ssh_reached k st; map_of (ss_keys st) (owner, i) = None;
     ssh_register k (\<lambda>s. s) i at owner key label st = (answer, st')\<rbrakk> \<Longrightarrow> ssh_reached k st'"
| remove: "\<lbrakk>ssh_reached k earlier; map_of (ss_keys earlier) (owner, i) = Some r; ssh_reached k st;
     map_of (ss_claims st) (sk_fingerprint r) \<in> {None, Some (owner, i)};
     \<forall>q. map_of (ss_keys st) (owner, i) = Some q \<longrightarrow> q = r\<rbrakk> \<Longrightarrow> ssh_reached k (remove_tx owner i r st)"

lemma key_record_fields:
  "key_record k i at owner key label = Inr r \<Longrightarrow>
   sk_id r = i \<and> sk_ownerId r = owner \<and> fingerprintPublicKey k (trim key) = Inr (sk_fingerprint r)"
  by (auto simp: key_record_def Let_def map_sum_def split: sum.splits)

lemma ssh_inv_register:
  assumes "ssh_inv st" and "map_of (ss_keys st) (owner, i) = None"
    and "ssh_register k (\<lambda>s. s) i at owner key label st = (answer, st')"
  shows "ssh_inv st'"
proof (cases "\<exists>r. answer = Registered r")
  case True
  then obtain r where r: "key_record k i at owner key label = Inr r" "map_of (ss_claims st) (sk_fingerprint r) = None"
      and st': "st' = st\<lparr>ss_claims := AList.update (sk_fingerprint r) (owner, i) (ss_claims st),
        ss_keys := AList.update (owner, i) r (ss_keys st)\<rparr>"
    using assms(3) by (auto simp: ssh_register_def split: sum.splits if_splits)
  show ?thesis using assms(1,2) r(2) key_record_fields [OF r(1)]
    unfolding ssh_inv_def st'
    by (auto simp: update_conv distinct_update simp del: map_of_eq_Some_iff) (metis option.distinct(1))+
next
  case False
  then have "st' = st" using assms(3) by (auto simp: ssh_register_def split: sum.splits if_splits)
  with assms(1) show ?thesis by simp
qed

lemma ssh_inv_remove:
  assumes "ssh_inv st" and "map_of (ss_claims st) (sk_fingerprint r) \<in> {None, Some (owner, i)}"
    and "\<forall>q. map_of (ss_keys st) (owner, i) = Some q \<longrightarrow> q = r"
  shows "ssh_inv (remove_tx owner i r st)"
  using assms unfolding ssh_inv_def remove_tx_def
  by (auto simp: delete_conv' distinct_delete simp del: map_of_eq_Some_iff split: if_splits)
    (metis option.distinct(1) option.inject prod.inject)+

lemma ssh_reached_inv: "ssh_reached k st \<Longrightarrow> ssh_inv st"
proof (induction rule: ssh_reached.induct)
  case empty
  then show ?case by (simp add: ssh_inv_def)
next
  case register
  then show ?case by (blast intro: ssh_inv_register)
next
  case remove
  then show ?case by (blast intro: ssh_inv_remove)
qed

lemma find_fingerprint:
  assumes "ssh_inv st"
  shows "findByFingerprint fp st = Some r \<longleftrightarrow>
    map_of (ss_keys st) (sk_ownerId r, sk_id r) = Some r \<and> sk_fingerprint r = fp"
proof
  assume "findByFingerprint fp st = Some r"
  then obtain o' i where "((o', i), r) \<in> set (ss_keys st)" "sk_fingerprint r = fp"
    by (auto simp: findByFingerprint_def find_Some_iff simp del: split_paired_Ex) (metis nth_mem prod.collapse)
  then show "map_of (ss_keys st) (sk_ownerId r, sk_id r) = Some r \<and> sk_fingerprint r = fp"
    using assms by (auto simp: ssh_inv_def)
next
  assume r: "map_of (ss_keys st) (sk_ownerId r, sk_id r) = Some r \<and> sk_fingerprint r = fp"
  then have "r \<in> set (map snd (ss_keys st))" using map_of_SomeD by force
  then obtain q where q: "findByFingerprint fp st = Some q"
    using r by (cases "findByFingerprint fp st") (auto simp: findByFingerprint_def find_None_iff)
  then obtain o' i where "((o', i), q) \<in> set (ss_keys st)" "sk_fingerprint q = fp"
    by (auto simp: findByFingerprint_def find_Some_iff) (metis nth_mem prod.collapse)
  then have "map_of (ss_keys st) (o', i) = Some q" using assms by (auto simp: ssh_inv_def)
  then have "q = r" using assms r \<open>sk_fingerprint q = fp\<close> unfolding ssh_inv_def by (metis option.inject prod.inject)
  with q show "findByFingerprint fp st = Some r" by simp
qed


text \<open>
  C38. Who may connect over SSH. The authorize route names a user to log in as only to a request
  with the gateway's or the agent's token of that workspace, for a key that the owner of the
  workspace, as the handler reads the record, has registered; and the user is the workspace's.
\<close>

theorem ssh_access_is_the_owners:
  assumes "ssh_reached k st"
    and "sshAuthorize_POST a (\<lambda>key. map_sum id (map_option fst) (ownerForKey k st key)) issue req i b w = (Ret resp, w')"
    and "body resp = SshBody (Some user)"
  shows "(checkGatewayAuth (a_hmac a) (a_env a) (ar_headers req) i = Inr ValidAuth \<or>
      checkAgentAuth (a_hmac a) (a_env a) (ar_headers req) i = Inr ValidAuth) \<and>
    (\<exists>key r v j kr. b = Accepted key \<and> lookup (in_view w) i = Some (r, v) \<and>
       map_of (ss_keys st) (ownerId r, j) = Some kr \<and> fingerprintPublicKey k (trim key) = Inr (sk_fingerprint kr)) \<and>
    user = ''dev-'' @ i"
proof -
  have resolves: "\<exists>j kr. map_of (ss_keys st) (o', j) = Some kr \<and> fingerprintPublicKey k (trim key) = Inr (sk_fingerprint kr)"
    if "map_sum id (map_option fst) (ownerForKey k st key) = Inr (Some o')" for key o'
  proof -
    from that obtain j where "ownerForKey k st key = Inr (Some (o', j))"
      by (cases "ownerForKey k st key") auto
    then obtain r where "findByFingerprint (sk_fingerprint r) st = Some r" "sk_ownerId r = o'" "sk_id r = j"
      "fingerprintPublicKey k (trim key) = Inr (sk_fingerprint r)"
      using find_fingerprint [OF ssh_reached_inv [OF assms(1)]]
      by (cases "fingerprintPublicKey k (trim key)") (auto simp: ownerForKey_def)
    with find_fingerprint [OF ssh_reached_inv [OF assms(1)]] show ?thesis by blast
  qed
  obtain key dto where "b = Accepted key" "fst (svc_get (a_deps a) i w) = Ret (Some dto)"
      "map_sum id (map_option fst) (ownerForKey k st key) = Inr (Some (ownerId (fst dto)))"
      "workspacePrincipal i = Inr user"
      "checkGatewayAuth (a_hmac a) (a_env a) (ar_headers req) i = Inr ValidAuth \<or>
       checkAgentAuth (a_hmac a) (a_env a) (ar_headers req) i = Inr ValidAuth"
    using assms(2,3)
    by (auto simp: sshAuthorize_POST_def bindM_run liftE_def ret_def raise_def json_def badRequest_def unauthorized_def notFound_def
        split: sum.splits outcome.splits option.splits if_splits request_body.splits)
  with get_run(2) [of "a_deps a" i w dto] resolves show ?thesis
    by (auto simp: workspacePrincipal_def split: if_splits)
qed

section \<open>Witnesses\<close>

definition plain_codec :: codec where
  "plain_codec = \<lparr>base64_decode = map of_char, base64_encode = map char_of, sha256_base64 = map char_of\<rparr>"

definition sample_key :: string where
  "sample_key = ''ssh-ed25519 AAAA alice@laptop''"

definition one_key :: ssh_store where
  "one_key = snd (ssh_register plain_codec (\<lambda>s. s) ''k1'' (Iso 1) ''o-1'' sample_key None \<lparr>ss_keys = [], ss_claims = []\<rparr>)"

lemma one_key_reached: "ssh_reached plain_codec one_key"
  unfolding one_key_def by (rule ssh_reached.register [OF ssh_reached.empty]) (simp_all add: prod_eq_iff)


theorem ssh_access_is_the_owners_witness:
  "\<exists>resp w'. sshAuthorize_POST dev_api (\<lambda>key. map_sum id (map_option fst) (ownerForKey plain_codec one_key key)) None
     agent_request ''ws-1'' (Accepted sample_key) served_world = (Ret resp, w') \<and>
     body resp = SshBody (Some ''dev-ws-1'')"
proof -
  let ?run = "sshAuthorize_POST dev_api (\<lambda>key. map_sum id (map_option fst) (ownerForKey plain_codec one_key key)) None
     agent_request ''ws-1'' (Accepted sample_key) served_world"
  have "(case fst ?run of Ret resp \<Rightarrow> (case body resp of SshBody (Some _) \<Rightarrow> True | _ \<Rightarrow> False) | Raise _ \<Rightarrow> False)" by code_simp
  then obtain resp user where run: "?run = (Ret resp, snd ?run)" "body resp = SshBody (Some user)"
    by (auto simp: prod_eq_iff split: outcome.splits api_body.splits option.splits)
  have "user = ''dev-'' @ ''ws-1''" using ssh_access_is_the_owners [OF one_key_reached run] by blast
  with run show ?thesis by auto
qed

text \<open>
  A removal on a stale read frees the claim of somebody else. Of two removals of the same key
  the first commits, another account registers the key, and the second then deletes that
  account's claim: a third account registers the same key, and one key identifies two.
\<close>

theorem stale_removal_frees_foreign_claim:
  "let s1 = one_key; r = the (map_of (ss_keys s1) (''o-1'', ''k1'')); s2 = remove_tx ''o-1'' ''k1'' r s1;
       s3 = snd (ssh_register plain_codec (\<lambda>s. s) ''k2'' (Iso 2) ''u2'' sample_key None s2);
       s4 = remove_tx ''o-1'' ''k1'' r s3;
       s5 = snd (ssh_register plain_codec (\<lambda>s. s) ''k3'' (Iso 3) ''u3'' sample_key None s4)
   in map (\<lambda>(key, r). (key, sk_fingerprint r)) (ss_keys s5) =
      [((''u2'', ''k2''), ''SHA256:AAAA''), ((''u3'', ''k3''), ''SHA256:AAAA'')]"
  by code_simp

end
