(* ===== verification/Spec2Isabelle.thy ===== *)
theory Spec2Isabelle
  imports Converge Service_Billing Live_Props Traffic_Filter Ssh_Keys
begin

text \<open>
  \<^bold>\<open>A verification development for ecs-dev-desktop\<close>, a control plane that runs developer desktops
  as ECS tasks: a session is created, goes to sleep when nobody uses it (its volume becomes a
  snapshot and its task stops), wakes when somebody connects, and survives its own deletion
  for a retention window.

  \<^bold>\<open>The program.\<close> A stateless core of decisions (\<^verbatim>\<open>packages/core\<close>); a workspace service over one
  DynamoDB table, a storage port (EBS) and a compute port (ECS) (\<^verbatim>\<open>packages/control-plane\<close>); a
  reconciler that sweeps the fleet periodically (\<^verbatim>\<open>services/reconciler\<close>); and a web server
  (\<^verbatim>\<open>apps/web\<close>) with the API, the reverse proxy into the workspaces, the live connections and
  the session ledger. All of them run in several replicas at once and meet only in the
  table, through writes conditioned on the version that was read.

  \<^bold>\<open>The model.\<close> The theories, the sources they translate, and what they hold:

  \<^item> \<open>Edd_Prelude\<close>: results and domain errors (\<^verbatim>\<open>result.ts\<close>, \<^verbatim>\<open>errors.ts\<close>), JavaScript errors, instants
    as \<^verbatim>\<open>Date.parse\<close> yields them (NaN included), texts, and the collections of simp rules.
  \<^item> \<open>Lifecycle\<close>, \<open>Resources\<close>, \<open>Workspace\<close>, \<open>Workspace_Props\<close>, \<open>Maintenance\<close>: the transition table, sizes and
    quota, the record with every pure operation on it, and the selectors of the sweeps
    (\<^verbatim>\<open>lifecycle/\<close>, \<^verbatim>\<open>domain/\<close>, \<^verbatim>\<open>maintenance/\<close>, \<^verbatim>\<open>system/control-plane-scale.ts\<close>). The lemmas show the
    record invariant for every history of operations and that each step is an edge of the
    lifecycle.
  \<^item> \<open>Providers\<close>: the storage and compute ports as locales, whose laws the sweeps and the data
    safety of stop, start and delete rely on, and the in-memory providers of the repository
    as their interpretations.
  \<^item> \<open>Persistence\<close>: the stored form of a record, the projections, and which attributes a write
    clears (\<^verbatim>\<open>dto.ts\<close> and the entity).
  \<^item> \<open>Service_Base\<close>, \<open>Service_Launch\<close>, \<open>Service_Stop\<close>, \<open>Service_Delete\<close>, \<open>Service_Fleet\<close>: \<^verbatim>\<open>workspace-service.ts\<close>,
    one definition per method, in a state-and-error monad over the table, the counters, the
    audit ledger, the metrics and the cloud.
  \<^item> \<open>Service_Rules\<close>, \<open>Service_Safety\<close>, \<open>Service_Correct\<close>: rely-guarantee. Each operation keeps the system well
    formed and the guarantee of the service under any schedule of well-behaved others and of
    failures; requests interleave, since a request is itself a well-behaved turn.
  \<^item> \<open>Service_Trace\<close>: the order of the calls an operation makes (claim before launch, retain before
    release, no lost task). \<open>Service_Functional\<close>, \<open>Service_Teardown\<close>: what operations achieve, files
    included. \<open>Service_Findings\<close>: behaviours that differ from what the comments intend.
  \<^item> \<open>Reconciler\<close>, \<open>Reconciler_Props\<close>, \<open>Converge\<close>: every sweep, the reapers, the maintenance tick
    (\<^verbatim>\<open>services/reconciler/src/index.ts\<close>) and the sweep inside the server
    (\<^verbatim>\<open>lifecycle-converge-sweep.ts\<close>): guarantee, isolation of items, budgets, exact collection.
  \<^item> \<open>Cost\<close>, \<open>Cost_Props\<close>, \<open>Cost_Service\<close>, \<open>Cost_Service_Props\<close>, \<open>Service_Billing\<close>: the cost model over the ledger, the
    full scan, the checkpoints and the resumed report that equals it, and the service's
    ledger priced by it.
  \<^item> \<open>Access\<close>, \<open>Access_Props\<close>, \<open>Auth_Sessions\<close>, \<open>Auth_Sessions_Props\<close>: roles, abilities, personas, machine tokens,
    principals, and the session ledger whose writes land in any order.
  \<^item> \<open>Proxy\<close>, \<open>Proxy_Props\<close>, \<open>Live\<close>, \<open>Live_Props\<close>: the request and upgrade handlers of \<^verbatim>\<open>server.ts\<close>,
    \<^verbatim>\<open>workspace-proxy.ts\<close>, the presence registry and the spectate relay as a function of its
    history.
  \<^item> \<open>Git_Remote\<close>, \<open>Catalog\<close>, \<open>Api\<close>, \<open>Api_Props\<close>, \<open>Ssh_Keys\<close>, \<open>Traffic_Filter\<close>: clone URLs and ref advertisements, the image
    catalog with its conditioned edits, the guards and handlers of the API as actions on the
    world of the service (each guard an interpretation of one contract), the registry of SSH keys, and the traffic filter with its service.

  \<^bold>\<open>State and effects.\<close> An operation of the service is a function of a \<open>world\<close>: the system's state, a
  schedule of turns and the trace of calls. Every awaited call consumes a turn, which first
  runs the other actors on the shared state and then lets the call succeed, fail, succeed
  without its answer arriving, or be cancelled by contention. So every interleaving at the
  granularity of awaits and every failure is a schedule, and a theorem without a condition
  on the schedule holds for all of them. The catalog, the session ledger, the key registry
  and the filter have states of their own and take what others do in between as an argument.

  \<^bold>\<open>Parameters\<close> stand for what is not in the repository: the providers behind the ports, UUIDs,
  ElectroDB's validation, the CASL check, the keyed hash, the digest and base64, URL parsers,
  the decoding of tokens, \<^verbatim>\<open>auth()\<close>, git hosts, the web ACL, the arithmetic of money, and the
  outcome of each request schema. Where a theorem needs something of them it is a named
  hypothesis, and the theorem's witness instantiates it.

  \<^bold>\<open>Bounds and termination.\<close> \<open>awaitWoken_loop\<close> takes fuel; 721 polls suffice because the deadline is
  three minutes and a poll sleeps a quarter of a second, and more fuel gives the same
  answer. The retry loops of heartbeat and snapshot end by their own counter. All other
  functions are total by structural or measured recursion; identifiers, counts and times
  are unbounded integers, as JavaScript's are in the ranges reached.

  \<^bold>\<open>Not modelled\<close>, because the behaviour is that of a third party or of a browser: the adapters
  over the AWS SDK (ECS, EC2, CloudWatch, WAF, CodeBuild), OIDC sign-in and local passwords,
  network probes of git hosts, the pages and components, the HTML injected into editors, the
  processes inside the containers, the SSH gateway, metrics and logs of requests, and the
  wiring of processes from their environment. The zod schemas of \<^verbatim>\<open>api-contracts\<close> enter as the
  outcome of a body.
\<close>

end
